(* ===== verification/JS_Prelude.thy ===== *)
theory JS_Prelude
  imports Main "HOL-Library.AList"
begin

text \<open>
  What every component shares: the JavaScript values the code computes with, and the facts
  about them that the component proofs use.

  \<^item> A plain object used as a dictionary is an association list in insertion order
    (\<open>'v obj\<close>): assigning a present key keeps its place, a new key goes to the end,
    \<open>delete\<close> drops the key. This is the order \<open>Object.keys\<close> and \<open>Object.values\<close>
    report for keys that are not canonical array indices; the keys of this program are
    26-character identifiers and words, which never are.
  \<^item> A value that may be \<open>undefined\<close> is an \<open>option\<close>; one that may also be
    \<open>null\<close> is a \<open>nullable\<close>.
  \<^item> \<open>||\<close> on strings and numbers is \<open>str_or\<close> and \<open>num_or\<close>: \<open>''''\<close>, 0 and
    \<open>undefined\<close> are falsy.
  \<^item> A comparator handed to \<open>Array.prototype.sort\<close> is a function into \<open>int\<close>; the sort
    is stable insertion, whose result is the only one the language allows when the
    comparator is consistent (locale \<open>comparator\<close>).
\<close>

named_theorems js_defs "definitions of the JavaScript operations"
named_theorems slice_simps "behaviour of the slices on lookups"

section \<open>Values\<close>

datatype 'a nullable = Undefined | Null | Val 'a

definition truthy :: "'a nullable \<Rightarrow> bool" where
  "truthy v = (case v of Val _ \<Rightarrow> True | _ \<Rightarrow> False)"

text \<open>A thrown error, as the left value of a sum.\<close>

datatype js_error = TypeError | ErrorMsg string

definition str_or :: "string option \<Rightarrow> string \<Rightarrow> string" where
  "str_or a b = (case a of None \<Rightarrow> b | Some s \<Rightarrow> if s = '''' then b else s)"

definition num_or :: "int option \<Rightarrow> int \<Rightarrow> int" where
  "num_or a b = (case a of None \<Rightarrow> b | Some n \<Rightarrow> if n = 0 then b else n)"

text \<open>\<open>a > b\<close> on numbers that may be \<open>undefined\<close>: a comparison with \<open>NaN\<close> is false.\<close>

definition js_gt :: "int option \<Rightarrow> int option \<Rightarrow> bool" where
  "js_gt a b = (case (a, b) of (Some x, Some y) \<Rightarrow> x > y | _ \<Rightarrow> False)"

text \<open>One field of \<open>{...a, ...b}\<close>: the field of \<open>b\<close> when \<open>b\<close> has it.\<close>

definition js_over :: "'a option \<Rightarrow> 'a option \<Rightarrow> 'a option" where
  "js_over a b = (case b of None \<Rightarrow> a | Some v \<Rightarrow> Some v)"

lemmas js_value_defs [js_defs] = truthy_def str_or_def num_or_def js_gt_def js_over_def

lemma str_or_simps [simp]:
  "str_or None b = b"
  "str_or (Some '''') b = b"
  "s \<noteq> '''' \<Longrightarrow> str_or (Some s) b = s"
  by (simp_all add: str_or_def)

lemma num_or_simps [simp]:
  "num_or None b = b"
  "num_or (Some 0) b = b"
  "n \<noteq> 0 \<Longrightarrow> num_or (Some n) b = n"
  by (simp_all add: num_or_def)

lemma js_over_None [simp]: "js_over a None = a"
  by (simp add: js_over_def)

section \<open>Objects used as dictionaries\<close>

type_synonym 'v obj = "(string \<times> 'v) list"

definition obj_get :: "'v obj \<Rightarrow> string \<Rightarrow> 'v option" where
  "obj_get o' k = map_of o' k"

definition obj_set :: "string \<Rightarrow> 'v \<Rightarrow> 'v obj \<Rightarrow> 'v obj" where
  "obj_set k v o' = AList.update k v o'"

definition obj_del :: "string \<Rightarrow> 'v obj \<Rightarrow> 'v obj" where
  "obj_del k o' = AList.delete k o'"

definition obj_values :: "'v obj \<Rightarrow> 'v list" where
  "obj_values o' = map snd o'"

definition obj_keys :: "'v obj \<Rightarrow> string list" where
  "obj_keys o' = map fst o'"

definition obj_wf :: "'v obj \<Rightarrow> bool" where
  "obj_wf o' = distinct (map fst o')"

text \<open>
  The contract of a dictionary, for the slices of the store that are keyed by channel,
  session or call: what a lookup returns after an update, and that updates keep the
  representation well formed.
\<close>

locale dictionary =
  fixes get :: "'o \<Rightarrow> 'k \<Rightarrow> 'v option"
    and put :: "'k \<Rightarrow> 'v \<Rightarrow> 'o \<Rightarrow> 'o"
    and del :: "'k \<Rightarrow> 'o \<Rightarrow> 'o"
    and ok :: "'o \<Rightarrow> bool"
  assumes get_put: "get (put k v d) k' = (if k' = k then Some v else get d k')"
    and get_del: "get (del k d) k' = (if k' = k then None else get d k')"
    and ok_put: "ok d \<Longrightarrow> ok (put k v d)"
    and ok_del: "ok d \<Longrightarrow> ok (del k d)"
begin

lemma get_put_same: "get (put k v d) k = Some v"
  by (simp add: get_put)

lemma get_put_other: "k' \<noteq> k \<Longrightarrow> get (put k v d) k' = get d k'"
  by (simp add: get_put)

lemma get_del_same: "get (del k d) k = None"
  by (simp add: get_del)

lemma get_del_other: "k' \<noteq> k \<Longrightarrow> get (del k d) k' = get d k'"
  by (simp add: get_del)

lemma get_fold_put:
  "get (fold (\<lambda>(k, v). put k v) kvs d) k =
     (case map_of (rev kvs) k of Some v \<Rightarrow> Some v | None \<Rightarrow> get d k)"
  by (induction kvs arbitrary: d) (auto simp: get_put map_add_def split: option.splits)

lemma ok_fold_put: "ok d \<Longrightarrow> ok (fold (\<lambda>(k, v). put k v) kvs d)"
  by (induction kvs arbitrary: d) (auto simp: ok_put)

end

interpretation js_obj: dictionary obj_get obj_set obj_del obj_wf
  by unfold_locales
    (auto simp: obj_get_def obj_set_def obj_del_def obj_wf_def update_conv' delete_conv'
       distinct_update distinct_delete)

lemmas obj_get_set [simp, slice_simps] = js_obj.get_put
lemmas obj_get_del [simp, slice_simps] = js_obj.get_del
lemmas obj_wf_set [simp, intro] = js_obj.ok_put
lemmas obj_wf_del [simp, intro] = js_obj.ok_del

lemma obj_get_Nil [simp]: "obj_get [] k = None"
  by (simp add: obj_get_def)

lemma obj_get_Cons [simp]: "obj_get ((k, v) # d) k' = (if k' = k then Some v else obj_get d k')"
  by (simp add: obj_get_def)

lemma obj_wf_Nil [simp]: "obj_wf []"
  by (simp add: obj_wf_def)

lemma obj_wf_single [simp]: "obj_wf [(k, v)]"
  by (simp add: obj_wf_def)

lemma obj_set_code [simp]:
  "obj_set k v [] = [(k, v)]"
  "obj_set k v ((k', w) # d) = (if k' = k then (k, v) # d else (k', w) # obj_set k v d)"
  by (simp_all add: obj_set_def)

lemma obj_del_code [simp]:
  "obj_del k [] = []"
  "obj_del k ((k', w) # d) = (if k' = k then obj_del k d else (k', w) # obj_del k d)"
  by (simp_all add: obj_del_def)

lemma obj_get_in_set: "obj_get d k = Some v \<Longrightarrow> (k, v) \<in> set d"
  unfolding obj_get_def by (rule map_of_SomeD)

lemma obj_get_value: "obj_get d k = Some v \<Longrightarrow> v \<in> set (obj_values d)"
  by (force simp: obj_values_def dest: obj_get_in_set)

lemma obj_in_set_get: "obj_wf d \<Longrightarrow> (k, v) \<in> set d \<Longrightarrow> obj_get d k = Some v"
  by (simp add: obj_wf_def obj_get_def)

lemma obj_set_in_set: "(a, b) \<in> set (obj_set k v d) \<Longrightarrow> (a = k \<and> b = v) \<or> (a, b) \<in> set d"
  by (induction d) (auto split: if_splits)

lemma obj_del_in_set: "(a, b) \<in> set (obj_del k d) \<longleftrightarrow> a \<noteq> k \<and> (a, b) \<in> set d"
  by (induction d) (auto split: if_splits)

lemma obj_values_set_sub: "set (obj_values (obj_set k v d)) \<subseteq> insert v (set (obj_values d))"
  by (fastforce simp: obj_values_def dest: obj_set_in_set)

lemma obj_values_del_sub: "set (obj_values (obj_del k d)) \<subseteq> set (obj_values d)"
  by (fastforce simp: obj_values_def obj_del_in_set)

lemma obj_get_None_keys: "obj_get d k = None \<longleftrightarrow> k \<notin> set (obj_keys d)"
  by (simp add: obj_get_def obj_keys_def map_of_eq_None_iff)

lemma obj_keys_set: "obj_keys (obj_set k v d) = (if k \<in> set (obj_keys d) then obj_keys d else obj_keys d @ [k])"
  by (induction d) (force simp: obj_keys_def)+

lemma obj_keys_del: "obj_keys (obj_del k d) = filter (\<lambda>k'. k' \<noteq> k) (obj_keys d)"
  by (induction d) (auto simp: obj_keys_def)

lemma obj_wf_iff_keys: "obj_wf d \<longleftrightarrow> distinct (obj_keys d)"
  by (simp add: obj_wf_def obj_keys_def)

lemma obj_values_length: "length (obj_values d) = length (obj_keys d)"
  by (simp add: obj_values_def obj_keys_def)

text \<open>A property of every value is kept by storing a value that has it, and by deleting.\<close>

definition obj_all :: "('v \<Rightarrow> bool) \<Rightarrow> 'v obj \<Rightarrow> bool" where
  "obj_all P d = list_all P (obj_values d)"

lemma obj_all_Nil [simp]: "obj_all P []"
  by (simp add: obj_all_def obj_values_def)

lemma obj_all_set [intro]: "obj_all P d \<Longrightarrow> P v \<Longrightarrow> obj_all P (obj_set k v d)"
  unfolding obj_all_def list_all_iff using obj_values_set_sub by fastforce

lemma obj_all_del [intro]: "obj_all P d \<Longrightarrow> obj_all P (obj_del k d)"
  unfolding obj_all_def list_all_iff using obj_values_del_sub by fastforce

lemma obj_all_get: "obj_all P d \<Longrightarrow> obj_get d k = Some v \<Longrightarrow> P v"
  unfolding obj_all_def list_all_iff by (auto dest: obj_get_value)

end
