(* ===== verification/Media_Store.thy ===== *)
theory Media_Store
  imports JS_Prelude
begin

text \<open>
  The media objects \<open>webapp/src/client.ts\<close> shares between its fields and the browser: a
  store of tracks and of streams, addressed by their index, since a track can be in several
  streams and is changed in place. A stopped track never lives again, and the store only grows.
  The handler a track has for \<open>ended\<close> is data: the two closures of the client that are one.
\<close>

section \<open>Tracks and streams\<close>

datatype track_kind = AudioKind | VideoKind

datatype ended_handler = NoHandler | ScreenEnded "nat option" | BlurEnded nat

record track =
  tr_kind :: track_kind
  tr_enabled :: bool
  tr_live :: bool
  tr_onended :: ended_handler

record media =
  md_tracks :: "track list"
  md_streams :: "nat list list"

definition get_track :: "media \<Rightarrow> nat \<Rightarrow> track option" where
  "get_track m t = (if t < length (md_tracks m) then Some (md_tracks m ! t) else None)"

definition stream_tracks :: "media \<Rightarrow> nat \<Rightarrow> nat list" where
  "stream_tracks m i = (if i < length (md_streams m) then md_streams m ! i else [])"

definition is_kind :: "media \<Rightarrow> track_kind \<Rightarrow> nat \<Rightarrow> bool" where
  "is_kind m k t \<longleftrightarrow> map_option tr_kind (get_track m t) = Some k"

definition is_live :: "media \<Rightarrow> nat \<Rightarrow> bool" where
  "is_live m t \<longleftrightarrow> map_option tr_live (get_track m t) = Some True"

definition is_enabled :: "media \<Rightarrow> nat \<Rightarrow> bool" where
  "is_enabled m t \<longleftrightarrow> map_option tr_enabled (get_track m t) = Some True"

definition tracks_of :: "track_kind \<Rightarrow> nat \<Rightarrow> media \<Rightarrow> nat list" where
  "tracks_of k i m = filter (is_kind m k) (stream_tracks m i)"

text \<open>\<open>getAudioTracks()[0]\<close> and \<open>getVideoTracks()[0]\<close>.\<close>

definition first_track :: "track_kind \<Rightarrow> nat \<Rightarrow> media \<Rightarrow> nat option" where
  "first_track k i m = (case tracks_of k i m of [] \<Rightarrow> None | t # _ \<Rightarrow> Some t)"

section \<open>Changes in place\<close>

definition upd_track :: "nat \<Rightarrow> (track \<Rightarrow> track) \<Rightarrow> media \<Rightarrow> media" where
  "upd_track t f m = (if t < length (md_tracks m) then m\<lparr>md_tracks := (md_tracks m)[t := f (md_tracks m ! t)]\<rparr> else m)"

definition stop_track :: "nat \<Rightarrow> media \<Rightarrow> media" where
  "stop_track t = upd_track t (\<lambda>x. x\<lparr>tr_live := False\<rparr>)"

definition enable_track :: "nat \<Rightarrow> bool \<Rightarrow> media \<Rightarrow> media" where
  "enable_track t b = upd_track t (\<lambda>x. x\<lparr>tr_enabled := b\<rparr>)"

definition on_ended :: "nat \<Rightarrow> ended_handler \<Rightarrow> media \<Rightarrow> media" where
  "on_ended t h = upd_track t (\<lambda>x. x\<lparr>tr_onended := h\<rparr>)"

definition upd_stream :: "nat \<Rightarrow> (nat list \<Rightarrow> nat list) \<Rightarrow> media \<Rightarrow> media" where
  "upd_stream i f m =
     (if i < length (md_streams m) then m\<lparr>md_streams := (md_streams m)[i := f (md_streams m ! i)]\<rparr> else m)"

definition remove_from_stream :: "nat \<Rightarrow> nat \<Rightarrow> media \<Rightarrow> media" where
  "remove_from_stream i t = upd_stream i (filter (\<lambda>x. x \<noteq> t))"

text \<open>A stream is a set of tracks: adding one it has changes nothing.\<close>

definition add_to_stream :: "nat \<Rightarrow> nat \<Rightarrow> media \<Rightarrow> media" where
  "add_to_stream i t = upd_stream i (\<lambda>ts. if t \<in> set ts then ts else ts @ [t])"

text \<open>
  What \<open>getUserMedia\<close>, \<open>getDisplayMedia\<close> and \<open>captureStream\<close> return: a new stream of
  new tracks, live and enabled. \<open>new MediaStream(tracks)\<close> is a new stream of old ones.
\<close>

definition new_stream :: "track_kind list \<Rightarrow> media \<Rightarrow> nat \<times> media" where
  "new_stream ks m =
     (length (md_streams m),
      m\<lparr>md_tracks := md_tracks m @ map (\<lambda>k. \<lparr>tr_kind = k, tr_enabled = True, tr_live = True, tr_onended = NoHandler\<rparr>) ks,
        md_streams := md_streams m @ [map (\<lambda>i. length (md_tracks m) + i) [0..<length ks]]\<rparr>)"

definition stream_of :: "nat list \<Rightarrow> media \<Rightarrow> nat \<times> media" where
  "stream_of ts m = (length (md_streams m), m\<lparr>md_streams := md_streams m @ [ts]\<rparr>)"

lemmas media_defs = get_track_def stream_tracks_def is_kind_def is_live_def is_enabled_def tracks_of_def
  first_track_def upd_track_def stop_track_def enable_track_def on_ended_def upd_stream_def
  remove_from_stream_def add_to_stream_def new_stream_def stream_of_def

section \<open>What changes leave alone\<close>

lemma get_upd_track:
  "get_track (upd_track t f m) u = (if u = t then map_option f (get_track m u) else get_track m u)"
  by (auto simp: upd_track_def get_track_def)

lemma streams_upd_track [simp]: "md_streams (upd_track t f m) = md_streams m"
  by (simp add: upd_track_def)

lemma tracks_upd_stream [simp]: "md_tracks (upd_stream i f m) = md_tracks m"
  by (simp add: upd_stream_def)

lemma get_upd_stream: "get_track (upd_stream i f m) t = get_track m t"
  by (simp add: get_track_def)

lemma stream_tracks_changes [simp]:
  "stream_tracks (stop_track t m) i = stream_tracks m i"
  "stream_tracks (enable_track t b m) i = stream_tracks m i"
  "stream_tracks (on_ended t h m) i = stream_tracks m i"
  by (simp_all add: stream_tracks_def stop_track_def enable_track_def on_ended_def)

lemma is_live_changes [simp]:
  "is_live (stop_track t m) u \<longleftrightarrow> u \<noteq> t \<and> is_live m u"
  "is_live (enable_track t b m) u = is_live m u"
  "is_live (on_ended t h m) u = is_live m u"
  "is_live (upd_stream i f m) u = is_live m u"
  by (auto simp: is_live_def stop_track_def enable_track_def on_ended_def get_upd_track get_upd_stream
      option.map_comp comp_def)

lemma is_enabled_changes [simp]:
  "is_enabled (stop_track t m) u = is_enabled m u"
  "is_enabled (enable_track t b m) u = (if u = t then b \<and> get_track m t \<noteq> None else is_enabled m u)"
  "is_enabled (on_ended t h m) u = is_enabled m u"
  "is_enabled (upd_stream i f m) u = is_enabled m u"
  by (auto simp: is_enabled_def stop_track_def enable_track_def on_ended_def get_upd_track get_upd_stream
      option.map_comp comp_def)

end
