(* ===== verification/Ws_Client.thy ===== *)
theory Ws_Client
  imports JS_Prelude
begin

text \<open>
  The websocket client of \<open>webapp/src/websocket.ts\<close>: connection, identifiers, sequence
  numbers, ping and reconnection. The browser's \<open>WebSocket\<close> is the ready state of the
  current socket and the events the step relation delivers; everything the client does to the
  outside is logged in \<open>ws_out\<close>. A number that may be \<open>NaN\<close> is an \<open>option\<close>.
\<close>

section \<open>Constants and state\<close>

definition wsMinReconnectRetryTimeMs :: int where "wsMinReconnectRetryTimeMs = 1000"
definition wsReconnectionTimeout :: int where "wsReconnectionTimeout = 30000"
definition wsReconnectTimeIncrement :: int where "wsReconnectTimeIncrement = 500"
definition wsPingIntervalMs :: int where "wsPingIntervalMs = 5000"

lemmas ws_constants = wsMinReconnectRetryTimeMs_def wsReconnectionTimeout_def
  wsReconnectTimeIncrement_def wsPingIntervalMs_def

definition eventPrefix :: string where
  "eventPrefix = ''custom_com.mattermost.calls''"

datatype ready_state = Connecting | Open | Closing | Closed

datatype ws_error_type = Native | Join | ReconnectTimeout

text \<open>What the client puts on the wire, and the parts of a message it reads.\<close>

datatype frame = AuthFrame int string | PingFrame int | ActionFrame string int bool

record ws_message =
  m_seq_reply :: "int option"
  m_seq :: "int option"
  m_event :: string
  m_has_data :: bool
  m_connection_id :: string
  m_connID :: "string option"
  m_text :: string

datatype ws_data = NoData | Unparsable | NullMessage | Message ws_message

datatype ws_emit =
    EmitOpen string string bool
  | EmitError ws_error_type string
  | EmitClose int
  | EmitEvent ws_message
  | EmitJoin
  | EmitMessage ws_message

datatype ws_out = Connect string "int option" | Send frame | CloseSocket | Emit ws_emit | Thrown

record ws_client =
  ws_ready :: "ready_state option"
  ws_isReconnect :: bool
  ws_onclose :: bool
  ws_authToken :: string
  ws_seqNo :: int
  ws_serverSeqNo :: "int option"
  ws_connID :: string
  ws_originalConnID :: string
  ws_lastDisconnect :: int
  ws_reconnectRetryTime :: int
  ws_closed :: bool
  ws_pingInterval :: bool
  ws_waitingForPong :: bool
  ws_expectedPongSeqNo :: int
  ws_listening :: bool
  ws_reconnects :: "int list"
  ws_out :: "ws_out list"

definition put_out :: "ws_out \<Rightarrow> ws_client \<Rightarrow> ws_client" where
  "put_out x s = s\<lparr>ws_out := ws_out s @ [x]\<rparr>"

text \<open>An emitter without listeners drops an event, except that \<open>error\<close> throws.\<close>

definition ws_emit :: "ws_emit \<Rightarrow> ws_client \<Rightarrow> ws_client" where
  "ws_emit e s =
     (if ws_listening s then put_out (Emit e) s
      else case e of EmitError _ _ \<Rightarrow> put_out Thrown s | _ \<Rightarrow> s)"

section \<open>Operations\<close>

definition ws_new :: "string \<Rightarrow> ws_client" where
  "ws_new token = \<lparr>ws_ready = None, ws_isReconnect = False, ws_onclose = True, ws_authToken = token,
     ws_seqNo = 1, ws_serverSeqNo = Some 0, ws_connID = '''', ws_originalConnID = '''',
     ws_lastDisconnect = 0, ws_reconnectRetryTime = wsMinReconnectRetryTimeMs, ws_closed = False,
     ws_pingInterval = False, ws_waitingForPong = False, ws_expectedPongSeqNo = 0,
     ws_listening = True, ws_reconnects = [], ws_out = []\<rparr>"

definition ws_init :: "bool \<Rightarrow> ws_client \<Rightarrow> ws_client" where
  "ws_init isReconnect s =
     (if ws_closed s then s
      else put_out (Connect (ws_connID s) (ws_serverSeqNo s))
             (s\<lparr>ws_ready := Some Connecting, ws_isReconnect := isReconnect, ws_onclose := True\<rparr>))"

definition ws_construct :: "string \<Rightarrow> ws_client" where
  "ws_construct token = ws_init False (ws_new token)"

definition stopPingInterval :: "ws_client \<Rightarrow> ws_client" where
  "stopPingInterval s =
     (if ws_pingInterval s
      then s\<lparr>ws_pingInterval := False, ws_waitingForPong := False, ws_expectedPongSeqNo := 0\<rparr>
      else s)"

definition startPingInterval :: "ws_client \<Rightarrow> ws_client" where
  "startPingInterval s = (stopPingInterval s)\<lparr>ws_pingInterval := True\<rparr>"

definition ping :: "ws_client \<Rightarrow> ws_client" where
  "ping s =
     (if ws_ready s = Some Open then
        put_out (Send (PingFrame (ws_seqNo s)))
          (s\<lparr>ws_waitingForPong := True, ws_expectedPongSeqNo := ws_seqNo s, ws_seqNo := ws_seqNo s + 1\<rparr>)
      else s)"

definition onopen :: "ws_client \<Rightarrow> ws_client" where
  "onopen s0 =
     (let s = s0\<lparr>ws_ready := Some Open\<rparr>;
          s = (if ws_authToken s \<noteq> ''''
               then put_out (Send (AuthFrame (ws_seqNo s) (ws_authToken s))) (s\<lparr>ws_seqNo := ws_seqNo s + 1\<rparr>)
               else s);
          s = (if ws_isReconnect s
               then ws_emit (EmitOpen (ws_originalConnID s) (ws_connID s) True)
                      (s\<lparr>ws_lastDisconnect := 0, ws_reconnectRetryTime := wsMinReconnectRetryTimeMs\<rparr>)
               else s)
      in ping (startPingInterval s))"

definition onerror :: "ws_client \<Rightarrow> ws_client" where
  "onerror s = ws_emit (EmitError Native ''websocket error'') s"

definition on_hello :: "ws_message \<Rightarrow> ws_client \<Rightarrow> ws_client" where
  "on_hello msg s0 =
     (let s = (if m_connection_id msg \<noteq> ws_connID s0 then
                 (let s = s0\<lparr>ws_connID := m_connection_id msg, ws_serverSeqNo := Some 0, ws_seqNo := 1\<rparr>;
                      s = (if ws_originalConnID s = '''' then s\<lparr>ws_originalConnID := ws_connID s\<rparr> else s)
                  in ws_emit (EmitEvent msg) s)
               else s0)
      in if \<not> ws_isReconnect s then ws_emit (EmitOpen (ws_originalConnID s) (ws_connID s) False) s else s)"

definition on_event :: "ws_message \<Rightarrow> ws_client \<Rightarrow> ws_client" where
  "on_event msg s0 =
     (let s = ws_emit (EmitEvent msg) s0
      in if m_connID msg \<noteq> Some (ws_connID s) \<and> m_connID msg \<noteq> Some (ws_originalConnID s) then s
         else
           let s = (if m_event msg = eventPrefix @ ''_join'' then ws_emit EmitJoin s else s);
               s = (if m_event msg = eventPrefix @ ''_error'' then ws_emit (EmitError Join (m_text msg)) s else s)
           in if m_event msg = eventPrefix @ ''_signal'' then ws_emit (EmitMessage msg) s else s)"

fun onmessage :: "ws_data \<Rightarrow> ws_client \<Rightarrow> ws_client" where
  "onmessage NoData s = s"
| "onmessage Unparsable s = s"
| "onmessage NullMessage s = s"
| "onmessage (Message msg) s0 =
     (if ws_waitingForPong s0 \<and> m_seq_reply msg = Some (ws_expectedPongSeqNo s0) then
        s0\<lparr>ws_waitingForPong := False, ws_expectedPongSeqNo := 0\<rparr>
      else
        let s = s0\<lparr>ws_serverSeqNo := map_option (\<lambda>n. n + 1) (m_seq msg)\<rparr>
        in if m_event msg = '''' \<or> \<not> m_has_data msg then s
           else if m_event msg = ''hello'' then on_hello msg s
           else if ws_connID s = '''' then s
           else on_event msg s)"

definition reconnect :: "int \<Rightarrow> ws_client \<Rightarrow> ws_client" where
  "reconnect now s0 =
     (let s = (if ws_lastDisconnect s0 = 0 then s0\<lparr>ws_lastDisconnect := now\<rparr> else s0)
      in if now - ws_lastDisconnect s \<ge> wsReconnectionTimeout then
           ws_emit (EmitError ReconnectTimeout ''max disconnected time reached'') (s\<lparr>ws_closed := True\<rparr>)
         else
           s\<lparr>ws_reconnects := ws_reconnects s @ [now + ws_reconnectRetryTime s],
             ws_reconnectRetryTime := ws_reconnectRetryTime s + wsReconnectTimeIncrement\<rparr>)"

definition closeHandler :: "int \<Rightarrow> int \<Rightarrow> ws_client \<Rightarrow> ws_client" where
  "closeHandler code now s0 =
     (let s = ws_emit (EmitClose code) (stopPingInterval s0)
      in if \<not> ws_closed s then reconnect now s else s)"

definition ws_send :: "string \<Rightarrow> bool \<Rightarrow> ws_client \<Rightarrow> ws_client" where
  "ws_send action binary s0 =
     (let msg = ActionFrame (eventPrefix @ ''_'' @ action) (ws_seqNo s0) binary;
          s = s0\<lparr>ws_seqNo := ws_seqNo s0 + 1\<rparr>
      in if ws_ready s = Some Open then put_out (Send msg) s else s)"

definition ws_close :: "ws_client \<Rightarrow> ws_client" where
  "ws_close s0 =
     (let s = stopPingInterval (s0\<lparr>ws_closed := True\<rparr>);
          s = (if ws_ready s \<noteq> None then put_out CloseSocket s else s)
      in s\<lparr>ws_ready := None, ws_seqNo := 1, ws_serverSeqNo := Some 0, ws_expectedPongSeqNo := 0,
           ws_connID := '''', ws_originalConnID := '''', ws_listening := False\<rparr>)"

definition getOriginalConnID :: "ws_client \<Rightarrow> string" where
  "getOriginalConnID s = ws_originalConnID s"

text \<open>The callback of the ping interval, and of the timer \<open>reconnect\<close> sets.\<close>

definition ping_tick :: "int \<Rightarrow> ws_client \<Rightarrow> ws_client" where
  "ping_tick now s =
     (if ws_waitingForPong s \<and> ws_ready s \<noteq> None then
        closeHandler 4000 now (put_out CloseSocket (s\<lparr>ws_onclose := False, ws_ready := Some Closing\<rparr>))
      else ping s)"

definition reconnect_timer :: "ws_client \<Rightarrow> ws_client" where
  "reconnect_timer s = (if \<not> ws_closed s then ws_init True s else s)"

section \<open>Steps\<close>

text \<open>
  What can happen to a client. The socket opens at most once and only while connecting;
  messages arrive only on an open socket; its \<open>close\<close> event may come at any time unless the
  handler was taken off, also after \<open>close()\<close> has dropped the socket.
\<close>

inductive ws_step :: "ws_client \<Rightarrow> ws_client \<Rightarrow> bool" where
  opened: "ws_ready s = Some Connecting \<Longrightarrow> ws_step s (onopen s)"
| failed: "ws_step s (onerror s)"
| received: "ws_ready s = Some Open \<Longrightarrow> ws_step s (onmessage d s)"
| socket_closed: "ws_onclose s \<Longrightarrow> ws_ready s \<noteq> None \<Longrightarrow>
     ws_step s (closeHandler code now (s\<lparr>ws_ready := Some Closed, ws_onclose := False\<rparr>))"
| late_close: "ws_ready s = None \<Longrightarrow> ws_closed s \<Longrightarrow> ws_step s (closeHandler code now s)"
| tick: "ws_pingInterval s \<Longrightarrow> ws_step s (ping_tick now s)"
| retry: "ws_reconnects s = t # ts \<Longrightarrow> ws_step s (reconnect_timer (s\<lparr>ws_reconnects := ts\<rparr>))"
| sending: "ws_step s (ws_send action binary s)"
| closing: "ws_step s (ws_close s)"

inductive ws_reach :: "string \<Rightarrow> ws_client \<Rightarrow> bool" for token where
  created: "ws_reach token (ws_construct token)"
| moved: "ws_reach token s \<Longrightarrow> ws_step s s' \<Longrightarrow> ws_reach token s'"

inductive_cases ws_stepE: "ws_step s s'"

lemmas ws_op_defs = put_out_def ws_emit_def ws_init_def stopPingInterval_def startPingInterval_def ping_def
  onopen_def onerror_def on_hello_def on_event_def reconnect_def closeHandler_def ws_send_def
  ws_close_def ping_tick_def reconnect_timer_def

section \<open>The invariant of the connection\<close>

definition alive :: "ws_client \<Rightarrow> bool" where
  "alive s = (ws_ready s = Some Connecting \<or> ws_ready s = Some Open)"

text \<open>The delays the backoff produces: one second and whole increments more.\<close>

definition backoff :: "int \<Rightarrow> bool" where
  "backoff r \<longleftrightarrow> wsMinReconnectRetryTimeMs \<le> r \<and>
     (r - wsMinReconnectRetryTimeMs) mod wsReconnectTimeIncrement = 0"

lemma backoff_steps [simp]:
  "backoff wsMinReconnectRetryTimeMs"
  "backoff r \<Longrightarrow> backoff (r + wsReconnectTimeIncrement)"
proof -
  show "backoff wsMinReconnectRetryTimeMs" by (simp add: backoff_def)
  have "0 \<le> wsReconnectTimeIncrement" by (simp add: ws_constants)
  moreover have "(r + wsReconnectTimeIncrement - wsMinReconnectRetryTimeMs) mod wsReconnectTimeIncrement =
      (r - wsMinReconnectRetryTimeMs) mod wsReconnectTimeIncrement"
    using mod_add_self2 [of "r - wsMinReconnectRetryTimeMs" wsReconnectTimeIncrement] by (simp add: algebra_simps)
  ultimately show "backoff r \<Longrightarrow> backoff (r + wsReconnectTimeIncrement)" by (auto simp: backoff_def)
qed

text \<open>
  A client that is not closed has a live socket and no reconnection pending, or a dead one and
  exactly one; pings run only on an open socket; a closed client has neither.
\<close>

definition ws_inv :: "ws_client \<Rightarrow> bool" where
  "ws_inv s \<longleftrightarrow>
     (ws_waitingForPong s \<longrightarrow> ws_pingInterval s) \<and>
     (ws_pingInterval s \<longrightarrow> ws_ready s = Some Open) \<and>
     (ws_ready s \<noteq> None \<longrightarrow> (ws_onclose s \<longleftrightarrow> alive s)) \<and>
     (alive s \<longrightarrow> \<not> ws_closed s \<and> ws_reconnects s = []) \<and>
     (\<not> ws_closed s \<longrightarrow> alive s \<or> length (ws_reconnects s) = 1) \<and>
     (ws_ready s = None \<longrightarrow> ws_closed s) \<and>
     (ws_connID s \<noteq> '''' \<longrightarrow> ws_originalConnID s \<noteq> '''') \<and>
     backoff (ws_reconnectRetryTime s)"

lemma ws_emit_simps [simp]:
  "ws_ready (ws_emit e s) = ws_ready s"
  "ws_isReconnect (ws_emit e s) = ws_isReconnect s"
  "ws_onclose (ws_emit e s) = ws_onclose s"
  "ws_authToken (ws_emit e s) = ws_authToken s"
  "ws_seqNo (ws_emit e s) = ws_seqNo s"
  "ws_serverSeqNo (ws_emit e s) = ws_serverSeqNo s"
  "ws_connID (ws_emit e s) = ws_connID s"
  "ws_originalConnID (ws_emit e s) = ws_originalConnID s"
  "ws_lastDisconnect (ws_emit e s) = ws_lastDisconnect s"
  "ws_reconnectRetryTime (ws_emit e s) = ws_reconnectRetryTime s"
  "ws_closed (ws_emit e s) = ws_closed s"
  "ws_pingInterval (ws_emit e s) = ws_pingInterval s"
  "ws_waitingForPong (ws_emit e s) = ws_waitingForPong s"
  "ws_expectedPongSeqNo (ws_emit e s) = ws_expectedPongSeqNo s"
  "ws_listening (ws_emit e s) = ws_listening s"
  "ws_reconnects (ws_emit e s) = ws_reconnects s"
  by (cases e; simp add: ws_emit_def put_out_def)+

lemma put_out_simps [simp]:
  "ws_ready (put_out x s) = ws_ready s"
  "ws_isReconnect (put_out x s) = ws_isReconnect s"
  "ws_onclose (put_out x s) = ws_onclose s"
  "ws_authToken (put_out x s) = ws_authToken s"
  "ws_seqNo (put_out x s) = ws_seqNo s"
  "ws_serverSeqNo (put_out x s) = ws_serverSeqNo s"
  "ws_connID (put_out x s) = ws_connID s"
  "ws_originalConnID (put_out x s) = ws_originalConnID s"
  "ws_lastDisconnect (put_out x s) = ws_lastDisconnect s"
  "ws_reconnectRetryTime (put_out x s) = ws_reconnectRetryTime s"
  "ws_closed (put_out x s) = ws_closed s"
  "ws_pingInterval (put_out x s) = ws_pingInterval s"
  "ws_waitingForPong (put_out x s) = ws_waitingForPong s"
  "ws_expectedPongSeqNo (put_out x s) = ws_expectedPongSeqNo s"
  "ws_listening (put_out x s) = ws_listening s"
  "ws_reconnects (put_out x s) = ws_reconnects s"
  "ws_out (put_out x s) = ws_out s @ [x]"
  by (simp_all add: put_out_def)

lemma on_event_frame [simp]:
  "ws_ready (on_event m s) = ws_ready s"
  "ws_isReconnect (on_event m s) = ws_isReconnect s"
  "ws_onclose (on_event m s) = ws_onclose s"
  "ws_connID (on_event m s) = ws_connID s"
  "ws_originalConnID (on_event m s) = ws_originalConnID s"
  "ws_closed (on_event m s) = ws_closed s"
  "ws_pingInterval (on_event m s) = ws_pingInterval s"
  "ws_waitingForPong (on_event m s) = ws_waitingForPong s"
  "ws_reconnects (on_event m s) = ws_reconnects s"
  "ws_reconnectRetryTime (on_event m s) = ws_reconnectRetryTime s"
  "ws_listening (on_event m s) = ws_listening s"
  by (simp_all add: on_event_def Let_def)

lemma on_hello_frame [simp]:
  "ws_ready (on_hello m s) = ws_ready s"
  "ws_onclose (on_hello m s) = ws_onclose s"
  "ws_connID (on_hello m s) = m_connection_id m"
  "ws_originalConnID (on_hello m s) =
     (if ws_originalConnID s = '''' \<and> m_connection_id m \<noteq> ws_connID s then m_connection_id m else ws_originalConnID s)"
  "ws_closed (on_hello m s) = ws_closed s"
  "ws_pingInterval (on_hello m s) = ws_pingInterval s"
  "ws_waitingForPong (on_hello m s) = ws_waitingForPong s"
  "ws_reconnects (on_hello m s) = ws_reconnects s"
  "ws_reconnectRetryTime (on_hello m s) = ws_reconnectRetryTime s"
  "ws_listening (on_hello m s) = ws_listening s"
  by (simp_all add: on_hello_def Let_def)

lemma onmessage_frame [simp]:
  "ws_ready (onmessage d s) = ws_ready s"
  "ws_onclose (onmessage d s) = ws_onclose s"
  "ws_closed (onmessage d s) = ws_closed s"
  "ws_pingInterval (onmessage d s) = ws_pingInterval s"
  "ws_reconnects (onmessage d s) = ws_reconnects s"
  "ws_reconnectRetryTime (onmessage d s) = ws_reconnectRetryTime s"
  "ws_listening (onmessage d s) = ws_listening s"
  by (cases d; simp add: Let_def)+

lemma onmessage_waiting: "ws_waitingForPong (onmessage d s) \<Longrightarrow> ws_waitingForPong s"
  by (cases d) (auto simp: Let_def split: if_splits)

lemma onmessage_conn:
  "(ws_connID s \<noteq> '''' \<longrightarrow> ws_originalConnID s \<noteq> '''') \<Longrightarrow>
   ws_connID (onmessage d s) \<noteq> '''' \<longrightarrow> ws_originalConnID (onmessage d s) \<noteq> ''''"
  by (cases d) (auto simp: Let_def)

lemma onmessage_original:
  "ws_originalConnID s \<noteq> '''' \<Longrightarrow> ws_originalConnID (onmessage d s) = ws_originalConnID s"
  by (cases d) (simp_all add: Let_def)

lemma stopPing_simps [simp]:
  "ws_ready (stopPingInterval s) = ws_ready s"
  "ws_onclose (stopPingInterval s) = ws_onclose s"
  "ws_connID (stopPingInterval s) = ws_connID s"
  "ws_originalConnID (stopPingInterval s) = ws_originalConnID s"
  "ws_closed (stopPingInterval s) = ws_closed s"
  "ws_reconnects (stopPingInterval s) = ws_reconnects s"
  "ws_reconnectRetryTime (stopPingInterval s) = ws_reconnectRetryTime s"
  "ws_lastDisconnect (stopPingInterval s) = ws_lastDisconnect s"
  "ws_listening (stopPingInterval s) = ws_listening s"
  "ws_out (stopPingInterval s) = ws_out s"
  "\<not> ws_pingInterval (stopPingInterval s)"
  "ws_waitingForPong (stopPingInterval s) \<longleftrightarrow> ws_waitingForPong s \<and> \<not> ws_pingInterval s"
  by (simp_all add: stopPingInterval_def)

lemma reconnect_simps [simp]:
  "ws_ready (reconnect now s) = ws_ready s"
  "ws_onclose (reconnect now s) = ws_onclose s"
  "ws_connID (reconnect now s) = ws_connID s"
  "ws_originalConnID (reconnect now s) = ws_originalConnID s"
  "ws_pingInterval (reconnect now s) = ws_pingInterval s"
  "ws_waitingForPong (reconnect now s) = ws_waitingForPong s"
  "ws_listening (reconnect now s) = ws_listening s"
  by (simp_all add: reconnect_def Let_def)

lemma reconnect_cases:
  obtains "ws_closed (reconnect now s)" "ws_reconnects (reconnect now s) = ws_reconnects s"
      "ws_reconnectRetryTime (reconnect now s) = ws_reconnectRetryTime s"
    | "ws_closed (reconnect now s) = ws_closed s"
      "ws_reconnects (reconnect now s) = ws_reconnects s @ [now + ws_reconnectRetryTime s]"
      "ws_reconnectRetryTime (reconnect now s) = ws_reconnectRetryTime s + wsReconnectTimeIncrement"
  by (cases "now - ws_lastDisconnect (if ws_lastDisconnect s = 0 then s\<lparr>ws_lastDisconnect := now\<rparr> else s)
      \<ge> wsReconnectionTimeout") (simp_all add: reconnect_def Let_def)

lemma closeHandler_inv:
  assumes "ws_inv s" and "alive s" and "r = Some Closed \<or> r = Some Closing"
    and "s' = s \<or> s' = put_out CloseSocket s"
  shows "ws_inv (closeHandler code now (s'\<lparr>ws_ready := r, ws_onclose := False\<rparr>))"
proof -
  let ?t = "s'\<lparr>ws_ready := r, ws_onclose := False\<rparr>"
  let ?u = "ws_emit (EmitClose code) (stopPingInterval ?t)"
  have f: "ws_closed s' = ws_closed s" "ws_reconnects s' = ws_reconnects s"
    "ws_reconnectRetryTime s' = ws_reconnectRetryTime s" "ws_connID s' = ws_connID s"
    "ws_originalConnID s' = ws_originalConnID s" "ws_pingInterval s' = ws_pingInterval s"
    "ws_waitingForPong s' = ws_waitingForPong s"
    using assms(4) by auto
  have k: "\<not> ws_closed s" "ws_reconnects s = []" "backoff (ws_reconnectRetryTime s)"
    using assms(1,2) by (auto simp: ws_inv_def)
  then have c: "closeHandler code now ?t = reconnect now ?u" using f by (simp add: closeHandler_def Let_def)
  have w: "ws_waitingForPong s \<longrightarrow> ws_pingInterval s"
    and i: "ws_connID s \<noteq> '''' \<longrightarrow> ws_originalConnID s \<noteq> ''''"
    using assms(1) by (auto simp: ws_inv_def)
  have r: "r \<noteq> Some Connecting" "r \<noteq> Some Open" "r \<noteq> None" using assms(3) by auto
  show ?thesis unfolding c
    by (rule reconnect_cases [of now ?u]; simp add: ws_inv_def alive_def f k r; use w i in blast)
qed

lemma ws_step_inv: "ws_step s s' \<Longrightarrow> ws_inv s \<Longrightarrow> ws_inv s'"
proof (induction rule: ws_step.induct)
  case (opened s)
  then show ?case
    by (auto simp: ws_inv_def alive_def onopen_def startPingInterval_def ping_def Let_def)
next
  case (failed s)
  then show ?case by (simp add: ws_inv_def alive_def onerror_def)
next
  case (received s d)
  then show ?case using onmessage_conn [of s d] onmessage_waiting [of d s]
    unfolding ws_inv_def alive_def onmessage_frame by blast
next
  case (socket_closed s code now)
  have "alive s" using socket_closed by (simp add: ws_inv_def)
  with socket_closed.prems show ?case by (rule closeHandler_inv) simp_all
next
  case (late_close s code now)
  then show ?case
    by (auto simp: ws_inv_def alive_def closeHandler_def Let_def)
next
  case (tick s now)
  then have o: "ws_ready s = Some Open" by (auto simp: ws_inv_def)
  then have "alive s" by (simp add: alive_def)
  show ?case
  proof (cases "ws_waitingForPong s")
    case True
    have "ping_tick now s =
        closeHandler 4000 now ((put_out CloseSocket s)\<lparr>ws_ready := Some Closing, ws_onclose := False\<rparr>)"
      using True o by (cases s) (simp add: ping_tick_def put_out_def)
    then show ?thesis using closeHandler_inv [OF tick.prems \<open>alive s\<close>] by simp
  next
    case False
    then show ?thesis using tick by (auto simp: ws_inv_def alive_def ping_tick_def ping_def)
  qed
next
  case (retry s t ts)
  then show ?case
    by (auto simp: ws_inv_def alive_def reconnect_timer_def ws_init_def)
next
  case (sending s action binary)
  then show ?case unfolding ws_inv_def alive_def by (auto simp: ws_send_def Let_def)
next
  case (closing s)
  then show ?case
    by (auto simp: ws_inv_def alive_def ws_close_def Let_def)
qed

lemma ws_construct_inv: "ws_inv (ws_construct token)"
  by (simp add: ws_inv_def alive_def ws_construct_def ws_init_def ws_new_def)

lemma ws_reach_inv: "ws_reach token s \<Longrightarrow> ws_inv s"
  by (induction rule: ws_reach.induct) (auto intro: ws_construct_inv ws_step_inv)

section \<open>Properties\<close>

text \<open>
  C4. A client that has not been closed is never stuck and never connected twice: it has a live
  socket and no reconnection pending, or no live socket and exactly one pending reconnection.
\<close>

theorem ws_never_stuck:
  assumes "ws_reach token s" and "\<not> ws_closed s"
  shows "(alive s \<and> ws_reconnects s = []) \<or> (\<not> alive s \<and> length (ws_reconnects s) = 1)"
  using ws_reach_inv [OF assms(1)] assms(2) by (auto simp: ws_inv_def)

theorem ws_never_stuck_witness:
  "\<exists>s. ws_reach ''tok'' s \<and> \<not> alive s \<and> length (ws_reconnects s) = 1"
proof -
  let ?c = "ws_construct ''tok''"
  let ?s = "closeHandler 1006 5 (?c\<lparr>ws_ready := Some Closed, ws_onclose := False\<rparr>)"
  have r: "ws_reach ''tok'' ?s"
    by (rule ws_reach.moved [OF ws_reach.created ws_step.socket_closed]) code_simp+
  have "\<not> ws_closed ?s" "\<not> alive ?s" by code_simp+
  then show ?thesis using ws_never_stuck [OF r] r by blast
qed

definition connects :: "ws_out list \<Rightarrow> nat" where
  "connects os = length (filter (\<lambda>x. case x of Connect _ _ \<Rightarrow> True | _ \<Rightarrow> False) os)"

definition emits :: "ws_out list \<Rightarrow> nat" where
  "emits os = length (filter (\<lambda>x. case x of Emit _ \<Rightarrow> True | _ \<Rightarrow> False) os)"

lemma connects_append [simp]: "connects (as @ bs) = connects as + connects bs"
  by (simp add: connects_def)

lemma emits_append [simp]: "emits (as @ bs) = emits as + emits bs"
  by (simp add: emits_def)

lemma counts_single [simp]:
  "connects [Send f] = 0" "connects [CloseSocket] = 0" "connects [Emit e] = 0" "connects [Thrown] = 0"
  "connects [Connect c n] = 1"
  "emits [Send f] = 0" "emits [CloseSocket] = 0" "emits [Thrown] = 0" "emits [Connect c n] = 0"
  by (simp_all add: connects_def emits_def)

lemma ws_emit_counts [simp]:
  "connects (ws_out (ws_emit e s)) = connects (ws_out s)"
  "\<not> ws_listening s \<Longrightarrow> emits (ws_out (ws_emit e s)) = emits (ws_out s)"
  by (cases e; simp add: ws_emit_def)+

lemma onmessage_counts [simp]:
  "connects (ws_out (onmessage d s)) = connects (ws_out s)"
  "\<not> ws_listening s \<Longrightarrow> emits (ws_out (onmessage d s)) = emits (ws_out s)"
  by (cases d; simp add: on_hello_def on_event_def Let_def)+

lemma reconnect_counts [simp]:
  "connects (ws_out (reconnect now s)) = connects (ws_out s)"
  by (simp add: reconnect_def Let_def)

lemma closed_step_frame:
  assumes "ws_step s s'" and "ws_closed s"
  shows "ws_closed s'" "connects (ws_out s') = connects (ws_out s)"
    "\<not> ws_listening s \<Longrightarrow> \<not> ws_listening s' \<and> emits (ws_out s') = emits (ws_out s)"
  using assms
  by (induction rule: ws_step.induct)
    (simp_all add: onopen_def startPingInterval_def ping_def onerror_def closeHandler_def ping_tick_def
      reconnect_timer_def ws_send_def ws_close_def Let_def)

text \<open>
  C19. A closed client stays closed: whatever happens to it later, it opens no connection any
  more, and once \<open>close()\<close> has removed the listeners it emits nothing.
\<close>

theorem ws_closed_is_final:
  assumes "ws_step\<^sup>*\<^sup>* s s'" and "ws_closed s"
  shows "ws_closed s' \<and> connects (ws_out s') = connects (ws_out s) \<and>
    (\<not> ws_listening s \<longrightarrow> emits (ws_out s') = emits (ws_out s))"
proof -
  have "ws_closed s' \<and> connects (ws_out s') = connects (ws_out s) \<and>
    (\<not> ws_listening s \<longrightarrow> \<not> ws_listening s' \<and> emits (ws_out s') = emits (ws_out s))"
    using assms by (induction rule: rtranclp_induct) (auto simp: closed_step_frame)
  then show ?thesis by blast
qed

theorem ws_closed_is_final_witness:
  "connects (ws_out (ws_send ''mute'' False (ws_close (ws_construct '''')))) = 1"
proof -
  have "ws_step\<^sup>*\<^sup>* (ws_close (ws_construct '''')) (ws_send ''mute'' False (ws_close (ws_construct '''')))"
    by (rule r_into_rtranclp) (rule ws_step.sending)
  moreover have "ws_closed (ws_close (ws_construct ''''))" "connects (ws_out (ws_close (ws_construct ''''))) = 1"
    by code_simp+
  ultimately show ?thesis using ws_closed_is_final by metis
qed

text \<open>
  The original connection identifier, by which the server recognises a session after a
  reconnection, is set once: no step changes it until the client is closed.
\<close>

theorem ws_original_id_stable:
  assumes "ws_step s s'" and "ws_originalConnID s \<noteq> ''''"
  shows "ws_originalConnID s' = ws_originalConnID s \<or> s' = ws_close s"
  using assms
  by (induction rule: ws_step.induct)
    (simp_all add: onopen_def startPingInterval_def ping_def onerror_def closeHandler_def ping_tick_def
      reconnect_timer_def ws_send_def ws_init_def onmessage_original Let_def)

theorem ws_original_id_stable_witness:
  "ws_originalConnID (onopen ((ws_construct '''')\<lparr>ws_originalConnID := ''a''\<rparr>)) = ''a''"
proof -
  let ?s = "(ws_construct '''')\<lparr>ws_originalConnID := ''a''\<rparr>"
  have "ws_step ?s (onopen ?s)" by (rule ws_step.opened) code_simp
  moreover have "ws_originalConnID ?s \<noteq> ''''" by simp
  moreover have "onopen ?s \<noteq> ws_close ?s"
  proof -
    have "ws_closed (onopen ?s) \<noteq> ws_closed (ws_close ?s)" by code_simp
    then show ?thesis by metis
  qed
  ultimately show ?thesis using ws_original_id_stable by fastforce
qed

text \<open>
  An outage: each reconnection timer fires, the new socket fails after a further delay, and the
  handler of its closing runs.
\<close>

fun outage :: "int list \<Rightarrow> ws_client \<Rightarrow> ws_client" where
  "outage [] s = s"
| "outage (e # es) s =
     (case ws_reconnects s of
        [] \<Rightarrow> s
      | t # ts \<Rightarrow>
          outage es (closeHandler 1006 (t + e)
            ((reconnect_timer (s\<lparr>ws_reconnects := ts\<rparr>))\<lparr>ws_ready := Some Closed, ws_onclose := False\<rparr>)))"

text \<open>The state of the backoff after \<open>k\<close> failed attempts in a row, the first loss at \<open>t0\<close>.\<close>

definition backing_off :: "int \<Rightarrow> nat \<Rightarrow> ws_client \<Rightarrow> bool" where
  "backing_off t0 k s \<longleftrightarrow>
     \<not> ws_closed s \<and> t0 \<noteq> 0 \<and> ws_lastDisconnect s = t0 \<and>
     ws_reconnectRetryTime s = 1000 + 500 * (int k + 1) \<and>
     (\<exists>t. ws_reconnects s = [t] \<and> t \<ge> t0 + 1000 * (int k + 1) + 250 * int k * (int k + 1))"

lemma stopPing_fields [simp]:
  "ws_lastDisconnect (put_out x s) = ws_lastDisconnect s"
  "ws_closed (ws_init r s) = ws_closed s"
  "ws_reconnects (ws_init r s) = ws_reconnects s"
  "ws_lastDisconnect (ws_init r s) = ws_lastDisconnect s"
  "ws_reconnectRetryTime (ws_init r s) = ws_reconnectRetryTime s"
  "connects (ws_out (ws_init r s)) = connects (ws_out s) + (if ws_closed s then 0 else 1)"
  by (simp_all add: ws_init_def)

lemma failed_attempt:
  assumes b: "backing_off t0 k s" and e: "0 \<le> e" and t: "ws_reconnects s = t # ts"
    and s': "s' = closeHandler 1006 (t + e)
       ((reconnect_timer (s\<lparr>ws_reconnects := ts\<rparr>))\<lparr>ws_ready := Some Closed, ws_onclose := False\<rparr>)"
  shows "(ws_closed s' \<and> ws_reconnects s' = []) \<or> backing_off t0 (Suc k) s'"
    and "30000 \<le> 1000 * (int k + 1) + 250 * int k * (int k + 1) \<Longrightarrow> ws_closed s' \<and> ws_reconnects s' = []"
    and "connects (ws_out s') = connects (ws_out s) + 1"
proof -
  let ?u = "ws_emit (EmitClose 1006) (stopPingInterval
     ((reconnect_timer (s\<lparr>ws_reconnects := ts\<rparr>))\<lparr>ws_ready := Some Closed, ws_onclose := False\<rparr>))"
  have open': "\<not> ws_closed s" "t0 \<noteq> 0" "ws_lastDisconnect s = t0"
    "ws_reconnectRetryTime s = 1000 + 500 * (int k + 1)" "ts = []"
    and due: "t \<ge> t0 + 1000 * (int k + 1) + 250 * int k * (int k + 1)"
    using b t by (auto simp: backing_off_def)
  have s'_eq: "s' = reconnect (t + e) ?u"
    using open' by (simp add: s' closeHandler_def reconnect_timer_def Let_def)
  have u: "ws_closed ?u = ws_closed s" "ws_lastDisconnect ?u = t0" "ws_reconnects ?u = []"
    "ws_reconnectRetryTime ?u = 1000 + 500 * (int k + 1)"
    "connects (ws_out ?u) = connects (ws_out s) + 1"
    using open' by (simp_all add: reconnect_timer_def)
  have next_due: "t + e + (1000 + 500 * (int k + 1)) \<ge>
      t0 + 1000 * (int (Suc k) + 1) + 250 * int (Suc k) * (int (Suc k) + 1)"
    using due e by (simp add: algebra_simps)
  have late: "t + e - t0 \<ge> 1000 * (int k + 1) + 250 * int k * (int k + 1)"
    using due e by simp
  show "(ws_closed s' \<and> ws_reconnects s' = []) \<or> backing_off t0 (Suc k) s'"
    using u open' next_due by (simp add: s'_eq reconnect_def Let_def backing_off_def ws_constants)
  show "30000 \<le> 1000 * (int k + 1) + 250 * int k * (int k + 1) \<Longrightarrow> ws_closed s' \<and> ws_reconnects s' = []"
    using u open' late by (simp add: s'_eq reconnect_def Let_def ws_constants)
  show "connects (ws_out s') = connects (ws_out s) + 1" using u by (simp add: s'_eq)
qed

lemma outage_stopped: "ws_reconnects s = [] \<Longrightarrow> outage es s = s"
  by (cases es) simp_all

lemma outage_bound:
  assumes "backing_off t0 k s" and "list_all (\<lambda>e. 0 \<le> e) es" and "k \<le> 9" and "10 \<le> length es + k"
  shows "ws_closed (outage es s) \<and> connects (ws_out (outage es s)) + k \<le> connects (ws_out s) + 10"
  using assms
proof (induction es arbitrary: k s)
  case (Cons e es)
  obtain t ts where t: "ws_reconnects s = t # ts" using Cons.prems(1) by (auto simp: backing_off_def)
  let ?s = "closeHandler 1006 (t + e)
      ((reconnect_timer (s\<lparr>ws_reconnects := ts\<rparr>))\<lparr>ws_ready := Some Closed, ws_onclose := False\<rparr>)"
  note step = failed_attempt [OF Cons.prems(1) _ t refl, of e]
  have e: "0 \<le> e" using Cons.prems(2) by simp
  have o: "outage (e # es) s = outage es ?s" by (simp add: t)
  consider "ws_closed ?s" "ws_reconnects ?s = []" | "backing_off t0 (Suc k) ?s" "k \<noteq> 9"
    using step(1,2) [OF e] by (cases "k = 9") auto
  then show ?case
  proof cases
    case 1
    then show ?thesis using step(3) [OF e] Cons.prems(3) unfolding o by (simp add: outage_stopped)
  next
    case 2
    then have "ws_closed (outage es ?s) \<and> connects (ws_out (outage es ?s)) + Suc k \<le> connects (ws_out ?s) + 10"
      using Cons.prems(2-4) by (intro Cons.IH) auto
    then show ?thesis using step(3) [OF e] unfolding o by simp
  qed
qed simp

text \<open>
  C3. The client gives up: when a connection is lost and no reconnection succeeds, then however
  long each attempt takes to fail, at most ten attempts are made and the client is closed.
\<close>

theorem ws_gives_up:
  assumes "ws_reach token s" and "alive s" and "now \<noteq> 0" and "ws_lastDisconnect s = 0"
    and "ws_reconnectRetryTime s = wsMinReconnectRetryTimeMs"
    and "list_all (\<lambda>e. 0 \<le> e) es" and "length es = 10"
  shows "ws_closed (outage es (closeHandler code now s)) \<and>
    connects (ws_out (outage es (closeHandler code now s))) \<le> connects (ws_out s) + 10"
proof -
  let ?u = "ws_emit (EmitClose code) (stopPingInterval s)"
  have "\<not> ws_closed s" "ws_reconnects s = []"
    using ws_reach_inv [OF assms(1)] assms(2) by (auto simp: ws_inv_def)
  then have "backing_off now 0 (closeHandler code now s)"
    using assms(3-5) by (simp add: closeHandler_def reconnect_def backing_off_def Let_def ws_constants)
  from outage_bound [OF this assms(6)]
  have "ws_closed (outage es (closeHandler code now s)) \<and>
    connects (ws_out (outage es (closeHandler code now s))) \<le> connects (ws_out (closeHandler code now s)) + 10"
    using assms(7) by simp
  moreover have "connects (ws_out (closeHandler code now s)) = connects (ws_out s)"
    by (simp add: closeHandler_def Let_def)
  ultimately show ?thesis by simp
qed

theorem ws_gives_up_witness:
  "ws_closed (outage (replicate 10 0) (closeHandler 1006 1 (ws_construct '''')))"
  by (rule ws_gives_up [OF ws_reach.created, THEN conjunct1]) code_simp+

definition new_out :: "ws_client \<Rightarrow> ws_client \<Rightarrow> ws_out list" where
  "new_out s s' = drop (length (ws_out s)) (ws_out s')"

lemma ws_emit_out: "\<exists>os. ws_out (ws_emit e s) = ws_out s @ os \<and> set os \<subseteq> {Emit e, Thrown}"
  by (cases "ws_listening s"; cases e; force simp: ws_emit_def)

text \<open>What a message can make the client emit that the rest of the client acts on.\<close>

fun call_event :: "ws_out \<Rightarrow> bool" where
  "call_event (Emit EmitJoin) = True"
| "call_event (Emit (EmitMessage _)) = True"
| "call_event (Emit (EmitError Join _)) = True"
| "call_event _ = False"

definition call_events :: "ws_client \<Rightarrow> ws_out list" where
  "call_events s = filter call_event (ws_out s)"

lemma ws_emit_call_events:
  "\<not> call_event (Emit e) \<Longrightarrow> call_events (ws_emit e s) = call_events s"
  by (cases "ws_listening s"; cases e) (auto simp: ws_emit_def call_events_def)

lemma on_hello_call_events: "call_events (on_hello m s) = call_events s"
  by (simp add: on_hello_def ws_emit_call_events Let_def) (simp add: call_events_def)

text \<open>
  C20. A join acknowledgement, a signalling message or a join error is handed on only after the
  server's greeting, and only when it names this client's connection or its original one;
  messages of other clients of the channel never are.
\<close>

theorem ws_only_own_messages:
  assumes "call_events (onmessage d s) \<noteq> call_events s"
  shows "ws_connID s \<noteq> '''' \<and>
    (\<exists>m. d = Message m \<and> m_has_data m \<and>
       (m_connID m = Some (ws_connID s) \<or> m_connID m = Some (ws_originalConnID s)))"
proof (cases d)
  case (Message m)
  have upd: "call_events (s\<lparr>ws_serverSeqNo := n\<rparr>) = call_events s"
    "call_events (s\<lparr>ws_waitingForPong := b, ws_expectedPongSeqNo := i\<rparr>) = call_events s" for n b i
    by (simp_all add: call_events_def)
  have foreign: "m_connID m \<noteq> Some (ws_connID s) \<Longrightarrow> m_connID m \<noteq> Some (ws_originalConnID s) \<Longrightarrow>
      call_events (on_event m (s\<lparr>ws_serverSeqNo := n\<rparr>)) = call_events s" for n
    by (simp add: on_event_def ws_emit_call_events upd Let_def)
  show ?thesis using assms foreign
    by (auto simp: Message on_hello_call_events upd Let_def split: if_splits)
qed (use assms in simp_all)

definition sample_join :: ws_message where
  "sample_join = \<lparr>m_seq_reply = None, m_seq = Some 1, m_event = eventPrefix @ ''_join'', m_has_data = True,
     m_connection_id = '''', m_connID = Some ''a'', m_text = ''''\<rparr>"

theorem ws_only_own_messages_witness:
  "m_connID sample_join = Some ''a'' \<and>
   ws_connID ((ws_construct '''')\<lparr>ws_connID := ''a'', ws_originalConnID := ''a''\<rparr>) \<noteq> ''''"
proof -
  let ?s = "(ws_construct '''')\<lparr>ws_connID := ''a'', ws_originalConnID := ''a''\<rparr>"
  have "call_events (onmessage (Message sample_join) ?s) \<noteq> call_events ?s" by code_simp
  from ws_only_own_messages [OF this] show ?thesis by (simp add: sample_join_def)
qed

text \<open>
  A dead connection is detected at the second ping: a ping that is still unanswered at the
  next tick makes the client drop the socket, report the close with code 4000 and either give
  up or schedule one reconnection; an answered one is followed by another ping on the same
  socket.
\<close>

theorem ws_ping_detects_dead:
  assumes "ws_inv s" and "ws_ready s = Some Open" and "ws_listening s" and "\<not> ws_waitingForPong s"
  shows "ws_ready (ping_tick t2 (ping_tick t1 s)) = Some Closing \<and>
    Emit (EmitClose 4000) \<in> set (ws_out (ping_tick t2 (ping_tick t1 s))) \<and>
    (ws_closed (ping_tick t2 (ping_tick t1 s)) \<or> length (ws_reconnects (ping_tick t2 (ping_tick t1 s))) = 1) \<and>
    (m_seq_reply m = Some (ws_seqNo s) \<longrightarrow>
       ws_ready (ping_tick t2 (onmessage (Message m) (ping_tick t1 s))) = Some Open \<and>
       Send (PingFrame (ws_seqNo s + 1)) \<in> set (ws_out (ping_tick t2 (onmessage (Message m) (ping_tick t1 s)))))"
proof -
  have l: "\<not> ws_closed s" "ws_reconnects s = []"
    using assms(1,2) by (auto simp: ws_inv_def alive_def)
  have p: "ping_tick t1 s = ping s" using assms(4) by (simp add: ping_tick_def)
  have dead: "ws_ready (ping_tick t2 (ping s)) = Some Closing \<and>
    Emit (EmitClose 4000) \<in> set (ws_out (ping_tick t2 (ping s))) \<and>
    (ws_closed (ping_tick t2 (ping s)) \<or> length (ws_reconnects (ping_tick t2 (ping s))) = 1)"
    using assms(2,3) l
    by (simp add: ping_tick_def ping_def closeHandler_def stopPingInterval_def reconnect_def ws_emit_def Let_def)
  have "m_seq_reply m = Some (ws_seqNo s) \<longrightarrow>
       ws_ready (ping_tick t2 (onmessage (Message m) (ping s))) = Some Open \<and>
       Send (PingFrame (ws_seqNo s + 1)) \<in> set (ws_out (ping_tick t2 (onmessage (Message m) (ping s))))"
    using assms(2) by (simp add: ping_tick_def ping_def)
  with dead show ?thesis unfolding p by blast
qed

theorem ws_ping_detects_dead_witness:
  "Emit (EmitClose 4000) \<in> set (ws_out (ping_tick 9 (ping_tick 4
     ((onopen (ws_construct ''''))\<lparr>ws_waitingForPong := False\<rparr>))))"
proof -
  let ?s = "(onopen (ws_construct ''''))\<lparr>ws_waitingForPong := False\<rparr>"
  have "ws_inv (onopen (ws_construct ''''))"
    by (rule ws_step_inv [OF ws_step.opened ws_construct_inv]) code_simp
  then have "ws_inv ?s" by (simp add: ws_inv_def alive_def)
  moreover have "ws_ready ?s = Some Open" "ws_listening ?s" "\<not> ws_waitingForPong ?s" by code_simp+
  ultimately show ?thesis using ws_ping_detects_dead by blast
qed

end
