(* ===== verification/Calls_Client.thy ===== *)
theory Calls_Client
  imports Media_Store Ws_Client
begin

text \<open>
  The call client of \<open>webapp/src/client.ts\<close>. An asynchronous method is cut at its awaits: its
  part up to the first await is a definition under the method's name, each later part one of its
  own, and the point where it waits is an \<open>await_point\<close> on the stack of a thread. A thread waits for
  one request to the browser or to the peer (\<open>request\<close>) and goes on with its answer
  (\<open>result\<close>). Between two awaits nothing else runs, and a continuation of a call that has
  already settled runs at once. Whatever the client does to the outside is logged in
  \<open>cl_out\<close>; \<open>RTCPeer\<close> and \<open>RTCMonitor\<close> of calls-common are the calls of that log and
  the answers to its requests.
\<close>

section \<open>State\<close>

record device =
  dev_id :: string
  dev_label :: string
  dev_kind :: string

record client_config =
  cf_enableVideo :: bool
  cf_enableAV1 :: bool
  cf_simulcast :: bool
  cf_dcSignaling :: bool

text \<open>
  What local storage holds for a device: the JSON of a device, or the bare identifier of older
  versions, which does not parse. A missing \<open>deviceId\<close> is the empty string.
\<close>

datatype stored_device = StoredJson string "string option" | StoredText string

datatype client_event =
    ClClose "js_error option" | ClError js_error | ClConnect | ClDeviceChange | ClDeviceFallback device
  | ClInitAudio | ClInitVideo | ClMute | ClUnmute | ClRaiseHand | ClLowerHand | ClVideoOn | ClVideoOff
  | ClLocalScreen nat | ClLocalVideo nat | ClRemoteVoice nat | ClRemoteScreen nat | ClRemoteVideo nat
  | ClMos int

datatype request =
    Enumerate | GetAudio "string option" | GetVideo "string option" | GetDisplay | GetCodec | GetPeerStats
  | AddTrack nat nat | AddStream nat | RemoveTrack nat | ReplaceTrack nat "nat option" | Signal string

datatype result = Ok | Err js_error | Devs "device list" | Got "track_kind list"

datatype await_point =
    UD_enumerated | UD_input | FB_set device
  | IA_media "string option" | IA_updated "string option" | IA_media2
  | IV_media bool | IV_updated bool nat
  | SA_media nat bool | SV_media nat bool "nat option"
  | UM_audio | UM_added | SS_added nat nat | SH_media
  | ST_video | ST_replaced | ST_added nat | ST_added_av1
  | SE_removed "nat option" | SE_removed_audio
  | IN_codec bool | IN_updated | IN_initialized | SaveStats "(nat \<times> nat \<times> track) list" | WM_signalled

datatype client_out =
    Fire client_event | Ask request | WsCreate | WsSend string | WsClose | PeerCreate | PeerDestroy
  | MonitorStart | MonitorStop | MonitorClear | SegmenterNew nat int | SegmenterStop nat
  | SegmenterIntensity nat int | StatsSaved "(nat \<times> nat \<times> track) list" | Rejected js_error

record calls_client =
  cl_config :: client_config
  cl_channelID :: string
  cl_media :: media
  cl_peer :: bool
  cl_ws :: bool
  cl_connID :: string
  cl_localScreenTrack :: "nat option"
  cl_localVideoStream :: "nat option"
  cl_remoteScreenTrack :: "nat option"
  cl_remoteVoiceTracks :: "nat list"
  cl_remoteVideoTracks :: "nat list"
  cl_audioInput :: "device option"
  cl_audioOutput :: "device option"
  cl_videoInput :: "device option"
  cl_voiceTrackAdded :: bool
  cl_videoTrackAdded :: bool
  cl_streams :: "nat list"
  cl_stream :: "nat option"
  cl_inputs :: "device list"
  cl_outputs :: "device list"
  cl_videoDevices :: "device list"
  cl_audioTrack :: "nat option"
  cl_closed :: bool
  cl_connected :: bool
  cl_rtcMonitor :: bool
  cl_av1Codec :: bool
  cl_segmenter :: "nat option"
  cl_storedInput :: "stored_device option"
  cl_storedOutput :: "stored_device option"
  cl_storedVideo :: "stored_device option"
  cl_blur :: "(bool \<times> int) option"
  cl_listening :: bool
  cl_deviceListener :: bool
  cl_initializers :: nat
  cl_threads :: "(request \<times> await_point list) list"
  cl_out :: "client_out list"

definition AudioInputPermissionsError :: js_error where
  "AudioInputPermissionsError = ErrorMsg ''missing audio input permissions''"
definition AudioInputMissingError :: js_error where
  "AudioInputMissingError = ErrorMsg ''no audio input available''"
definition VideoInputPermissionsError :: js_error where
  "VideoInputPermissionsError = ErrorMsg ''missing video input permissions''"
definition VideoInputMissingError :: js_error where
  "VideoInputMissingError = ErrorMsg ''no video input available''"
definition rtcPeerErr :: js_error where "rtcPeerErr = ErrorMsg ''rtc peer error''"
definition rtcPeerTimeoutErr :: js_error where
  "rtcPeerTimeoutErr = ErrorMsg ''timed out waiting for rtc connection''"
definition rtcPeerCloseErr :: js_error where "rtcPeerCloseErr = ErrorMsg ''rtc peer close''"
definition insecureContextErr :: js_error where "insecureContextErr = ErrorMsg ''insecure context''"

section \<open>The client as its constructor leaves it\<close>

definition cl_new :: "client_config \<Rightarrow> stored_device option \<Rightarrow> stored_device option \<Rightarrow> stored_device option \<Rightarrow>
    (bool \<times> int) option \<Rightarrow> calls_client" where
  "cl_new config input output video blur =
     \<lparr>cl_config = config, cl_channelID = '''', cl_media = \<lparr>md_tracks = [], md_streams = []\<rparr>,
      cl_peer = False, cl_ws = False, cl_connID = '''', cl_localScreenTrack = None, cl_localVideoStream = None,
      cl_remoteScreenTrack = None, cl_remoteVoiceTracks = [], cl_remoteVideoTracks = [],
      cl_audioInput = None, cl_audioOutput = None, cl_videoInput = None,
      cl_voiceTrackAdded = False, cl_videoTrackAdded = False, cl_streams = [], cl_stream = None,
      cl_inputs = [], cl_outputs = [], cl_videoDevices = [], cl_audioTrack = None,
      cl_closed = False, cl_connected = False, cl_rtcMonitor = False, cl_av1Codec = False,
      cl_segmenter = None, cl_storedInput = input, cl_storedOutput = output, cl_storedVideo = video,
      cl_blur = blur, cl_listening = True, cl_deviceListener = False, cl_initializers = 0,
      cl_threads = [], cl_out = []\<rparr>"

section \<open>Effects\<close>

definition cl_log :: "client_out \<Rightarrow> calls_client \<Rightarrow> calls_client" where
  "cl_log x s = s\<lparr>cl_out := cl_out s @ [x]\<rparr>"

definition cl_emit :: "client_event \<Rightarrow> calls_client \<Rightarrow> calls_client" where
  "cl_emit e s = (if cl_listening s then cl_log (Fire e) s else s)"

text \<open>\<open>this.ws?.send\<close>.\<close>

definition cl_send :: "string \<Rightarrow> calls_client \<Rightarrow> calls_client" where
  "cl_send action s = (if cl_ws s then cl_log (WsSend action) s else s)"

definition upd_media :: "(media \<Rightarrow> media) \<Rightarrow> calls_client \<Rightarrow> calls_client" where
  "upd_media f s = s\<lparr>cl_media := f (cl_media s)\<rparr>"

text \<open>A stream the browser or a constructor made, given to the client.\<close>

definition take_stream :: "track_kind list \<Rightarrow> calls_client \<Rightarrow> nat \<times> calls_client" where
  "take_stream ks s = (case new_stream ks (cl_media s) of (i, m) \<Rightarrow> (i, s\<lparr>cl_media := m\<rparr>))"

definition push_stream :: "nat \<Rightarrow> calls_client \<Rightarrow> calls_client" where
  "push_stream i s = s\<lparr>cl_streams := cl_streams s @ [i]\<rparr>"

text \<open>How a part of a method ends: it returns, throws, or waits with the await points it leaves.\<close>

datatype flow = Done result | Wait request "await_point list"

text \<open>
  \<open>await op()\<close> inside a method: when \<open>op\<close> has settled the rest runs with its result,
  otherwise its await point waits below those of \<open>op\<close>.
\<close>

definition await_call ::
  "calls_client \<times> flow \<Rightarrow> await_point \<Rightarrow> (result \<Rightarrow> calls_client \<Rightarrow> calls_client \<times> flow) \<Rightarrow> calls_client \<times> flow" where
  "await_call m f rest =
     (case m of (s, Done r) \<Rightarrow> rest r s | (s, Wait q fs) \<Rightarrow> (s, Wait q (fs @ [f])))"

text \<open>\<open>emit('error')\<close> throws the error when nobody listens.\<close>

definition emit_error :: "js_error \<Rightarrow> calls_client \<Rightarrow> (calls_client \<Rightarrow> calls_client \<times> flow) \<Rightarrow> calls_client \<times> flow" where
  "emit_error e s rest = (if cl_listening s then rest (cl_log (Fire (ClError e)) s) else (s, Done (Err e)))"

section \<open>Devices\<close>

definition find_device :: "string \<times> string option \<Rightarrow> device list \<Rightarrow> device list" where
  "find_device sel ds = filter (\<lambda>d. dev_id d = fst sel \<or> snd sel = Some (dev_label d)) ds"

definition stored_selection :: "stored_device option \<Rightarrow> string \<times> string option" where
  "stored_selection st =
     (case st of None \<Rightarrow> ('''', None) | Some (StoredJson i l) \<Rightarrow> (i, l) | Some (StoredText t) \<Rightarrow> (t, None))"

definition getSelectedAudioDevice :: "bool \<Rightarrow> calls_client \<Rightarrow> device option" where
  "getSelectedAudioDevice input s =
     (let sel = stored_selection (if input then cl_storedInput s else cl_storedOutput s)
      in if fst sel = '''' then None
         else
           let devices = find_device sel (if input then cl_inputs s else cl_outputs s)
           in if length devices > 1 then List.find (\<lambda>d. dev_id d = fst sel) devices
              else if length devices = 1 then Some (hd devices)
              else None)"

definition stored_of :: "device \<Rightarrow> stored_device" where
  "stored_of d = StoredJson (dev_id d) (Some (dev_label d))"

definition setAudioOutputDevice :: "device \<Rightarrow> bool \<Rightarrow> calls_client \<Rightarrow> calls_client" where
  "setAudioOutputDevice d store s0 =
     (if \<not> cl_peer s0 then s0
      else let s = (if store then s0\<lparr>cl_storedOutput := Some (stored_of d)\<rparr> else s0)
           in cl_emit ClDeviceChange (s\<lparr>cl_audioOutput := Some d\<rparr>))"

definition initAudio :: "string option \<Rightarrow> calls_client \<Rightarrow> calls_client \<times> flow" where
  "initAudio deviceId s =
     (let dev = (if str_or deviceId '''' = '''' then None else deviceId)
      in (s, Wait (GetAudio dev) [IA_media dev]))"

definition setAudioInputDevice :: "device \<Rightarrow> bool \<Rightarrow> calls_client \<Rightarrow> calls_client \<times> flow" where
  "setAudioInputDevice d store s0 =
     (if \<not> cl_peer s0 then (s0, Done Ok)
      else
        let s = (if store then s0\<lparr>cl_storedInput := Some (stored_of d)\<rparr> else s0);
            s = cl_emit ClDeviceChange (s\<lparr>cl_audioInput := Some d\<rparr>)
        in case (cl_audioTrack s, cl_stream s) of
             (Some t, Some _) \<Rightarrow> (s, Wait (GetAudio (Some (dev_id d))) [SA_media t (is_enabled (cl_media s) t)])
           | _ \<Rightarrow> initAudio (Some (dev_id d)) s)"

definition set_audio_device :: "bool \<Rightarrow> device \<Rightarrow> calls_client \<Rightarrow> calls_client \<times> flow" where
  "set_audio_device input d s =
     (if input then setAudioInputDevice d False s else (setAudioOutputDevice d False s, Done Ok))"

definition fallback_set :: "device \<Rightarrow> result \<Rightarrow> calls_client \<Rightarrow> calls_client \<times> flow" where
  "fallback_set d r s = (case r of Err e \<Rightarrow> (s, Done (Err e)) | _ \<Rightarrow> (cl_emit (ClDeviceFallback d) s, Done Ok))"

definition handleAudioDeviceFallback :: "bool \<Rightarrow> calls_client \<Rightarrow> calls_client \<times> flow" where
  "handleAudioDeviceFallback input s =
     (let current = (if input then cl_audioInput s else cl_audioOutput s);
          devices = (if input then cl_inputs s else cl_outputs s);
          missing = \<not> list_ex (\<lambda>d. map_option dev_id current = Some (dev_id d)) devices;
          switch = (\<lambda>d. await_call (set_audio_device input d s) (FB_set d) (fallback_set d))
      in if missing \<and> devices \<noteq> [] then switch (hd devices)
         else case getSelectedAudioDevice input s of
             None \<Rightarrow> (s, Done Ok)
           | Some d \<Rightarrow> if map_option dev_label current \<noteq> Some (dev_label d) then switch d else (s, Done Ok))"

definition updateDevices :: "calls_client \<Rightarrow> calls_client \<times> flow" where
  "updateDevices s = (s, Wait Enumerate [UD_enumerated])"

text \<open>The body is one \<open>try\<close>: an error of a fallback is logged, and nothing is announced.\<close>

definition update_devices_input :: "result \<Rightarrow> calls_client \<Rightarrow> calls_client \<times> flow" where
  "update_devices_input r s =
     (case r of
        Err e \<Rightarrow> (s, Done Ok)
      | _ \<Rightarrow>
          (let (s', r') = (if cl_audioOutput s = None then (s, Done Ok) else handleAudioDeviceFallback False s)
           in (cl_emit ClDeviceChange s', Done Ok)))"

definition update_devices_enumerated :: "result \<Rightarrow> calls_client \<Rightarrow> calls_client \<times> flow" where
  "update_devices_enumerated r s0 =
     (case r of
        Devs ds \<Rightarrow>
          (let s = s0\<lparr>cl_inputs := filter (\<lambda>d. dev_kind d = ''audioinput'') ds,
                      cl_outputs := filter (\<lambda>d. dev_kind d = ''audiooutput'') ds\<rparr>;
               s = (if cf_enableVideo (cl_config s)
                    then s\<lparr>cl_videoDevices := filter (\<lambda>d. dev_kind d = ''videoinput'') ds\<rparr> else s)
           in if cl_audioInput s = None then update_devices_input Ok s
              else await_call (handleAudioDeviceFallback True s) UD_input update_devices_input)
      | _ \<Rightarrow> (s0, Done Ok))"

section \<open>Audio\<close>

text \<open>The error of a failed initialization: permissions when there are devices, else no device.\<close>

definition audio_error :: "calls_client \<Rightarrow> js_error" where
  "audio_error s = (if cl_inputs s \<noteq> [] then AudioInputPermissionsError else AudioInputMissingError)"

definition init_audio_track :: "calls_client \<Rightarrow> calls_client \<times> flow" where
  "init_audio_track s0 =
     (case cl_stream s0 of
        None \<Rightarrow> (s0, Done (Err (audio_error s0)))
      | Some st \<Rightarrow>
          let s = push_stream st (s0\<lparr>cl_audioTrack := first_track AudioKind st (cl_media s0)\<rparr>)
          in case cl_audioTrack s of
               None \<Rightarrow> (s, Done (Err (audio_error s)))
             | Some t \<Rightarrow> (cl_emit ClInitAudio (upd_media (enable_track t False) s), Done Ok))"

definition init_audio_media :: "string option \<Rightarrow> result \<Rightarrow> calls_client \<Rightarrow> calls_client \<times> flow" where
  "init_audio_media deviceId r s0 =
     (case r of
        Got ks \<Rightarrow>
          (let (st, s) = take_stream ks s0;
               s = s\<lparr>cl_stream := Some st\<rparr>;
               s = (if deviceId = None then upd_media (fold stop_track (tracks_of AudioKind st (cl_media s))) s else s)
           in (s, Wait Enumerate [UD_enumerated, IA_updated deviceId]))
      | _ \<Rightarrow> (s0, Done (Err (audio_error s0))))"

definition init_audio_updated :: "string option \<Rightarrow> result \<Rightarrow> calls_client \<Rightarrow> calls_client \<times> flow" where
  "init_audio_updated deviceId r s0 =
     (if deviceId \<noteq> None then init_audio_track s0
      else
        let input = getSelectedAudioDevice True s0;
            s = (if input = None then s0 else s0\<lparr>cl_audioInput := input\<rparr>);
            output = getSelectedAudioDevice False s;
            s = (if output = None then s else s\<lparr>cl_audioOutput := output\<rparr>)
        in (s, Wait (GetAudio (map_option dev_id input)) [IA_media2]))"

definition init_audio_media2 :: "result \<Rightarrow> calls_client \<Rightarrow> calls_client \<times> flow" where
  "init_audio_media2 r s0 =
     (case r of
        Got ks \<Rightarrow> (let (st, s) = take_stream ks s0 in init_audio_track (s\<lparr>cl_stream := Some st\<rparr>))
      | _ \<Rightarrow> (s0, Done (Err (audio_error s0))))"

definition set_audio_input_media :: "nat \<Rightarrow> bool \<Rightarrow> result \<Rightarrow> calls_client \<Rightarrow> calls_client \<times> flow" where
  "set_audio_input_media oldTrack isEnabled r s0 =
     (case r of
        Got ks \<Rightarrow>
          (let (newStream, s) = take_stream ks s0;
               s = push_stream newStream s
           in case (first_track AudioKind newStream (cl_media s), cl_stream s) of
                (Some newTrack, Some st) \<Rightarrow>
                  (let s = upd_media (stop_track oldTrack) s;
                       s = upd_media (remove_from_stream st oldTrack) s;
                       s = upd_media (add_to_stream st newTrack) s;
                       s = upd_media (enable_track newTrack isEnabled) s
                   in if isEnabled then
                        (if \<not> cl_peer s then (s, Done (Err TypeError))
                         else ((cl_log (Ask (ReplaceTrack oldTrack (Some newTrack))) s)\<lparr>cl_audioTrack := Some newTrack\<rparr>, Done Ok))
                      else (s\<lparr>cl_voiceTrackAdded := False, cl_audioTrack := Some newTrack\<rparr>, Done Ok))
              | (None, _) \<Rightarrow> (upd_media (stop_track oldTrack) s, Done (Err TypeError))
              | (_, None) \<Rightarrow> (upd_media (stop_track oldTrack) s, Done (Err TypeError)))
      | Err e \<Rightarrow> (s0, Done (Err e))
      | _ \<Rightarrow> (s0, Done (Err TypeError)))"

definition mute :: "calls_client \<Rightarrow> calls_client" where
  "mute s0 =
     (case (cl_audioTrack s0, cl_stream s0) of
        (Some t, Some _) \<Rightarrow>
          (if \<not> cl_peer s0 then s0
           else
             let s = cl_log (Ask (ReplaceTrack t None)) s0;
                 s = upd_media (enable_track t False) s;
                 s = cl_emit ClMute s
             in cl_send ''mute'' s)
      | _ \<Rightarrow> s0)"

definition unmute_done :: "calls_client \<Rightarrow> calls_client" where
  "unmute_done s = cl_send ''unmute'' (cl_emit ClUnmute s)"

definition enable_audio :: "calls_client \<Rightarrow> calls_client" where
  "enable_audio s = (case cl_audioTrack s of None \<Rightarrow> s | Some t \<Rightarrow> upd_media (enable_track t True) s)"

definition clear_monitor :: "calls_client \<Rightarrow> calls_client" where
  "clear_monitor s = (if cl_rtcMonitor s then cl_log MonitorClear s else s)"

definition unmute_track :: "calls_client \<Rightarrow> calls_client \<times> flow" where
  "unmute_track s0 =
     (let s = clear_monitor s0
      in case cl_audioTrack s of
           None \<Rightarrow> (unmute_done s, Done Ok)
         | Some t \<Rightarrow>
             if cl_voiceTrackAdded s then
               (if \<not> cl_peer s then (s, Done (Err TypeError))
                else (unmute_done (enable_audio (cl_log (Ask (ReplaceTrack t (Some t))) s)), Done Ok))
             else
               (case cl_stream s of
                  Some st \<Rightarrow> if \<not> cl_peer s then (s, Done (Err TypeError)) else (s, Wait (AddTrack t st) [UM_added])
                | None \<Rightarrow> (unmute_done (enable_audio s), Done Ok)))"

definition unmute_audio :: "result \<Rightarrow> calls_client \<Rightarrow> calls_client \<times> flow" where
  "unmute_audio r s =
     (case r of Err e \<Rightarrow> emit_error e s (\<lambda>s. (s, Done Ok)) | _ \<Rightarrow> unmute_track s)"

definition unmute_added :: "result \<Rightarrow> calls_client \<Rightarrow> calls_client \<times> flow" where
  "unmute_added r s =
     (case r of Err e \<Rightarrow> (s, Done (Err e))
      | _ \<Rightarrow> (unmute_done (enable_audio (s\<lparr>cl_voiceTrackAdded := True\<rparr>)), Done Ok))"

definition unmute :: "calls_client \<Rightarrow> calls_client \<times> flow" where
  "unmute s =
     (if \<not> cl_peer s then (s, Done Ok)
      else if cl_audioTrack s = None then await_call (initAudio None s) UM_audio unmute_audio
      else unmute_track s)"

section \<open>Video\<close>

definition video_error :: "calls_client \<Rightarrow> js_error" where
  "video_error s = (if cl_videoDevices s \<noteq> [] then VideoInputPermissionsError else VideoInputMissingError)"

text \<open>
  The device \<open>initVideo\<close> asks for: the given one, the current one, or the stored one if it is
  still there, which then becomes the current one. A stored device that is gone is forgotten.
\<close>

definition video_device :: "string option \<Rightarrow> calls_client \<Rightarrow> string option \<times> calls_client" where
  "video_device deviceId s =
     (if str_or deviceId '''' \<noteq> '''' then (deviceId, s)
      else case cl_videoInput s of
          Some d \<Rightarrow> (Some (dev_id d), s)
        | None \<Rightarrow>
            (let sel = (case cl_storedVideo s of Some (StoredJson i l) \<Rightarrow> (i, l) | _ \<Rightarrow> ('''', None))
             in if fst sel = '''' then (None, s)
                else
                  let devices = find_device sel (cl_videoDevices s);
                      devices = (if length devices > 1 then filter (\<lambda>d. dev_id d = fst sel) devices else devices)
                  in if length devices = 1 then (Some (dev_id (hd devices)), s\<lparr>cl_videoInput := Some (hd devices)\<rparr>)
                     else (None, s\<lparr>cl_storedVideo := None\<rparr>)))"

definition initVideo :: "bool \<Rightarrow> string option \<Rightarrow> calls_client \<Rightarrow> calls_client \<times> flow" where
  "initVideo startVideo deviceId s0 =
     (let (dev, s) = video_device deviceId s0 in (s, Wait (GetVideo dev) [IV_media startVideo]))"

definition init_video_media :: "bool \<Rightarrow> result \<Rightarrow> calls_client \<Rightarrow> calls_client \<times> flow" where
  "init_video_media startVideo r s0 =
     (case r of
        Got ks \<Rightarrow>
          (let (st, s) = take_stream ks s0 in (s, Wait Enumerate [UD_enumerated, IV_updated startVideo st]))
      | _ \<Rightarrow> (s0, Done (Err (video_error s0))))"

definition init_video_updated :: "bool \<Rightarrow> nat \<Rightarrow> result \<Rightarrow> calls_client \<Rightarrow> calls_client \<times> flow" where
  "init_video_updated startVideo st r s0 =
     (let s = (if startVideo then push_stream st (s0\<lparr>cl_localVideoStream := Some st\<rparr>) else s0)
      in case first_track VideoKind st (cl_media s) of
           None \<Rightarrow> (s, Done (Err (video_error s)))
         | Some t \<Rightarrow>
             (cl_emit ClInitVideo
                (upd_media (if startVideo then enable_track t False else stop_track t) s), Done Ok))"

text \<open>\<open>getBgBlurData\<close> of \<open>local_storage.ts\<close>.\<close>

definition getBgBlurData :: "calls_client \<Rightarrow> bool \<times> int" where
  "getBgBlurData s = (case cl_blur s of None \<Rightarrow> (False, 0) | Some d \<Rightarrow> d)"

definition blurring :: "calls_client \<Rightarrow> bool" where
  "blurring s \<longleftrightarrow> fst (getBgBlurData s) \<and> snd (getBgBlurData s) > 0"

text \<open>
  \<open>initBgBackgroundTrack\<close>: the camera's track is taken out of the stream and the canvas's
  put in, unless a segmenter exists. The result is the track to send.
\<close>

definition initBgBackgroundTrack :: "nat \<Rightarrow> nat \<Rightarrow> calls_client \<Rightarrow> nat \<times> calls_client" where
  "initBgBackgroundTrack st localTrack s0 =
     (if cl_segmenter s0 \<noteq> None then (localTrack, s0)
      else
        let (outStream, s) = take_stream [VideoKind] s0;
            s = push_stream outStream s
        in case first_track VideoKind outStream (cl_media s) of
             None \<Rightarrow> (localTrack, s)
           | Some outTrack \<Rightarrow>
               (outTrack,
                cl_log (SegmenterNew outTrack (snd (getBgBlurData s)))
                  (upd_media (\<lambda>m. on_ended outTrack (BlurEnded localTrack)
                      (add_to_stream st outTrack (remove_from_stream st localTrack m))) s)
                  \<lparr>cl_segmenter := Some outTrack\<rparr>))"

text \<open>
  \<open>dispatchEvent(new Event('ended'))\<close> on a video track: the handler a blurred track has ends
  the camera's track below it, which has none.
\<close>

definition blur_ended :: "nat \<Rightarrow> media \<Rightarrow> media" where
  "blur_ended t m =
     (case map_option tr_onended (get_track m t) of Some (BlurEnded l) \<Rightarrow> stop_track l m | _ \<Rightarrow> m)"

definition setVideoInputDevice :: "device \<Rightarrow> calls_client \<Rightarrow> calls_client \<times> flow" where
  "setVideoInputDevice d s0 =
     (if \<not> cl_peer s0 then (s0, Done Ok)
      else
        let s = cl_emit ClDeviceChange (s0\<lparr>cl_storedVideo := Some (stored_of d), cl_videoInput := Some d\<rparr>)
        in case cl_localVideoStream s of
             None \<Rightarrow> initVideo False (Some (dev_id d)) s
           | Some st \<Rightarrow>
               case first_track VideoKind st (cl_media s) of
                 None \<Rightarrow> (s, Done (Err TypeError))
               | Some t \<Rightarrow>
                   (s, Wait (GetVideo (Some (dev_id d))) [SV_media t (is_enabled (cl_media s) t) (cl_segmenter s)]))"

definition stop_segmenter :: "nat option \<Rightarrow> calls_client \<Rightarrow> calls_client" where
  "stop_segmenter old s0 =
     (case old of
        None \<Rightarrow> s0
      | Some g \<Rightarrow>
          let s = cl_log (SegmenterStop g) s0
          in if \<not> fst (getBgBlurData s) then s\<lparr>cl_segmenter := None\<rparr> else s)"

definition set_video_input_media :: "nat \<Rightarrow> bool \<Rightarrow> nat option \<Rightarrow> result \<Rightarrow> calls_client \<Rightarrow> calls_client \<times> flow" where
  "set_video_input_media videoTrack isEnabled oldSegmenter r s0 =
     (case r of
        Got ks \<Rightarrow>
          (let (newStream, s) = take_stream ks s0;
               s = push_stream newStream s
           in case (first_track VideoKind newStream (cl_media s), cl_localVideoStream s) of
                (Some camera, Some st) \<Rightarrow>
                  (let (newTrack, s) = (if blurring s then initBgBackgroundTrack newStream camera s else (camera, s));
                       s = upd_media (\<lambda>m. blur_ended videoTrack (stop_track videoTrack m)) s;
                       s = stop_segmenter oldSegmenter s;
                       s = upd_media (\<lambda>m. add_to_stream st newTrack (remove_from_stream st videoTrack m)) s;
                       s = s\<lparr>cl_localVideoStream := Some newStream\<rparr>;
                       s = upd_media (enable_track newTrack isEnabled) s
                   in if isEnabled then
                        (if \<not> cl_peer s then (s, Done (Err TypeError))
                         else (cl_emit (ClLocalVideo newStream)
                                 (cl_log (Ask (ReplaceTrack videoTrack (Some newTrack))) s), Done Ok))
                      else (s\<lparr>cl_videoTrackAdded := False\<rparr>, Done Ok))
              | _ \<Rightarrow> (s, Done (Err TypeError)))
      | Err e \<Rightarrow> (s0, Done (Err e))
      | _ \<Rightarrow> (s0, Done (Err TypeError)))"

definition start_video_finish :: "calls_client \<Rightarrow> calls_client \<times> flow" where
  "start_video_finish s0 =
     (case cl_localVideoStream s0 of
        None \<Rightarrow> (s0, Done (Err TypeError))
      | Some st \<Rightarrow>
          let s = cl_emit (ClLocalVideo st) s0
          in if \<not> cl_ws s then (s, Done (Err TypeError))
             else (cl_emit ClVideoOn (cl_send ''video_on'' s), Done Ok))"

definition start_video_replaced :: "result \<Rightarrow> calls_client \<Rightarrow> calls_client \<times> flow" where
  "start_video_replaced r s = (case r of Err e \<Rightarrow> (s, Done (Err e)) | _ \<Rightarrow> start_video_finish s)"

definition start_video_added_av1 :: "result \<Rightarrow> calls_client \<Rightarrow> calls_client \<times> flow" where
  "start_video_added_av1 r s =
     (case r of Err e \<Rightarrow> (s, Done (Err e)) | _ \<Rightarrow> start_video_finish (s\<lparr>cl_videoTrackAdded := True\<rparr>))"

definition start_video_added :: "nat \<Rightarrow> result \<Rightarrow> calls_client \<Rightarrow> calls_client \<times> flow" where
  "start_video_added t r s =
     (case r of
        Err e \<Rightarrow> (s, Done (Err e))
      | _ \<Rightarrow>
          if cf_enableAV1 (cl_config s) \<and> cl_av1Codec s then
            (case cl_localVideoStream s of
               Some st \<Rightarrow> if \<not> cl_peer s then (s, Done (Err TypeError)) else (s, Wait (AddTrack t st) [ST_added_av1])
             | None \<Rightarrow> (s, Done (Err TypeError)))
          else start_video_added_av1 Ok s)"

definition start_video_stream :: "calls_client \<Rightarrow> calls_client \<times> flow" where
  "start_video_stream s0 =
     (let s = clear_monitor s0
      in case cl_localVideoStream s of
           None \<Rightarrow> (s, Done Ok)
         | Some st \<Rightarrow>
             case first_track VideoKind st (cl_media s) of
               None \<Rightarrow> (s, Done (Err TypeError))
             | Some t \<Rightarrow>
                 let s = upd_media (enable_track t True) s;
                     (t', s) = (if blurring s then initBgBackgroundTrack st t s else (t, s))
                 in if \<not> cl_peer s then (s, Done (Err TypeError))
                    else if cl_videoTrackAdded s then (s, Wait (ReplaceTrack t (Some t')) [ST_replaced])
                    else (s, Wait (AddTrack t' st) [ST_added t']))"

definition start_video_init :: "result \<Rightarrow> calls_client \<Rightarrow> calls_client \<times> flow" where
  "start_video_init r s =
     (case r of Err e \<Rightarrow> emit_error e s (\<lambda>s. (s, Done Ok)) | _ \<Rightarrow> start_video_stream s)"

definition startVideo :: "calls_client \<Rightarrow> calls_client \<times> flow" where
  "startVideo s =
     (if \<not> cl_ws s \<or> \<not> cl_peer s \<or> \<not> cf_enableVideo (cl_config s) then (s, Done Ok)
      else if cl_localVideoStream s = None then await_call (initVideo True None s) ST_video start_video_init
      else start_video_stream s)"

definition stopVideo :: "calls_client \<Rightarrow> calls_client" where
  "stopVideo s0 =
     (case cl_localVideoStream s0 of
        None \<Rightarrow> s0
      | Some st \<Rightarrow>
          if \<not> cl_ws s0 \<or> \<not> cl_peer s0 then s0
          else case first_track VideoKind st (cl_media s0) of
              None \<Rightarrow> s0
            | Some t \<Rightarrow>
                let s = cl_log (Ask (ReplaceTrack t None)) s0;
                    s = upd_media (enable_track t False) s
                in cl_send ''video_off'' (cl_emit ClVideoOff s))"

text \<open>
  The camera to restart: the current one, or the one the track's settings name
  (\<open>settings\<close>, what \<open>getSettings\<close> of the browser gives).
\<close>

definition restart_camera :: "(nat \<Rightarrow> string option) \<Rightarrow> calls_client \<Rightarrow> calls_client \<times> flow" where
  "restart_camera settings s =
     (case cl_localVideoStream s of
        None \<Rightarrow> (s, Done Ok)
      | Some st \<Rightarrow>
          case (case cl_videoInput s of
                  Some d \<Rightarrow> Some d
                | None \<Rightarrow>
                    (case Option.bind (first_track VideoKind st (cl_media s)) settings of
                       Some i \<Rightarrow> Some \<lparr>dev_id = i, dev_label = '''', dev_kind = ''''\<rparr>
                     | None \<Rightarrow> None)) of
            None \<Rightarrow> (s, Done Ok)
          | Some d \<Rightarrow> setVideoInputDevice d s)"

definition setBlurSettings :: "bool \<Rightarrow> int \<Rightarrow> (nat \<Rightarrow> string option) \<Rightarrow> calls_client \<Rightarrow> calls_client \<times> flow" where
  "setBlurSettings blurEnabled blurIntensity settings s =
     (case cl_segmenter s of
        Some g \<Rightarrow>
          if blurEnabled then (cl_log (SegmenterIntensity g blurIntensity) s, Done Ok)
          else restart_camera settings s
      | None \<Rightarrow> if blurEnabled then restart_camera settings s else (s, Done Ok))"

section \<open>Threads\<close>

definition park :: "request \<Rightarrow> await_point list \<Rightarrow> calls_client \<Rightarrow> calls_client" where
  "park q fs s = (cl_log (Ask q) s)\<lparr>cl_threads := cl_threads s @ [(q, fs)]\<rparr>"

text \<open>The end of a method its caller does not await: an error is an unhandled rejection.\<close>

definition finish :: "result \<Rightarrow> calls_client \<Rightarrow> calls_client" where
  "finish r s = (case r of Err e \<Rightarrow> cl_log (Rejected e) s | _ \<Rightarrow> s)"

fun start :: "calls_client \<times> flow \<Rightarrow> calls_client" where
  "start (s, Done r) = finish r s"
| "start (s, Wait q fs) = park q fs s"

section \<open>Screen sharing\<close>

definition screen_off_sent :: "calls_client \<Rightarrow> calls_client \<times> flow" where
  "screen_off_sent s = (if \<not> cl_ws s then (s, Done (Err TypeError)) else (cl_send ''screen_off'' s, Done Ok))"

definition screen_removed_audio :: "result \<Rightarrow> calls_client \<Rightarrow> calls_client \<times> flow" where
  "screen_removed_audio r s = screen_off_sent s"

definition screen_removed :: "nat option \<Rightarrow> result \<Rightarrow> calls_client \<Rightarrow> calls_client \<times> flow" where
  "screen_removed audio r s =
     (case (r, audio) of
        (Err e, _) \<Rightarrow> screen_off_sent s
      | (_, None) \<Rightarrow> screen_off_sent s
      | (_, Some a) \<Rightarrow> if \<not> cl_peer s then screen_off_sent s else (s, Wait (RemoveTrack a) [SE_removed_audio]))"

text \<open>\<open>screenTrack.onended\<close>.\<close>

definition screen_ended :: "nat \<Rightarrow> nat option \<Rightarrow> calls_client \<Rightarrow> calls_client \<times> flow" where
  "screen_ended t audio s0 =
     (let s = (case audio of None \<Rightarrow> s0 | Some a \<Rightarrow> upd_media (stop_track a) s0);
          s = s\<lparr>cl_localScreenTrack := None\<rparr>
      in if \<not> cl_ws s \<or> \<not> cl_peer s then (s, Done Ok)
         else (s, Wait (RemoveTrack t) [SE_removed audio]))"

text \<open>
  The \<open>ended\<close> event of a track, fired by the browser or by \<open>dispatchEvent\<close>: the handler of a
  screen is an asynchronous function nobody awaits.
\<close>

definition fire_ended :: "nat \<Rightarrow> calls_client \<Rightarrow> calls_client" where
  "fire_ended t s =
     (case map_option tr_onended (get_track (cl_media s) t) of
        Some (ScreenEnded audio) \<Rightarrow> start (screen_ended t audio s)
      | _ \<Rightarrow> upd_media (blur_ended t) s)"

definition end_track :: "nat \<Rightarrow> calls_client \<Rightarrow> calls_client" where
  "end_track t s = fire_ended t (upd_media (stop_track t) s)"

definition screen_shared :: "nat \<Rightarrow> nat \<Rightarrow> result \<Rightarrow> calls_client \<Rightarrow> calls_client \<times> flow" where
  "screen_shared t st r s =
     (case r of
        Err e \<Rightarrow> (s, Done (Err e))
      | _ \<Rightarrow>
          if cf_enableAV1 (cl_config s) \<and> cl_av1Codec s then
            (if \<not> cl_peer s then (s, Done (Err TypeError)) else (s, Wait (AddTrack t st) []))
          else (s, Done Ok))"

definition setScreenStream :: "nat \<Rightarrow> calls_client \<Rightarrow> calls_client \<times> flow" where
  "setScreenStream screenStream s0 =
     (if \<not> cl_ws s0 \<or> \<not> cl_peer s0 \<or> cl_localScreenTrack s0 \<noteq> None then (s0, Done Ok)
      else case first_track VideoKind screenStream (cl_media s0) of
          None \<Rightarrow> (s0, Done (Err TypeError))
        | Some t \<Rightarrow>
            let audio = first_track AudioKind screenStream (cl_media s0);
                (st, m) = stream_of (t # (case audio of None \<Rightarrow> [] | Some a \<Rightarrow> [a])) (cl_media s0);
                s = push_stream st (s0\<lparr>cl_media := m, cl_localScreenTrack := Some t\<rparr>);
                s = upd_media (on_ended t (ScreenEnded audio)) s;
                s = cl_send ''screen_on'' (cl_emit (ClLocalScreen st) s)
            in (s, Wait (AddStream st) [SS_added t st]))"

definition share_screen_media :: "result \<Rightarrow> calls_client \<Rightarrow> calls_client \<times> flow" where
  "share_screen_media r s0 =
     (case r of Got ks \<Rightarrow> (let (st, s) = take_stream ks s0 in setScreenStream st s) | _ \<Rightarrow> (s0, Done Ok))"

definition shareScreen :: "calls_client \<Rightarrow> calls_client \<times> flow" where
  "shareScreen s =
     (if \<not> cl_ws s \<or> \<not> cl_peer s then (s, Done Ok) else (s, Wait GetDisplay [SH_media]))"

definition unshareScreen :: "calls_client \<Rightarrow> calls_client" where
  "unshareScreen s =
     (case cl_localScreenTrack s of
        None \<Rightarrow> s
      | Some t \<Rightarrow> if \<not> cl_ws s then s else (end_track t s)\<lparr>cl_localScreenTrack := None\<rparr>)"

section \<open>Hands, reactions and what the views read\<close>

definition raiseHand :: "calls_client \<Rightarrow> calls_client" where
  "raiseHand s = cl_send ''raise_hand'' (cl_emit ClRaiseHand s)"

definition unraiseHand :: "calls_client \<Rightarrow> calls_client" where
  "unraiseHand s = cl_send ''unraise_hand'' (cl_emit ClLowerHand s)"

definition sendUserReaction :: "calls_client \<Rightarrow> calls_client" where
  "sendUserReaction s = cl_send ''react'' s"

text \<open>The getters, with the tracks of the stream they make.\<close>

definition getLocalScreenStream :: "calls_client \<Rightarrow> nat list option" where
  "getLocalScreenStream s = map_option (\<lambda>t. [t]) (cl_localScreenTrack s)"

definition getRemoteScreenStream :: "calls_client \<Rightarrow> nat list option" where
  "getRemoteScreenStream s =
     (case cl_remoteScreenTrack s of
        None \<Rightarrow> None | Some t \<Rightarrow> if \<not> is_live (cl_media s) t then None else Some [t])"

definition getRemoteVideoStream :: "calls_client \<Rightarrow> nat list option" where
  "getRemoteVideoStream s =
     (if cl_remoteVideoTracks s = [] \<or> \<not> is_live (cl_media s) (last (cl_remoteVideoTracks s)) then None
      else Some [last (cl_remoteVideoTracks s)])"

definition getRemoteVoiceTracks :: "calls_client \<Rightarrow> nat list" where
  "getRemoteVoiceTracks s = filter (is_live (cl_media s)) (cl_remoteVoiceTracks s)"

definition getSessionID :: "calls_client \<Rightarrow> string option" where
  "getSessionID s = (if cl_ws s then Some (cl_connID s) else None)"

section \<open>The end of the client\<close>

definition tracks_info :: "calls_client \<Rightarrow> (nat \<times> nat \<times> track) list" where
  "tracks_info s =
     concat (map (\<lambda>i. List.map_filter (\<lambda>t. map_option (\<lambda>x. (i, t, x)) (get_track (cl_media s) t))
       (stream_tracks (cl_media s) i)) (cl_streams s))"

definition getStats :: "calls_client \<Rightarrow> calls_client \<times> flow" where
  "getStats s = (s, Wait GetPeerStats [SaveStats (tracks_info s)])"

definition save_stats :: "(nat \<times> nat \<times> track) list \<Rightarrow> result \<Rightarrow> calls_client \<Rightarrow> calls_client \<times> flow" where
  "save_stats info r s = (case r of Err e \<Rightarrow> (s, Done Ok) | _ \<Rightarrow> (cl_log (StatsSaved info) s, Done Ok))"

definition cleanup :: "calls_client \<Rightarrow> calls_client" where
  "cleanup s = fold (\<lambda>i s. fold end_track (stream_tracks (cl_media s) i) s) (cl_streams s) s"

definition destroy :: "calls_client \<Rightarrow> calls_client" where
  "destroy s =
     (case cl_segmenter s of None \<Rightarrow> s | Some g \<Rightarrow> cl_log (SegmenterStop g) s)
       \<lparr>cl_listening := False, cl_deviceListener := False, cl_segmenter := None\<rparr>"

text \<open>The \<open>close\<close> listener \<open>connectCall\<close> puts on the client (\<open>index.tsx\<close>) destroys it.\<close>

definition emit_close :: "js_error option \<Rightarrow> calls_client \<Rightarrow> calls_client" where
  "emit_close err s = (if cl_listening s then destroy (cl_log (Fire (ClClose err)) s) else s)"

definition disconnect :: "js_error option \<Rightarrow> calls_client \<Rightarrow> calls_client" where
  "disconnect err s0 =
     (if cl_closed s0 then s0
      else
        let s = (if cl_rtcMonitor s0 then cl_log MonitorStop s0 else s0);
            s = s\<lparr>cl_closed := True\<rparr>;
            s = (if cl_peer s then (cl_log PeerDestroy (start (getStats s)))\<lparr>cl_peer := False\<rparr> else s);
            s = cleanup s;
            s = (if cl_ws s then (cl_log WsClose (cl_send ''leave'' s))\<lparr>cl_ws := False\<rparr> else s)
        in emit_close err s)"

section \<open>Joining\<close>

definition create_socket :: "calls_client \<Rightarrow> calls_client" where
  "create_socket s = (cl_log WsCreate s)\<lparr>cl_ws := True, cl_connID := ''''\<rparr>"

definition init_after_audio :: "calls_client \<Rightarrow> calls_client \<times> flow" where
  "init_after_audio s = (if cl_closed s then (cleanup s, Done Ok) else (create_socket s, Done Ok))"

text \<open>
  \<open>Promise.all\<close> settles once: with the last initializer that succeeds, or with the first one
  that fails. \<open>cl_initializers\<close> counts those still to succeed and is 0 once it has settled.
\<close>

definition init_initialized :: "result \<Rightarrow> calls_client \<Rightarrow> calls_client \<times> flow" where
  "init_initialized r s0 =
     (if cl_initializers s0 = 0 then (s0, Done Ok)
      else case r of
          Err e \<Rightarrow> emit_error e (s0\<lparr>cl_initializers := 0\<rparr>) (\<lambda>s. (create_socket s, Done Ok))
        | _ \<Rightarrow>
            let s = s0\<lparr>cl_initializers := cl_initializers s0 - 1\<rparr>
            in if cl_initializers s = 0 then init_after_audio s else (s, Done Ok))"

definition init_updated :: "result \<Rightarrow> calls_client \<Rightarrow> calls_client \<times> flow" where
  "init_updated r s0 =
     (let video = cf_enableVideo (cl_config s0);
          s = s0\<lparr>cl_deviceListener := True, cl_initializers := (if video then 2 else 1)\<rparr>;
          s = start (await_call (initAudio None s) IN_initialized init_initialized);
          s = (if video then start (await_call (initVideo False None s) IN_initialized init_initialized) else s)
      in (s, Done Ok))"

definition init_devices :: "bool \<Rightarrow> calls_client \<Rightarrow> calls_client \<times> flow" where
  "init_devices isSecureContext s =
     (if \<not> isSecureContext then (s, Done (Err insecureContextErr))
      else await_call (updateDevices s) IN_updated init_updated)"

definition init_codec :: "bool \<Rightarrow> result \<Rightarrow> calls_client \<Rightarrow> calls_client \<times> flow" where
  "init_codec isSecureContext r s =
     (case r of
        Err e \<Rightarrow> (s, Done (Err e))
      | Got ks \<Rightarrow> init_devices isSecureContext (s\<lparr>cl_av1Codec := ks \<noteq> []\<rparr>)
      | _ \<Rightarrow> init_devices isSecureContext s)"

definition cl_init :: "bool \<Rightarrow> string \<Rightarrow> calls_client \<Rightarrow> calls_client \<times> flow" where
  "cl_init isSecureContext channelID s0 =
     (let s = s0\<lparr>cl_channelID := channelID\<rparr>
      in if cf_enableAV1 (cl_config s) \<and> \<not> cf_simulcast (cl_config s)
         then (s, Wait GetCodec [IN_codec isSecureContext])
         else init_devices isSecureContext s)"

section \<open>Events of the socket and of the peer\<close>

definition on_ws_error :: "ws_error_type \<Rightarrow> js_error \<Rightarrow> calls_client \<Rightarrow> calls_client" where
  "on_ws_error ty err s =
     (case ty of
        Native \<Rightarrow> s
      | ReconnectTimeout \<Rightarrow> disconnect (Some err) (s\<lparr>cl_ws := False\<rparr>)
      | Join \<Rightarrow> disconnect (Some err) s)"

text \<open>The socket tells its identifier with its events; \<open>getSessionID\<close> reads it there.\<close>

definition on_ws_open :: "string \<Rightarrow> bool \<Rightarrow> calls_client \<Rightarrow> calls_client" where
  "on_ws_open originalConnID isReconnect s =
     cl_log (WsSend (if isReconnect then ''reconnect'' else ''join'')) (s\<lparr>cl_connID := originalConnID\<rparr>)"

definition on_ws_join :: "calls_client \<Rightarrow> calls_client" where
  "on_ws_join s = (cl_log PeerCreate s)\<lparr>cl_peer := True, cl_rtcMonitor := True\<rparr>"

definition on_ws_message :: "string option \<Rightarrow> calls_client \<Rightarrow> calls_client" where
  "on_ws_message ty s =
     (if ty \<in> {Some ''answer'', Some ''offer'', Some ''candidate''} \<and> cl_peer s
      then start (s, Wait (Signal (str_or ty '''')) [WM_signalled]) else s)"

text \<open>Offers, answers and candidates go out on the socket, which drops them once it is closed.\<close>

definition on_peer_sdp :: "calls_client \<Rightarrow> calls_client" where
  "on_peer_sdp s = cl_send ''sdp'' s"

definition on_peer_candidate :: "calls_client \<Rightarrow> calls_client" where
  "on_peer_candidate s = cl_send ''ice'' s"

definition on_peer_error :: "bool \<Rightarrow> calls_client \<Rightarrow> calls_client" where
  "on_peer_error timedOut s =
     (if \<not> cl_closed s then disconnect (Some (if timedOut then rtcPeerTimeoutErr else rtcPeerErr)) s else s)"

definition on_peer_close :: "calls_client \<Rightarrow> calls_client" where
  "on_peer_close s = (if \<not> cl_closed s then disconnect (Some rtcPeerCloseErr) s else s)"

definition on_peer_connect :: "calls_client \<Rightarrow> calls_client" where
  "on_peer_connect s0 =
     (let s = cl_emit ClConnect s0;
          s = (if cl_rtcMonitor s then cl_log MonitorStart s else s)
      in s\<lparr>cl_connected := True\<rparr>)"

definition on_mos :: "int \<Rightarrow> calls_client \<Rightarrow> calls_client" where
  "on_mos mos s = cl_emit (ClMos mos) s"

definition peer_audio :: "string \<Rightarrow> nat \<Rightarrow> calls_client \<Rightarrow> calls_client" where
  "peer_audio ty st s =
     (let audio = tracks_of AudioKind st (cl_media s)
      in if audio = [] then s
         else if ty = ''screen-audio'' then
           (let (voice, m) = stream_of audio (cl_media s)
            in (cl_emit (ClRemoteVoice voice) (s\<lparr>cl_media := m\<rparr>))
                 \<lparr>cl_remoteVoiceTracks := cl_remoteVoiceTracks s @ audio\<rparr>)
         else if ty = ''voice'' \<or> ty = '''' then
           (cl_emit (ClRemoteVoice st) s)\<lparr>cl_remoteVoiceTracks := cl_remoteVoiceTracks s @ audio\<rparr>
         else s)"

definition peer_video :: "string \<Rightarrow> nat \<Rightarrow> calls_client \<Rightarrow> calls_client" where
  "peer_video ty st s =
     (let video = tracks_of VideoKind st (cl_media s)
      in if video = [] then s
         else if ty = ''video'' then
           (cl_emit (ClRemoteVideo st) s)\<lparr>cl_remoteVideoTracks := cl_remoteVideoTracks s @ [hd video]\<rparr>
         else if ty = ''screen'' then (cl_emit (ClRemoteScreen st) s)\<lparr>cl_remoteScreenTrack := Some (hd video)\<rparr>
         else s)"

definition on_peer_stream :: "track_kind list \<Rightarrow> string option \<Rightarrow> calls_client \<Rightarrow> calls_client" where
  "on_peer_stream ks info s0 =
     (let ty = str_or info '''';
          (st, s) = take_stream ks s0
      in peer_video ty st (peer_audio ty st (push_stream st s)))"

section \<open>Answers\<close>

text \<open>What follows each await, and the answer given to a thread.\<close>

fun continue_at :: "await_point \<Rightarrow> result \<Rightarrow> calls_client \<Rightarrow> calls_client \<times> flow" where
  "continue_at UD_enumerated r s = update_devices_enumerated r s"
| "continue_at UD_input r s = update_devices_input r s"
| "continue_at (FB_set d) r s = fallback_set d r s"
| "continue_at (IA_media dev) r s = init_audio_media dev r s"
| "continue_at (IA_updated dev) r s = init_audio_updated dev r s"
| "continue_at IA_media2 r s = init_audio_media2 r s"
| "continue_at (IV_media b) r s = init_video_media b r s"
| "continue_at (IV_updated b st) r s = init_video_updated b st r s"
| "continue_at (SA_media t b) r s = set_audio_input_media t b r s"
| "continue_at (SV_media t b g) r s = set_video_input_media t b g r s"
| "continue_at UM_audio r s = unmute_audio r s"
| "continue_at UM_added r s = unmute_added r s"
| "continue_at (SS_added t st) r s = screen_shared t st r s"
| "continue_at SH_media r s = share_screen_media r s"
| "continue_at ST_video r s = start_video_init r s"
| "continue_at ST_replaced r s = start_video_replaced r s"
| "continue_at (ST_added t) r s = start_video_added t r s"
| "continue_at ST_added_av1 r s = start_video_added_av1 r s"
| "continue_at (SE_removed a) r s = screen_removed a r s"
| "continue_at SE_removed_audio r s = screen_removed_audio r s"
| "continue_at (IN_codec b) r s = init_codec b r s"
| "continue_at IN_updated r s = init_updated r s"
| "continue_at IN_initialized r s = init_initialized r s"
| "continue_at (SaveStats i) r s = save_stats i r s"
| "continue_at WM_signalled r s = (s, Done Ok)"

primrec settle_thread :: "await_point list \<Rightarrow> result \<Rightarrow> calls_client \<Rightarrow> calls_client" where
  "settle_thread [] r s = finish r s"
| "settle_thread (f # fs) r s =
     (case continue_at f r s of
        (s', Done r') \<Rightarrow> settle_thread fs r' s'
      | (s', Wait q gs) \<Rightarrow> park q (gs @ fs) s')"

definition answer_thread :: "nat \<Rightarrow> result \<Rightarrow> calls_client \<Rightarrow> calls_client" where
  "answer_thread i r s =
     (if i < length (cl_threads s)
      then settle_thread (snd (cl_threads s ! i)) r
             (s\<lparr>cl_threads := take i (cl_threads s) @ drop (Suc i) (cl_threads s)\<rparr>)
      else s)"

end
