(* ===== verification/Client_Loop.thy ===== *)
theory Client_Loop
  imports Calls_Client
begin

text \<open>
  The life of a call client: any order of what its users call, what the browser, the socket and
  the peer report, and the answers to its open requests. The lemmas show what holds in every
  such order: a client that is closed is silent for good, and the parts of it that a later
  answer still changes.
\<close>

section \<open>Steps\<close>

text \<open>The answers a request can have: the devices, a stream with the track asked for, or an error.\<close>

fun answers :: "request \<Rightarrow> result \<Rightarrow> bool" where
  "answers q (Err e) = True"
| "answers Enumerate r = (case r of Devs _ \<Rightarrow> True | _ \<Rightarrow> False)"
| "answers (GetAudio d) r = (r = Got [AudioKind])"
| "answers (GetVideo d) r = (r = Got [VideoKind])"
| "answers GetDisplay r = (r = Got [VideoKind] \<or> r = Got [VideoKind, AudioKind])"
| "answers GetCodec r = (r = Got [] \<or> r = Got [VideoKind])"
| "answers q r = (r = Ok)"

inductive client_step :: "calls_client \<Rightarrow> calls_client \<Rightarrow> bool" where
  answered: "i < length (cl_threads s) \<Longrightarrow> answers (fst (cl_threads s ! i)) r \<Longrightarrow>
     client_step s (answer_thread i r s)"
| devices_changed: "cl_deviceListener s \<Longrightarrow> client_step s (start (updateDevices s))"
| blur_stored: "client_step s (s\<lparr>cl_blur := b\<rparr>)"
| muted: "client_step s (mute s)"
| unmuted: "client_step s (start (unmute s))"
| input_set: "client_step s (start (setAudioInputDevice d b s))"
| output_set: "client_step s (setAudioOutputDevice d b s)"
| camera_set: "client_step s (start (setVideoInputDevice d s))"
| blur_set: "client_step s (start (setBlurSettings b n f s))"
| video_started: "client_step s (start (startVideo s))"
| video_stopped: "client_step s (stopVideo s)"
| screen_shared: "client_step s (start (shareScreen s))"
| screen_given: "client_step s (start (setScreenStream st s))"
| screen_unshared: "client_step s (unshareScreen s)"
| track_ended: "client_step s (end_track t s)"
| hand_raised: "client_step s (raiseHand s)"
| hand_lowered: "client_step s (unraiseHand s)"
| reacted: "client_step s (sendUserReaction s)"
| disconnected: "client_step s (disconnect err s)"
| socket_error: "cl_ws s \<Longrightarrow> client_step s (on_ws_error ty err s)"
| socket_open: "cl_ws s \<Longrightarrow> client_step s (on_ws_open c b s)"
| socket_join: "cl_ws s \<Longrightarrow> client_step s (on_ws_join s)"
| socket_message: "cl_ws s \<Longrightarrow> client_step s (on_ws_message ty s)"
| peer_sdp: "client_step s (on_peer_sdp s)"
| peer_candidate: "client_step s (on_peer_candidate s)"
| peer_error: "client_step s (on_peer_error b s)"
| peer_close: "client_step s (on_peer_close s)"
| peer_connect: "cl_peer s \<Longrightarrow> client_step s (on_peer_connect s)"
| peer_stream: "cl_peer s \<Longrightarrow> client_step s (on_peer_stream ks info s)"
| monitor: "client_step s (on_mos n s)"

inductive client_reach :: "calls_client \<Rightarrow> bool" where
  init: "client_reach (start (cl_init b ch (cl_new cfg i out v blur)))"
| step: "client_reach s \<Longrightarrow> client_step s s' \<Longrightarrow> client_reach s'"

inductive_cases client_stepE: "client_step s s'"

section \<open>A closed client is silent\<close>

text \<open>What goes over the network: the socket's messages and connections, and the peer's.\<close>

fun on_network :: "client_out \<Rightarrow> bool" where
  "on_network (Ask Enumerate) = False"
| "on_network (Ask (GetAudio _)) = False"
| "on_network (Ask (GetVideo _)) = False"
| "on_network (Ask GetDisplay) = False"
| "on_network (Ask GetCodec) = False"
| "on_network (Ask GetPeerStats) = False"
| "on_network (Ask _) = True"
| "on_network WsCreate = True"
| "on_network (WsSend _) = True"
| "on_network PeerCreate = True"
| "on_network _ = False"

fun is_close :: "client_out \<Rightarrow> bool" where
  "is_close (Fire (ClClose _)) = True"
| "is_close _ = False"

definition client_ok :: "calls_client \<Rightarrow> bool" where
  "client_ok s \<longleftrightarrow>
     length (filter is_close (cl_out s)) = (if cl_closed s then 1 else 0) \<and>
     (cl_closed s \<longrightarrow> \<not> cl_ws s \<and> \<not> cl_peer s \<and> \<not> cl_listening s) \<and>
     (\<not> cl_closed s \<longrightarrow> cl_listening s)"

text \<open>A move from a good client: to a good one, and over the network only while not closed.\<close>

definition keeps :: "calls_client \<Rightarrow> calls_client \<Rightarrow> bool" where
  "keeps s s' \<longleftrightarrow> client_ok s \<longrightarrow>
     client_ok s' \<and> (cl_closed s \<longrightarrow> cl_closed s' \<and>
       filter on_network (cl_out s') = filter on_network (cl_out s))"

named_theorems keeps_intros "moves built from moves that keep the client good"

lemma keeps_refl [simp, intro]: "keeps s s"
  by (simp add: keeps_def)

lemma keeps_trans [trans]: "keeps s s' \<Longrightarrow> keeps s' s'' \<Longrightarrow> keeps s s''"
  by (auto simp: keeps_def)

text \<open>Fields the invariant does not read.\<close>

lemma keeps_fields [keeps_intros]:
  "keeps s s' \<Longrightarrow> keeps s (s'\<lparr>cl_channelID := c\<rparr>)"
  "keeps s s' \<Longrightarrow> keeps s (s'\<lparr>cl_media := m\<rparr>)"
  "keeps s s' \<Longrightarrow> keeps s (s'\<lparr>cl_connID := c\<rparr>)"
  "keeps s s' \<Longrightarrow> keeps s (s'\<lparr>cl_localScreenTrack := t\<rparr>)"
  "keeps s s' \<Longrightarrow> keeps s (s'\<lparr>cl_localVideoStream := t\<rparr>)"
  "keeps s s' \<Longrightarrow> keeps s (s'\<lparr>cl_remoteScreenTrack := t\<rparr>)"
  "keeps s s' \<Longrightarrow> keeps s (s'\<lparr>cl_remoteVoiceTracks := ts\<rparr>)"
  "keeps s s' \<Longrightarrow> keeps s (s'\<lparr>cl_remoteVideoTracks := ts\<rparr>)"
  "keeps s s' \<Longrightarrow> keeps s (s'\<lparr>cl_audioInput := d\<rparr>)"
  "keeps s s' \<Longrightarrow> keeps s (s'\<lparr>cl_audioOutput := d\<rparr>)"
  "keeps s s' \<Longrightarrow> keeps s (s'\<lparr>cl_videoInput := d\<rparr>)"
  "keeps s s' \<Longrightarrow> keeps s (s'\<lparr>cl_voiceTrackAdded := b\<rparr>)"
  "keeps s s' \<Longrightarrow> keeps s (s'\<lparr>cl_videoTrackAdded := b\<rparr>)"
  "keeps s s' \<Longrightarrow> keeps s (s'\<lparr>cl_streams := ts\<rparr>)"
  "keeps s s' \<Longrightarrow> keeps s (s'\<lparr>cl_stream := st\<rparr>)"
  "keeps s s' \<Longrightarrow> keeps s (s'\<lparr>cl_inputs := ds\<rparr>)"
  "keeps s s' \<Longrightarrow> keeps s (s'\<lparr>cl_outputs := ds\<rparr>)"
  "keeps s s' \<Longrightarrow> keeps s (s'\<lparr>cl_videoDevices := ds\<rparr>)"
  "keeps s s' \<Longrightarrow> keeps s (s'\<lparr>cl_audioTrack := t\<rparr>)"
  "keeps s s' \<Longrightarrow> keeps s (s'\<lparr>cl_connected := b\<rparr>)"
  "keeps s s' \<Longrightarrow> keeps s (s'\<lparr>cl_rtcMonitor := b\<rparr>)"
  "keeps s s' \<Longrightarrow> keeps s (s'\<lparr>cl_av1Codec := b\<rparr>)"
  "keeps s s' \<Longrightarrow> keeps s (s'\<lparr>cl_segmenter := t\<rparr>)"
  "keeps s s' \<Longrightarrow> keeps s (s'\<lparr>cl_storedInput := d'\<rparr>)"
  "keeps s s' \<Longrightarrow> keeps s (s'\<lparr>cl_storedOutput := d'\<rparr>)"
  "keeps s s' \<Longrightarrow> keeps s (s'\<lparr>cl_storedVideo := d'\<rparr>)"
  "keeps s s' \<Longrightarrow> keeps s (s'\<lparr>cl_blur := bl\<rparr>)"
  "keeps s s' \<Longrightarrow> keeps s (s'\<lparr>cl_deviceListener := b\<rparr>)"
  "keeps s s' \<Longrightarrow> keeps s (s'\<lparr>cl_initializers := n\<rparr>)"
  "keeps s s' \<Longrightarrow> keeps s (s'\<lparr>cl_threads := th\<rparr>)"
  by (simp_all add: keeps_def client_ok_def)

lemma keeps_log [keeps_intros]:
  "keeps s s' \<Longrightarrow> \<not> is_close x \<Longrightarrow> on_network x \<longrightarrow> cl_peer s' \<or> cl_ws s' \<or> \<not> cl_closed s' \<Longrightarrow>
   keeps s (cl_log x s')"
  by (auto simp: keeps_def client_ok_def cl_log_def)

lemma keeps_emit [keeps_intros]:
  "keeps s s' \<Longrightarrow> (\<forall>err. e \<noteq> ClClose err) \<Longrightarrow> keeps s (cl_emit e s')"
  by (cases e) (auto simp: cl_emit_def intro!: keeps_intros)

lemma keeps_send [keeps_intros]: "keeps s s' \<Longrightarrow> keeps s (cl_send a s')"
  by (auto simp: keeps_def client_ok_def cl_log_def cl_send_def)

lemma keeps_media [keeps_intros]: "keeps s s' \<Longrightarrow> keeps s (upd_media f s')"
  unfolding upd_media_def by (intro keeps_intros)

lemma keeps_push [keeps_intros]: "keeps s s' \<Longrightarrow> keeps s (push_stream i s')"
  unfolding push_stream_def by (intro keeps_intros)

lemma keeps_take [keeps_intros]: "keeps s s' \<Longrightarrow> keeps s (snd (take_stream ks s'))"
  by (simp add: take_stream_def case_prod_beta keeps_fields)

text \<open>What the primitive moves leave alone.\<close>

lemma client_prims [simp]:
  "cl_ws (cl_log x s) = cl_ws s" "cl_ws (cl_emit e s) = cl_ws s" "cl_ws (cl_send a s) = cl_ws s"
  "cl_ws (upd_media f s) = cl_ws s" "cl_ws (push_stream i s) = cl_ws s"
  "cl_peer (cl_log x s) = cl_peer s" "cl_peer (cl_emit e s) = cl_peer s" "cl_peer (cl_send a s) = cl_peer s"
  "cl_peer (upd_media f s) = cl_peer s" "cl_peer (push_stream i s) = cl_peer s"
  "cl_closed (cl_log x s) = cl_closed s" "cl_closed (cl_emit e s) = cl_closed s"
  "cl_closed (cl_send a s) = cl_closed s" "cl_closed (upd_media f s) = cl_closed s"
  "cl_closed (push_stream i s) = cl_closed s" "cl_listening (cl_log x s) = cl_listening s"
  by (simp_all add: cl_log_def cl_emit_def cl_send_def upd_media_def push_stream_def)

text \<open>A part of a method: a good move, which waits for the network only with a peer or socket.\<close>

definition flow_ok :: "calls_client \<Rightarrow> calls_client \<times> flow \<Rightarrow> bool" where
  "flow_ok s m \<longleftrightarrow> keeps s (fst m) \<and>
     (case snd m of Wait q _ \<Rightarrow> on_network (Ask q) \<longrightarrow> cl_peer (fst m) \<or> cl_ws (fst m) | Done _ \<Rightarrow> True)"

lemma flow_ok_simps [simp]:
  "flow_ok s (s', Done r) \<longleftrightarrow> keeps s s'"
  "flow_ok s (s', Wait q fs) \<longleftrightarrow> keeps s s' \<and> (on_network (Ask q) \<longrightarrow> cl_peer s' \<or> cl_ws s')"
  by (simp_all add: flow_ok_def)

lemma flow_ok_trans: "keeps s s' \<Longrightarrow> flow_ok s' m \<Longrightarrow> flow_ok s m"
  by (auto simp: flow_ok_def intro: keeps_trans split: flow.splits)

lemma keeps_finish [keeps_intros]: "keeps s s' \<Longrightarrow> keeps s (finish r s')"
  by (cases r) (auto simp: finish_def intro!: keeps_intros)

lemma keeps_park [keeps_intros]:
  "keeps s s' \<Longrightarrow> on_network (Ask q) \<longrightarrow> cl_peer s' \<or> cl_ws s' \<Longrightarrow> keeps s (park q fs s')"
  unfolding park_def by (cases "on_network (Ask q)") (auto intro!: keeps_intros)

lemma keeps_start [keeps_intros]: "flow_ok s m \<Longrightarrow> keeps s (start m)"
  by (cases m; cases "snd m") (auto intro!: keeps_intros)

lemma flow_await [keeps_intros]:
  "flow_ok s m \<Longrightarrow> (\<And>r s'. keeps s s' \<Longrightarrow> flow_ok s (rest r s')) \<Longrightarrow> flow_ok s (await_call m f rest)"
  by (cases m; cases "snd m") (auto simp: await_call_def)

lemma flow_emit_error [keeps_intros]:
  assumes "keeps s s'" and "\<And>s''. keeps s s'' \<Longrightarrow> cl_listening s'' \<Longrightarrow> flow_ok s (rest s'')"
  shows "flow_ok s (emit_error e s' rest)"
proof (cases "cl_listening s'")
  case True
  have "keeps s (cl_log (Fire (ClError e)) s')" using assms(1) by (rule keeps_log) simp_all
  then have "flow_ok s (rest (cl_log (Fire (ClError e)) s'))"
    using True by (intro assms(2)) (simp_all add: cl_log_def)
  then show ?thesis using True by (simp add: emit_error_def)
qed (use assms(1) in \<open>simp add: emit_error_def\<close>)

section \<open>Every operation keeps the client good\<close>

lemma keeps_set_output [keeps_intros]: "keeps s s' \<Longrightarrow> keeps s (setAudioOutputDevice d b s')"
  unfolding setAudioOutputDevice_def Let_def by (auto intro!: keeps_intros)

lemma flow_init_audio [keeps_intros]: "keeps s s' \<Longrightarrow> flow_ok s (initAudio d s')"
  unfolding initAudio_def Let_def by (auto intro!: keeps_intros)

lemma flow_set_input [keeps_intros]: "keeps s s' \<Longrightarrow> flow_ok s (setAudioInputDevice d b s')"
  unfolding setAudioInputDevice_def Let_def by (auto split: option.split intro!: keeps_intros)

lemma flow_set_audio [keeps_intros]: "keeps s s' \<Longrightarrow> flow_ok s (set_audio_device b d s')"
  unfolding set_audio_device_def by (auto intro!: keeps_intros)

lemma flow_fallback_set [keeps_intros]: "keeps s s' \<Longrightarrow> flow_ok s (fallback_set d r s')"
  unfolding fallback_set_def by (auto split: result.split intro!: keeps_intros)

lemma flow_fallback [keeps_intros]: "keeps s s' \<Longrightarrow> flow_ok s (handleAudioDeviceFallback b s')"
  unfolding handleAudioDeviceFallback_def Let_def by (auto split: option.split intro!: keeps_intros)

lemma flow_update_devices [keeps_intros]: "keeps s s' \<Longrightarrow> flow_ok s (updateDevices s')"
  unfolding updateDevices_def by simp

lemma flow_fst: "flow_ok s m \<Longrightarrow> keeps s (fst m)"
  by (simp add: flow_ok_def)

lemma flow_update_input [keeps_intros]: "keeps s s' \<Longrightarrow> flow_ok s (update_devices_input r s')"
  unfolding update_devices_input_def case_prod_beta
  by (auto split: result.split intro!: keeps_intros flow_fst)

lemma flow_enumerated [keeps_intros]: "keeps s s' \<Longrightarrow> flow_ok s (update_devices_enumerated r s')"
  unfolding update_devices_enumerated_def Let_def by (auto split: result.split intro!: keeps_intros)

lemma flow_audio_track [keeps_intros]: "keeps s s' \<Longrightarrow> flow_ok s (init_audio_track s')"
  unfolding init_audio_track_def Let_def by (auto split: option.split intro!: keeps_intros)

lemma flow_audio_media [keeps_intros]: "keeps s s' \<Longrightarrow> flow_ok s (init_audio_media d r s')"
  unfolding init_audio_media_def case_prod_beta Let_def by (auto split: result.split intro!: keeps_intros)

lemma flow_audio_updated [keeps_intros]: "keeps s s' \<Longrightarrow> flow_ok s (init_audio_updated d r s')"
  unfolding init_audio_updated_def Let_def by (auto intro!: keeps_intros)

lemma flow_audio_media2 [keeps_intros]: "keeps s s' \<Longrightarrow> flow_ok s (init_audio_media2 r s')"
  unfolding init_audio_media2_def case_prod_beta Let_def by (auto split: result.split intro!: keeps_intros)

lemma flow_input_media [keeps_intros]: "keeps s s' \<Longrightarrow> flow_ok s (set_audio_input_media t b r s')"
  unfolding set_audio_input_media_def case_prod_beta Let_def
  by (auto split: result.split option.split intro!: keeps_intros)

lemma keeps_mute [keeps_intros]: "keeps s s' \<Longrightarrow> keeps s (mute s')"
  unfolding mute_def Let_def by (auto split: option.split intro!: keeps_intros)

lemma keeps_unmute_parts [keeps_intros]:
  "keeps s s' \<Longrightarrow> keeps s (unmute_done s')"
  "keeps s s' \<Longrightarrow> keeps s (enable_audio s')"
  "keeps s s' \<Longrightarrow> keeps s (clear_monitor s')"
  unfolding unmute_done_def enable_audio_def clear_monitor_def
  by (auto split: option.split intro!: keeps_intros)

lemma flow_unmute_track [keeps_intros]: "keeps s s' \<Longrightarrow> flow_ok s (unmute_track s')"
  unfolding unmute_track_def Let_def by (auto split: option.split intro!: keeps_intros)

lemma flow_unmute_audio [keeps_intros]: "keeps s s' \<Longrightarrow> flow_ok s (unmute_audio r s')"
  unfolding unmute_audio_def by (auto split: result.split intro!: keeps_intros)

lemma flow_unmute_added [keeps_intros]: "keeps s s' \<Longrightarrow> flow_ok s (unmute_added r s')"
  unfolding unmute_added_def by (auto split: result.split intro!: keeps_intros)

lemma flow_unmute [keeps_intros]: "keeps s s' \<Longrightarrow> flow_ok s (unmute s')"
  unfolding unmute_def by (auto intro!: keeps_intros)

lemma keeps_video_device [keeps_intros]: "keeps s s' \<Longrightarrow> keeps s (snd (video_device d s'))"
  unfolding video_device_def Let_def by (auto split: option.split intro!: keeps_intros)

lemma flow_init_video [keeps_intros]: "keeps s s' \<Longrightarrow> flow_ok s (initVideo b d s')"
  unfolding initVideo_def case_prod_beta Let_def by (auto intro!: keeps_intros)

lemma flow_video_media [keeps_intros]: "keeps s s' \<Longrightarrow> flow_ok s (init_video_media b r s')"
  unfolding init_video_media_def case_prod_beta Let_def by (auto split: result.split intro!: keeps_intros)

lemma flow_video_updated [keeps_intros]: "keeps s s' \<Longrightarrow> flow_ok s (init_video_updated b st r s')"
  unfolding init_video_updated_def Let_def by (auto split: option.split intro!: keeps_intros)

lemma keeps_background [keeps_intros]: "keeps s s' \<Longrightarrow> keeps s (snd (initBgBackgroundTrack st t s'))"
  unfolding initBgBackgroundTrack_def case_prod_beta Let_def by (auto split: option.split intro!: keeps_intros)

lemma flow_set_video [keeps_intros]: "keeps s s' \<Longrightarrow> flow_ok s (setVideoInputDevice d s')"
  unfolding setVideoInputDevice_def Let_def by (auto split: option.split intro!: keeps_intros)

lemma keeps_stop_segmenter [keeps_intros]: "keeps s s' \<Longrightarrow> keeps s (stop_segmenter g s')"
  unfolding stop_segmenter_def Let_def by (auto split: option.split intro!: keeps_intros)

lemma keeps_maybe_background [keeps_intros]:
  "keeps s s' \<Longrightarrow> keeps s (snd (if blurring s' then initBgBackgroundTrack st t s' else (t, s')))"
  by (auto intro!: keeps_intros)

lemma flow_video_input_media [keeps_intros]: "keeps s s' \<Longrightarrow> flow_ok s (set_video_input_media t b g r s')"
  unfolding set_video_input_media_def case_prod_beta Let_def
  by (auto split: result.split option.split intro!: keeps_intros simp del: if_split)

lemma flow_video_finish [keeps_intros]: "keeps s s' \<Longrightarrow> flow_ok s (start_video_finish s')"
  unfolding start_video_finish_def Let_def by (auto split: option.split intro!: keeps_intros)

lemma flow_video_replaced [keeps_intros]: "keeps s s' \<Longrightarrow> flow_ok s (start_video_replaced r s')"
  unfolding start_video_replaced_def by (auto split: result.split intro!: keeps_intros)

lemma flow_video_added_av1 [keeps_intros]: "keeps s s' \<Longrightarrow> flow_ok s (start_video_added_av1 r s')"
  unfolding start_video_added_av1_def by (auto split: result.split intro!: keeps_intros)

lemma flow_video_added [keeps_intros]: "keeps s s' \<Longrightarrow> flow_ok s (start_video_added t r s')"
  unfolding start_video_added_def by (auto split: result.split option.split intro!: keeps_intros)

lemma flow_video_stream [keeps_intros]: "keeps s s' \<Longrightarrow> flow_ok s (start_video_stream s')"
  unfolding start_video_stream_def case_prod_beta Let_def
  by (auto split: option.split intro!: keeps_intros)

lemma flow_video_init [keeps_intros]: "keeps s s' \<Longrightarrow> flow_ok s (start_video_init r s')"
  unfolding start_video_init_def by (auto split: result.split intro!: keeps_intros)

lemma flow_start_video [keeps_intros]: "keeps s s' \<Longrightarrow> flow_ok s (startVideo s')"
  unfolding startVideo_def by (auto intro!: keeps_intros)

lemma keeps_stop_video [keeps_intros]: "keeps s s' \<Longrightarrow> keeps s (stopVideo s')"
  unfolding stopVideo_def Let_def by (auto split: option.split intro!: keeps_intros)

lemma flow_restart_camera [keeps_intros]: "keeps s s' \<Longrightarrow> flow_ok s (restart_camera f s')"
  unfolding restart_camera_def by (auto split: option.split intro!: keeps_intros)

lemma flow_blur [keeps_intros]: "keeps s s' \<Longrightarrow> flow_ok s (setBlurSettings b n f s')"
  unfolding setBlurSettings_def by (auto split: option.split intro!: keeps_intros)

lemma flow_screen_off [keeps_intros]: "keeps s s' \<Longrightarrow> flow_ok s (screen_off_sent s')"
  unfolding screen_off_sent_def by (auto intro!: keeps_intros)

lemma flow_screen_removed [keeps_intros]:
  "keeps s s' \<Longrightarrow> flow_ok s (screen_removed_audio r s')"
  "keeps s s' \<Longrightarrow> flow_ok s (screen_removed a r s')"
  unfolding screen_removed_audio_def screen_removed_def
  by (auto split: result.split option.split intro!: keeps_intros)

lemma flow_screen_ended [keeps_intros]: "keeps s s' \<Longrightarrow> flow_ok s (screen_ended t a s')"
  unfolding screen_ended_def Let_def by (auto split: option.split intro!: keeps_intros)

lemma keeps_end_track [keeps_intros]:
  "keeps s s' \<Longrightarrow> keeps s (fire_ended t s')"
  "keeps s s' \<Longrightarrow> keeps s (end_track t s')"
  unfolding end_track_def fire_ended_def
  by (auto split: option.split ended_handler.split intro!: keeps_intros)

lemma flow_screen [keeps_intros]:
  "keeps s s' \<Longrightarrow> flow_ok s (screen_shared t st r s')"
  "keeps s s' \<Longrightarrow> flow_ok s (setScreenStream st s')"
  unfolding screen_shared_def setScreenStream_def case_prod_beta Let_def
  by (auto split: result.split option.split intro!: keeps_intros)

lemma flow_share_media [keeps_intros]: "keeps s s' \<Longrightarrow> flow_ok s (share_screen_media r s')"
  unfolding share_screen_media_def case_prod_beta Let_def by (auto split: result.split intro!: keeps_intros)

lemma flow_share [keeps_intros]: "keeps s s' \<Longrightarrow> flow_ok s (shareScreen s')"
  unfolding shareScreen_def by auto

lemma keeps_unshare [keeps_intros]: "keeps s s' \<Longrightarrow> keeps s (unshareScreen s')"
  unfolding unshareScreen_def by (auto split: option.split intro!: keeps_intros)

lemma keeps_hands [keeps_intros]:
  "keeps s s' \<Longrightarrow> keeps s (raiseHand s')"
  "keeps s s' \<Longrightarrow> keeps s (unraiseHand s')"
  "keeps s s' \<Longrightarrow> keeps s (sendUserReaction s')"
  unfolding raiseHand_def unraiseHand_def sendUserReaction_def by (auto intro!: keeps_intros)

lemma flow_stats [keeps_intros]:
  "keeps s s' \<Longrightarrow> flow_ok s (getStats s')"
  "keeps s s' \<Longrightarrow> flow_ok s (save_stats i r s')"
  unfolding getStats_def save_stats_def by (auto split: result.split intro!: keeps_intros)

lemma keeps_fold [keeps_intros]:
  "(\<And>x s''. keeps s s'' \<Longrightarrow> keeps s (f x s'')) \<Longrightarrow> keeps s s' \<Longrightarrow> keeps s (fold f xs s')"
  by (induction xs arbitrary: s') auto

lemma keeps_cleanup [keeps_intros]: "keeps s s' \<Longrightarrow> keeps s (cleanup s')"
  unfolding cleanup_def by (intro keeps_intros)

text \<open>
  Disconnecting is the one move that closes: from there on the client has no socket, no peer
  and no listeners, and has told them once.
\<close>

lemma cleanup_rests:
  "cl_ws (cleanup s) = cl_ws s" "cl_peer (cleanup s) = cl_peer s" "cl_closed (cleanup s) = cl_closed s"
  "cl_listening (cleanup s) = cl_listening s"
  "filter is_close (cl_out (cleanup s)) = filter is_close (cl_out s)"
proof -
  let ?same = "\<lambda>s s'. cl_ws s' = cl_ws s \<and> cl_peer s' = cl_peer s \<and> cl_closed s' = cl_closed s \<and>
     cl_listening s' = cl_listening s \<and> filter is_close (cl_out s') = filter is_close (cl_out s)"
  have end_same: "?same s (end_track t s)" for t s
    by (simp add: end_track_def fire_ended_def screen_ended_def finish_def park_def cl_log_def
        upd_media_def Let_def split: option.split ended_handler.split)
  have fold_same: "(\<And>x s. ?same s (f x s)) \<Longrightarrow> ?same s (fold f xs s)" for f and xs :: "nat list" and s
    by (induction xs arbitrary: s) auto
  have "?same s (cleanup s)" unfolding cleanup_def by (intro fold_same end_same)
  then show "cl_ws (cleanup s) = cl_ws s" "cl_peer (cleanup s) = cl_peer s"
    "cl_closed (cleanup s) = cl_closed s" "cl_listening (cleanup s) = cl_listening s"
    "filter is_close (cl_out (cleanup s)) = filter is_close (cl_out s)" by auto
qed

lemma disconnect_closes:
  assumes "client_ok s" and "\<not> cl_closed s"
  shows "client_ok (disconnect err s)" and "cl_closed (disconnect err s)"
proof -
  define s1 where "s1 = (if cl_rtcMonitor s then cl_log MonitorStop s else s)\<lparr>cl_closed := True\<rparr>"
  define s2 where "s2 = (if cl_peer s1 then (cl_log PeerDestroy (start (getStats s1)))\<lparr>cl_peer := False\<rparr> else s1)"
  define s3 where "s3 = cleanup s2"
  define s4 where "s4 = (if cl_ws s3 then (cl_log WsClose (cl_send ''leave'' s3))\<lparr>cl_ws := False\<rparr> else s3)"
  have d: "disconnect err s = emit_close err s4"
    using assms(2) by (simp add: disconnect_def Let_def s1_def s2_def s3_def s4_def)
  have "cl_closed s1 \<and> cl_listening s1 \<and> filter is_close (cl_out s1) = []"
    using assms by (simp add: s1_def client_ok_def cl_log_def)
  then have "cl_closed s2 \<and> cl_listening s2 \<and> \<not> cl_peer s2 \<and> filter is_close (cl_out s2) = []"
    by (simp add: s2_def getStats_def park_def cl_log_def)
  then have "cl_closed s3 \<and> cl_listening s3 \<and> \<not> cl_peer s3 \<and> filter is_close (cl_out s3) = []"
    by (simp add: s3_def cleanup_rests)
  then have "cl_closed s4 \<and> cl_listening s4 \<and> \<not> cl_peer s4 \<and> \<not> cl_ws s4 \<and> filter is_close (cl_out s4) = []"
    by (simp add: s4_def cl_send_def cl_log_def)
  then show "client_ok (disconnect err s)" "cl_closed (disconnect err s)"
    by (simp_all add: d emit_close_def destroy_def client_ok_def cl_log_def split: option.split)
qed

lemma keeps_disconnect [keeps_intros]: "keeps s s' \<Longrightarrow> keeps s (disconnect err s')"
proof (erule keeps_trans)
  show "keeps s' (disconnect err s')"
    using disconnect_closes [of s' err] by (cases "cl_closed s'") (auto simp: keeps_def disconnect_def)
qed

lemma keeps_create_socket: "keeps s s' \<Longrightarrow> \<not> cl_closed s' \<Longrightarrow> keeps s (create_socket s')"
  by (auto simp: create_socket_def keeps_def client_ok_def cl_log_def)

lemma flow_after_audio [keeps_intros]: "keeps s s' \<Longrightarrow> flow_ok s (init_after_audio s')"
  unfolding init_after_audio_def by (auto intro!: keeps_intros keeps_create_socket)

text \<open>An initializer that fails after the client was closed finds no listener and goes no further.\<close>

lemma keeps_socket_listening: "keeps s s' \<Longrightarrow> cl_listening s' \<Longrightarrow> keeps s (create_socket s')"
  by (auto simp: create_socket_def keeps_def client_ok_def cl_log_def)

lemma flow_initialized [keeps_intros]: "keeps s s' \<Longrightarrow> flow_ok s (init_initialized r s')"
  unfolding init_initialized_def Let_def
  by (auto split: result.split intro!: keeps_intros keeps_socket_listening)

lemma flow_updated [keeps_intros]: "keeps s s' \<Longrightarrow> flow_ok s (init_updated r s')"
  unfolding init_updated_def Let_def by (auto intro!: keeps_intros)

lemma flow_init [keeps_intros]:
  "keeps s s' \<Longrightarrow> flow_ok s (init_devices b s')"
  "keeps s s' \<Longrightarrow> flow_ok s (init_codec b r s')"
  "keeps s s' \<Longrightarrow> flow_ok s (cl_init b ch s')"
  unfolding init_devices_def init_codec_def cl_init_def Let_def
  by (auto split: result.split intro!: keeps_intros)

lemma keeps_socket_events:
  "keeps s (on_ws_error ty err s)"
  "cl_ws s \<Longrightarrow> keeps s (on_ws_open c b s)"
  "cl_ws s \<Longrightarrow> keeps s (on_ws_join s)"
  "keeps s (on_ws_message m s)"
proof -
  have "keeps s (s\<lparr>cl_ws := False\<rparr>)" by (auto simp: keeps_def client_ok_def)
  then show "keeps s (on_ws_error ty err s)"
    by (auto simp: on_ws_error_def split: ws_error_type.split intro!: keeps_intros)
qed (auto simp: on_ws_open_def on_ws_join_def on_ws_message_def keeps_def client_ok_def cl_log_def
      park_def)

lemma keeps_peer_events:
  "keeps s (on_peer_sdp s)" "keeps s (on_peer_candidate s)"
  "keeps s (on_peer_error b s)" "keeps s (on_peer_close s)" "keeps s (on_peer_connect s)" "keeps s (on_mos n s)"
  unfolding on_peer_sdp_def on_peer_candidate_def on_peer_error_def on_peer_close_def on_peer_connect_def on_mos_def Let_def
  by (auto intro!: keeps_intros)

lemma keeps_peer_media [keeps_intros]:
  "keeps s s' \<Longrightarrow> keeps s (peer_audio ty st s')"
  "keeps s s' \<Longrightarrow> keeps s (peer_video ty st s')"
  unfolding peer_audio_def peer_video_def case_prod_beta Let_def by (auto intro!: keeps_intros)

lemma keeps_peer_stream: "keeps s (on_peer_stream ks info s)"
  unfolding on_peer_stream_def case_prod_beta Let_def by (auto intro!: keeps_intros)

lemma flow_continue: "keeps s s' \<Longrightarrow> flow_ok s (continue_at f r s')"
  by (cases f; simp only: continue_at.simps; (intro keeps_intros; assumption)?) simp

lemma keeps_settle [keeps_intros]: "keeps s s' \<Longrightarrow> keeps s (settle_thread fs r s')"
proof (induction fs arbitrary: r s')
  case (Cons f fs)
  have "flow_ok s (continue_at f r s')" using Cons.prems by (rule flow_continue)
  then show ?case
    by (cases "continue_at f r s'"; cases "snd (continue_at f r s')")
      (simp_all add: Cons.IH keeps_park)
qed (simp add: keeps_finish)

lemma keeps_answer: "keeps s (answer_thread i r s)"
  unfolding answer_thread_def by (auto intro!: keeps_intros)

lemma keeps_step: "client_step s s' \<Longrightarrow> keeps s s'"
  by (induction rule: client_step.induct)
    (auto intro!: keeps_intros keeps_answer keeps_socket_events keeps_peer_events keeps_peer_stream)

lemma client_reach_ok: "client_reach s \<Longrightarrow> client_ok s"
proof (induction rule: client_reach.induct)
  case (init b ch cfg i out v blur)
  have "client_ok (cl_new cfg i out v blur)" by (simp add: cl_new_def client_ok_def)
  moreover have "keeps (cl_new cfg i out v blur) (start (cl_init b ch (cl_new cfg i out v blur)))"
    by (intro keeps_intros keeps_refl)
  ultimately show ?case by (simp add: keeps_def)
next
  case (step s s')
  then show ?case using keeps_step by (auto simp: keeps_def)
qed

section \<open>Tracks that end\<close>

lemma end_track_stream_tracks [simp]:
  "stream_tracks (cl_media (end_track t s)) i = stream_tracks (cl_media s) i"
  by (simp add: end_track_def fire_ended_def screen_ended_def finish_def park_def cl_log_def upd_media_def
      blur_ended_def Let_def split: option.split ended_handler.split)

lemma end_track_live:
  "is_live (cl_media (end_track t s)) u \<Longrightarrow> u \<noteq> t \<and> is_live (cl_media s) u"
  by (auto simp: end_track_def fire_ended_def screen_ended_def finish_def park_def cl_log_def upd_media_def
      blur_ended_def Let_def split: option.splits ended_handler.splits if_splits)

lemma fold_end_tracks:
  "stream_tracks (cl_media (fold end_track ts s)) i = stream_tracks (cl_media s) i"
  "is_live (cl_media (fold end_track ts s)) u \<Longrightarrow> u \<notin> set ts \<and> is_live (cl_media s) u"
  by (induction ts arbitrary: s) (auto dest!: end_track_live)

lemma cleanup_ends:
  assumes "is_live (cl_media (cleanup s)) u"
  shows "is_live (cl_media s) u \<and> (\<forall>i\<in>set (cl_streams s). u \<notin> set (stream_tracks (cl_media s) i))"
proof -
  let ?stop = "\<lambda>i s. fold end_track (stream_tracks (cl_media s) i) s"
  have "is_live (cl_media (fold ?stop is s)) u \<Longrightarrow>
      is_live (cl_media s) u \<and> (\<forall>i\<in>set is. u \<notin> set (stream_tracks (cl_media s) i))" for "is" s
  proof (induction "is" arbitrary: s)
    case (Cons i "is")
    from Cons.IH [of "?stop i s"] Cons.prems
    have "is_live (cl_media (?stop i s)) u" and "\<forall>j\<in>set is. u \<notin> set (stream_tracks (cl_media s) j)"
      by (simp_all add: fold_end_tracks(1))
    then show ?case by (auto dest: fold_end_tracks(2))
  qed simp
  then show ?thesis using assms by (simp add: cleanup_def)
qed

lemma disconnect_media:
  assumes "\<not> cl_closed s"
  shows "cl_media (disconnect err s) = cl_media (cleanup
     (let s1 = (if cl_rtcMonitor s then cl_log MonitorStop s else s)\<lparr>cl_closed := True\<rparr>
      in if cl_peer s1 then (cl_log PeerDestroy (start (getStats s1)))\<lparr>cl_peer := False\<rparr> else s1))"
  using assms
  by (simp add: disconnect_def Let_def emit_close_def destroy_def cl_log_def cl_send_def split: option.split)


section \<open>Sample runs\<close>

text \<open>
  A client with two microphones and a camera that has joined its call, cut into the states the
  properties look at. Each state is reached from the one before by one step.
\<close>

definition sample_mic :: device where
  "sample_mic = \<lparr>dev_id = ''m1'', dev_label = ''Built-in'', dev_kind = ''audioinput''\<rparr>"
definition sample_headset :: device where
  "sample_headset = \<lparr>dev_id = ''m2'', dev_label = ''Headset'', dev_kind = ''audioinput''\<rparr>"
definition sample_camera :: device where
  "sample_camera = \<lparr>dev_id = ''v1'', dev_label = ''Webcam'', dev_kind = ''videoinput''\<rparr>"

definition sample_devices :: result where
  "sample_devices = Devs [sample_mic, sample_headset, sample_camera]"

definition joining_client :: calls_client where
  "joining_client = start (cl_init True ''ch''
     (cl_new \<lparr>cf_enableVideo = True, cf_enableAV1 = False, cf_simulcast = False, cf_dcSignaling = False\<rparr>
        None None None (Some (True, 5))))"

text \<open>The answers of \<open>init\<close>: the devices, then microphone and camera, each with its update of the devices.\<close>

definition joined_client :: calls_client where
  "joined_client = on_ws_join (on_ws_open ''c1'' False
     (answer_thread 0 (Got [AudioKind]) (answer_thread 0 sample_devices (answer_thread 0 sample_devices
       (answer_thread 0 (Got [VideoKind]) (answer_thread 0 (Got [AudioKind])
         (answer_thread 0 sample_devices joining_client)))))))"

lemma answer_reach:
  "client_reach s \<Longrightarrow> i < length (cl_threads s) \<and> answers (fst (cl_threads s ! i)) r \<Longrightarrow>
   client_reach (answer_thread i r s)"
  by (blast intro: client_reach.step client_step.answered)

definition switching_client :: calls_client where
  "switching_client = start (setAudioInputDevice sample_headset True joined_client)"

definition late_client :: calls_client where
  "late_client = answer_thread 0 Ok (answer_thread 0 (Got [AudioKind]) (disconnect None switching_client))"

definition unheard_client :: calls_client where
  "unheard_client = answer_thread 0 Ok (answer_thread 1 (Got [AudioKind])
     (start (setAudioInputDevice sample_headset True (start (unmute joined_client)))))"

definition blurred_client :: calls_client where
  "blurred_client = answer_thread 0 Ok (answer_thread 0 sample_devices (answer_thread 0 (Got [VideoKind])
     (start (startVideo joined_client))))"

lemma joining_reach: "client_reach joining_client"
  unfolding joining_client_def by (rule client_reach.init)

lemma joined_reach: "client_reach joined_client"
proof -
  let ?s1 = "answer_thread 0 sample_devices joining_client"
  let ?s3 = "answer_thread 0 (Got [VideoKind]) (answer_thread 0 (Got [AudioKind]) ?s1)"
  let ?s6 = "answer_thread 0 (Got [AudioKind]) (answer_thread 0 sample_devices (answer_thread 0 sample_devices ?s3))"
  have "client_reach ?s1" by (rule answer_reach [OF joining_reach]) code_simp
  then have "client_reach (answer_thread 0 (Got [AudioKind]) ?s1)" by (rule answer_reach) code_simp
  then have "client_reach ?s3" by (rule answer_reach) code_simp
  then have "client_reach (answer_thread 0 sample_devices ?s3)" by (rule answer_reach) code_simp
  then have "client_reach (answer_thread 0 sample_devices (answer_thread 0 sample_devices ?s3))"
    by (rule answer_reach) code_simp
  then have "client_reach ?s6" by (rule answer_reach) code_simp
  moreover have "cl_ws ?s6" by code_simp
  ultimately have "client_reach (on_ws_open ''c1'' False ?s6)"
    by (blast intro: client_reach.step client_step.socket_open)
  moreover have "cl_ws (on_ws_open ''c1'' False ?s6)" by code_simp
  ultimately show ?thesis unfolding joined_client_def
    by (blast intro: client_reach.step client_step.socket_join)
qed

lemma switching_reach: "client_reach switching_client"
  unfolding switching_client_def
  by (blast intro: client_reach.step joined_reach client_step.input_set)

lemma late_reach: "client_reach late_client"
proof -
  have "client_reach (disconnect None switching_client)"
    by (blast intro: client_reach.step switching_reach client_step.disconnected)
  then have "client_reach (answer_thread 0 (Got [AudioKind]) (disconnect None switching_client))"
    by (rule answer_reach) code_simp
  then show ?thesis unfolding late_client_def by (rule answer_reach) code_simp
qed

lemma unheard_reach: "client_reach unheard_client"
proof -
  have "client_reach (start (setAudioInputDevice sample_headset True (start (unmute joined_client))))"
    by (blast intro: client_reach.step joined_reach client_step.input_set client_step.unmuted)
  then have "client_reach (answer_thread 1 (Got [AudioKind])
      (start (setAudioInputDevice sample_headset True (start (unmute joined_client)))))"
    by (rule answer_reach) code_simp
  then show ?thesis unfolding unheard_client_def by (rule answer_reach) code_simp
qed

lemma blurred_reach: "client_reach blurred_client"
proof -
  have "client_reach (start (startVideo joined_client))"
    by (blast intro: client_reach.step joined_reach client_step.video_started)
  then have "client_reach (answer_thread 0 (Got [VideoKind]) (start (startVideo joined_client)))"
    by (rule answer_reach) code_simp
  then have "client_reach (answer_thread 0 sample_devices (answer_thread 0 (Got [VideoKind])
      (start (startVideo joined_client))))" by (rule answer_reach) code_simp
  then show ?thesis unfolding blurred_client_def by (rule answer_reach) code_simp
qed

section \<open>Properties\<close>

text \<open>
  C6. A closed client stays closed and is silent: no later call, event or answer makes it open a
  socket or a peer or put anything on the network, and its users hear of the end exactly once.
\<close>

theorem closed_client_silent:
  assumes "client_reach s" and "cl_closed s" and "client_step s s'"
  shows "cl_closed s' \<and> \<not> cl_ws s' \<and> \<not> cl_peer s' \<and>
     filter on_network (cl_out s') = filter on_network (cl_out s) \<and>
     length (filter is_close (cl_out s')) = 1"
  using client_reach_ok [OF assms(1)] keeps_step [OF assms(3)] assms(2)
  by (auto simp: keeps_def client_ok_def)

theorem closed_client_silent_witness:
  "cl_closed (start (unmute late_client)) \<and>
   filter on_network (cl_out (start (unmute late_client))) = filter on_network (cl_out late_client)"
proof -
  have "cl_closed late_client" by code_simp
  then show ?thesis using closed_client_silent [OF late_reach _ client_step.unmuted] by blast
qed


text \<open>
  A microphone that is granted after the call has ended stays on: a client can be closed, with
  nothing pending, and hold a live track, which a further \<open>disconnect\<close> does not stop.
\<close>

theorem late_microphone:
  "client_reach late_client \<and> cl_closed late_client \<and> cl_threads late_client = [] \<and>
   list_ex (is_live (cl_media late_client))
     (concat (map (stream_tracks (cl_media late_client)) (cl_streams late_client))) \<and>
   disconnect err late_client = late_client"
proof -
  have "cl_closed late_client" by code_simp
  moreover have "cl_threads late_client = []" by code_simp
  moreover have "list_ex (is_live (cl_media late_client))
     (concat (map (stream_tracks (cl_media late_client)) (cl_streams late_client)))" by code_simp
  ultimately show ?thesis using late_reach by (simp add: disconnect_def)
qed

text \<open>The tracks the client gave to its peer.\<close>

definition sent_track :: "nat \<Rightarrow> calls_client \<Rightarrow> bool" where
  "sent_track t s =
     list_ex (\<lambda>x. case x of
         Ask (AddTrack u _) \<Rightarrow> u = t | Ask (ReplaceTrack _ (Some u)) \<Rightarrow> u = t | _ \<Rightarrow> False) (cl_out s)"

lemma sent_track_log [simp]:
  "sent_track t (cl_emit e s) = sent_track t s" "sent_track t (cl_send a s) = sent_track t s"
  "sent_track t (upd_media f s) = sent_track t s"
  by (simp_all add: sent_track_def cl_emit_def cl_send_def cl_log_def upd_media_def)

text \<open>
  Unmuting sends the microphone: with nothing else pending, once the peer has taken the track
  it has the client's own audio track, which is enabled, marked as added, and announced.
\<close>

theorem unmute_sends_track:
  assumes "cl_peer s" and "cl_ws s" and "cl_threads s = []"
    and "cl_audioTrack s = Some t" and "t < length (md_tracks (cl_media s))" and "cl_stream s = Some st"
  shows "let u = start (unmute s); s' = (if cl_voiceTrackAdded s then u else answer_thread 0 Ok u)
     in sent_track t s' \<and> cl_audioTrack s' = Some t \<and> is_enabled (cl_media s') t \<and>
        cl_voiceTrackAdded s' \<and> last (cl_out s') = WsSend ''unmute'' \<and> cl_threads s' = []"
  using assms
  by (simp add: unmute_def unmute_track_def clear_monitor_def unmute_done_def enable_audio_def unmute_added_def
      cl_emit_def cl_send_def cl_log_def upd_media_def finish_def park_def answer_thread_def sent_track_def
      get_track_def Let_def)

theorem unmute_sends_track_witness:
  "let s' = answer_thread 0 Ok (start (unmute joined_client))
   in sent_track 2 s' \<and> cl_audioTrack s' = Some 2 \<and> is_enabled (cl_media s') 2 \<and>
      cl_voiceTrackAdded s' \<and> last (cl_out s') = WsSend ''unmute'' \<and> cl_threads s' = []"
proof -
  have a: "cl_peer joined_client" "cl_ws joined_client" "cl_threads joined_client = []"
    "cl_audioTrack joined_client = Some 2" "2 < length (md_tracks (cl_media joined_client))"
    "cl_stream joined_client = Some 2" by code_simp+
  have "\<not> cl_voiceTrackAdded joined_client" by code_simp
  then show ?thesis using unmute_sends_track [OF a] by (simp add: Let_def)
qed

text \<open>
  Changing the microphone while an unmute waits for the peer leaves the user unheard: the new
  track is enabled, marked as added and announced, but the peer was only ever given the old one,
  which has been stopped.
\<close>

theorem unmute_race:
  "client_reach unheard_client \<and> cl_threads unheard_client = [] \<and>
   cl_audioTrack unheard_client = Some 3 \<and> is_live (cl_media unheard_client) 3 \<and>
   is_enabled (cl_media unheard_client) 3 \<and> cl_voiceTrackAdded unheard_client \<and>
   last (cl_out unheard_client) = WsSend ''unmute'' \<and>
   \<not> sent_track 3 unheard_client \<and> sent_track 2 unheard_client \<and> \<not> is_live (cl_media unheard_client) 2"
proof (intro conjI)
  show "client_reach unheard_client" by (rule unheard_reach)
qed code_simp+

lemma first_new_track:
  "first_track k (fst (take_stream [k] s)) (cl_media (snd (take_stream [k] s))) = Some (length (md_tracks (cl_media s)))"
  by (simp add: take_stream_def new_stream_def first_track_def tracks_of_def stream_tracks_def is_kind_def
      get_track_def nth_append)

text \<open>
  Changing the camera while the background is blurred sends it unblurred: the peer gets the
  camera's own track, the segmenter is stopped, and the client still counts it as running, so that
  setting the blur again only changes the intensity of a segmenter that no longer works.
\<close>

theorem blur_lost_on_switch:
  assumes "cl_peer s" and "blurring s" and "cl_segmenter s = Some g" and "cl_localVideoStream s = Some st"
  shows "let camera = length (md_tracks (cl_media s));
         s' = fst (set_video_input_media t True (Some g) (Got [VideoKind]) s)
     in Ask (ReplaceTrack t (Some camera)) \<in> set (cl_out s') \<and> SegmenterStop g \<in> set (cl_out s') \<and>
        cl_segmenter s' = Some g \<and>
        setBlurSettings True n f s' = (cl_log (SegmenterIntensity g n) s', Done Ok)"
proof -
  have blur: "blurring (push_stream i (snd (take_stream ks s)))" for i ks
    using assms(2) by (simp add: blurring_def getBgBlurData_def push_stream_def take_stream_def case_prod_beta)
  have on: "fst (getBgBlurData s)" using assms(2) by (simp add: blurring_def)
  show ?thesis
    using assms on blur first_new_track [of VideoKind s]
    by (simp add: set_video_input_media_def case_prod_beta Let_def push_stream_def take_stream_def
        initBgBackgroundTrack_def stop_segmenter_def upd_media_def cl_log_def cl_emit_def
        getBgBlurData_def setBlurSettings_def)
qed

theorem blur_lost_on_switch_witness:
  "let camera = length (md_tracks (cl_media blurred_client));
       s' = fst (set_video_input_media 4 True (Some 4) (Got [VideoKind]) blurred_client)
   in Ask (ReplaceTrack 4 (Some camera)) \<in> set (cl_out s') \<and> SegmenterStop 4 \<in> set (cl_out s') \<and>
      cl_segmenter s' = Some 4 \<and>
      setBlurSettings True 7 Map.empty s' = (cl_log (SegmenterIntensity 4 7) s', Done Ok)"
proof -
  have a: "cl_peer blurred_client" "blurring blurred_client" "cl_segmenter blurred_client = Some 4"
    "cl_localVideoStream blurred_client = Some 3" by code_simp+
  show ?thesis by (rule blur_lost_on_switch [OF a])
qed

lemma selected_device_facts:
  assumes "getSelectedAudioDevice input s = Some d"
  defines "devices \<equiv> (if input then cl_inputs s else cl_outputs s)"
    and "sel \<equiv> stored_selection (if input then cl_storedInput s else cl_storedOutput s)"
  shows "d \<in> set devices \<and> fst sel \<noteq> '''' \<and>
     (dev_id d = fst sel \<or> snd sel = Some (dev_label d) \<and> find_device sel devices = [d])"
proof -
  let ?M = "find_device sel devices"
  have sel: "fst sel \<noteq> ''''" and d: "(if length ?M > 1 then List.find (\<lambda>d. dev_id d = fst sel) ?M
      else if length ?M = 1 then Some (hd ?M) else None) = Some d"
    using assms(1) by (simp_all add: getSelectedAudioDevice_def devices_def sel_def Let_def split: if_split_asm)
  have sub: "set ?M \<subseteq> {x \<in> set devices. dev_id x = fst sel \<or> snd sel = Some (dev_label x)}"
    by (simp add: find_device_def)
  show ?thesis
  proof (cases "length ?M > 1")
    case True
    with d have "d \<in> set ?M \<and> dev_id d = fst sel" by (auto simp: find_Some_iff)
    with sub sel show ?thesis by blast
  next
    case False
    with d have "?M = [d]" by (cases ?M) (auto split: if_split_asm)
    with sub sel show ?thesis by auto
  qed
qed

text \<open>
  The device a client selects is one it has, and the one the user stored: by identifier, or by
  label when no other device matches.
\<close>

theorem selected_device:
  assumes "getSelectedAudioDevice input s = Some d"
  defines "devices \<equiv> (if input then cl_inputs s else cl_outputs s)"
    and "sel \<equiv> stored_selection (if input then cl_storedInput s else cl_storedOutput s)"
  shows "d \<in> set devices \<and> fst sel \<noteq> '''' \<and>
     (dev_id d = fst sel \<or> snd sel = Some (dev_label d) \<and> find_device sel devices = [d])"
  unfolding devices_def sel_def by (rule selected_device_facts [OF assms(1)])

theorem selected_device_witness:
  "sample_headset \<in> set (cl_inputs switching_client) \<and> ''m2'' \<noteq> ''''"
proof -
  have "getSelectedAudioDevice True switching_client = Some sample_headset"
    "stored_selection (cl_storedInput switching_client) = (''m2'', Some ''Headset'')" by code_simp+
  then show ?thesis using selected_device [of True switching_client sample_headset] by simp
qed

text \<open>
  A connected client never keeps a device that is gone: after the fallback its current device is
  one of the present ones, if there are any, and what the user stored is left as it was.
\<close>

theorem fallback_available:
  fixes s :: calls_client and input :: bool
  assumes "cl_peer s"
  defines "current \<equiv> (\<lambda>c. if input then cl_audioInput c else cl_audioOutput c)"
    and "devices \<equiv> (if input then cl_inputs s else cl_outputs s)"
  assumes "current s \<noteq> None" and "devices \<noteq> []"
  shows "(\<exists>d. current (fst (handleAudioDeviceFallback input s)) = Some d \<and>
      list_ex (\<lambda>x. dev_id x = dev_id d) devices) \<and>
    cl_storedInput (fst (handleAudioDeviceFallback input s)) = cl_storedInput s \<and>
    cl_storedOutput (fst (handleAudioDeviceFallback input s)) = cl_storedOutput s"
proof -
  let ?switch = "\<lambda>d. fst (await_call (set_audio_device input d s) (FB_set d) (fallback_set d))"
  have switch: "current (?switch d) = Some d \<and> cl_storedInput (?switch d) = cl_storedInput s \<and>
      cl_storedOutput (?switch d) = cl_storedOutput s" for d
    using assms(1)
    by (simp add: current_def set_audio_device_def setAudioInputDevice_def setAudioOutputDevice_def
        initAudio_def await_call_def fallback_set_def cl_emit_def cl_log_def Let_def split: option.split)
  have sel: "getSelectedAudioDevice input s = Some d \<Longrightarrow> d \<in> set devices" for d
    using selected_device_facts by (simp add: devices_def)
  obtain c where c: "current s = Some c" using assms(4) by blast
  show ?thesis
  proof (cases "list_ex (\<lambda>x. dev_id x = dev_id c) devices")
    case False
    then have "\<not> list_ex (\<lambda>d. map_option dev_id (current s) = Some (dev_id d)) devices"
      by (auto simp: c list_ex_iff)
    then have "handleAudioDeviceFallback input s =
        await_call (set_audio_device input (hd devices) s) (FB_set (hd devices)) (fallback_set (hd devices))"
      using assms(5) by (simp add: handleAudioDeviceFallback_def current_def devices_def Let_def)
    moreover have "list_ex (\<lambda>x. dev_id x = dev_id (hd devices)) devices" using assms(5) by (cases devices) auto
    ultimately show ?thesis using switch [of "hd devices"] by auto
  next
    case True
    have "fst (handleAudioDeviceFallback input s) = s \<or>
        (\<exists>d\<in>set devices. handleAudioDeviceFallback input s =
           await_call (set_audio_device input d s) (FB_set d) (fallback_set d))"
      using c True sel
      by (auto simp: handleAudioDeviceFallback_def current_def devices_def Let_def list_ex_iff split: option.split)
    then show ?thesis using c True switch by (fastforce simp: list_ex_iff)
  qed
qed

definition unplugged_client :: calls_client where
  "unplugged_client = switching_client\<lparr>cl_inputs := [sample_mic]\<rparr>"

theorem fallback_available_witness:
  "\<exists>d. cl_audioInput (fst (handleAudioDeviceFallback True unplugged_client)) = Some d \<and>
      list_ex (\<lambda>x. dev_id x = dev_id d) [sample_mic]"
proof -
  have a: "cl_peer unplugged_client" "cl_audioInput unplugged_client \<noteq> None" "cl_inputs unplugged_client = [sample_mic]"
    by code_simp+
  then show ?thesis using fallback_available [of unplugged_client True] by simp
qed


end
