(* ===== verification/Call_Types.thy ===== *)
theory Call_Types
  imports JS_Prelude
begin

text \<open>
  The data of the web application: the constants of \<open>webapp/src/constants.ts\<close>, the types of
  \<open>webapp/src/types/types.ts\<close> and \<open>webapp/src/reducers.ts\<close>, and the actions of
  \<open>webapp/src/action_types.ts\<close> with the payload each is dispatched with.

  Payload types that come from the package \<open>@mattermost/calls-common\<close> (\<open>Reaction\<close>,
  \<open>UserSessionState\<close>, \<open>CallJobState\<close>, \<open>LiveCaption\<close>, \<open>CallsConfig\<close>) are records
  of the fields the code reads or writes; a field the code may leave \<open>undefined\<close> is an
  \<open>option\<close>. Times are integers (milliseconds).
\<close>

section \<open>Constants\<close>

definition MAX_NUM_REACTIONS_IN_REACTION_STREAM :: nat where
  "MAX_NUM_REACTIONS_IN_REACTION_STREAM = 50"

definition REACTION_TIMEOUT_IN_REACTION_STREAM :: int where
  "REACTION_TIMEOUT_IN_REACTION_STREAM = 10000"

definition JOINED_USER_NOTIFICATION_TIMEOUT :: int where
  "JOINED_USER_NOTIFICATION_TIMEOUT = 5000"

definition RING_LENGTH :: int where
  "RING_LENGTH = 30000"

definition DEFAULT_RING_SOUND :: string where
  "DEFAULT_RING_SOUND = ''Calm''"

definition LIVE_CAPTION_TIMEOUT :: int where
  "LIVE_CAPTION_TIMEOUT = 5000"

definition HOST_CONTROL_NOTICE_TIMEOUT :: int where
  "HOST_CONTROL_NOTICE_TIMEOUT = 5000"

definition JOB_TYPE_RECORDING :: string where
  "JOB_TYPE_RECORDING = ''recording''"

definition JOB_TYPE_CAPTIONING :: string where
  "JOB_TYPE_CAPTIONING = ''captioning''"

lemmas constant_defs =
  MAX_NUM_REACTIONS_IN_REACTION_STREAM_def REACTION_TIMEOUT_IN_REACTION_STREAM_def
  JOINED_USER_NOTIFICATION_TIMEOUT_def RING_LENGTH_def DEFAULT_RING_SOUND_def
  LIVE_CAPTION_TIMEOUT_def HOST_CONTROL_NOTICE_TIMEOUT_def
  JOB_TYPE_RECORDING_def JOB_TYPE_CAPTIONING_def

section \<open>Sessions and reactions\<close>

record reaction =
  r_user_id :: string
  r_session_id :: string
  r_emoji :: string
  r_timestamp :: int
  r_displayName :: string

text \<open>
  A session as the store holds it. Every field may be missing: an update of a session the
  store does not hold spreads \<open>undefined\<close> and leaves only the field it sets.
\<close>

record user_session =
  session_id :: "string option"
  user_id :: "string option"
  unmuted :: "bool option"
  voice :: "bool option"
  video :: "bool option"
  raised_hand :: "int option"
  us_reaction :: "reaction nullable"

type_synonym sessions_state = "user_session obj obj"

record reactions_entry =
  re_reactions :: "reaction list"

type_synonym users_reactions_state = "reactions_entry obj"

section \<open>Calls, hosts and jobs\<close>

text \<open>
  The data of a call. \<open>cs_hostID\<close> is not part of the type the reducer declares, but
  \<open>handleCallStart\<close> puts it in the payload and the reducer stores the whole payload.
\<close>

record call_state =
  cs_ID :: string
  cs_startAt :: int
  cs_channelID :: string
  cs_threadID :: string
  cs_ownerID :: string
  cs_hostID :: "string option"

record host_entry =
  he_hostID :: string
  he_hostChangeAt :: int

record job_state =
  js_type :: "string option"
  init_at :: "int option"
  start_at :: "int option"
  end_at :: "int option"
  js_err :: "string option"
  error_at :: "int option"
  prompt_dismissed_at :: "int option"

definition empty_job :: job_state where
  "empty_job = \<lparr>js_type = None, init_at = None, start_at = None, end_at = None,
     js_err = None, error_at = None, prompt_dismissed_at = None\<rparr>"

record client_state =
  cl_channelID :: string
  cl_sessionID :: string

record channel_state =
  ch_id :: string
  ch_enabled :: "bool option"

section \<open>Notifications, notices and captions\<close>

datatype channel_type = DM | GM

record incoming_call =
  ic_callID :: string
  ic_channelID :: string
  ic_callerID :: string
  ic_startAt :: int
  ic_type :: channel_type

datatype host_control_notice_type = LowerHand | HostChanged | HostRemoved

record host_control_notice =
  hn_type :: host_control_notice_type
  hn_callID :: string
  hn_noticeID :: string
  hn_displayName :: string
  hn_userID :: "string option"

record live_caption =
  lc_channel_id :: string
  lc_session_id :: string
  lc_user_id :: string
  lc_text :: string
  lc_display_name :: string
  lc_caption_id :: string

type_synonym live_captions = "live_caption obj"

section \<open>Configuration\<close>

datatype transcribe_api = WhisperCPP | AzureAI | OtherAPI string

record calls_config =
  ICEServers :: "string list"
  ICEServersConfigs :: "string list"
  DefaultEnabled :: bool
  MaxCallParticipants :: int
  NeedsTURNCredentials :: bool
  AllowScreenSharing :: bool
  EnableRecordings :: bool
  MaxRecordingDuration :: int
  sku_short_name :: string
  EnableSimulcast :: bool
  EnableRinging :: bool
  EnableTranscriptions :: bool
  EnableLiveCaptions :: bool
  HostControlsAllowed :: bool
  EnableAV1 :: bool
  TranscribeAPI :: transcribe_api
  GroupCallsAllowed :: bool
  EnableDCSignaling :: bool
  EnableVideo :: bool

definition CallsConfigDefault :: calls_config where
  "CallsConfigDefault = \<lparr>
     ICEServers = [],
     ICEServersConfigs = [],
     DefaultEnabled = False,
     MaxCallParticipants = 0,
     NeedsTURNCredentials = False,
     AllowScreenSharing = True,
     EnableRecordings = False,
     MaxRecordingDuration = 60,
     sku_short_name = '''',
     EnableSimulcast = False,
     EnableRinging = True,
     EnableTranscriptions = False,
     EnableLiveCaptions = False,
     HostControlsAllowed = False,
     EnableAV1 = False,
     TranscribeAPI = WhisperCPP,
     GroupCallsAllowed = False,
     EnableDCSignaling = False,
     EnableVideo = False\<rparr>"

record calls_user_preferences =
  joinSoundParticipantsThreshold :: int

definition CallsUserPreferencesDefault :: calls_user_preferences where
  "CallsUserPreferencesDefault = \<lparr>joinSoundParticipantsThreshold = 8\<rparr>"

record switch_call_modal =
  sm_show :: bool
  sm_targetID :: "string option"

section \<open>Actions\<close>

text \<open>
  One constructor per action type, with the payload of the places that dispatch it.
  \<open>CALL_END\<close> carries no session identifier (\<open>callEnd\<close> of \<open>actions.ts\<close> is its only
  source); the user identifier of the two screen actions and the \<open>currentUserID\<close> of
  \<open>USER_JOINED\<close> are read by no reducer and left out. \<open>OTHER\<close> is any action the plugin
  does not handle, the empty type of \<open>handleCallJobState\<close> included.
\<close>

datatype (plugins only: code size) action =
    UNINIT
  | RECEIVED_CHANNEL_STATE channel_state
  | DESKTOP_WIDGET_CONNECTED string string
  | CALL_END string string
  | USER_JOINED string string string
  | USER_LEFT string string string
  | USERS_STATES string "user_session obj"
  | USER_MUTED string string string
  | USER_UNMUTED string string string
  | USER_VOICE_ON string string string
  | USER_VOICE_OFF string string string
  | USER_RAISE_HAND string string string "int option"
  | USER_LOWER_HAND string string string "int option"
  | USER_REACTED string string string "reaction option"
  | USER_REACTED_TIMEOUT string string string "reaction option"
  | USER_VIDEO_ON string string string
  | USER_VIDEO_OFF string string string
  | USER_JOINED_TIMEOUT string string
  | USER_SCREEN_ON string string
  | USER_SCREEN_OFF string string
  | CALL_STATE call_state
  | CALL_HOST string string int
  | CALL_RECORDING_STATE string "job_state option"
  | CALL_LIVE_CAPTIONS_STATE string "job_state option"
  | CALL_REC_PROMPT_DISMISSED string int
  | LOCAL_SESSION_CLOSE string
  | LIVE_CAPTION live_caption
  | LIVE_CAPTION_TIMEOUT_EVENT string string string
  | HOST_CONTROL_NOTICE host_control_notice
  | HOST_CONTROL_NOTICE_TIMEOUT_EVENT string string
  | SHOW_EXPANDED_VIEW
  | HIDE_EXPANDED_VIEW
  | SHOW_SWITCH_CALL_MODAL "string option"
  | HIDE_SWITCH_CALL_MODAL
  | SHOW_SCREEN_SOURCE_MODAL
  | HIDE_SCREEN_SOURCE_MODAL
  | RECEIVED_CALLS_CONFIG calls_config
  | RECEIVED_CALLS_CONFIG_ENV_OVERRIDES "string obj"
  | RECEIVED_CALLS_VERSION_INFO "string obj"
  | RECEIVED_CALLS_USER_PREFERENCES calls_user_preferences
  | RECORDINGS_ENABLED bool
  | TRANSCRIPTIONS_ENABLED bool
  | LIVE_CAPTIONS_ENABLED bool
  | TRANSCRIBE_API transcribe_api
  | RTCD_ENABLED bool
  | ADD_INCOMING_CALL incoming_call
  | REMOVE_INCOMING_CALL string
  | RINGING_FOR_CALL string
  | DID_RING_FOR_CALL string
  | DID_NOTIFY_FOR_CALL string
  | DISMISS_CALL string
  | CLIENT_CONNECTING bool
  | OTHER string

end
