(* ===== verification/Session_Reducers.thy ===== *)
theory Session_Reducers
  imports Call_Types
begin

text \<open>
  The slice \<open>sessions\<close> of \<open>webapp/src/reducers.ts\<close>: for each channel with a call, the
  sessions in it. Each branch of the reducer's \<open>switch\<close> is a definition, and
  \<open>sessions\<close> composes them in the order of the code. The lemmas say what a lookup returns
  after each branch, that branches touch one channel only, and that the representation
  stays well formed.
\<close>

section \<open>The branches\<close>

text \<open>The spread of a session that may not be there: \<open>{...undefined}\<close> has no field.\<close>

definition empty_session :: user_session where
  "empty_session = \<lparr>session_id = None, user_id = None, unmuted = None, voice = None,
     video = None, raised_hand = None, us_reaction = Undefined\<rparr>"

definition spread_session :: "user_session option \<Rightarrow> user_session" where
  "spread_session s = (case s of None \<Rightarrow> empty_session | Some s' \<Rightarrow> s')"

text \<open>
  The literal the branches build for a channel the store does not know; the branches differ in
  the field they are about.
\<close>

definition fresh_session :: "string \<Rightarrow> string \<Rightarrow> user_session" where
  "fresh_session sid uid = \<lparr>session_id = Some sid, user_id = Some uid, unmuted = Some False,
     voice = Some False, video = Some False, raised_hand = Some 0, us_reaction = Undefined\<rparr>"

text \<open>
  The shape the field updates share: a new channel entry with the literal, or the stored
  session spread and one field replaced.
\<close>

definition set_field ::
  "string \<Rightarrow> string \<Rightarrow> user_session \<Rightarrow> (user_session \<Rightarrow> user_session) \<Rightarrow> sessions_state \<Rightarrow> sessions_state" where
  "set_field ch sid lit upd st =
     (case obj_get st ch of
        None \<Rightarrow> obj_set ch [(sid, lit)] st
      | Some ss \<Rightarrow> obj_set ch (obj_set sid (upd (spread_session (obj_get ss sid))) ss) st)"

definition sessions_call_end :: "sessions_state \<Rightarrow> string \<Rightarrow> sessions_state" where
  "sessions_call_end st ch = obj_del ch st"

definition sessions_user_joined :: "sessions_state \<Rightarrow> string \<Rightarrow> string \<Rightarrow> string \<Rightarrow> sessions_state" where
  "sessions_user_joined st ch uid sid =
     obj_set ch
       (obj_set sid (fresh_session sid uid)
          (case obj_get st ch of None \<Rightarrow> [] | Some ss \<Rightarrow> ss)) st"

definition sessions_user_left :: "sessions_state \<Rightarrow> string \<Rightarrow> string \<Rightarrow> sessions_state" where
  "sessions_user_left st ch sid =
     (case obj_get st ch of
        Some ss \<Rightarrow> obj_set ch (obj_del sid ss) st
      | None \<Rightarrow> st)"

definition sessions_users_states :: "sessions_state \<Rightarrow> string \<Rightarrow> user_session obj \<Rightarrow> sessions_state" where
  "sessions_users_states st ch states = obj_set ch states st"

definition sessions_user_muted :: "sessions_state \<Rightarrow> string \<Rightarrow> string \<Rightarrow> string \<Rightarrow> sessions_state" where
  "sessions_user_muted st ch uid sid =
     set_field ch sid (fresh_session sid uid) (\<lambda>s. s\<lparr>unmuted := Some False\<rparr>) st"

definition sessions_user_unmuted :: "sessions_state \<Rightarrow> string \<Rightarrow> string \<Rightarrow> string \<Rightarrow> sessions_state" where
  "sessions_user_unmuted st ch uid sid =
     set_field ch sid ((fresh_session sid uid)\<lparr>unmuted := Some True\<rparr>) (\<lambda>s. s\<lparr>unmuted := Some True\<rparr>) st"

definition sessions_user_voice_on :: "sessions_state \<Rightarrow> string \<Rightarrow> string \<Rightarrow> string \<Rightarrow> sessions_state" where
  "sessions_user_voice_on st ch uid sid =
     set_field ch sid ((fresh_session sid uid)\<lparr>voice := Some True\<rparr>) (\<lambda>s. s\<lparr>voice := Some True\<rparr>) st"

definition sessions_user_voice_off :: "sessions_state \<Rightarrow> string \<Rightarrow> string \<Rightarrow> string \<Rightarrow> sessions_state" where
  "sessions_user_voice_off st ch uid sid =
     set_field ch sid (fresh_session sid uid) (\<lambda>s. s\<lparr>voice := Some False\<rparr>) st"

definition sessions_user_raise_hand ::
  "sessions_state \<Rightarrow> string \<Rightarrow> string \<Rightarrow> string \<Rightarrow> int option \<Rightarrow> sessions_state" where
  "sessions_user_raise_hand st ch uid sid rh =
     set_field ch sid ((fresh_session sid uid)\<lparr>raised_hand := rh\<rparr>) (\<lambda>s. s\<lparr>raised_hand := rh\<rparr>) st"

definition sessions_user_lower_hand ::
  "sessions_state \<Rightarrow> string \<Rightarrow> string \<Rightarrow> string \<Rightarrow> int option \<Rightarrow> sessions_state" where
  "sessions_user_lower_hand st ch uid sid rh =
     set_field ch sid ((fresh_session sid uid)\<lparr>raised_hand := rh\<rparr>) (\<lambda>s. s\<lparr>raised_hand := rh\<rparr>) st"

definition reaction_value :: "reaction option \<Rightarrow> reaction nullable" where
  "reaction_value r = (case r of None \<Rightarrow> Undefined | Some x \<Rightarrow> Val x)"

definition sessions_user_reacted ::
  "sessions_state \<Rightarrow> string \<Rightarrow> string \<Rightarrow> string \<Rightarrow> reaction option \<Rightarrow> sessions_state" where
  "sessions_user_reacted st ch uid sid r =
     set_field ch sid ((fresh_session sid uid)\<lparr>us_reaction := reaction_value r\<rparr>)
       (\<lambda>s. s\<lparr>us_reaction := reaction_value r\<rparr>) st"

text \<open>\<open>state[channelID]?.[session_id]?.reaction\<close>, when it is truthy.\<close>

definition stored_reaction :: "sessions_state \<Rightarrow> string \<Rightarrow> string \<Rightarrow> reaction option" where
  "stored_reaction st ch sid =
     (case obj_get st ch of
        None \<Rightarrow> None
      | Some ss \<Rightarrow>
          (case obj_get ss sid of
             None \<Rightarrow> None
           | Some s \<Rightarrow> (case us_reaction s of Val r \<Rightarrow> Some r | _ \<Rightarrow> None)))"

definition sessions_user_reacted_timeout ::
  "sessions_state \<Rightarrow> string \<Rightarrow> string \<Rightarrow> reaction option \<Rightarrow> sessions_state" where
  "sessions_user_reacted_timeout st ch sid r =
     (case (stored_reaction st ch sid, r) of
        (Some stored, Some r') \<Rightarrow>
          if r_timestamp stored > r_timestamp r' then st
          else (case obj_get st ch of
                  None \<Rightarrow> st
                | Some ss \<Rightarrow>
                    obj_set ch (obj_set sid ((spread_session (obj_get ss sid))\<lparr>us_reaction := Null\<rparr>) ss) st)
      | _ \<Rightarrow> st)"

definition sessions_user_video_on :: "sessions_state \<Rightarrow> string \<Rightarrow> string \<Rightarrow> string \<Rightarrow> sessions_state" where
  "sessions_user_video_on st ch uid sid =
     set_field ch sid ((fresh_session sid uid)\<lparr>video := Some True\<rparr>) (\<lambda>s. s\<lparr>video := Some True\<rparr>) st"

text \<open>The literal of this branch has \<open>unmuted: true\<close>, unlike every other one.\<close>

definition sessions_user_video_off :: "sessions_state \<Rightarrow> string \<Rightarrow> string \<Rightarrow> string \<Rightarrow> sessions_state" where
  "sessions_user_video_off st ch uid sid =
     set_field ch sid ((fresh_session sid uid)\<lparr>unmuted := Some True\<rparr>) (\<lambda>s. s\<lparr>video := Some False\<rparr>) st"

fun sessions :: "sessions_state \<Rightarrow> action \<Rightarrow> sessions_state" where
  "sessions st UNINIT = []"
| "sessions st (CALL_END ch callID) = sessions_call_end st ch"
| "sessions st (USER_JOINED ch uid sid) = sessions_user_joined st ch uid sid"
| "sessions st (USER_LEFT ch uid sid) = sessions_user_left st ch sid"
| "sessions st (USERS_STATES ch states) = sessions_users_states st ch states"
| "sessions st (USER_MUTED ch uid sid) = sessions_user_muted st ch uid sid"
| "sessions st (USER_UNMUTED ch uid sid) = sessions_user_unmuted st ch uid sid"
| "sessions st (USER_VOICE_ON ch uid sid) = sessions_user_voice_on st ch uid sid"
| "sessions st (USER_VOICE_OFF ch uid sid) = sessions_user_voice_off st ch uid sid"
| "sessions st (USER_RAISE_HAND ch uid sid rh) = sessions_user_raise_hand st ch uid sid rh"
| "sessions st (USER_LOWER_HAND ch uid sid rh) = sessions_user_lower_hand st ch uid sid rh"
| "sessions st (USER_REACTED ch uid sid r) = sessions_user_reacted st ch uid sid r"
| "sessions st (USER_REACTED_TIMEOUT ch uid sid r) = sessions_user_reacted_timeout st ch sid r"
| "sessions st (USER_VIDEO_ON ch uid sid) = sessions_user_video_on st ch uid sid"
| "sessions st (USER_VIDEO_OFF ch uid sid) = sessions_user_video_off st ch uid sid"
| "sessions st _ = st"

lemmas session_branch_defs =
  sessions_call_end_def sessions_user_joined_def sessions_user_left_def sessions_users_states_def
  sessions_user_muted_def sessions_user_unmuted_def sessions_user_voice_on_def
  sessions_user_voice_off_def sessions_user_raise_hand_def sessions_user_lower_hand_def
  sessions_user_reacted_def sessions_user_reacted_timeout_def
  sessions_user_video_on_def sessions_user_video_off_def

section \<open>Lookups\<close>

definition session_of :: "sessions_state \<Rightarrow> string \<Rightarrow> string \<Rightarrow> user_session option" where
  "session_of st ch sid = (case obj_get st ch of None \<Rightarrow> None | Some ss \<Rightarrow> obj_get ss sid)"

lemma session_of_Nil [simp]: "session_of [] ch sid = None"
  by (simp add: session_of_def)

lemma set_field_get:
  "obj_get (set_field ch sid lit upd st) c =
     (if c = ch then
        Some (case obj_get st ch of
                None \<Rightarrow> [(sid, lit)]
              | Some ss \<Rightarrow> obj_set sid (upd (spread_session (obj_get ss sid))) ss)
      else obj_get st c)"
  by (auto simp: set_field_def split: option.splits)

lemma set_field_session [slice_simps]:
  "session_of (set_field ch sid lit upd st) c s =
     (if c = ch \<and> s = sid then
        Some (if obj_get st ch = None then lit else upd (spread_session (session_of st ch sid)))
      else session_of st c s)"
  by (auto simp: session_of_def set_field_get split: option.splits)

lemma joined_session [slice_simps]:
  "session_of (sessions_user_joined st ch uid sid) c s =
     (if c = ch \<and> s = sid then Some (fresh_session sid uid) else session_of st c s)"
  by (auto simp: session_of_def sessions_user_joined_def split: option.splits)

lemma left_session [slice_simps]:
  "session_of (sessions_user_left st ch sid) c s =
     (if c = ch \<and> s = sid then None else session_of st c s)"
  by (auto simp: session_of_def sessions_user_left_def split: option.splits)

lemma ended_session [slice_simps]:
  "session_of (sessions_call_end st ch) c s = (if c = ch then None else session_of st c s)"
  by (auto simp: session_of_def sessions_call_end_def)

lemma stored_reaction_session:
  "stored_reaction st ch sid =
     (case session_of st ch sid of
        None \<Rightarrow> None
      | Some s \<Rightarrow> (case us_reaction s of Val r \<Rightarrow> Some r | _ \<Rightarrow> None))"
  by (auto simp: stored_reaction_def session_of_def split: option.splits)

lemma reacted_timeout_session [slice_simps]:
  "session_of (sessions_user_reacted_timeout st ch sid r) c s =
     (if c = ch \<and> s = sid then
        (case (stored_reaction st ch sid, r) of
           (Some stored, Some r') \<Rightarrow>
             if r_timestamp stored > r_timestamp r' then session_of st c s
             else Some ((spread_session (session_of st ch sid))\<lparr>us_reaction := Null\<rparr>)
         | _ \<Rightarrow> session_of st c s)
      else session_of st c s)"
  by (auto simp: session_of_def sessions_user_reacted_timeout_def stored_reaction_def
      split: option.splits nullable.splits)

section \<open>Which channel an action is about\<close>

text \<open>The channel whose sessions an action of this slice may change, if it is one channel.\<close>

fun session_channel :: "action \<Rightarrow> string option" where
  "session_channel (CALL_END ch _) = Some ch"
| "session_channel (USER_JOINED ch _ _) = Some ch"
| "session_channel (USER_LEFT ch _ _) = Some ch"
| "session_channel (USERS_STATES ch _) = Some ch"
| "session_channel (USER_MUTED ch _ _) = Some ch"
| "session_channel (USER_UNMUTED ch _ _) = Some ch"
| "session_channel (USER_VOICE_ON ch _ _) = Some ch"
| "session_channel (USER_VOICE_OFF ch _ _) = Some ch"
| "session_channel (USER_RAISE_HAND ch _ _ _) = Some ch"
| "session_channel (USER_LOWER_HAND ch _ _ _) = Some ch"
| "session_channel (USER_REACTED ch _ _ _) = Some ch"
| "session_channel (USER_REACTED_TIMEOUT ch _ _ _) = Some ch"
| "session_channel (USER_VIDEO_ON ch _ _) = Some ch"
| "session_channel (USER_VIDEO_OFF ch _ _) = Some ch"
| "session_channel _ = None"

lemma sessions_frame:
  assumes "a \<noteq> UNINIT" and "session_channel a \<noteq> Some c"
  shows "obj_get (sessions st a) c = obj_get st c"
  using assms
  by (cases a) (auto simp: session_branch_defs set_field_get split: option.splits)

section \<open>Well-formedness\<close>

text \<open>No channel and no session of a channel has two entries.\<close>

definition sessions_wf :: "sessions_state \<Rightarrow> bool" where
  "sessions_wf st \<longleftrightarrow> obj_wf st \<and> obj_all obj_wf st"

lemma sessions_wf_Nil [simp]: "sessions_wf []"
  by (simp add: sessions_wf_def)

lemma sessions_wf_get: "sessions_wf st \<Longrightarrow> obj_get st ch = Some ss \<Longrightarrow> obj_wf ss"
  by (auto simp: sessions_wf_def dest: obj_all_get)

lemma sessions_wf_set [intro]: "sessions_wf st \<Longrightarrow> obj_wf ss \<Longrightarrow> sessions_wf (obj_set ch ss st)"
  by (auto simp: sessions_wf_def)

lemma sessions_wf_del [intro]: "sessions_wf st \<Longrightarrow> sessions_wf (obj_del ch st)"
  by (auto simp: sessions_wf_def)

lemma set_field_wf [intro]: "sessions_wf st \<Longrightarrow> sessions_wf (set_field ch sid lit upd st)"
  by (auto simp: set_field_def dest: sessions_wf_get split: option.splits)

text \<open>The payload of \<open>USERS_STATES\<close> is an object, so its keys are distinct too.\<close>

fun action_wf :: "action \<Rightarrow> bool" where
  "action_wf (USERS_STATES _ states) = obj_wf states"
| "action_wf _ = True"

lemma sessions_keep_wf: "action_wf a \<Longrightarrow> sessions_wf st \<Longrightarrow> sessions_wf (sessions st a)"
  by (cases a)
    (auto simp: session_branch_defs dest: sessions_wf_get split: option.splits)

section \<open>Properties\<close>

text \<open>The one session an update is about.\<close>

fun session_target :: "action \<Rightarrow> (string \<times> string) option" where
  "session_target (USER_JOINED ch _ sid) = Some (ch, sid)"
| "session_target (USER_LEFT ch _ sid) = Some (ch, sid)"
| "session_target (USER_MUTED ch _ sid) = Some (ch, sid)"
| "session_target (USER_UNMUTED ch _ sid) = Some (ch, sid)"
| "session_target (USER_VOICE_ON ch _ sid) = Some (ch, sid)"
| "session_target (USER_VOICE_OFF ch _ sid) = Some (ch, sid)"
| "session_target (USER_RAISE_HAND ch _ sid _) = Some (ch, sid)"
| "session_target (USER_LOWER_HAND ch _ sid _) = Some (ch, sid)"
| "session_target (USER_REACTED ch _ sid _) = Some (ch, sid)"
| "session_target (USER_REACTED_TIMEOUT ch _ sid _) = Some (ch, sid)"
| "session_target (USER_VIDEO_ON ch _ sid) = Some (ch, sid)"
| "session_target (USER_VIDEO_OFF ch _ sid) = Some (ch, sid)"
| "session_target _ = None"

fun whole_channel :: "action \<Rightarrow> string option" where
  "whole_channel (CALL_END ch _) = Some ch"
| "whole_channel (USERS_STATES ch _) = Some ch"
| "whole_channel _ = None"

lemmas session_set_defs =
  sessions_user_muted_def sessions_user_unmuted_def sessions_user_voice_on_def
  sessions_user_voice_off_def sessions_user_raise_hand_def sessions_user_lower_hand_def
  sessions_user_reacted_def sessions_user_video_on_def sessions_user_video_off_def

lemma states_session [slice_simps]:
  "session_of (sessions_users_states st ch states) c s =
     (if c = ch then obj_get states s else session_of st c s)"
  by (simp add: session_of_def sessions_users_states_def)



text \<open>
  On a session the store holds, each update sets exactly its own field: muting clears
  \<open>unmuted\<close>, and so on for voice, video, the raised hand and the reaction, leaving the other
  fields as they were; joining resets the session and leaving removes it.
\<close>

theorem sessions_set_field:
  assumes "session_of st ch sid = Some s"
  shows "session_of (sessions st (USER_MUTED ch uid sid)) ch sid = Some (s\<lparr>unmuted := Some False\<rparr>) \<and>
    session_of (sessions st (USER_UNMUTED ch uid sid)) ch sid = Some (s\<lparr>unmuted := Some True\<rparr>) \<and>
    session_of (sessions st (USER_VOICE_ON ch uid sid)) ch sid = Some (s\<lparr>voice := Some True\<rparr>) \<and>
    session_of (sessions st (USER_VOICE_OFF ch uid sid)) ch sid = Some (s\<lparr>voice := Some False\<rparr>) \<and>
    session_of (sessions st (USER_VIDEO_ON ch uid sid)) ch sid = Some (s\<lparr>video := Some True\<rparr>) \<and>
    session_of (sessions st (USER_VIDEO_OFF ch uid sid)) ch sid = Some (s\<lparr>video := Some False\<rparr>) \<and>
    session_of (sessions st (USER_RAISE_HAND ch uid sid rh)) ch sid = Some (s\<lparr>raised_hand := rh\<rparr>) \<and>
    session_of (sessions st (USER_LOWER_HAND ch uid sid rh)) ch sid = Some (s\<lparr>raised_hand := rh\<rparr>) \<and>
    session_of (sessions st (USER_REACTED ch uid sid r)) ch sid = Some (s\<lparr>us_reaction := reaction_value r\<rparr>) \<and>
    session_of (sessions st (USER_JOINED ch uid sid)) ch sid = Some (fresh_session sid uid) \<and>
    session_of (sessions st (USER_LEFT ch uid sid)) ch sid = None"
proof -
  obtain ss where "obj_get st ch = Some ss" using assms by (auto simp: session_of_def split: option.splits)
  then show ?thesis using assms by (simp add: session_set_defs slice_simps spread_session_def)
qed

theorem sessions_set_field_witness:
  "session_of (sessions [(''ch'', [(''s'', fresh_session ''s'' ''u'')])] (USER_UNMUTED ''ch'' ''u'' ''s'')) ''ch'' ''s''
     = Some ((fresh_session ''s'' ''u'')\<lparr>unmuted := Some True\<rparr>)"
proof -
  have "session_of [(''ch'', [(''s'', fresh_session ''s'' ''u'')])] ''ch'' ''s'' = Some (fresh_session ''s'' ''u'')"
    by (simp add: session_of_def)
  from sessions_set_field [OF this] show ?thesis by blast
qed

text \<open>
  What the two branches store for a session they do not know. In a channel with sessions, a
  late update of an absent session creates an entry that has the updated field and neither an
  identifier nor a user; in an unknown channel, \<open>USER_VIDEO_OFF\<close> creates a session that is
  unmuted, although every other event creates a muted one.
\<close>

theorem sessions_late_update:
  "obj_get st ch = Some ss \<Longrightarrow> obj_get ss sid = None \<Longrightarrow>
   session_of (sessions st (USER_MUTED ch uid sid)) ch sid = Some (empty_session\<lparr>unmuted := Some False\<rparr>) \<and>
   session_of (sessions [] (USER_VIDEO_OFF ch uid sid)) ch sid = Some ((fresh_session sid uid)\<lparr>unmuted := Some True\<rparr>) \<and>
   session_of (sessions [] (USER_VOICE_OFF ch uid sid)) ch sid = Some (fresh_session sid uid)"
  by (simp add: session_set_defs slice_simps) (simp add: session_of_def spread_session_def)

theorem sessions_late_update_witness:
  "session_of (sessions [(''ch'', [])] (USER_MUTED ''ch'' ''u'' ''s'')) ''ch'' ''s''
     = Some (empty_session\<lparr>unmuted := Some False\<rparr>)"
proof -
  have "obj_get [(''ch'', [])] ''ch'' = Some ([] :: user_session obj)" by simp
  from sessions_late_update [OF this] show ?thesis by simp
qed

end
