(* ===== verification/Stream_Reducers.thy ===== *)
theory Stream_Reducers
  imports Session_Reducers
begin

text \<open>
  The slices of \<open>webapp/src/reducers.ts\<close> that hold short-lived items and drop them on a
  timeout: \<open>reactions\<close> (bounded queue per channel), \<open>liveCaptions\<close> (one per session),
  \<open>recentlyJoinedUsers\<close> and \<open>hostControlNotices\<close>. The lemmas are about the race between
  a timeout and a newer item, the bound of the queue, and the one branch that can throw.
\<close>

section \<open>Reactions\<close>

definition queueReactions :: "reaction list \<Rightarrow> reaction \<Rightarrow> reaction list" where
  "queueReactions st r =
     (let result = st @ [r]
      in if length result > MAX_NUM_REACTIONS_IN_REACTION_STREAM then drop 1 result else result)"

definition removeReaction :: "reaction list \<Rightarrow> reaction \<Rightarrow> reaction list" where
  "removeReaction rs r =
     filter (\<lambda>x. r_user_id x \<noteq> r_user_id r \<or> r_timestamp x > r_timestamp r) rs"

fun reactions :: "users_reactions_state \<Rightarrow> action \<Rightarrow> users_reactions_state" where
  "reactions st (USER_REACTED ch uid sid r) =
     (case r of
        None \<Rightarrow> st
      | Some r' \<Rightarrow>
          (case obj_get st ch of
             None \<Rightarrow> obj_set ch \<lparr>re_reactions = [r']\<rparr> st
           | Some e \<Rightarrow> obj_set ch \<lparr>re_reactions = queueReactions (re_reactions e) r'\<rparr> st))"
| "reactions st (USER_REACTED_TIMEOUT ch uid sid r) =
     (case (obj_get st ch, r) of
        (Some e, Some r') \<Rightarrow>
          obj_set ch \<lparr>re_reactions = removeReaction (re_reactions e) (r'\<lparr>r_user_id := uid\<rparr>)\<rparr> st
      | _ \<Rightarrow> st)"
| "reactions st (USER_LEFT ch uid sid) =
     (case obj_get st ch of
        None \<Rightarrow> st
      | Some e \<Rightarrow>
          obj_set ch \<lparr>re_reactions = filter (\<lambda>x. r_user_id x \<noteq> uid) (re_reactions e)\<rparr> st)"
| "reactions st _ = st"

definition channel_reactions :: "users_reactions_state \<Rightarrow> string \<Rightarrow> reaction list" where
  "channel_reactions st ch = (case obj_get st ch of None \<Rightarrow> [] | Some e \<Rightarrow> re_reactions e)"

lemma length_queueReactions:
  "length rs \<le> MAX_NUM_REACTIONS_IN_REACTION_STREAM \<Longrightarrow>
   length (queueReactions rs r) \<le> MAX_NUM_REACTIONS_IN_REACTION_STREAM"
  by (auto simp: queueReactions_def constant_defs Let_def)

lemma last_queueReactions: "queueReactions rs r \<noteq> [] \<and> last (queueReactions rs r) = r"
  by (cases rs) (simp_all add: queueReactions_def constant_defs Let_def)

lemma length_removeReaction: "length (removeReaction rs r) \<le> length rs"
  by (simp add: removeReaction_def)

definition reactions_bounded :: "users_reactions_state \<Rightarrow> bool" where
  "reactions_bounded st \<longleftrightarrow>
     obj_all (\<lambda>e. length (re_reactions e) \<le> MAX_NUM_REACTIONS_IN_REACTION_STREAM) st"

lemma reactions_bounded_Nil [simp]: "reactions_bounded []"
  by (simp add: reactions_bounded_def)

lemma reactions_bounded_set [intro]:
  "reactions_bounded st \<Longrightarrow> length rs \<le> MAX_NUM_REACTIONS_IN_REACTION_STREAM \<Longrightarrow>
   reactions_bounded (obj_set ch \<lparr>re_reactions = rs\<rparr> st)"
  by (auto simp: reactions_bounded_def)

lemma reactions_bounded_get:
  "reactions_bounded st \<Longrightarrow> obj_get st ch = Some e \<Longrightarrow>
   length (re_reactions e) \<le> MAX_NUM_REACTIONS_IN_REACTION_STREAM"
  unfolding reactions_bounded_def by (drule obj_all_get) auto

lemma reactions_bounded_step: "reactions_bounded st \<Longrightarrow> reactions_bounded (reactions st a)"
proof (induction st a rule: reactions.induct)
  case (1 st ch uid sid r)
  have "length [x] \<le> MAX_NUM_REACTIONS_IN_REACTION_STREAM" for x :: reaction
    by (simp add: MAX_NUM_REACTIONS_IN_REACTION_STREAM_def)
  with 1 show ?case
    by (auto intro!: reactions_bounded_set length_queueReactions dest: reactions_bounded_get
        split: option.splits)
next
  case (2 st ch uid sid r)
  then show ?case
    by (auto intro!: reactions_bounded_set le_trans[OF length_removeReaction]
        dest: reactions_bounded_get split: option.splits)
next
  case (3 st ch uid sid)
  then show ?case
    by (auto intro!: reactions_bounded_set le_trans[OF length_filter_le]
        dest: reactions_bounded_get split: option.splits)
qed auto

lemma channel_reactions_bound:
  "reactions_bounded st \<Longrightarrow> length (channel_reactions st ch) \<le> MAX_NUM_REACTIONS_IN_REACTION_STREAM"
  by (auto simp: channel_reactions_def dest: reactions_bounded_get split: option.splits)

text \<open>What a timeout leaves in the stream: other users' reactions and newer ones.\<close>

lemma reactions_timeout_stream:
  "channel_reactions (reactions st (USER_REACTED_TIMEOUT ch uid sid (Some r))) ch =
     filter (\<lambda>x. r_user_id x \<noteq> uid \<or> r_timestamp x > r_timestamp r) (channel_reactions st ch)"
  by (auto simp: channel_reactions_def removeReaction_def split: option.splits)

section \<open>Live captions\<close>

text \<open>
  The stored caption is the payload of the event, which carries \<open>caption_id\<close>;
  \<open>channelState || {}\<close> is the \<open>option\<close> case.
\<close>

definition addCaption :: "live_captions option \<Rightarrow> live_caption \<Rightarrow> live_captions" where
  "addCaption chst d =
     obj_set (lc_session_id d) d (case chst of None \<Rightarrow> [] | Some st \<Rightarrow> st)"

definition captionTimeout :: "live_captions option \<Rightarrow> string \<Rightarrow> string \<Rightarrow> live_captions" where
  "captionTimeout chst sid cid =
     (let st = (case chst of None \<Rightarrow> [] | Some st' \<Rightarrow> st')
      in case obj_get st sid of
           Some c \<Rightarrow> if lc_caption_id c = cid then obj_del sid st else st
         | None \<Rightarrow> st)"

fun liveCaptions :: "live_captions obj \<Rightarrow> action \<Rightarrow> live_captions obj" where
  "liveCaptions st (LIVE_CAPTION d) =
     obj_set (lc_channel_id d) (addCaption (obj_get st (lc_channel_id d)) d) st"
| "liveCaptions st (LIVE_CAPTION_TIMEOUT_EVENT ch sid cid) =
     obj_set ch (captionTimeout (obj_get st ch) sid cid) st"
| "liveCaptions st _ = st"

definition caption_of :: "live_captions obj \<Rightarrow> string \<Rightarrow> string \<Rightarrow> live_caption option" where
  "caption_of st ch sid = (case obj_get st ch of None \<Rightarrow> None | Some cs \<Rightarrow> obj_get cs sid)"

lemma caption_added [slice_simps]:
  "caption_of (liveCaptions st (LIVE_CAPTION d)) ch sid =
     (if ch = lc_channel_id d \<and> sid = lc_session_id d then Some d else caption_of st ch sid)"
  by (auto simp: caption_of_def addCaption_def split: option.splits)

lemma caption_timed_out [slice_simps]:
  "caption_of (liveCaptions st (LIVE_CAPTION_TIMEOUT_EVENT c s cid)) ch sid =
     (case caption_of st ch sid of
        Some d \<Rightarrow> if ch = c \<and> sid = s \<and> lc_caption_id d = cid then None else Some d
      | None \<Rightarrow> None)"
  by (auto simp: caption_of_def captionTimeout_def Let_def split: option.splits)

section \<open>Recently joined users\<close>

text \<open>
  A value of this slice may be \<open>undefined\<close>: filtering a channel that has no list stores
  the \<open>undefined\<close> that \<open>?.filter\<close> returns.
\<close>

type_synonym recently_joined_state = "string list option obj"

definition joined_list :: "recently_joined_state \<Rightarrow> string \<Rightarrow> string list option" where
  "joined_list st ch = (case obj_get st ch of None \<Rightarrow> None | Some l \<Rightarrow> l)"

fun recentlyJoinedUsers :: "recently_joined_state \<Rightarrow> action \<Rightarrow> recently_joined_state" where
  "recentlyJoinedUsers st UNINIT = []"
| "recentlyJoinedUsers st (USER_JOINED ch uid sid) =
     (case joined_list st ch of
        None \<Rightarrow> obj_set ch (Some [uid]) st
      | Some l \<Rightarrow> obj_set ch (Some (l @ [uid])) st)"
| "recentlyJoinedUsers st (USER_LEFT ch uid sid) =
     obj_set ch (map_option (filter (\<lambda>v. v \<noteq> uid)) (joined_list st ch)) st"
| "recentlyJoinedUsers st (CALL_END ch callID) = obj_set ch (Some []) st"
| "recentlyJoinedUsers st (USER_JOINED_TIMEOUT ch uid) =
     obj_set ch (map_option (filter (\<lambda>v. v \<noteq> uid)) (joined_list st ch)) st"
| "recentlyJoinedUsers st _ = st"

definition recently_joined :: "recently_joined_state \<Rightarrow> string \<Rightarrow> string list" where
  "recently_joined st ch = (case joined_list st ch of None \<Rightarrow> [] | Some l \<Rightarrow> l)"

lemma recently_joined_steps [slice_simps]:
  "recently_joined (recentlyJoinedUsers st (USER_JOINED ch uid sid)) c =
     (if c = ch then recently_joined st ch @ [uid] else recently_joined st c)"
  "recently_joined (recentlyJoinedUsers st (USER_LEFT ch uid sid)) c =
     (if c = ch then filter (\<lambda>v. v \<noteq> uid) (recently_joined st ch) else recently_joined st c)"
  "recently_joined (recentlyJoinedUsers st (USER_JOINED_TIMEOUT ch uid)) c =
     (if c = ch then filter (\<lambda>v. v \<noteq> uid) (recently_joined st ch) else recently_joined st c)"
  "recently_joined (recentlyJoinedUsers st (CALL_END ch callID)) c =
     (if c = ch then [] else recently_joined st c)"
  by (auto simp: recently_joined_def joined_list_def split: option.splits)

section \<open>Host control notices\<close>

type_synonym notices_state = "host_control_notice list obj"

definition addHostControlNotice ::
  "host_control_notice list option \<Rightarrow> host_control_notice \<Rightarrow> host_control_notice list" where
  "addHostControlNotice notices n = (case notices of None \<Rightarrow> [n] | Some ns \<Rightarrow> ns @ [n])"

text \<open>\<open>notices.filter\<close> on \<open>undefined\<close> throws.\<close>

definition removeHostControlNotice ::
  "host_control_notice list option \<Rightarrow> string \<Rightarrow> js_error + host_control_notice list" where
  "removeHostControlNotice notices nid =
     (case notices of
        None \<Rightarrow> Inl TypeError
      | Some ns \<Rightarrow> Inr (filter (\<lambda>n. hn_noticeID n \<noteq> nid) ns))"

fun hostControlNotices :: "notices_state \<Rightarrow> action \<Rightarrow> js_error + notices_state" where
  "hostControlNotices st (HOST_CONTROL_NOTICE d) =
     Inr (obj_set (hn_callID d) (addHostControlNotice (obj_get st (hn_callID d)) d) st)"
| "hostControlNotices st (HOST_CONTROL_NOTICE_TIMEOUT_EVENT callID nid) =
     (case removeHostControlNotice (obj_get st callID) nid of
        Inl e \<Rightarrow> Inl e
      | Inr ns \<Rightarrow> Inr (obj_set callID ns st))"
| "hostControlNotices st _ = Inr st"

lemma hostControlNotices_throws_iff:
  "hostControlNotices st a = Inl e \<longleftrightarrow>
     e = TypeError \<and> (\<exists>callID nid. a = HOST_CONTROL_NOTICE_TIMEOUT_EVENT callID nid \<and> obj_get st callID = None)"
  by (cases a) (auto simp: removeHostControlNotice_def split: option.splits)

text \<open>A call that has a list of notices keeps one: no branch deletes an entry.\<close>

lemma hostControlNotices_keeps_key:
  "hostControlNotices st a = Inr st' \<Longrightarrow> obj_get st c \<noteq> None \<Longrightarrow> obj_get st' c \<noteq> None"
  by (cases a)
    (auto simp: removeHostControlNotice_def split: option.splits sum.splits if_splits)

end
