(* ===== verification/Call_Reducers.thy ===== *)
theory Call_Reducers
  imports Call_Types
begin

text \<open>
  The remaining slices of \<open>webapp/src/reducers.ts\<close>: the channel and call data
  (\<open>channels\<close>, \<open>clientStateReducer\<close>, \<open>calls\<close>, \<open>hosts\<close>, \<open>screenSharingIDs\<close>), the job
  states (\<open>recordings\<close>, \<open>callLiveCaptionsState\<close>), the view flags, the configuration and
  the bookkeeping of incoming calls.
\<close>

section \<open>Channels and the desktop widget's client\<close>

fun channels :: "channel_state obj \<Rightarrow> action \<Rightarrow> channel_state obj" where
  "channels st (RECEIVED_CHANNEL_STATE d) = obj_set (ch_id d) d st"
| "channels st _ = st"

fun clientStateReducer :: "client_state option \<Rightarrow> action \<Rightarrow> client_state option" where
  "clientStateReducer st UNINIT = None"
| "clientStateReducer st (DESKTOP_WIDGET_CONNECTED ch sid) =
     Some \<lparr>cl_channelID = ch, cl_sessionID = sid\<rparr>"
| "clientStateReducer st (USER_LEFT ch uid sid) =
     (if Some sid = map_option cl_sessionID st then None else st)"
| "clientStateReducer st (CALL_END ch callID) =
     (if Some ch = map_option cl_channelID st then None else st)"
| "clientStateReducer st _ = st"

section \<open>Job states\<close>

text \<open>\<open>{...state[id], ...jobState}\<close>: the fields of the new state over the stored ones.\<close>

definition merge_job :: "job_state option \<Rightarrow> job_state option \<Rightarrow> job_state" where
  "merge_job old new =
     (let a = (case old of None \<Rightarrow> empty_job | Some j \<Rightarrow> j) in
      case new of
        None \<Rightarrow> a
      | Some b \<Rightarrow>
          \<lparr>js_type = js_over (js_type a) (js_type b),
           init_at = js_over (init_at a) (init_at b),
           start_at = js_over (start_at a) (start_at b),
           end_at = js_over (end_at a) (end_at b),
           js_err = js_over (js_err a) (js_err b),
           error_at = js_over (error_at a) (error_at b),
           prompt_dismissed_at = js_over (prompt_dismissed_at a) (prompt_dismissed_at b)\<rparr>)"

fun recordings :: "job_state obj \<Rightarrow> action \<Rightarrow> job_state obj" where
  "recordings st UNINIT = []"
| "recordings st (LOCAL_SESSION_CLOSE ch) = obj_del ch st"
| "recordings st (CALL_RECORDING_STATE callID j) =
     obj_set callID (merge_job (obj_get st callID) j) st"
| "recordings st (CALL_REC_PROMPT_DISMISSED callID t) =
     obj_set callID ((merge_job (obj_get st callID) None)\<lparr>prompt_dismissed_at := Some t\<rparr>) st"
| "recordings st _ = st"

fun callLiveCaptionsState :: "job_state obj \<Rightarrow> action \<Rightarrow> job_state obj" where
  "callLiveCaptionsState st (CALL_LIVE_CAPTIONS_STATE callID j) =
     obj_set callID (merge_job (obj_get st callID) j) st"
| "callLiveCaptionsState st _ = st"

lemma merge_job_None [simp]: "merge_job (Some j) None = j" "merge_job None None = empty_job"
  by (simp_all add: merge_job_def)

text \<open>A job state that carries all three times replaces the stored times.\<close>

lemma merge_job_times:
  "init_at b = Some i \<Longrightarrow> init_at (merge_job a (Some b)) = Some i"
  "start_at b = Some i \<Longrightarrow> start_at (merge_job a (Some b)) = Some i"
  "end_at b = Some i \<Longrightarrow> end_at (merge_job a (Some b)) = Some i"
  by (simp_all add: merge_job_def js_over_def Let_def)

section \<open>Calls, hosts and screen sharing\<close>

fun calls :: "call_state obj \<Rightarrow> action \<Rightarrow> call_state obj" where
  "calls st UNINIT = []"
| "calls st (CALL_STATE d) = obj_set (cs_channelID d) d st"
| "calls st (CALL_END ch callID) = obj_del ch st"
| "calls st _ = st"

fun hosts :: "host_entry obj \<Rightarrow> action \<Rightarrow> host_entry obj" where
  "hosts st UNINIT = []"
| "hosts st (CALL_HOST ch h t) = obj_set ch \<lparr>he_hostID = h, he_hostChangeAt = t\<rparr> st"
| "hosts st _ = st"

text \<open>
  The three branches that clear the identifier compare the action's session with the stored
  one; \<open>CALL_END\<close> carries no session, so it compares \<open>undefined\<close>.
\<close>

definition clear_screen_sharing :: "string obj \<Rightarrow> string \<Rightarrow> string option \<Rightarrow> string obj" where
  "clear_screen_sharing st ch sid =
     (if sid \<noteq> obj_get st ch then st else obj_set ch '''' st)"

fun screenSharingIDs :: "string obj \<Rightarrow> action \<Rightarrow> string obj" where
  "screenSharingIDs st UNINIT = []"
| "screenSharingIDs st (USER_SCREEN_ON ch sid) = obj_set ch sid st"
| "screenSharingIDs st (USER_LEFT ch uid sid) =
     (if Some sid \<noteq> obj_get st ch then st else clear_screen_sharing st ch (Some sid))"
| "screenSharingIDs st (CALL_END ch callID) = clear_screen_sharing st ch None"
| "screenSharingIDs st (USER_SCREEN_OFF ch sid) = clear_screen_sharing st ch (Some sid)"
| "screenSharingIDs st _ = st"

section \<open>View flags\<close>

fun expandedView :: "bool \<Rightarrow> action \<Rightarrow> bool" where
  "expandedView st UNINIT = False"
| "expandedView st SHOW_EXPANDED_VIEW = True"
| "expandedView st HIDE_EXPANDED_VIEW = False"
| "expandedView st _ = st"

fun switchCallModal :: "switch_call_modal \<Rightarrow> action \<Rightarrow> switch_call_modal" where
  "switchCallModal st UNINIT = \<lparr>sm_show = False, sm_targetID = Some ''''\<rparr>"
| "switchCallModal st (SHOW_SWITCH_CALL_MODAL t) = \<lparr>sm_show = True, sm_targetID = t\<rparr>"
| "switchCallModal st HIDE_SWITCH_CALL_MODAL = \<lparr>sm_show = False, sm_targetID = Some ''''\<rparr>"
| "switchCallModal st _ = st"

fun screenSourceModal :: "bool \<Rightarrow> action \<Rightarrow> bool" where
  "screenSourceModal st UNINIT = False"
| "screenSourceModal st SHOW_SCREEN_SOURCE_MODAL = True"
| "screenSourceModal st HIDE_SCREEN_SOURCE_MODAL = False"
| "screenSourceModal st _ = st"

fun clientConnecting :: "bool \<Rightarrow> action \<Rightarrow> bool" where
  "clientConnecting st UNINIT = False"
| "clientConnecting st (CLIENT_CONNECTING b) = b"
| "clientConnecting st _ = st"

section \<open>Configuration\<close>

fun callsConfig :: "calls_config \<Rightarrow> action \<Rightarrow> calls_config" where
  "callsConfig st (RECEIVED_CALLS_CONFIG c) = c"
| "callsConfig st (RECORDINGS_ENABLED b) = st\<lparr>EnableRecordings := b\<rparr>"
| "callsConfig st (TRANSCRIPTIONS_ENABLED b) = st\<lparr>EnableTranscriptions := b\<rparr>"
| "callsConfig st (LIVE_CAPTIONS_ENABLED b) = st\<lparr>EnableLiveCaptions := b\<rparr>"
| "callsConfig st (TRANSCRIBE_API v) = st\<lparr>TranscribeAPI := v\<rparr>"
| "callsConfig st _ = st"

fun callsConfigEnvOverrides :: "string obj \<Rightarrow> action \<Rightarrow> string obj" where
  "callsConfigEnvOverrides st (RECEIVED_CALLS_CONFIG_ENV_OVERRIDES d) = d"
| "callsConfigEnvOverrides st _ = st"

fun callsVersionInfo :: "string obj \<Rightarrow> action \<Rightarrow> string obj" where
  "callsVersionInfo st (RECEIVED_CALLS_VERSION_INFO d) = d"
| "callsVersionInfo st _ = st"

fun rtcdEnabled :: "bool \<Rightarrow> action \<Rightarrow> bool" where
  "rtcdEnabled st (RTCD_ENABLED b) = b"
| "rtcdEnabled st _ = st"

fun callsUserPreferences :: "calls_user_preferences \<Rightarrow> action \<Rightarrow> calls_user_preferences" where
  "callsUserPreferences st (RECEIVED_CALLS_USER_PREFERENCES d) = d"
| "callsUserPreferences st _ = st"

section \<open>Incoming calls\<close>

fun incomingCalls :: "incoming_call list \<Rightarrow> action \<Rightarrow> incoming_call list" where
  "incomingCalls st (ADD_INCOMING_CALL d) = st @ [d]"
| "incomingCalls st (REMOVE_INCOMING_CALL callID) = filter (\<lambda>ic. ic_callID ic \<noteq> callID) st"
| "incomingCalls st _ = st"

fun ringingForCalls :: "bool obj \<Rightarrow> action \<Rightarrow> bool obj" where
  "ringingForCalls st (RINGING_FOR_CALL callID) = obj_set callID True st"
| "ringingForCalls st (DID_RING_FOR_CALL callID) = obj_del callID st"
| "ringingForCalls st _ = st"

fun didRingForCalls :: "bool obj \<Rightarrow> action \<Rightarrow> bool obj" where
  "didRingForCalls st (DID_RING_FOR_CALL callID) = obj_set callID True st"
| "didRingForCalls st (RINGING_FOR_CALL callID) = obj_set callID True st"
| "didRingForCalls st _ = st"

fun didNotifyForCalls :: "bool obj \<Rightarrow> action \<Rightarrow> bool obj" where
  "didNotifyForCalls st (DID_NOTIFY_FOR_CALL callID) = obj_set callID True st"
| "didNotifyForCalls st _ = st"

fun dismissedCalls :: "bool obj \<Rightarrow> action \<Rightarrow> bool obj" where
  "dismissedCalls st (DISMISS_CALL callID) = obj_set callID True st"
| "dismissedCalls st _ = st"

text \<open>Whether a flag slice holds \<open>true\<close> for a call.\<close>

definition flagged :: "bool obj \<Rightarrow> string \<Rightarrow> bool" where
  "flagged st callID = (obj_get st callID = Some True)"

lemma flagged_Nil [simp]: "\<not> flagged [] c"
  by (simp add: flagged_def)

lemma ringing_flagged [slice_simps]:
  "flagged (ringingForCalls st (RINGING_FOR_CALL callID)) c \<longleftrightarrow> c = callID \<or> flagged st c"
  "flagged (ringingForCalls st (DID_RING_FOR_CALL callID)) c \<longleftrightarrow> c \<noteq> callID \<and> flagged st c"
  by (auto simp: flagged_def)

lemma flags_grow:
  "flagged st c \<Longrightarrow> flagged (didRingForCalls st a) c"
  "flagged st c \<Longrightarrow> flagged (didNotifyForCalls st a) c"
  "flagged st c \<Longrightarrow> flagged (dismissedCalls st a) c"
  by (cases a; auto simp: flagged_def)+

lemma ringing_recorded_step:
  "(\<And>c. flagged r c \<Longrightarrow> flagged d c) \<Longrightarrow>
   flagged (ringingForCalls r a) c \<Longrightarrow> flagged (didRingForCalls d a) c"
  by (cases a) (auto simp: flagged_def split: if_splits)

section \<open>Properties\<close>

text \<open>
  The screen slice holds at most the presenter it was given: a session that leaves or stops
  sharing clears the slot of its channel exactly when it is the presenter stored there, and
  touches no other channel.
\<close>

theorem screen_cleared_by_presenter:
  "obj_get (screenSharingIDs st (USER_LEFT ch uid sid)) c =
     (if c = ch \<and> obj_get st ch = Some sid then Some '''' else obj_get st c) \<and>
   obj_get (screenSharingIDs st (USER_SCREEN_OFF ch sid)) c =
     (if c = ch \<and> obj_get st ch = Some sid then Some '''' else obj_get st c) \<and>
   obj_get (screenSharingIDs st (USER_SCREEN_ON ch sid)) c = (if c = ch then Some sid else obj_get st c)"
  by (auto simp: clear_screen_sharing_def)

text \<open>
  The end of a call does not clear the presenter: the branch compares the missing session of
  the action with the stored one, so a presenter that is still stored stays stored, and a
  channel without one gets an empty one.
\<close>

theorem call_end_keeps_presenter:
  "obj_get (screenSharingIDs st (CALL_END ch callID)) c =
     (if c = ch \<and> obj_get st ch = None then Some '''' else obj_get st c)"
  by (simp add: clear_screen_sharing_def)

text \<open>
  A job state event merges into the stored state: the times it carries replace the stored
  ones and the rest stays. The \<open>null\<close> that a starting call dispatches to clear the state of
  the previous recording therefore clears nothing.
\<close>

theorem job_state_merges:
  assumes "obj_get st ch = Some j0" and "init_at j = Some t" and "end_at j = None"
  shows "\<exists>j'. obj_get (recordings st (CALL_RECORDING_STATE ch (Some j))) ch = Some j' \<and>
      init_at j' = Some t \<and> end_at j' = end_at j0 \<and>
      obj_get (recordings st (CALL_RECORDING_STATE ch None)) = obj_get st"
  using assms by (auto simp: merge_job_def js_over_def Let_def)

theorem job_state_merges_witness:
  "obj_get (recordings [(''ch'', empty_job\<lparr>end_at := Some 5\<rparr>)] (CALL_RECORDING_STATE ''ch'' None)) =
     obj_get [(''ch'', empty_job\<lparr>end_at := Some 5\<rparr>)]"
proof -
  have "obj_get [(''ch'', empty_job\<lparr>end_at := Some 5\<rparr>)] ''ch'' = Some (empty_job\<lparr>end_at := Some 5\<rparr>)"
    "init_at (empty_job\<lparr>init_at := Some 7\<rparr>) = Some 7" "end_at (empty_job\<lparr>init_at := Some 7\<rparr>) = None"
    by (simp_all add: empty_job_def)
  from job_state_merges [OF this] show ?thesis by blast
qed

end
