(* ===== verification/Store.thy ===== *)
theory Store
  imports Session_Reducers Stream_Reducers Call_Reducers
begin

text \<open>
  The plugin's part of the Redux store: the slices of \<open>webapp/src/reducers.ts\<close> under the
  names \<open>combineReducers\<close> gives them, the combined reducer, and what the code relies on of
  Redux: every slice reducer sees every action with its own slice, a dispatch whose reducer
  throws leaves the state as it was, and a batch of actions is applied in order.

  The locale \<open>invariant_machine\<close> is the contract between a slice and a property of the
  whole run: a step keeps the invariant, so every run and every reachable state has it.
\<close>

record plugin_state =
  s_channels :: "channel_state obj"
  s_clientStateReducer :: "client_state option"
  s_reactions :: users_reactions_state
  s_sessions :: sessions_state
  s_calls :: "call_state obj"
  s_hosts :: "host_entry obj"
  s_screenSharingIDs :: "string obj"
  s_expandedView :: bool
  s_switchCallModal :: switch_call_modal
  s_screenSourceModal :: bool
  s_callsConfig :: calls_config
  s_callsConfigEnvOverrides :: "string obj"
  s_callsVersionInfo :: "string obj"
  s_rtcdEnabled :: bool
  s_callsUserPreferences :: calls_user_preferences
  s_recordings :: "job_state obj"
  s_callLiveCaptionsState :: "job_state obj"
  s_recentlyJoinedUsers :: recently_joined_state
  s_incomingCalls :: "incoming_call list"
  s_ringingForCalls :: "bool obj"
  s_didRingForCalls :: "bool obj"
  s_didNotifyForCalls :: "bool obj"
  s_dismissedCalls :: "bool obj"
  s_liveCaptions :: "live_captions obj"
  s_clientConnecting :: bool
  s_hostControlNotices :: notices_state

text \<open>The default values of the reducers' state parameters.\<close>

definition init_state :: plugin_state where
  "init_state = \<lparr>s_channels = [], s_clientStateReducer = None, s_reactions = [], s_sessions = [],
     s_calls = [], s_hosts = [], s_screenSharingIDs = [], s_expandedView = False,
     s_switchCallModal = \<lparr>sm_show = False, sm_targetID = Some ''''\<rparr>, s_screenSourceModal = False,
     s_callsConfig = CallsConfigDefault, s_callsConfigEnvOverrides = [], s_callsVersionInfo = [],
     s_rtcdEnabled = False, s_callsUserPreferences = CallsUserPreferencesDefault,
     s_recordings = [], s_callLiveCaptionsState = [], s_recentlyJoinedUsers = [],
     s_incomingCalls = [], s_ringingForCalls = [], s_didRingForCalls = [],
     s_didNotifyForCalls = [], s_dismissedCalls = [], s_liveCaptions = [],
     s_clientConnecting = False, s_hostControlNotices = []\<rparr>"

definition root_reducer :: "plugin_state \<Rightarrow> action \<Rightarrow> js_error + plugin_state" where
  "root_reducer st a =
     (case hostControlNotices (s_hostControlNotices st) a of
        Inl e \<Rightarrow> Inl e
      | Inr notices \<Rightarrow> Inr
         \<lparr>s_channels = channels (s_channels st) a,
          s_clientStateReducer = clientStateReducer (s_clientStateReducer st) a,
          s_reactions = reactions (s_reactions st) a,
          s_sessions = sessions (s_sessions st) a,
          s_calls = calls (s_calls st) a,
          s_hosts = hosts (s_hosts st) a,
          s_screenSharingIDs = screenSharingIDs (s_screenSharingIDs st) a,
          s_expandedView = expandedView (s_expandedView st) a,
          s_switchCallModal = switchCallModal (s_switchCallModal st) a,
          s_screenSourceModal = screenSourceModal (s_screenSourceModal st) a,
          s_callsConfig = callsConfig (s_callsConfig st) a,
          s_callsConfigEnvOverrides = callsConfigEnvOverrides (s_callsConfigEnvOverrides st) a,
          s_callsVersionInfo = callsVersionInfo (s_callsVersionInfo st) a,
          s_rtcdEnabled = rtcdEnabled (s_rtcdEnabled st) a,
          s_callsUserPreferences = callsUserPreferences (s_callsUserPreferences st) a,
          s_recordings = recordings (s_recordings st) a,
          s_callLiveCaptionsState = callLiveCaptionsState (s_callLiveCaptionsState st) a,
          s_recentlyJoinedUsers = recentlyJoinedUsers (s_recentlyJoinedUsers st) a,
          s_incomingCalls = incomingCalls (s_incomingCalls st) a,
          s_ringingForCalls = ringingForCalls (s_ringingForCalls st) a,
          s_didRingForCalls = didRingForCalls (s_didRingForCalls st) a,
          s_didNotifyForCalls = didNotifyForCalls (s_didNotifyForCalls st) a,
          s_dismissedCalls = dismissedCalls (s_dismissedCalls st) a,
          s_liveCaptions = liveCaptions (s_liveCaptions st) a,
          s_clientConnecting = clientConnecting (s_clientConnecting st) a,
          s_hostControlNotices = notices\<rparr>)"

text \<open>\<open>store.dispatch\<close> of a plain action: the state after it, whether or not it threw.\<close>

definition dispatch :: "action \<Rightarrow> plugin_state \<Rightarrow> plugin_state" where
  "dispatch a st = (case root_reducer st a of Inl _ \<Rightarrow> st | Inr st' \<Rightarrow> st')"

definition dispatch_all :: "action list \<Rightarrow> plugin_state \<Rightarrow> plugin_state" where
  "dispatch_all as st = fold dispatch as st"

lemma dispatch_all_simps [simp]:
  "dispatch_all [] st = st"
  "dispatch_all (a # as) st = dispatch_all as (dispatch a st)"
  "dispatch_all (as @ bs) st = dispatch_all bs (dispatch_all as st)"
  by (simp_all add: dispatch_all_def)

text \<open>
  Every slice but the notices follows its own reducer: where the combined reducer throws, the
  action is a notice timeout, which the other slices ignore.
\<close>

lemma dispatch_slices [simp]:
  "s_channels (dispatch a st) = channels (s_channels st) a"
  "s_clientStateReducer (dispatch a st) = clientStateReducer (s_clientStateReducer st) a"
  "s_reactions (dispatch a st) = reactions (s_reactions st) a"
  "s_sessions (dispatch a st) = sessions (s_sessions st) a"
  "s_calls (dispatch a st) = calls (s_calls st) a"
  "s_hosts (dispatch a st) = hosts (s_hosts st) a"
  "s_screenSharingIDs (dispatch a st) = screenSharingIDs (s_screenSharingIDs st) a"
  "s_expandedView (dispatch a st) = expandedView (s_expandedView st) a"
  "s_switchCallModal (dispatch a st) = switchCallModal (s_switchCallModal st) a"
  "s_screenSourceModal (dispatch a st) = screenSourceModal (s_screenSourceModal st) a"
  "s_callsConfig (dispatch a st) = callsConfig (s_callsConfig st) a"
  "s_callsConfigEnvOverrides (dispatch a st) = callsConfigEnvOverrides (s_callsConfigEnvOverrides st) a"
  "s_callsVersionInfo (dispatch a st) = callsVersionInfo (s_callsVersionInfo st) a"
  "s_rtcdEnabled (dispatch a st) = rtcdEnabled (s_rtcdEnabled st) a"
  "s_callsUserPreferences (dispatch a st) = callsUserPreferences (s_callsUserPreferences st) a"
  "s_recordings (dispatch a st) = recordings (s_recordings st) a"
  "s_callLiveCaptionsState (dispatch a st) = callLiveCaptionsState (s_callLiveCaptionsState st) a"
  "s_recentlyJoinedUsers (dispatch a st) = recentlyJoinedUsers (s_recentlyJoinedUsers st) a"
  "s_incomingCalls (dispatch a st) = incomingCalls (s_incomingCalls st) a"
  "s_ringingForCalls (dispatch a st) = ringingForCalls (s_ringingForCalls st) a"
  "s_didRingForCalls (dispatch a st) = didRingForCalls (s_didRingForCalls st) a"
  "s_didNotifyForCalls (dispatch a st) = didNotifyForCalls (s_didNotifyForCalls st) a"
  "s_dismissedCalls (dispatch a st) = dismissedCalls (s_dismissedCalls st) a"
  "s_liveCaptions (dispatch a st) = liveCaptions (s_liveCaptions st) a"
  "s_clientConnecting (dispatch a st) = clientConnecting (s_clientConnecting st) a"
  by (auto simp: dispatch_def root_reducer_def hostControlNotices_throws_iff split: sum.splits)

lemma dispatch_notices:
  "s_hostControlNotices (dispatch a st) =
     (case hostControlNotices (s_hostControlNotices st) a of
        Inl _ \<Rightarrow> s_hostControlNotices st | Inr n \<Rightarrow> n)"
  by (simp add: dispatch_def root_reducer_def split: sum.splits)

lemma root_reducer_throws_iff:
  "root_reducer st a = Inl e \<longleftrightarrow> hostControlNotices (s_hostControlNotices st) a = Inl e"
  by (simp add: root_reducer_def split: sum.splits)

section \<open>Runs and invariants\<close>

locale invariant_machine =
  fixes step :: "'a \<Rightarrow> 's \<Rightarrow> 's"
    and allowed :: "'a \<Rightarrow> bool"
    and inv :: "'s \<Rightarrow> bool"
  assumes step_inv: "allowed a \<Longrightarrow> inv s \<Longrightarrow> inv (step a s)"
begin

lemma run_inv: "list_all allowed as \<Longrightarrow> inv s \<Longrightarrow> inv (fold step as s)"
  by (induction as arbitrary: s) (auto intro: step_inv)

lemma run_prefix_inv: "list_all allowed as \<Longrightarrow> inv s \<Longrightarrow> inv (fold step (take n as) s)"
  by (rule run_inv) (auto simp: list_all_iff dest: in_set_takeD)

end

text \<open>The states the store can be in: from the defaults, by dispatching well-formed actions.\<close>

inductive reachable :: "plugin_state \<Rightarrow> bool" where
  start: "reachable init_state"
| step: "reachable st \<Longrightarrow> action_wf a \<Longrightarrow> reachable (dispatch a st)"

inductive_cases reachable_cases: "reachable st"

lemma reachable_run: "list_all action_wf as \<Longrightarrow> reachable (dispatch_all as init_state)"
proof (induction as rule: rev_induct)
  case Nil
  show ?case by (simp add: reachable.start)
next
  case (snoc a as)
  then show ?case by (auto intro: reachable.step)
qed

lemma reachable_inv:
  assumes "reachable st" and "I init_state"
    and "\<And>a s. action_wf a \<Longrightarrow> I s \<Longrightarrow> I (dispatch a s)"
  shows "I st"
  using assms by (induction rule: reachable.induct) auto

definition store_wf :: "plugin_state \<Rightarrow> bool" where
  "store_wf st \<longleftrightarrow> sessions_wf (s_sessions st)"

definition reactions_ok :: "plugin_state \<Rightarrow> bool" where
  "reactions_ok st \<longleftrightarrow> reactions_bounded (s_reactions st)"

definition ringing_recorded :: "plugin_state \<Rightarrow> bool" where
  "ringing_recorded st \<longleftrightarrow>
     list_all (\<lambda>c. flagged (s_ringingForCalls st) c \<longrightarrow> flagged (s_didRingForCalls st) c)
       (obj_keys (s_ringingForCalls st))"

lemma ringing_recorded_iff:
  "ringing_recorded st \<longleftrightarrow>
     (\<forall>c. flagged (s_ringingForCalls st) c \<longrightarrow> flagged (s_didRingForCalls st) c)"
proof -
  have "flagged d c \<Longrightarrow> c \<in> set (obj_keys d)" for d c
    using obj_get_None_keys [of d c] by (auto simp: flagged_def)
  then show ?thesis by (auto simp: ringing_recorded_def list_all_iff)
qed

interpretation wf_machine: invariant_machine dispatch action_wf store_wf
  by unfold_locales (auto simp: store_wf_def intro: sessions_keep_wf)

interpretation reactions_machine: invariant_machine dispatch "\<lambda>_. True" reactions_ok
  by unfold_locales (auto simp: reactions_ok_def intro: reactions_bounded_step)

interpretation ringing_machine: invariant_machine dispatch "\<lambda>_. True" ringing_recorded
  by unfold_locales (auto simp: ringing_recorded_iff intro: ringing_recorded_step)

lemma init_invariants [simp]:
  "store_wf init_state" "reactions_ok init_state" "ringing_recorded init_state"
  by (simp_all add: init_state_def store_wf_def reactions_ok_def ringing_recorded_def obj_keys_def)

end
