(* ===== verification/Host_State.thy ===== *)
theory Host_State
  imports Store
begin

text \<open>
  What the plugin reads of the application around it. The Mattermost state outside the plugin
  and the selectors over it (\<open>mattermost-redux\<close>) are not part of the repository: the record
  \<open>host_state\<close> holds what those selectors return, as an argument of every definition that
  uses one. \<open>client_view\<close> is what the code reads of \<open>window.callsClient\<close>. \<open>app\<close> puts
  them together with the plugin's own state.
\<close>

record profile =
  p_id :: string
  p_username :: string
  p_first_name :: string
  p_last_name :: string

record channel =
  c_id :: string
  c_type :: string
  c_name :: string
  c_display_name :: string
  c_team_id :: string

record subscription =
  is_free_trial :: string
  trial_end_at :: int

record host_state =
  g_currentUserId :: string
  g_currentChannelId :: string
  g_currentTeamId :: string
  g_isAdmin :: bool
  g_channels :: "channel obj"
  g_profiles :: "profile obj"
  g_teams :: "string obj"
  g_statuses :: "string obj"
  g_channelRoles :: "string list obj"
  g_teamRoles :: "string list obj"
  g_memberships :: "bool obj"
  g_licenseCloud :: "string option"
  g_licenseSku :: "string option"
  g_subscription :: "subscription option"

record client_view =
  cv_channelID :: string
  cv_sessionID :: "string option"
  cv_initTime :: int

record app =
  plugin :: plugin_state
  host :: host_state
  client :: "client_view option"

definition getChannel :: "app \<Rightarrow> string \<Rightarrow> channel option" where
  "getChannel a ch = obj_get (g_channels (host a)) ch"

definition getUser :: "app \<Rightarrow> string \<Rightarrow> profile option" where
  "getUser a uid = obj_get (g_profiles (host a)) uid"

end
