(* ===== verification/JS_Sort.thy ===== *)
theory JS_Sort
  imports Main "HOL-Library.Multiset"
begin

text \<open>
  \<open>Array.prototype.sort\<close> with a comparator: a stable sort. It is computed here by insertion;
  the locale \<open>comparator\<close> states when a comparator is consistent on the elements sorted and
  proves that the result is then ordered, a permutation, and stable.
\<close>

fun js_insert :: "('a \<Rightarrow> 'a \<Rightarrow> int) \<Rightarrow> 'a \<Rightarrow> 'a list \<Rightarrow> 'a list" where
  "js_insert cmp x [] = [x]"
| "js_insert cmp x (y # ys) = (if cmp x y \<le> 0 then x # y # ys else y # js_insert cmp x ys)"

definition js_sort :: "('a \<Rightarrow> 'a \<Rightarrow> int) \<Rightarrow> 'a list \<Rightarrow> 'a list" where
  "js_sort cmp xs = foldr (js_insert cmp) xs []"

lemma js_sort_simps [simp]:
  "js_sort cmp [] = []"
  "js_sort cmp (x # xs) = js_insert cmp x (js_sort cmp xs)"
  by (simp_all add: js_sort_def)

lemma mset_js_insert [simp]: "mset (js_insert cmp x ys) = add_mset x (mset ys)"
  by (induction ys) auto

lemma mset_js_sort [simp]: "mset (js_sort cmp xs) = mset xs"
  by (induction xs) auto

lemma set_js_insert [simp]: "set (js_insert cmp x ys) = insert x (set ys)"
  by (induction ys) auto

lemma set_js_sort [simp]: "set (js_sort cmp xs) = set xs"
  by (induction xs) auto

lemma length_js_sort [simp]: "length (js_sort cmp xs) = length xs"
  by (metis mset_js_sort size_mset)

text \<open>
  \<open>apart x y\<close> says that \<open>x\<close> and \<open>y\<close> can both occur in an array that is sorted, as two
  elements of it; the laws are only required of such pairs.
\<close>

locale comparator =
  fixes cmp :: "'a \<Rightarrow> 'a \<Rightarrow> int"
    and apart :: "'a \<Rightarrow> 'a \<Rightarrow> bool"
  assumes apart_sym: "apart x y \<Longrightarrow> apart y x"
    and antisym: "apart x y \<Longrightarrow> cmp x y < 0 \<longleftrightarrow> 0 < cmp y x"
    and trans: "apart x y \<Longrightarrow> apart y z \<Longrightarrow> apart x z \<Longrightarrow> cmp x y \<le> 0 \<Longrightarrow> cmp y z \<le> 0 \<Longrightarrow> cmp x z \<le> 0"
begin

lemma not_le: "apart x y \<Longrightarrow> \<not> cmp x y \<le> 0 \<Longrightarrow> cmp y x \<le> 0"
  using antisym [of y x] apart_sym [of x y] by auto

lemma insert_ordered:
  assumes "sorted_wrt (\<lambda>x y. cmp x y \<le> 0) ys" and "sorted_wrt apart ys"
    and "\<And>y. y \<in> set ys \<Longrightarrow> apart x y"
  shows "sorted_wrt (\<lambda>x y. cmp x y \<le> 0) (js_insert cmp x ys)"
  using assms
proof (induction ys)
  case Nil
  then show ?case by simp
next
  case (Cons y ys)
  show ?case
  proof (cases "cmp x y \<le> 0")
    case True
    then have "cmp x z \<le> 0" if "z \<in> set ys" for z
      using that Cons.prems trans [of x y z] by auto
    with True Cons.prems show ?thesis by simp
  next
    case False
    then have "cmp y x \<le> 0" using Cons.prems not_le by simp
    with False Cons show ?thesis by simp
  qed
qed

lemma insert_apart:
  assumes "sorted_wrt apart ys" and "\<And>y. y \<in> set ys \<Longrightarrow> apart x y"
  shows "sorted_wrt apart (js_insert cmp x ys)"
  using assms by (induction ys) (auto intro: apart_sym)

lemma sort_apart: "sorted_wrt apart xs \<Longrightarrow> sorted_wrt apart (js_sort cmp xs)"
  by (induction xs) (auto intro: insert_apart)

lemma sort_ordered: "sorted_wrt apart xs \<Longrightarrow> sorted_wrt (\<lambda>x y. cmp x y \<le> 0) (js_sort cmp xs)"
  by (induction xs) (auto intro!: insert_ordered sort_apart)

lemma insert_stable:
  assumes "P x" and "\<And>y. y \<in> set ys \<Longrightarrow> P y \<Longrightarrow> cmp x y \<le> 0"
  shows "filter P (js_insert cmp x ys) = x # filter P ys"
  using assms by (induction ys) auto

lemma insert_skips: "\<not> P x \<Longrightarrow> filter P (js_insert cmp x ys) = filter P ys"
  by (induction ys) auto

lemma sort_stable:
  assumes "\<And>x y. x \<in> set xs \<Longrightarrow> y \<in> set xs \<Longrightarrow> P x \<Longrightarrow> P y \<Longrightarrow> cmp x y \<le> 0"
  shows "filter P (js_sort cmp xs) = filter P xs"
  using assms
proof (induction xs)
  case Nil
  then show ?case by simp
next
  case (Cons x xs)
  then have IH: "filter P (js_sort cmp xs) = filter P xs" by simp
  show ?case
  proof (cases "P x")
    case True
    with Cons.prems have "filter P (js_insert cmp x (js_sort cmp xs)) = x # filter P (js_sort cmp xs)"
      by (intro insert_stable) auto
    with True IH show ?thesis by simp
  next
    case False
    with IH show ?thesis by (simp add: insert_skips)
  qed
qed

end

end
