(* ===== verification/Utils.thy ===== *)
theory Utils
  imports Host_State JS_Sort "HOL-Library.Product_Lexorder"
begin

text \<open>
  The pure helpers of \<open>webapp/src/utils.ts\<close>: which window holds the client, display names,
  the order of the participants, the maps built from a call's sessions, the list split, the
  retry loop and the checks of post properties. Browser calls (canvas, audio, media capture)
  and text formatting with third-party libraries are not modelled.
\<close>

section \<open>Windows\<close>

text \<open>
  What reading \<open>window.opener\<close> and its \<open>callsClient\<close> gives: nothing, an opener with or
  without a client, the security error of a cross-origin opener, or another error.
\<close>

datatype opener = NoOpener | Opener "client_view option" | BlockedOpener | BrokenOpener

datatype calls_window = ThisWindow | OpenerWindow

fun getCallsWindow :: "opener \<Rightarrow> calls_window" where
  "getCallsWindow (Opener (Some _)) = OpenerWindow"
| "getCallsWindow (Opener None) = ThisWindow"
| "getCallsWindow NoOpener = ThisWindow"
| "getCallsWindow BlockedOpener = ThisWindow"
| "getCallsWindow BrokenOpener = ThisWindow"

fun isCallsPopOut :: "opener \<Rightarrow> bool" where
  "isCallsPopOut (Opener (Some _)) = True"
| "isCallsPopOut (Opener None) = False"
| "isCallsPopOut NoOpener = False"
| "isCallsPopOut BlockedOpener = False"
| "isCallsPopOut BrokenOpener = False"

definition getCallsClient :: "opener \<Rightarrow> client_view option \<Rightarrow> client_view option" where
  "getCallsClient op own =
     (case getCallsWindow op of
        OpenerWindow \<Rightarrow> (case op of Opener c \<Rightarrow> c | _ \<Rightarrow> None)
      | ThisWindow \<Rightarrow> own)"

definition getCallsClientChannelID :: "client_view option \<Rightarrow> string" where
  "getCallsClientChannelID c = str_or (map_option cv_channelID c) ''''"

definition getCallsClientSessionID :: "client_view option \<Rightarrow> string" where
  "getCallsClientSessionID c = str_or (Option.bind c cv_sessionID) ''''"

definition getCallsClientInitTime :: "client_view option \<Rightarrow> int" where
  "getCallsClientInitTime c = num_or (map_option cv_initTime c) 0"

section \<open>Names and channels\<close>

definition getUserDisplayName :: "profile option \<Rightarrow> bool \<Rightarrow> string" where
  "getUserDisplayName user shortForm =
     (case user of
        None \<Rightarrow> ''''
      | Some u \<Rightarrow>
          if p_first_name u \<noteq> '''' \<and> p_last_name u \<noteq> '''' then
            (if shortForm then p_first_name u @ '' '' @ take 1 (p_last_name u) @ ''.''
             else p_first_name u @ '' '' @ p_last_name u)
          else p_username u)"

definition isDMChannel :: "channel option \<Rightarrow> bool" where
  "isDMChannel c = (map_option c_type c = Some ''D'')"

definition isGMChannel :: "channel option \<Rightarrow> bool" where
  "isGMChannel c = (map_option c_type c = Some ''G'')"

definition isDmGmChannel :: "channel option \<Rightarrow> bool" where
  "isDmGmChannel c = (isDMChannel c \<or> isGMChannel c)"

definition isPublicChannel :: "channel option \<Rightarrow> bool" where
  "isPublicChannel c = (map_option c_type c = Some ''O'')"

definition isPrivateChannel :: "channel option \<Rightarrow> bool" where
  "isPrivateChannel c = (map_option c_type c = Some ''P'')"

text \<open>\<open>dmName.split('__')\<close>: the pieces between the separators, left to right.\<close>

fun split_us :: "string \<Rightarrow> string \<Rightarrow> string list" where
  "split_us acc [] = [acc]"
| "split_us acc [c] = [acc @ [c]]"
| "split_us acc (c # d # s) =
     (if c = CHR ''_'' \<and> d = CHR ''_'' then acc # split_us [] s
      else split_us (acc @ [c]) (d # s))"

definition getUserIdFromDM :: "string \<Rightarrow> string \<Rightarrow> string option" where
  "getUserIdFromDM dmName currentUserId =
     (let ids = split_us [] dmName in
      case ids of
        a # b # _ \<Rightarrow> if a = currentUserId then Some b else Some a
      | [a] \<Rightarrow> if a = currentUserId then None else Some a
      | [] \<Rightarrow> None)"

text \<open>An identifier has no underscore, so a direct channel's name splits into its two users.\<close>

lemma split_us_plain: "CHR ''_'' \<notin> set a \<Longrightarrow> split_us acc a = [acc @ a]"
  by (induction acc a rule: split_us.induct) auto

lemma split_us_two:
  "CHR ''_'' \<notin> set a \<Longrightarrow> split_us acc (a @ ''__'' @ b) = (acc @ a) # split_us [] b"
  by (induction acc a rule: split_us.induct) auto

section \<open>Order of the participants\<close>

text \<open>\<open>localeCompare\<close> depends on the user's locale: it is an argument.\<close>

definition alphaSortSessions ::
  "(string \<Rightarrow> string \<Rightarrow> int) \<Rightarrow> profile obj \<Rightarrow> user_session \<Rightarrow> user_session \<Rightarrow> int" where
  "alphaSortSessions localeCompare profiles a b =
     (let profileA = Option.bind (user_id a) (obj_get profiles);
          profileB = Option.bind (user_id b) (obj_get profiles)
      in localeCompare (getUserDisplayName profileA False) (getUserDisplayName profileB False))"

definition hand_up :: "user_session \<Rightarrow> bool" where
  "hand_up s = (raised_hand s \<noteq> None \<and> raised_hand s \<noteq> Some 0)"

definition is_unmuted :: "user_session \<Rightarrow> bool" where
  "is_unmuted s = (unmuted s = Some True)"

definition hand_time :: "user_session \<Rightarrow> int" where
  "hand_time s = num_or (raised_hand s) 0"

definition reaction_time :: "user_session \<Rightarrow> int" where
  "reaction_time s = (case us_reaction s of Val r \<Rightarrow> r_timestamp r | _ \<Rightarrow> 0)"

definition stateSortSessions :: "string \<Rightarrow> bool \<Rightarrow> user_session \<Rightarrow> user_session \<Rightarrow> int" where
  "stateSortSessions presenterID considerReaction a b =
     (if session_id a = Some presenterID then -1
      else if session_id b = Some presenterID then 1
      else if hand_up a \<and> \<not> hand_up b then -1
      else if hand_up b \<and> \<not> hand_up a then 1
      else if hand_up a \<and> hand_up b then hand_time a - hand_time b
      else if is_unmuted a \<and> \<not> is_unmuted b then -1
      else if is_unmuted b \<and> \<not> is_unmuted a then 1
      else if considerReaction then
        (if truthy (us_reaction a) \<and> \<not> truthy (us_reaction b) then -1
         else if truthy (us_reaction b) \<and> \<not> truthy (us_reaction a) then 1
         else if truthy (us_reaction a) \<and> truthy (us_reaction b) then reaction_time a - reaction_time b
         else 0)
      else 0)"

text \<open>
  The order the comparator means: the presenter, then raised hands by the time they were
  raised, then unmuted before muted and, when reactions count, within each by reaction time
  with no reaction last.
\<close>

definition state_rank :: "string \<Rightarrow> bool \<Rightarrow> user_session \<Rightarrow> int \<times> int \<times> int \<times> int" where
  "state_rank presenterID considerReaction s =
     (if session_id s = Some presenterID then (0, 0, 0, 0)
      else if hand_up s then (1, hand_time s, 0, 0)
      else (2, if is_unmuted s then 0 else 1,
            if considerReaction \<and> truthy (us_reaction s) then 0 else 1,
            if considerReaction \<and> truthy (us_reaction s) then reaction_time s else 0))"

lemma stateSort_rank:
  assumes "session_id a \<noteq> session_id b"
  shows "stateSortSessions p c a b \<le> 0 \<longleftrightarrow> state_rank p c a \<le> state_rank p c b"
    and "stateSortSessions p c a b < 0 \<longleftrightarrow> state_rank p c a < state_rank p c b"
    and "stateSortSessions p c a b > 0 \<longleftrightarrow> state_rank p c b < state_rank p c a"
  using assms by (auto simp: stateSortSessions_def state_rank_def)

interpretation state_order: comparator "stateSortSessions p c" "\<lambda>a b. session_id a \<noteq> session_id b"
  by unfold_locales (auto simp: stateSort_rank)

text \<open>The participants as the widget and the expanded view list them.\<close>

definition sorted_participants ::
  "(string \<Rightarrow> string \<Rightarrow> int) \<Rightarrow> profile obj \<Rightarrow> string \<Rightarrow> user_session list \<Rightarrow> user_session list" where
  "sorted_participants localeCompare profiles presenterID ss =
     js_sort (stateSortSessions presenterID True) (js_sort (alphaSortSessions localeCompare profiles) ss)"

section \<open>Sessions of a call\<close>

text \<open>
  The identifiers are the keys of a map built from the sessions: each once, in the order of
  its first session.
\<close>

definition getUserIDsForSessions :: "string list \<Rightarrow> string list" where
  "getUserIDsForSessions uids = obj_keys (fold (\<lambda>u m. obj_set u True m) uids [])"

definition getSessionsMapFromSessions :: "(string \<times> user_session) list \<Rightarrow> user_session obj" where
  "getSessionsMapFromSessions ss = fold (\<lambda>(sid, s) m. obj_set sid s m) ss []"

lemma fold_keys:
  "set (obj_keys (fold (\<lambda>u m. obj_set u True m) us m)) = set us \<union> set (obj_keys m)"
  by (induction us arbitrary: m) (auto simp: obj_keys_set)

lemma fold_keys_wf: "obj_wf m \<Longrightarrow> obj_wf (fold (\<lambda>u m. obj_set u True m) us m)"
  by (induction us arbitrary: m) auto

section \<open>Lists and retries\<close>

definition split :: "'a list \<Rightarrow> nat \<Rightarrow> bool \<Rightarrow> 'a list \<times> 'a list option" where
  "split l i pad =
     (if length l \<le> i + (if pad then 1 else 0) then (l, None)
      else (take i l, Some (drop i l)))"

text \<open>
  \<open>fn\<close> is the outcome of each attempt and \<open>jitter\<close> the whole milliseconds the random part
  adds. The result comes with the delays waited, in order; \<open>n\<close> counts the attempts left.
\<close>

definition maxAttemptsReachedErr :: js_error where
  "maxAttemptsReachedErr = ErrorMsg ''maximum retry attempts reached''"

fun retry_loop :: "(nat \<Rightarrow> js_error + 'a) \<Rightarrow> (nat \<Rightarrow> int) \<Rightarrow> int \<Rightarrow> nat \<Rightarrow> nat \<Rightarrow> (js_error + 'a) \<times> int list" where
  "retry_loop fn jitter interval i 0 = (Inl maxAttemptsReachedErr, [])"
| "retry_loop fn jitter interval i (Suc n) =
     (case fn i of
        Inr v \<Rightarrow> (Inr v, [])
      | Inl e \<Rightarrow>
          (let (r, waits) = retry_loop fn jitter interval (Suc i) n
           in (r, (interval * int i + jitter i) # waits)))"

definition runWithRetry ::
  "(nat \<Rightarrow> js_error + 'a) \<Rightarrow> (nat \<Rightarrow> int) \<Rightarrow> int \<Rightarrow> nat \<Rightarrow> (js_error + 'a) \<times> int list" where
  "runWithRetry fn jitter interval maxAttempts = retry_loop fn jitter interval 1 maxAttempts"

lemma retry_loop_success:
  assumes "k < n" and "fn (i + k) = Inr v" and "\<And>j. j < k \<Longrightarrow> \<exists>e. fn (i + j) = Inl e"
  shows "retry_loop fn jitter interval i n =
    (Inr v, map (\<lambda>j. interval * int (i + j) + jitter (i + j)) [0..<k])"
  using assms
proof (induction k arbitrary: i n)
  case 0
  then show ?case by (cases n) auto
next
  case (Suc k)
  then obtain m where n: "n = Suc m" by (cases n) auto
  from Suc.prems(3) [of 0] obtain e where e: "fn i = Inl e" by auto
  have "retry_loop fn jitter interval (Suc i) m =
      (Inr v, map (\<lambda>j. interval * int (Suc i + j) + jitter (Suc i + j)) [0..<k])"
    by (rule Suc.IH) (use Suc.prems n in \<open>auto dest: Suc.prems(3) [of "Suc _", simplified]\<close>)
  with e n show ?case
    by (simp add: upt_conv_Cons map_Suc_upt [symmetric] del: upt_Suc)
qed

lemma retry_loop_failure:
  assumes "\<And>j. j < n \<Longrightarrow> \<exists>e. fn (i + j) = Inl e"
  shows "fst (retry_loop fn jitter interval i n) = Inl maxAttemptsReachedErr"
    and "length (snd (retry_loop fn jitter interval i n)) = n"
proof -
  have "fst (retry_loop fn jitter interval i n) = Inl maxAttemptsReachedErr \<and>
      length (snd (retry_loop fn jitter interval i n)) = n"
    using assms
  proof (induction n arbitrary: i)
    case (Suc n)
    from Suc.prems [of 0] obtain e where "fn i = Inl e" by auto
    moreover have "fst (retry_loop fn jitter interval (Suc i) n) = Inl maxAttemptsReachedErr \<and>
        length (snd (retry_loop fn jitter interval (Suc i) n)) = n"
      by (rule Suc.IH) (use Suc.prems [of "Suc _"] in auto)
    ultimately show ?case by (auto simp: case_prod_unfold)
  qed simp
  then show "fst (retry_loop fn jitter interval i n) = Inl maxAttemptsReachedErr"
    and "length (snd (retry_loop fn jitter interval i n)) = n" by auto
qed

section \<open>Checked post properties\<close>

text \<open>The properties of a post come from outside: any JavaScript value may be there.\<close>

datatype jval = JUndef | JNull | JBool bool | JNum int | JStr string | JArr "jval list"
  | JObj "(string \<times> jval) list"

fun field :: "jval \<Rightarrow> string \<Rightarrow> jval" where
  "field (JObj o') k = (case map_of o' k of None \<Rightarrow> JUndef | Some v \<Rightarrow> v)"
| "field _ k = JUndef"

fun str_field :: "jval \<Rightarrow> string" where
  "str_field (JStr s) = s"
| "str_field _ = ''''"

fun num_field :: "jval \<Rightarrow> int" where
  "num_field (JNum n) = n"
| "num_field _ = 0"

fun arr_field :: "jval \<Rightarrow> jval list" where
  "arr_field (JArr xs) = xs"
| "arr_field _ = []"

fun opt_str_field :: "jval \<Rightarrow> string option" where
  "opt_str_field (JStr s) = Some s"
| "opt_str_field _ = None"

fun isValidObject :: "jval \<Rightarrow> bool" where
  "isValidObject (JObj _) = True"
| "isValidObject _ = False"

record job_metadata =
  jm_file_id :: string
  jm_post_id :: string
  jm_rec_id :: "string option"
  jm_tr_id :: "string option"

definition job_metadata_of :: "jval \<Rightarrow> job_metadata" where
  "job_metadata_of v = \<lparr>jm_file_id = str_field (field v ''file_id''),
     jm_post_id = str_field (field v ''post_id''),
     jm_rec_id = opt_str_field (field v ''rec_id''),
     jm_tr_id = opt_str_field (field v ''tr_id'')\<rparr>"

fun getJobMetadataMap :: "jval \<Rightarrow> job_metadata obj" where
  "getJobMetadataMap (JObj o') = fold (\<lambda>(k, v) out. obj_set k (job_metadata_of v) out) o' []"
| "getJobMetadataMap _ = []"

record call_post_props =
  pp_title :: string
  pp_start_at :: int
  pp_end_at :: int
  pp_recordings :: "job_metadata obj"
  pp_transcriptions :: "job_metadata obj"
  pp_participants :: "jval list"

definition getCallPropsFromPost :: "jval \<Rightarrow> call_post_props" where
  "getCallPropsFromPost props = \<lparr>
     pp_title = str_field (field props ''title''),
     pp_start_at = num_field (field props ''start_at''),
     pp_end_at = num_field (field props ''end_at''),
     pp_recordings = (if isValidObject (field props ''recordings'')
                      then getJobMetadataMap (field props ''recordings'') else []),
     pp_transcriptions = (if isValidObject (field props ''transcriptions'')
                          then getJobMetadataMap (field props ''transcriptions'') else []),
     pp_participants = arr_field (field props ''participants'')\<rparr>"

record recording_post_props =
  rp_call_post_id :: string
  rp_recording_id :: string
  rp_captions :: "jval list"

definition getCallRecordingPropsFromPost :: "jval \<Rightarrow> recording_post_props" where
  "getCallRecordingPropsFromPost props = \<lparr>
     rp_call_post_id = str_field (field props ''call_post_id''),
     rp_recording_id = str_field (field props ''recording_id''),
     rp_captions = arr_field (field props ''captions'')\<rparr>"

text \<open>A well-typed value of the properties, as the server writes it.\<close>

definition job_value :: "job_metadata \<Rightarrow> jval" where
  "job_value m = JObj
     ([(''file_id'', JStr (jm_file_id m)), (''post_id'', JStr (jm_post_id m))]
      @ (case jm_rec_id m of None \<Rightarrow> [] | Some r \<Rightarrow> [(''rec_id'', JStr r)])
      @ (case jm_tr_id m of None \<Rightarrow> [] | Some t \<Rightarrow> [(''tr_id'', JStr t)]))"

definition jobs_value :: "job_metadata obj \<Rightarrow> jval" where
  "jobs_value d = JObj (map (\<lambda>(k, m). (k, job_value m)) d)"

definition props_value :: "call_post_props \<Rightarrow> jval" where
  "props_value p = JObj
     [(''title'', JStr (pp_title p)), (''start_at'', JNum (pp_start_at p)),
      (''end_at'', JNum (pp_end_at p)), (''recordings'', jobs_value (pp_recordings p)),
      (''transcriptions'', jobs_value (pp_transcriptions p)),
      (''participants'', JArr (pp_participants p))]"

lemma job_metadata_of_value [simp]: "job_metadata_of (job_value m) = m"
  by (cases m) (auto simp: job_metadata_of_def job_value_def split: option.splits)

lemma obj_set_append:
  "k \<notin> set (obj_keys d) \<Longrightarrow> obj_set k v d = d @ [(k, v)]"
  by (induction d) (auto simp: obj_keys_def)

lemma fold_obj_set_distinct:
  "distinct (map fst kvs) \<Longrightarrow> set (map fst kvs) \<inter> set (obj_keys d) = {} \<Longrightarrow>
   fold (\<lambda>(k, v) out. obj_set k (f v) out) kvs d = d @ map (\<lambda>(k, v). (k, f v)) kvs"
proof (induction kvs arbitrary: d)
  case (Cons kv kvs)
  obtain k v where kv: "kv = (k, v)" by (cases kv)
  with Cons.prems have "obj_set k (f v) d = d @ [(k, f v)]"
    by (simp add: obj_set_append)
  with Cons kv show ?case by (auto simp: obj_keys_def)
qed simp

lemma getJobMetadataMap_value: "obj_wf d \<Longrightarrow> getJobMetadataMap (jobs_value d) = d"
  unfolding jobs_value_def getJobMetadataMap.simps
  by (subst fold_obj_set_distinct) (auto simp: obj_wf_def obj_keys_def case_prod_unfold comp_def)

section \<open>Properties\<close>

lemma distinct_ids_apart:
  "distinct (map session_id ss) \<Longrightarrow> sorted_wrt (\<lambda>a b. session_id a \<noteq> session_id b) ss"
  by (induction ss) force+

lemma distinct_map_mset: "mset xs = mset ys \<Longrightarrow> distinct (map f xs) = distinct (map f ys)"
  by (metis mset_map mset_eq_imp_distinct_iff)

text \<open>
  C17. The participants list is a permutation of the sessions, ordered by rank: the presenter
  first, then raised hands by time, then unmuted before muted, then reactions by time. Sessions
  of equal rank stay in the alphabetical order of their names.
\<close>

theorem participants_sorted:
  assumes "distinct (map session_id ss)"
  shows "mset (sorted_participants localeCompare profiles presenterID ss) = mset ss \<and>
    sorted_wrt (\<lambda>a b. state_rank presenterID True a \<le> state_rank presenterID True b)
      (sorted_participants localeCompare profiles presenterID ss) \<and>
    filter (\<lambda>s. state_rank presenterID True s = r) (sorted_participants localeCompare profiles presenterID ss) =
      filter (\<lambda>s. state_rank presenterID True s = r) (js_sort (alphaSortSessions localeCompare profiles) ss)"
proof -
  let ?a = "js_sort (alphaSortSessions localeCompare profiles) ss"
  let ?p = "sorted_participants localeCompare profiles presenterID ss"
  have d: "distinct (map session_id ?a)" using assms distinct_map_mset [of ?a ss session_id] by simp
  then have ap: "sorted_wrt (\<lambda>a b. session_id a \<noteq> session_id b) ?a" by (rule distinct_ids_apart)
  have m: "mset ?p = mset ss" by (simp add: sorted_participants_def)
  have "sorted_wrt (\<lambda>x y. stateSortSessions presenterID True x y \<le> 0) ?p"
    unfolding sorted_participants_def by (rule state_order.sort_ordered [OF ap])
  moreover have "sorted_wrt (\<lambda>a b. session_id a \<noteq> session_id b) ?p"
    unfolding sorted_participants_def by (rule state_order.sort_apart [OF ap])
  ultimately have "sorted_wrt (\<lambda>a b. state_rank presenterID True a \<le> state_rank presenterID True b) ?p"
    by (auto simp: sorted_wrt_iff_nth_less stateSort_rank(1))
  moreover have "filter (\<lambda>s. state_rank presenterID True s = r) ?p =
      filter (\<lambda>s. state_rank presenterID True s = r) ?a"
    unfolding sorted_participants_def
  proof (rule state_order.sort_stable)
    fix x y
    assume xy: "x \<in> set ?a" "y \<in> set ?a" "state_rank presenterID True x = r" "state_rank presenterID True y = r"
    show "stateSortSessions presenterID True x y \<le> 0"
    proof (cases "session_id x = session_id y")
      case True
      then have "x = y" using d xy(1,2) by (auto simp: distinct_map inj_on_def)
      then show ?thesis by (simp add: stateSortSessions_def)
    qed (use xy stateSort_rank(1) in simp)
  qed
  ultimately show ?thesis using m by blast
qed

definition sample_muted :: user_session where
  "sample_muted = \<lparr>session_id = Some ''a'', user_id = Some ''u'', unmuted = Some False, voice = None,
     video = None, raised_hand = Some 0, us_reaction = Undefined\<rparr>"

theorem participants_sorted_witness:
  "map session_id (sorted_participants (\<lambda>_ _. 0) [] ''p''
     [sample_muted, sample_muted\<lparr>session_id := Some ''b'', unmuted := Some True\<rparr>,
      sample_muted\<lparr>session_id := Some ''p''\<rparr>]) = [Some ''p'', Some ''b'', Some ''a''] \<and>
   mset (sorted_participants (\<lambda>_ _. 0) [] ''p'' [sample_muted]) = mset [sample_muted]"
proof -
  have "distinct (map session_id [sample_muted])" by simp
  from participants_sorted [OF this]
  have "mset (sorted_participants (\<lambda>_ _. 0) [] ''p'' [sample_muted]) = mset [sample_muted]" by blast
  moreover have "map session_id (sorted_participants (\<lambda>_ _. 0) [] ''p''
     [sample_muted, sample_muted\<lparr>session_id := Some ''b'', unmuted := Some True\<rparr>,
      sample_muted\<lparr>session_id := Some ''p''\<rparr>]) = [Some ''p'', Some ''b'', Some ''a'']"
    by code_simp
  ultimately show ?thesis by blast
qed

text \<open>
  Splitting a list for display loses nothing: the two parts make up the list, the first has
  the length asked for, and the overflow is never empty, nor a single element when padding is
  asked for.
\<close>

theorem split_partitions:
  "case split l i pad of
     (shown, None) \<Rightarrow> shown = l \<and> length l \<le> i + (if pad then 1 else 0)
   | (shown, Some rest) \<Rightarrow> shown @ rest = l \<and> length shown = i \<and> length rest \<ge> (if pad then 2 else 1)"
  by (auto simp: split_def)

text \<open>
  A retried operation returns the result of its first success, after waiting once per failed
  attempt, and never runs more attempts than allowed; when every attempt fails it reports that.
\<close>

theorem retry_first_success:
  assumes "1 \<le> k" and "k \<le> maxAttempts" and "fn k = Inr v"
    and "list_all (\<lambda>j. \<exists>e. fn j = Inl e) [1..<k]"
  shows "fst (runWithRetry fn jitter interval maxAttempts) = Inr v \<and>
    length (snd (runWithRetry fn jitter interval maxAttempts)) = k - 1"
proof -
  have "\<exists>e. fn (1 + j) = Inl e" if "j < k - 1" for j
    using assms(4) that by (auto simp: list_all_iff)
  then show ?thesis
    using retry_loop_success [of "k - 1" maxAttempts fn 1 v jitter interval] assms(1-3)
    by (simp add: runWithRetry_def)
qed

theorem retry_first_success_witness:
  "fst (runWithRetry (\<lambda>n. if n < 3 then Inl TypeError else Inr n) (\<lambda>_. 0) 100 10) = Inr 3"
  by (rule retry_first_success [of 3, THEN conjunct1]) (simp_all add: upt_rec)

text \<open>
  The maps built from a call's sessions: every user once, and for each session identifier
  the last session that has it.
\<close>

theorem session_maps_faithful:
  "distinct (getUserIDsForSessions uids) \<and> set (getUserIDsForSessions uids) = set uids \<and>
   obj_wf (getSessionsMapFromSessions ss) \<and> obj_get (getSessionsMapFromSessions ss) sid = map_of (rev ss) sid"
proof -
  have "obj_get (fold (\<lambda>(k, s) m. obj_set k s m) ss m) sid =
      (case map_of (rev ss) sid of None \<Rightarrow> obj_get m sid | Some s \<Rightarrow> Some s)" for m
    by (induction ss arbitrary: m) (auto split: option.splits simp: map_add_def)
  then have get: "obj_get (getSessionsMapFromSessions ss) sid = map_of (rev ss) sid"
    by (simp add: getSessionsMapFromSessions_def split: option.split)
  have "obj_wf m \<Longrightarrow> obj_wf (fold (\<lambda>(k, s) m. obj_set k s m) ss m)" for m
    by (induction ss arbitrary: m) auto
  then have wf: "obj_wf (getSessionsMapFromSessions ss)" by (simp add: getSessionsMapFromSessions_def)
  have d: "distinct (getUserIDsForSessions uids)"
    using fold_keys_wf [OF obj_wf_Nil, of uids] by (simp add: getUserIDsForSessions_def obj_wf_iff_keys)
  have "obj_keys ([] :: bool obj) = []" by (simp add: obj_keys_def)
  then have "set (getUserIDsForSessions uids) = set uids"
    using fold_keys [of uids "[]"] by (simp add: getUserIDsForSessions_def)
  with d wf get show ?thesis by blast
qed

text \<open>
  The name of a direct channel gives back the other user, whichever side the current user
  is on, for identifiers without an underscore.
\<close>

theorem dm_user_roundtrip:
  assumes "CHR ''_'' \<notin> set a" and "CHR ''_'' \<notin> set b"
  shows "getUserIdFromDM (a @ ''__'' @ b) a = Some b \<and>
    (a \<noteq> b \<longrightarrow> getUserIdFromDM (a @ ''__'' @ b) b = Some a)"
  using assms split_us_two [of a "[]" b] split_us_plain [of b "[]"]
  by (simp add: getUserIdFromDM_def)

theorem dm_user_roundtrip_witness: "getUserIdFromDM ''ann__bob'' ''bob'' = Some ''ann''"
  using dm_user_roundtrip [of "''ann''" "''bob''"] by simp



end
