(* ===== verification/Selectors.thy ===== *)
theory Selectors
  imports Host_State Utils
begin

text \<open>
  The selectors of \<open>webapp/src/selectors.ts\<close>, as functions of the application state. A
  selector with the name of a reducer has the prefix \<open>sel\<close>. The memoisation of
  \<open>createSelector\<close> is not modelled: each selector is the function it caches.
\<close>

section \<open>The current call\<close>

definition clientState :: "app \<Rightarrow> client_state option" where
  "clientState a = s_clientStateReducer (plugin a)"

definition channelIDForCurrentCall :: "app \<Rightarrow> string" where
  "channelIDForCurrentCall a =
     str_or (Some (getCallsClientChannelID (client a)))
       (str_or (map_option cl_channelID (clientState a)) '''')"

definition channelForCurrentCall :: "app \<Rightarrow> channel option" where
  "channelForCurrentCall a = obj_get (g_channels (host a)) (channelIDForCurrentCall a)"

definition sel_calls :: "app \<Rightarrow> call_state obj" where
  "sel_calls a = s_calls (plugin a)"

definition idForCurrentCall :: "app \<Rightarrow> string option" where
  "idForCurrentCall a = map_option cs_ID (obj_get (sel_calls a) (channelIDForCurrentCall a))"

definition threadIDForCurrentCall :: "app \<Rightarrow> string option" where
  "threadIDForCurrentCall a = map_option cs_threadID (obj_get (sel_calls a) (channelIDForCurrentCall a))"

definition teamForCurrentCall :: "app \<Rightarrow> string option" where
  "teamForCurrentCall a =
     obj_get (g_teams (host a))
       (str_or (map_option c_team_id (channelForCurrentCall a)) (g_currentTeamId (host a)))"

section \<open>Sessions and profiles\<close>

definition sessionsInCalls :: "app \<Rightarrow> sessions_state" where
  "sessionsInCalls a = s_sessions (plugin a)"

definition userProfiles :: "app \<Rightarrow> profile obj" where
  "userProfiles a = g_profiles (host a)"

definition add_profile :: "profile obj \<Rightarrow> user_session \<Rightarrow> profile obj \<Rightarrow> profile obj" where
  "add_profile profiles s m =
     (case user_id s of
        None \<Rightarrow> m
      | Some u \<Rightarrow> (case obj_get profiles u of None \<Rightarrow> m | Some p \<Rightarrow> obj_set u p m))"

definition getProfilesMapFromSessions :: "user_session obj option \<Rightarrow> profile obj \<Rightarrow> profile obj" where
  "getProfilesMapFromSessions ss profiles =
     fold (add_profile profiles) (obj_values (case ss of None \<Rightarrow> [] | Some s \<Rightarrow> s)) []"

definition profilesInCurrentCall :: "app \<Rightarrow> profile list" where
  "profilesInCurrentCall a = obj_values
     (getProfilesMapFromSessions (obj_get (sessionsInCalls a) (channelIDForCurrentCall a)) (userProfiles a))"

definition profilesInCallInCurrentChannel :: "app \<Rightarrow> profile list" where
  "profilesInCallInCurrentChannel a = obj_values
     (getProfilesMapFromSessions (obj_get (sessionsInCalls a) (g_currentChannelId (host a))) (userProfiles a))"

definition profilesInCurrentCallMap :: "app \<Rightarrow> profile obj" where
  "profilesInCurrentCallMap a =
     getProfilesMapFromSessions (obj_get (sessionsInCalls a) (channelIDForCurrentCall a)) (userProfiles a)"

definition profilesInCallInChannel :: "app \<Rightarrow> string \<Rightarrow> profile list" where
  "profilesInCallInChannel a ch = obj_values
     (getProfilesMapFromSessions (obj_get (sessionsInCalls a) ch) (userProfiles a))"

definition numProfilesInCallInChannel :: "app \<Rightarrow> string \<Rightarrow> nat" where
  "numProfilesInCallInChannel a ch = length (profilesInCallInChannel a ch)"

definition numSessionsInCallInChannel :: "plugin_state \<Rightarrow> string \<Rightarrow> nat" where
  "numSessionsInCallInChannel st ch =
     length (obj_keys (case obj_get (s_sessions st) ch of None \<Rightarrow> [] | Some ss \<Rightarrow> ss))"

definition channelHasCall :: "app \<Rightarrow> string \<Rightarrow> bool" where
  "channelHasCall a ch = (obj_get (sel_calls a) ch \<noteq> None)"

definition currentChannelHasCall :: "app \<Rightarrow> bool" where
  "currentChannelHasCall a = (obj_get (sel_calls a) (g_currentChannelId (host a)) \<noteq> None)"

definition sessionsInCurrentCall :: "app \<Rightarrow> user_session list" where
  "sessionsInCurrentCall a =
     (case obj_get (sessionsInCalls a) (channelIDForCurrentCall a) of
        None \<Rightarrow> [] | Some ss \<Rightarrow> obj_values ss)"

definition sessionsForOtherUsersInCall :: "app \<Rightarrow> user_session list" where
  "sessionsForOtherUsersInCall a =
     filter (\<lambda>s. user_id s \<noteq> Some (g_currentUserId (host a))) (sessionsInCurrentCall a)"

definition sessionsInCurrentCallMap :: "app \<Rightarrow> user_session obj option" where
  "sessionsInCurrentCallMap a = obj_get (sessionsInCalls a) (channelIDForCurrentCall a)"

definition sessionForCurrentCall :: "app \<Rightarrow> user_session option" where
  "sessionForCurrentCall a =
     session_of (sessionsInCalls a) (channelIDForCurrentCall a) (getCallsClientSessionID (client a))"

section \<open>Call data\<close>

definition reactionsInCurrentCall :: "app \<Rightarrow> reaction list" where
  "reactionsInCurrentCall a = channel_reactions (s_reactions (plugin a)) (channelIDForCurrentCall a)"

definition liveCaptionsInCurrentCall :: "app \<Rightarrow> live_captions" where
  "liveCaptionsInCurrentCall a =
     (case obj_get (s_liveCaptions (plugin a)) (channelIDForCurrentCall a) of None \<Rightarrow> [] | Some c \<Rightarrow> c)"

definition callStartAtForCallInChannel :: "app \<Rightarrow> string \<Rightarrow> int" where
  "callStartAtForCallInChannel a ch = num_or (map_option cs_startAt (obj_get (sel_calls a) ch)) 0"

definition callStartAtForCurrentCall :: "app \<Rightarrow> int" where
  "callStartAtForCurrentCall a =
     num_or (map_option cs_startAt (obj_get (sel_calls a) (channelIDForCurrentCall a)))
       (num_or (Some (getCallsClientInitTime (client a))) 0)"

definition callInCurrentChannel :: "app \<Rightarrow> call_state option" where
  "callInCurrentChannel a = obj_get (sel_calls a) (g_currentChannelId (host a))"

definition idForCallInChannel :: "app \<Rightarrow> string \<Rightarrow> string option" where
  "idForCallInChannel a ch = map_option cs_ID (obj_get (sel_calls a) ch)"

definition callOwnerIDForCallInChannel :: "app \<Rightarrow> string \<Rightarrow> string option" where
  "callOwnerIDForCallInChannel a ch = map_option cs_ownerID (obj_get (sel_calls a) ch)"

definition hostsInCalls :: "app \<Rightarrow> host_entry obj" where
  "hostsInCalls a = s_hosts (plugin a)"

definition hostIDForCallInChannel :: "app \<Rightarrow> string \<Rightarrow> string option" where
  "hostIDForCallInChannel a ch = map_option he_hostID (obj_get (hostsInCalls a) ch)"

definition hostIDForCurrentCall :: "app \<Rightarrow> string" where
  "hostIDForCurrentCall a =
     str_or (map_option he_hostID (obj_get (hostsInCalls a) (channelIDForCurrentCall a))) ''''"

definition hostChangeAtForCurrentCall :: "app \<Rightarrow> int" where
  "hostChangeAtForCurrentCall a =
     num_or (map_option he_hostChangeAt (obj_get (hostsInCalls a) (channelIDForCurrentCall a))) 0"

definition callDismissedNotification :: "app \<Rightarrow> string \<Rightarrow> bool" where
  "callDismissedNotification a channelID = flagged (s_dismissedCalls (plugin a)) channelID"

definition screenSharingIDsForCalls :: "app \<Rightarrow> string obj" where
  "screenSharingIDsForCalls a = s_screenSharingIDs (plugin a)"

definition screenSharingSessionForCurrentCall :: "app \<Rightarrow> user_session option" where
  "screenSharingSessionForCurrentCall a =
     (case obj_get (screenSharingIDsForCalls a) (channelIDForCurrentCall a) of
        None \<Rightarrow> None
      | Some sid \<Rightarrow> session_of (sessionsInCalls a) (channelIDForCurrentCall a) sid)"

definition threadIDForCallInChannel :: "app \<Rightarrow> string \<Rightarrow> string" where
  "threadIDForCallInChannel a ch = str_or (map_option cs_threadID (obj_get (sel_calls a) ch)) ''''"

section \<open>Jobs, notices and joins\<close>

definition recordingsForCalls :: "app \<Rightarrow> job_state obj" where
  "recordingsForCalls a = s_recordings (plugin a)"

definition recordingForCurrentCall :: "app \<Rightarrow> job_state" where
  "recordingForCurrentCall a =
     (case obj_get (recordingsForCalls a) (channelIDForCurrentCall a) of None \<Rightarrow> empty_job | Some j \<Rightarrow> j)"

definition hostControlNoticesForCurrentCall :: "app \<Rightarrow> host_control_notice list" where
  "hostControlNoticesForCurrentCall a =
     (case idForCurrentCall a of
        None \<Rightarrow> []
      | Some i \<Rightarrow>
          if i = '''' then []
          else (case obj_get (s_hostControlNotices (plugin a)) i of None \<Rightarrow> [] | Some ns \<Rightarrow> ns))"

definition liveCaptionsStateForCurrentCall :: "app \<Rightarrow> job_state" where
  "liveCaptionsStateForCurrentCall a =
     (case obj_get (s_callLiveCaptionsState (plugin a)) (channelIDForCurrentCall a) of
        None \<Rightarrow> empty_job | Some j \<Rightarrow> j)"

definition areLiveCaptionsAvailableInCurrentCall :: "app \<Rightarrow> bool" where
  "areLiveCaptionsAvailableInCurrentCall a =
     (let j = liveCaptionsStateForCurrentCall a
      in if num_or (start_at j) 0 = 0 then False else js_gt (start_at j) (end_at j))"

definition recentlyJoinedUsersInCurrentCall :: "app \<Rightarrow> string list" where
  "recentlyJoinedUsersInCurrentCall a =
     recently_joined (s_recentlyJoinedUsers (plugin a)) (channelIDForCurrentCall a)"

definition isRecordingInCurrentCall :: "app \<Rightarrow> bool" where
  "isRecordingInCurrentCall a =
     (case obj_get (recordingsForCalls a) (channelIDForCurrentCall a) of
        None \<Rightarrow> False
      | Some r \<Rightarrow> js_gt (init_at r) (end_at r))"

section \<open>Incoming calls\<close>

definition sel_incomingCalls :: "app \<Rightarrow> incoming_call list" where
  "sel_incomingCalls a = s_incomingCalls (plugin a)"

definition newest_first :: "incoming_call \<Rightarrow> incoming_call \<Rightarrow> int" where
  "newest_first x y = ic_startAt y - ic_startAt x"

definition sortedIncomingCalls :: "app \<Rightarrow> incoming_call list" where
  "sortedIncomingCalls a = js_sort newest_first (sel_incomingCalls a)"

interpretation newest_order: comparator newest_first "\<lambda>_ _. True"
  by unfold_locales (auto simp: newest_first_def)

definition sel_dismissedCalls :: "app \<Rightarrow> bool obj" where
  "sel_dismissedCalls a = s_dismissedCalls (plugin a)"

definition dismissedCallForCurrentChannel :: "app \<Rightarrow> bool" where
  "dismissedCallForCurrentChannel a =
     flagged (sel_dismissedCalls a) (str_or (map_option cs_ID (callInCurrentChannel a)) '''')"

definition ringingForCall :: "plugin_state \<Rightarrow> string \<Rightarrow> bool" where
  "ringingForCall st callID = flagged (s_ringingForCalls st) callID"

definition currentlyRinging :: "plugin_state \<Rightarrow> bool" where
  "currentlyRinging st = list_ex (\<lambda>v. v) (obj_values (s_ringingForCalls st))"

definition didRingForCall :: "plugin_state \<Rightarrow> string \<Rightarrow> bool" where
  "didRingForCall st callID = flagged (s_didRingForCalls st) callID"

definition didNotifyForCall :: "plugin_state \<Rightarrow> string \<Rightarrow> bool" where
  "didNotifyForCall st callID = flagged (s_didNotifyForCalls st) callID"

section \<open>Configuration\<close>

definition sel_callsConfig :: "app \<Rightarrow> calls_config" where
  "sel_callsConfig a = s_callsConfig (plugin a)"

definition iceServers :: "app \<Rightarrow> string list" where
  "iceServers a = ICEServersConfigs (sel_callsConfig a)"

definition defaultEnabled :: "app \<Rightarrow> bool" where
  "defaultEnabled a = DefaultEnabled (sel_callsConfig a)"

definition maxParticipants :: "app \<Rightarrow> int" where
  "maxParticipants a = MaxCallParticipants (sel_callsConfig a)"

definition needsTURNCredentials :: "app \<Rightarrow> bool" where
  "needsTURNCredentials a = NeedsTURNCredentials (sel_callsConfig a)"

definition isLimitRestricted :: "app \<Rightarrow> bool" where
  "isLimitRestricted a =
     (let numCurrentUsers = int (length (profilesInCallInCurrentChannel a));
          limit = maxParticipants a
      in limit > 0 \<and> numCurrentUsers \<ge> limit)"

definition allowScreenSharing :: "app \<Rightarrow> bool" where
  "allowScreenSharing a = AllowScreenSharing (sel_callsConfig a)"

definition recordingsEnabled :: "app \<Rightarrow> bool" where
  "recordingsEnabled a = EnableRecordings (sel_callsConfig a)"

definition transcriptionsEnabled :: "app \<Rightarrow> bool" where
  "transcriptionsEnabled a = EnableTranscriptions (sel_callsConfig a)"

definition liveCaptionsEnabled :: "app \<Rightarrow> bool" where
  "liveCaptionsEnabled a = EnableLiveCaptions (sel_callsConfig a)"

definition recordingMaxDuration :: "app \<Rightarrow> int" where
  "recordingMaxDuration a = MaxRecordingDuration (sel_callsConfig a)"

definition sel_rtcdEnabled :: "app \<Rightarrow> bool" where
  "sel_rtcdEnabled a = s_rtcdEnabled (plugin a)"

definition ringingEnabled :: "app \<Rightarrow> bool" where
  "ringingEnabled a = EnableRinging (sel_callsConfig a)"

definition transcribeAPI :: "app \<Rightarrow> transcribe_api" where
  "transcribeAPI a = TranscribeAPI (sel_callsConfig a)"

section \<open>Whether calls are enabled\<close>

definition channelState :: "app \<Rightarrow> string \<Rightarrow> channel_state option" where
  "channelState a ch = obj_get (s_channels (plugin a)) ch"

definition callsExplicitlyEnabled :: "app \<Rightarrow> string \<Rightarrow> bool" where
  "callsExplicitlyEnabled a ch = (Option.bind (channelState a ch) ch_enabled = Some True)"

definition callsExplicitlyDisabled :: "app \<Rightarrow> string \<Rightarrow> bool" where
  "callsExplicitlyDisabled a ch =
     (case Option.bind (channelState a ch) ch_enabled of None \<Rightarrow> False | Some enabled \<Rightarrow> \<not> enabled)"

definition callsEnabledInCurrentChannel :: "app \<Rightarrow> bool" where
  "callsEnabledInCurrentChannel a =
     (let ch = g_currentChannelId (host a)
      in if callsExplicitlyDisabled a ch then False
         else callsExplicitlyEnabled a ch \<or> defaultEnabled a \<or> g_isAdmin (host a))"

definition callsShowButton :: "app \<Rightarrow> string option \<Rightarrow> bool" where
  "callsShowButton a ch = (\<not> callsExplicitlyDisabled a (str_or ch ''''))"

text \<open>\<open>teamRoles.has\<close> throws when the user has no roles in the channel's team.\<close>

definition hasPermissionsToEnableCalls :: "app \<Rightarrow> string \<Rightarrow> js_error + bool" where
  "hasPermissionsToEnableCalls a ch =
     (if g_isAdmin (host a) then Inr True
      else if \<not> defaultEnabled a then Inr False
      else case getChannel a ch of
        None \<Rightarrow> Inr False
      | Some c \<Rightarrow>
          if isDMChannel (Some c) \<or> isGMChannel (Some c)
             \<or> obj_get (g_memberships (host a)) ch = Some True
             \<or> (case obj_get (g_channelRoles (host a)) (c_id c) of
                  None \<Rightarrow> False | Some roles \<Rightarrow> ''channel_admin'' \<in> set roles)
          then Inr True
          else case obj_get (g_teamRoles (host a)) (c_team_id c) of
            None \<Rightarrow> Inl TypeError
          | Some roles \<Rightarrow> Inr (''team_admin'' \<in> set roles))"

section \<open>Licences\<close>

definition cloudSku :: "app \<Rightarrow> string" where
  "cloudSku a = sku_short_name (sel_callsConfig a)"

definition isCloud :: "app \<Rightarrow> bool" where
  "isCloud a = (g_licenseCloud (host a) = Some ''true'')"

definition isCloudStarter :: "app \<Rightarrow> bool" where
  "isCloudStarter a = (isCloud a \<and> cloudSku a = ''starter'')"

definition isCloudProfessional :: "app \<Rightarrow> bool" where
  "isCloudProfessional a = (isCloud a \<and> cloudSku a = ''professional'')"

definition isCloudEnterprise :: "app \<Rightarrow> bool" where
  "isCloudEnterprise a = (isCloud a \<and> cloudSku a = ''enterprise'')"

definition isCloudEnterpriseAdvanced :: "app \<Rightarrow> bool" where
  "isCloudEnterpriseAdvanced a = (isCloud a \<and> cloudSku a = ''advanced'')"

definition isCloudTrial :: "app \<Rightarrow> bool" where
  "isCloudTrial a = (map_option is_free_trial (g_subscription (host a)) = Some ''true'')"

definition isCloudProfessionalOrEnterpriseorEnterpriseAdvanceOrTrial :: "app \<Rightarrow> bool" where
  "isCloudProfessionalOrEnterpriseorEnterpriseAdvanceOrTrial a =
     (isCloudProfessional a \<or> isCloudEnterprise a \<or> isCloudEnterpriseAdvanced a \<or> isCloudTrial a)"

definition isCloudTrialCompleted :: "app \<Rightarrow> bool" where
  "isCloudTrialCompleted a =
     (case g_subscription (host a) of
        None \<Rightarrow> False
      | Some s \<Rightarrow> is_free_trial s = ''false'' \<and> trial_end_at s > 0)"

definition isCloudTrialNeverStarted :: "app \<Rightarrow> bool" where
  "isCloudTrialNeverStarted a = (map_option trial_end_at (g_subscription (host a)) = Some 0)"

definition sel_callsUserPreferences :: "app \<Rightarrow> calls_user_preferences" where
  "sel_callsUserPreferences a = s_callsUserPreferences (plugin a)"

definition shouldPlayJoinUserSound :: "app \<Rightarrow> bool" where
  "shouldPlayJoinUserSound a =
     (int (length (profilesInCurrentCall a)) < joinSoundParticipantsThreshold (sel_callsUserPreferences a))"

definition isOnPremNotEnterprise :: "app \<Rightarrow> bool" where
  "isOnPremNotEnterprise a =
     (let enterprise = g_licenseSku (host a) = Some ''enterprise'' \<or> g_licenseSku (host a) = Some ''advanced''
      in \<not> isCloud a \<and> \<not> enterprise)"

definition isAtLeastProfessional :: "app \<Rightarrow> bool" where
  "isAtLeastProfessional a =
     (cloudSku a = ''advanced'' \<or> cloudSku a = ''enterprise'' \<or> cloudSku a = ''professional''
      \<or> isCloudProfessionalOrEnterpriseorEnterpriseAdvanceOrTrial a)"

definition areHostControlsAllowed :: "app \<Rightarrow> bool" where
  "areHostControlsAllowed a = HostControlsAllowed (sel_callsConfig a)"

definition areGroupCallsAllowed :: "app \<Rightarrow> bool" where
  "areGroupCallsAllowed a = GroupCallsAllowed (sel_callsConfig a)"

definition getStatusForCurrentUser :: "app \<Rightarrow> string option" where
  "getStatusForCurrentUser a = obj_get (g_statuses (host a)) (g_currentUserId (host a))"

section \<open>Lemmas\<close>

lemma add_profile_keys:
  "set (obj_keys (add_profile ps s m)) \<subseteq> set (obj_keys m) \<union> (case user_id s of None \<Rightarrow> {} | Some u \<Rightarrow> {u})"
  by (auto simp: add_profile_def obj_keys_set split: option.splits)

lemma add_profile_wf: "obj_wf m \<Longrightarrow> obj_wf (add_profile ps s m)"
  by (auto simp: add_profile_def split: option.splits)

lemma length_obj_set: "length (obj_keys (obj_set k v d)) \<le> Suc (length (obj_keys d))"
  by (simp add: obj_keys_set)

lemma fold_add_profile:
  "obj_wf m \<Longrightarrow> obj_wf (fold (add_profile ps) ss m)"
  "length (obj_keys (fold (add_profile ps) ss m)) \<le> length (obj_keys m) + length ss"
proof -
  show "obj_wf m \<Longrightarrow> obj_wf (fold (add_profile ps) ss m)"
    by (induction ss arbitrary: m) (auto intro: add_profile_wf)
  show "length (obj_keys (fold (add_profile ps) ss m)) \<le> length (obj_keys m) + length ss"
  proof (induction ss arbitrary: m)
    case (Cons s ss)
    have "length (obj_keys (add_profile ps s m)) \<le> Suc (length (obj_keys m))"
      using length_obj_set by (auto simp: add_profile_def split: option.splits intro: le_SucI)
    with Cons [of "add_profile ps s m"] show ?case by simp
  qed simp
qed

lemma profiles_map_get:
  "obj_get (fold (add_profile ps) ss m) u =
     (if Some u \<in> user_id ` set ss \<and> obj_get ps u \<noteq> None then obj_get ps u else obj_get m u)"
  by (induction ss arbitrary: m) (auto simp: add_profile_def split: option.splits)

lemma numSessions_zero_iff:
  "numSessionsInCallInChannel st ch = 0 \<longleftrightarrow>
     (obj_get (s_sessions st) ch = None \<or> obj_get (s_sessions st) ch = Some [])"
  by (auto simp: numSessionsInCallInChannel_def obj_keys_def split: option.splits)

lemma currentlyRinging_iff:
  assumes "obj_wf (s_ringingForCalls st)"
  shows "currentlyRinging st \<longleftrightarrow> (\<exists>c. ringingForCall st c)"
  using assms
  by (force simp: currentlyRinging_def ringingForCall_def flagged_def obj_values_def list_ex_iff
      dest: obj_in_set_get obj_get_in_set)

section \<open>Properties\<close>

text \<open>
  The profiles shown for a call are those of the users with a session in it that are
  loaded, each once, so a user with several sessions counts as one participant.
\<close>

theorem profiles_of_sessions:
  "obj_get (getProfilesMapFromSessions ss profiles) u =
     (if Some u \<in> user_id ` set (obj_values (case ss of None \<Rightarrow> [] | Some s \<Rightarrow> s))
      then obj_get profiles u else None) \<and>
   obj_wf (getProfilesMapFromSessions ss profiles) \<and>
   length (obj_keys (getProfilesMapFromSessions ss profiles))
     \<le> length (obj_keys (case ss of None \<Rightarrow> [] | Some s \<Rightarrow> s))"
proof -
  let ?vs = "obj_values (case ss of None \<Rightarrow> [] | Some s \<Rightarrow> s)"
  have "obj_keys ([] :: profile obj) = []" by (simp add: obj_keys_def)
  then have "length (obj_keys (fold (add_profile profiles) ?vs [])) \<le> length ?vs"
    using fold_add_profile(2) [of profiles ?vs "[]"] by simp
  moreover have "obj_wf (fold (add_profile profiles) ?vs [])" by (rule fold_add_profile(1)) simp
  moreover have "obj_get (fold (add_profile profiles) ?vs []) u =
      (if Some u \<in> user_id ` set ?vs then obj_get profiles u else None)"
    by (simp add: profiles_map_get)
  ultimately show ?thesis
    by (simp add: getProfilesMapFromSessions_def obj_values_length)
qed

text \<open>
  The incoming calls are shown newest first: the list is a permutation of the stored one in
  descending order of the start, and calls that started together keep their order of arrival.
\<close>

theorem incoming_sorted:
  "mset (sortedIncomingCalls a) = mset (sel_incomingCalls a) \<and>
   sorted_wrt (\<lambda>x y. ic_startAt x \<ge> ic_startAt y) (sortedIncomingCalls a) \<and>
   filter (\<lambda>ic. ic_startAt ic = t) (sortedIncomingCalls a) = filter (\<lambda>ic. ic_startAt ic = t) (sel_incomingCalls a)"
proof -
  have "sorted_wrt (\<lambda>_ _. True) (sel_incomingCalls a)" by (simp add: sorted_wrt_iff_nth_less)
  then have "sorted_wrt (\<lambda>x y. newest_first x y \<le> 0) (sortedIncomingCalls a)"
    unfolding sortedIncomingCalls_def by (rule newest_order.sort_ordered)
  moreover have "filter (\<lambda>ic. ic_startAt ic = t) (sortedIncomingCalls a) =
      filter (\<lambda>ic. ic_startAt ic = t) (sel_incomingCalls a)"
    unfolding sortedIncomingCalls_def by (rule newest_order.sort_stable) (simp add: newest_first_def)
  ultimately show ?thesis
    by (simp add: sortedIncomingCalls_def newest_first_def)
qed

text \<open>
  Who may enable or disable calls in a channel: an administrator always; nobody else while
  calls are in test mode; otherwise the members the roles name. The selector throws exactly when
  the channel is known, none of the channel's own rules applies and the user has no roles in its
  team.
\<close>

theorem permissions_decided:
  "(g_isAdmin (host a) \<longrightarrow> hasPermissionsToEnableCalls a ch = Inr True) \<and>
   (\<not> g_isAdmin (host a) \<and> \<not> defaultEnabled a \<longrightarrow> hasPermissionsToEnableCalls a ch = Inr False) \<and>
   (hasPermissionsToEnableCalls a ch = Inl e \<longleftrightarrow>
      e = TypeError \<and> \<not> g_isAdmin (host a) \<and> defaultEnabled a \<and>
      (\<exists>c. getChannel a ch = Some c \<and> \<not> isDmGmChannel (Some c) \<and>
         obj_get (g_memberships (host a)) ch \<noteq> Some True \<and>
         (\<forall>roles. obj_get (g_channelRoles (host a)) (c_id c) = Some roles \<longrightarrow> ''channel_admin'' \<notin> set roles) \<and>
         obj_get (g_teamRoles (host a)) (c_team_id c) = None))"
  by (auto simp: hasPermissionsToEnableCalls_def isDmGmChannel_def split: option.splits)

theorem permissions_decided_witness:
  "hasPermissionsToEnableCalls
     \<lparr>plugin = init_state, host = \<lparr>g_currentUserId = ''u'', g_currentChannelId = ''ch'',
        g_currentTeamId = ''t'', g_isAdmin = True, g_channels = [], g_profiles = [], g_teams = [],
        g_statuses = [], g_channelRoles = [], g_teamRoles = [], g_memberships = [], g_licenseCloud = None,
        g_licenseSku = None, g_subscription = None\<rparr>, client = None\<rparr> ''ch'' = Inr True"
  by (rule permissions_decided [THEN conjunct1, rule_format]) simp

end
