(* ===== verification/World.thy ===== *)
theory World
  imports Selectors
begin

text \<open>
  The window the plugin's code runs in: its store, what it reads of the application, the client
  of its own window and of its opener, the clock, the pending timers and promises, and the log
  of the calls it makes to the outside (REST, sounds, modals, the client). The thunks of
  \<open>actions.ts\<close> and the handlers of \<open>websocket_handlers.ts\<close> are functions on this record.

  Ending a call on this side is a synchronous chain: \<open>callsClient.disconnect\<close> emits
  \<open>close\<close>, whose listener (\<open>index.tsx\<close>) updates the store and deletes the client.
  \<open>on_close\<close> is that listener.
\<close>

datatype (plugins only: code size) modal =
    AdminTrialModal
  | UserTrialModal
  | TestModeUserModal
  | CallErrorModal js_error "string option"
  | GenericErrorModal string string "string option"
  | StopRecordingConfirmation string
  | EndCallConfirmation string

datatype (plugins only: code size) client_call =
    CallMute
  | CallUnmute
  | CallUnshareScreen
  | CallUnraiseHand
  | CallDisconnect "js_error option"

datatype (plugins only: code size) effect =
    PlaySound string
  | Ring string
  | StopRing
  | FollowThread string string string
  | Rest string string "(string \<times> string) list"
  | RequestChannel string
  | RequestProfiles "string list"
  | RequestThread string string string
  | OpenModal modal
  | OpenPricingModal string
  | SelectRhsPost string
  | OpenUserSettings
  | ClientCall client_call
  | UnmountWidget
  | CreateClient string
  | DesktopCall string "(string \<times> string) list"
  | PostMessage string string
  | WsRequest string
  | NavigateTo string
  | DesktopNotification string string bool string

text \<open>What a timer runs when it fires.\<close>

datatype (plugins only: code size) task = Dispatch action | StopRinging string

text \<open>Promises of \<open>incomingCallOnChannel\<close> that have not settled: the channel, or the caller's profile.\<close>

datatype (plugins only: code size) pending =
    AwaitChannel string string string int
  | AwaitCaller incoming_call

record world =
  w_plugin :: plugin_state
  w_host :: host_state
  w_opener :: opener
  w_own :: "client_view option"
  w_now :: int
  w_genId :: "nat \<Rightarrow> string"
  w_idCount :: nat
  w_timers :: "(int \<times> task) list"
  w_pending :: "pending list"
  w_effects :: "effect list"
  w_promptDismissedAt :: "int option"

definition world_client :: "world \<Rightarrow> client_view option" where
  "world_client w = getCallsClient (w_opener w) (w_own w)"

definition world_app :: "world \<Rightarrow> app" where
  "world_app w = \<lparr>plugin = w_plugin w, host = w_host w, client = world_client w\<rparr>"

definition emit :: "effect \<Rightarrow> world \<Rightarrow> world" where
  "emit e w = w\<lparr>w_effects := w_effects w @ [e]\<rparr>"

definition put_action :: "action \<Rightarrow> world \<Rightarrow> world" where
  "put_action a w = w\<lparr>w_plugin := dispatch a (w_plugin w)\<rparr>"

definition put_batch :: "action list \<Rightarrow> world \<Rightarrow> world" where
  "put_batch as w = w\<lparr>w_plugin := dispatch_all as (w_plugin w)\<rparr>"

definition set_timeout :: "int \<Rightarrow> task \<Rightarrow> world \<Rightarrow> world" where
  "set_timeout delay t w = w\<lparr>w_timers := w_timers w @ [(w_now w + delay, t)]\<rparr>"

definition await :: "pending \<Rightarrow> world \<Rightarrow> world" where
  "await p w = w\<lparr>w_pending := w_pending w @ [p]\<rparr>"

text \<open>\<open>generateId()\<close>: the identifier, and the world with the next one ready.\<close>

definition generateId :: "world \<Rightarrow> string \<times> world" where
  "generateId w = (w_genId w (w_idCount w), w\<lparr>w_idCount := Suc (w_idCount w)\<rparr>)"

lemmas world_step_defs = emit_def put_action_def put_batch_def set_timeout_def await_def generateId_def

lemma world_app_simps [simp]:
  "plugin (world_app w) = w_plugin w"
  "host (world_app w) = w_host w"
  "client (world_app w) = world_client w"
  by (simp_all add: world_app_def)

text \<open>
  Logging, timers and promises leave the store and the client alone; a dispatch changes the
  store only.
\<close>

lemma world_step_simps [simp]:
  "w_plugin (emit e w) = w_plugin w"
  "w_host (emit e w) = w_host w"
  "world_client (emit e w) = world_client w"
  "w_timers (emit e w) = w_timers w"
  "w_pending (emit e w) = w_pending w"
  "w_effects (emit e w) = w_effects w @ [e]"
  "w_now (emit e w) = w_now w"
  "w_own (emit e w) = w_own w"
  "w_opener (emit e w) = w_opener w"
  "w_plugin (put_action a w) = dispatch a (w_plugin w)"
  "w_host (put_action a w) = w_host w"
  "world_client (put_action a w) = world_client w"
  "w_timers (put_action a w) = w_timers w"
  "w_pending (put_action a w) = w_pending w"
  "w_effects (put_action a w) = w_effects w"
  "w_now (put_action a w) = w_now w"
  "w_own (put_action a w) = w_own w"
  "w_opener (put_action a w) = w_opener w"
  "w_plugin (put_batch as w) = dispatch_all as (w_plugin w)"
  "w_host (put_batch as w) = w_host w"
  "world_client (put_batch as w) = world_client w"
  "w_timers (put_batch as w) = w_timers w"
  "w_pending (put_batch as w) = w_pending w"
  "w_effects (put_batch as w) = w_effects w"
  "w_now (put_batch as w) = w_now w"
  "w_plugin (set_timeout d t w) = w_plugin w"
  "w_host (set_timeout d t w) = w_host w"
  "world_client (set_timeout d t w) = world_client w"
  "w_timers (set_timeout d t w) = w_timers w @ [(w_now w + d, t)]"
  "w_pending (set_timeout d t w) = w_pending w"
  "w_effects (set_timeout d t w) = w_effects w"
  "w_now (set_timeout d t w) = w_now w"
  "w_plugin (await p w) = w_plugin w"
  "w_host (await p w) = w_host w"
  "world_client (await p w) = world_client w"
  "w_timers (await p w) = w_timers w"
  "w_pending (await p w) = w_pending w @ [p]"
  "w_effects (await p w) = w_effects w"
  "w_now (await p w) = w_now w"
  by (simp_all add: world_step_defs world_client_def)

section \<open>Closing the client\<close>

text \<open>
  The \<open>close\<close> listener of \<open>connectCall\<close>, in the window that owns the client.
\<close>

definition displayCallErrorModal :: "js_error \<Rightarrow> string option \<Rightarrow> world \<Rightarrow> world" where
  "displayCallErrorModal err ch w = emit (OpenModal (CallErrorModal err ch)) w"

definition on_close :: "js_error option \<Rightarrow> world \<Rightarrow> world" where
  "on_close err w0 =
     (let w = emit UnmountWidget (put_action (CLIENT_CONNECTING False) w0)
      in case w_own w of
           None \<Rightarrow> w
         | Some c \<Rightarrow>
             let w = (case err of None \<Rightarrow> w | Some e \<Rightarrow> displayCallErrorModal e (Some (cv_channelID c)) w);
                 w = put_action (LOCAL_SESSION_CLOSE (cv_channelID c)) w;
                 w = w\<lparr>w_own := None, w_promptDismissedAt := None\<rparr>
             in emit (PlaySound ''leave_self'') w)"

text \<open>
  \<open>window.callsClient?.disconnect(err)\<close>, and the same call on \<open>getCallsClient()\<close>: in a
  pop-out the client and the listener belong to the opener, whose store is not this one.
\<close>

definition own_disconnect :: "js_error option \<Rightarrow> world \<Rightarrow> world" where
  "own_disconnect err w =
     (case w_own w of None \<Rightarrow> w | Some _ \<Rightarrow> on_close err (emit (ClientCall (CallDisconnect err)) w))"

definition shared_disconnect :: "js_error option \<Rightarrow> world \<Rightarrow> world" where
  "shared_disconnect err w =
     (case getCallsWindow (w_opener w) of
        ThisWindow \<Rightarrow> own_disconnect err w
      | OpenerWindow \<Rightarrow> (emit (ClientCall (CallDisconnect err)) w)\<lparr>w_opener := Opener None\<rparr>)"

lemma on_close_client: "w_own (on_close err w) = None"
  by (auto simp: on_close_def displayCallErrorModal_def Let_def split: option.split)

lemma on_close_plugin:
  "w_plugin (on_close err w) =
     (case w_own w of
        None \<Rightarrow> dispatch (CLIENT_CONNECTING False) (w_plugin w)
      | Some c \<Rightarrow> dispatch (LOCAL_SESSION_CLOSE (cv_channelID c)) (dispatch (CLIENT_CONNECTING False) (w_plugin w)))"
  by (auto simp: on_close_def displayCallErrorModal_def Let_def split: option.split)

lemma own_disconnect_client: "w_own (own_disconnect err w) = None"
  by (auto simp: own_disconnect_def on_close_client split: option.split)

lemma shared_disconnect_client:
  assumes "world_client w \<noteq> None" and "w_own w = None \<or> getCallsWindow (w_opener w) = ThisWindow"
  shows "world_client (shared_disconnect err w) = None"
proof (cases "getCallsWindow (w_opener w)")
  case ThisWindow
  have op: "w_opener (shared_disconnect err w) = w_opener w"
    by (auto simp: shared_disconnect_def own_disconnect_def on_close_def displayCallErrorModal_def
        ThisWindow Let_def split: option.split)
  have "w_own (shared_disconnect err w) = None"
    by (simp add: shared_disconnect_def ThisWindow own_disconnect_client)
  with op ThisWindow show ?thesis by (simp add: world_client_def getCallsClient_def)
next
  case OpenerWindow
  with assms show ?thesis
    by (simp add: shared_disconnect_def world_client_def getCallsClient_def emit_def)
qed

text \<open>The slices a closing client leaves alone.\<close>

lemma own_disconnect_slices [simp]:
  "s_calls (w_plugin (own_disconnect err w)) = s_calls (w_plugin w)"
  "s_incomingCalls (w_plugin (own_disconnect err w)) = s_incomingCalls (w_plugin w)"
  "s_ringingForCalls (w_plugin (own_disconnect err w)) = s_ringingForCalls (w_plugin w)"
  "s_didRingForCalls (w_plugin (own_disconnect err w)) = s_didRingForCalls (w_plugin w)"
  "s_sessions (w_plugin (own_disconnect err w)) = s_sessions (w_plugin w)"
  "s_dismissedCalls (w_plugin (own_disconnect err w)) = s_dismissedCalls (w_plugin w)"
  "w_host (own_disconnect err w) = w_host w"
  "w_timers (own_disconnect err w) = w_timers w"
  "w_pending (own_disconnect err w) = w_pending w"
  by (auto simp: own_disconnect_def on_close_def displayCallErrorModal_def Let_def split: option.split)

end
