(* ===== verification/Call_Alerts.thy ===== *)
theory Call_Alerts
  imports Calls_Client World
begin

text \<open>
  What the two call windows, the widget and the pop-out, share: the alerts and their configuration
  (\<open>types/types.ts\<close>, \<open>constants.ts\<close>), the state of a class component, and the contract
  of the call quality banner, which both windows implement on their own.

  React is not part of the repository. What the code relies on is its documented contract for
  version 17: \<open>setState\<close> merges its object into the state in the order of the calls; inside
  an event handler React runs and inside a life-cycle method the calls are batched, so
  \<open>this.state\<close> keeps its old value until the handler returns, while in listeners of the
  browser, of the client and after an await every call is applied at once. Which of the two
  holds is an argument of the handlers.
\<close>

section \<open>Alerts\<close>

datatype alert_id =
    MissingAudioInput | MissingAudioInputPermissions | MissingVideoInput | MissingVideoInputPermissions
  | MissingScreenPermissions | DegradedCallQuality | AudioInputDeviceFallback | AudioOutputDeviceFallback

record alert_state =
  al_active :: bool
  al_show :: bool
  al_deviceLabel :: "string option"

type_synonym call_alerts = "alert_id \<Rightarrow> alert_state"

definition alert_off :: alert_state where
  "alert_off = \<lparr>al_active = False, al_show = False, al_deviceLabel = None\<rparr>"

definition alert_on :: alert_state where
  "alert_on = \<lparr>al_active = True, al_show = True, al_deviceLabel = None\<rparr>"

definition CallAlertStatesDefault :: call_alerts where
  "CallAlertStatesDefault = (\<lambda>_. alert_off)"

text \<open>The order in which \<open>Object.entries\<close> lists the alerts.\<close>

definition alert_ids :: "alert_id list" where
  "alert_ids =
     [MissingAudioInput, MissingAudioInputPermissions, MissingVideoInput, MissingVideoInputPermissions,
      MissingScreenPermissions, DegradedCallQuality, AudioInputDeviceFallback, AudioOutputDeviceFallback]"

datatype call_alert_type = AlertError | AlertWarning | AlertInfo

record call_alert_config =
  ac_type :: call_alert_type
  ac_icon :: string
  ac_bannerText :: string
  ac_tooltipText :: "string option"
  ac_tooltipSubtext :: "string option"
  ac_dismissable :: bool

fun CallAlertConfigs :: "alert_id \<Rightarrow> call_alert_config" where
  "CallAlertConfigs MissingAudioInput =
     \<lparr>ac_type = AlertError, ac_icon = ''microphone-off'',
      ac_bannerText = ''Unable to find a valid audio input device. Try plugging in an audio input device.'',
      ac_tooltipText = Some ''No audio input devices'',
      ac_tooltipSubtext = Some ''Try plugging in an audio input device.'', ac_dismissable = True\<rparr>"
| "CallAlertConfigs MissingAudioInputPermissions =
     \<lparr>ac_type = AlertError, ac_icon = ''microphone-off'',
      ac_bannerText = ''Allow microphone access to Mattermost.'',
      ac_tooltipText = Some ''No audio input permissions'',
      ac_tooltipSubtext = Some ''Allow microphone access to Mattermost.'', ac_dismissable = True\<rparr>"
| "CallAlertConfigs MissingVideoInput =
     \<lparr>ac_type = AlertError, ac_icon = ''video-off-outline'',
      ac_bannerText = ''Unable to find a valid video input device. Try plugging in a video input device.'',
      ac_tooltipText = Some ''No video input devices'',
      ac_tooltipSubtext = Some ''Try plugging in a video input device.'', ac_dismissable = True\<rparr>"
| "CallAlertConfigs MissingVideoInputPermissions =
     \<lparr>ac_type = AlertError, ac_icon = ''video-off-outline'',
      ac_bannerText = ''Allow camera access to Mattermost.'',
      ac_tooltipText = Some ''No video input permissions'',
      ac_tooltipSubtext = Some ''Allow camera access to Mattermost.'', ac_dismissable = True\<rparr>"
| "CallAlertConfigs MissingScreenPermissions =
     \<lparr>ac_type = AlertError, ac_icon = ''monitor-off'',
      ac_bannerText = ''Screen recording access is not currently allowed or was canceled.'',
      ac_tooltipText = Some ''No screen sharing permissions'',
      ac_tooltipSubtext = Some ''Allow screen recording access to Mattermost.'', ac_dismissable = True\<rparr>"
| "CallAlertConfigs DegradedCallQuality =
     \<lparr>ac_type = AlertWarning, ac_icon = ''alert-outline'',
      ac_bannerText = ''Call quality may be degraded due to unstable network conditions.'',
      ac_tooltipText = None, ac_tooltipSubtext = None, ac_dismissable = True\<rparr>"
| "CallAlertConfigs AudioInputDeviceFallback =
     \<lparr>ac_type = AlertInfo, ac_icon = ''microphone'',
      ac_bannerText = ''The audio input device has changed to <i>{deviceLabel}</i>.'',
      ac_tooltipText = None, ac_tooltipSubtext = None, ac_dismissable = True\<rparr>"
| "CallAlertConfigs AudioOutputDeviceFallback =
     \<lparr>ac_type = AlertInfo, ac_icon = ''speaker'',
      ac_bannerText = ''The audio output device has changed to <i>{deviceLabel}</i>.'',
      ac_tooltipText = None, ac_tooltipSubtext = None, ac_dismissable = True\<rparr>"

definition DEGRADED_CALL_QUALITY_ALERT_WAIT :: int where
  "DEGRADED_CALL_QUALITY_ALERT_WAIT = 20000"

lemma alert_simps [simp]:
  "al_active alert_on" "al_show alert_on" "\<not> al_active alert_off" "\<not> al_show alert_off"
  "al_deviceLabel alert_on = None" "al_deviceLabel alert_off = None"
  by (simp_all add: alert_on_def alert_off_def)

text \<open>\<open>{...alerts, [id]: {...alerts[id], active: b, show: b}}\<close>.\<close>

definition flag_alert :: "alert_id \<Rightarrow> bool \<Rightarrow> call_alerts \<Rightarrow> call_alerts" where
  "flag_alert a b al = al(a := (al a)\<lparr>al_active := b, al_show := b\<rparr>)"

definition fallback_alert :: "device \<Rightarrow> alert_state" where
  "fallback_alert d = \<lparr>al_active = True, al_show = True, al_deviceLabel = Some (dev_label d)\<rparr>"

lemma flag_alert_simps [simp]:
  "al_active (flag_alert a b al a') = (if a' = a then b else al_active (al a'))"
  "al_show (flag_alert a b al a') = (if a' = a then b else al_show (al a'))"
  "a' \<noteq> a \<Longrightarrow> flag_alert a b al a' = al a'"
  by (simp_all add: flag_alert_def)

section \<open>The state of a component\<close>

text \<open>
  \<open>rc_state\<close> is what \<open>this.state\<close> reads, \<open>rc_next\<close> the state with every object
  merged. \<open>set_state\<close> merges one more: an update of the fields its object names, whose values
  were computed when it was called.
\<close>

record 'st react =
  rc_state :: 'st
  rc_next :: 'st

definition mount_state :: "'st \<Rightarrow> 'st react" where
  "mount_state s = \<lparr>rc_state = s, rc_next = s\<rparr>"

definition merge_state :: "bool \<Rightarrow> ('st \<Rightarrow> 'st) \<Rightarrow> 'st react \<Rightarrow> 'st react" where
  "merge_state batched u c =
     (let n = u (rc_next c) in \<lparr>rc_state = (if batched then rc_state c else n), rc_next = n\<rparr>)"

definition settle_state :: "'st react \<Rightarrow> 'st react" where
  "settle_state c = c\<lparr>rc_state := rc_next c\<rparr>"

definition settled :: "'st react \<Rightarrow> bool" where
  "settled c = (\<exists>s. c = mount_state s)"

lemma merge_state_simps [simp]:
  "rc_next (merge_state b u c) = u (rc_next c)"
  "rc_state (merge_state False u c) = u (rc_next c)"
  "rc_state (merge_state True u c) = rc_state c"
  "rc_state (settle_state c) = rc_next c"
  "rc_next (settle_state c) = rc_next c"
  "rc_state (mount_state s) = s"
  "rc_next (mount_state s) = s"
  by (simp_all add: merge_state_def settle_state_def mount_state_def Let_def)

lemma settled_iff: "settled c \<longleftrightarrow> rc_state c = rc_next c"
  by (cases c) (auto simp: settled_def mount_state_def)

lemma settled_merge [simp]: "settled c \<Longrightarrow> settled (merge_state False u c)"
  by (simp add: settled_iff)

lemma settled_settle [simp]: "settled (settle_state c)"
  by (simp add: settled_iff)

section \<open>The call quality banner\<close>

text \<open>
  The contract of the banner of one window: a score below the threshold shows it, one above hides
  it, closing it hides and locks it, and while it is locked no score changes it. The timer of
  20 seconds unlocks it.
\<close>

locale quality_banner =
  fixes score :: "'m::linorder \<Rightarrow> 'm \<Rightarrow> 's \<Rightarrow> 's"
    and close :: "'s \<Rightarrow> 's"
    and unlock :: "'s \<Rightarrow> 's"
    and shown :: "'s \<Rightarrow> bool"
    and locked :: "'s \<Rightarrow> bool"
    and ok :: "'s \<Rightarrow> bool"
  assumes score_shown: "ok s \<Longrightarrow> shown (score t m s) = (if locked s then shown s else m < t)"
    and score_locked: "locked (score t m s) = locked s"
    and score_ok: "ok s \<Longrightarrow> ok (score t m s)"
    and close_shown: "ok s \<Longrightarrow> \<not> shown (close s)"
    and close_locked: "locked (close s)"
    and close_ok: "ok s \<Longrightarrow> ok (close s)"
    and unlock_shown: "shown (unlock s) = shown s"
    and unlock_locked: "\<not> locked (unlock s)"
    and unlock_ok: "ok s \<Longrightarrow> ok (unlock s)"
begin

lemma scores_locked: "locked (fold (score t) ms s) = locked s"
  by (induction ms arbitrary: s) (simp_all add: score_locked)

lemma scores_ok: "ok s \<Longrightarrow> ok (fold (score t) ms s)"
  by (induction ms arbitrary: s) (simp_all add: score_ok)

lemma locked_scores_shown: "ok s \<Longrightarrow> locked s \<Longrightarrow> shown (fold (score t) ms s) = shown s"
  by (induction ms arbitrary: s) (simp_all add: score_shown score_locked score_ok)

lemma follows_last_score:
  assumes "ok s" "\<not> locked s" "ms \<noteq> []"
  shows "shown (fold (score t) ms s) = (last ms < t)"
proof -
  obtain us m where ms: "ms = us @ [m]" using assms(3) by (cases ms rule: rev_cases) auto
  show ?thesis using assms(1,2) by (simp add: ms score_shown scores_locked scores_ok)
qed

lemma closed_until_timer:
  assumes "ok s"
  shows "\<not> shown (fold (score t) ms (close s))"
    and "ms' \<noteq> [] \<Longrightarrow> shown (fold (score t) ms' (unlock (fold (score t) ms (close s)))) = (last ms' < t)"
proof -
  let ?c = "fold (score t) ms (close s)"
  show "\<not> shown ?c" using assms by (simp add: locked_scores_shown close_ok close_locked close_shown)
  have "ok (unlock ?c)" using assms by (simp add: unlock_ok scores_ok close_ok)
  then show "ms' \<noteq> [] \<Longrightarrow> shown (fold (score t) ms' (unlock ?c)) = (last ms' < t)"
    by (rule follows_last_score) (simp_all add: unlock_locked)
qed

end

end
