(* ===== verification/Shortcuts.thy ===== *)
theory Shortcuts
  imports JS_Prelude
begin

text \<open>
  The keyboard shortcuts (\<open>webapp/src/shortcuts.ts\<close>): the tables of key sequences per scope,
  the reversed tables that the tooltips read, and the lookup that a key event goes through.

  A keyboard event is the record of the fields the lookup reads; \<open>navigator.platform\<close> is an
  argument. Letters are changed in case in the ASCII range, which is the range of every entry of
  the tables.
\<close>

section \<open>Strings\<close>

definition up_char :: "char \<Rightarrow> char" where
  "up_char c = (let n = of_char c :: nat in if 97 \<le> n \<and> n \<le> 122 then char_of (n - 32) else c)"

definition low_char :: "char \<Rightarrow> char" where
  "low_char c = (let n = of_char c :: nat in if 65 \<le> n \<and> n \<le> 90 then char_of (n + 32) else c)"

definition toUpperCase :: "string \<Rightarrow> string" where
  "toUpperCase s = map up_char s"

definition toLowerCase :: "string \<Rightarrow> string" where
  "toLowerCase s = map low_char s"

definition starts_with :: "string \<Rightarrow> string \<Rightarrow> bool" where
  "starts_with p s = (take (length p) s = p)"

text \<open>\<open>s.indexOf(p) >= 0\<close>, and \<open>s.replace(p, '')\<close>, which drops the first occurrence.\<close>

fun includes_str :: "string \<Rightarrow> string \<Rightarrow> bool" where
  "includes_str p [] = (p = [])"
| "includes_str p (c # s) = (starts_with p (c # s) \<or> includes_str p s)"

fun drop_first :: "string \<Rightarrow> string \<Rightarrow> string" where
  "drop_first p [] = []"
| "drop_first p (c # s) =
     (if starts_with p (c # s) then drop (length p) (c # s) else c # drop_first p s)"

section \<open>The tables\<close>

definition MUTE_UNMUTE :: string where "MUTE_UNMUTE = ''mute-unmute''"
definition RAISE_LOWER_HAND :: string where "RAISE_LOWER_HAND = ''raise-lower-hand''"
definition MAKE_REACTION :: string where "MAKE_REACTION = ''make-reaction''"
definition SHARE_UNSHARE_SCREEN :: string where "SHARE_UNSHARE_SCREEN = ''share-unshare-screen''"
definition PARTICIPANTS_LIST_TOGGLE :: string where
  "PARTICIPANTS_LIST_TOGGLE = ''participants-list-toggle''"
definition JOIN_CALL :: string where "JOIN_CALL = ''join-call''"
definition LEAVE_CALL :: string where "LEAVE_CALL = ''leave-call''"
definition PUSH_TO_TALK :: string where "PUSH_TO_TALK = ''push-to-talk''"
definition RECORDING_TOGGLE :: string where "RECORDING_TOGGLE = ''recording-toggle''"

lemmas shortcut_names =
  MUTE_UNMUTE_def RAISE_LOWER_HAND_def MAKE_REACTION_def SHARE_UNSHARE_SCREEN_def
  PARTICIPANTS_LIST_TOGGLE_def JOIN_CALL_def LEAVE_CALL_def PUSH_TO_TALK_def RECORDING_TOGGLE_def

definition isMac :: "string \<Rightarrow> bool" where
  "isMac platform = includes_str ''MAC'' (toUpperCase platform)"

definition globalMappings :: "bool \<Rightarrow> string obj" where
  "globalMappings mac = [(if mac then ''meta+alt+s'' else ''ctrl+alt+s'', JOIN_CALL)]"

definition widgetMappings :: "bool \<Rightarrow> string obj" where
  "widgetMappings mac =
     [(if mac then ''meta+shift+space'' else ''ctrl+shift+space'', MUTE_UNMUTE),
      (if mac then ''meta+shift+y'' else ''ctrl+shift+y'', RAISE_LOWER_HAND),
      (if mac then ''meta+shift+x'' else ''ctrl+shift+x'', MAKE_REACTION),
      (if mac then ''meta+shift+e'' else ''ctrl+shift+e'', SHARE_UNSHARE_SCREEN),
      (''alt+p'', PARTICIPANTS_LIST_TOGGLE),
      (if mac then ''meta+shift+p'' else ''ctrl+shift+p'', PARTICIPANTS_LIST_TOGGLE),
      (if mac then ''meta+shift+l'' else ''ctrl+shift+l'', LEAVE_CALL)]"

definition popoutMappings :: "bool \<Rightarrow> string obj" where
  "popoutMappings mac =
     obj_set (if mac then ''meta+alt+r'' else ''ctrl+alt+r'') RECORDING_TOGGLE
       (obj_set ''space'' PUSH_TO_TALK (widgetMappings mac))"

definition keyMappings :: "bool \<Rightarrow> string obj obj" where
  "keyMappings mac =
     [(''global'', globalMappings mac), (''widget'', widgetMappings mac), (''popout'', popoutMappings mac)]"

lemmas table_defs = globalMappings_def widgetMappings_def popoutMappings_def keyMappings_def

section \<open>The reversed tables\<close>

definition push_sequence :: "string \<times> string \<Rightarrow> string list obj \<Rightarrow> string list obj" where
  "push_sequence e m =
     (let (sq, act) = e in
        case obj_get m act of Some sqs \<Rightarrow> obj_set act (sqs @ [sq]) m | None \<Rightarrow> obj_set act [sq] m)"

definition reverse_scope :: "string obj \<Rightarrow> string list obj" where
  "reverse_scope mappings = fold push_sequence mappings []"

definition reverseKeyMappings :: "bool \<Rightarrow> string list obj obj" where
  "reverseKeyMappings mac =
     fold (\<lambda>(scope, mappings) m. obj_set scope (reverse_scope mappings) m) (keyMappings mac) []"

section \<open>Key events\<close>

record key_event =
  ke_key :: string
  ke_code :: string
  ke_meta :: bool
  ke_ctrl :: bool
  ke_shift :: bool
  ke_alt :: bool

definition modifiers :: "key_event \<Rightarrow> string" where
  "modifiers ev =
     (if ke_meta ev then ''meta+'' else '''') @ (if ke_ctrl ev then ''ctrl+'' else '''') @
     (if ke_shift ev then ''shift+'' else '''') @ (if ke_alt ev then ''alt+'' else '''')"

text \<open>
  The action of a key event (\<open>null\<close> when the event names no key, \<open>undefined\<close> when no entry
  matches), and whether the event is taken from the browser (\<open>preventDefault\<close> and
  \<open>stopImmediatePropagation\<close>). A scope that is not in the table makes the lookup throw.
\<close>

definition keyToAction :: "bool \<Rightarrow> string \<Rightarrow> key_event \<Rightarrow> js_error + (string nullable \<times> bool)" where
  "keyToAction mac scope ev =
     (if ke_key ev = '''' \<or> ke_code ev = '''' then Inr (Null, False)
      else case obj_get (keyMappings mac) scope of
        None \<Rightarrow> Inl TypeError
      | Some mappings \<Rightarrow>
          let key = toLowerCase (ke_key ev);
              code = toLowerCase (drop_first ''Key'' (ke_code ev));
              mapKey = modifiers ev @ key;
              mapCode = modifiers ev @ code
          in case obj_get mappings mapKey of
               Some act \<Rightarrow> Inr (Val act, True)
             | None \<Rightarrow>
                 (case obj_get mappings mapCode of
                    Some act \<Rightarrow> Inr (Val act, True)
                  | None \<Rightarrow> Inr (Undefined, False)))"

section \<open>Facts about the tables\<close>

lemma table_wf: "obj_get (keyMappings mac) scope = Some t \<Longrightarrow> obj_wf t"
  by (auto simp: table_defs obj_wf_def split: if_splits)

text \<open>Reversing a table with distinct sequences loses and invents nothing.\<close>

lemma push_sequence_get:
  "obj_get (push_sequence (sq, act) m) a =
     (if a = act then Some (case obj_get m act of Some sqs \<Rightarrow> sqs @ [sq] | None \<Rightarrow> [sq]) else obj_get m a)"
  by (simp add: push_sequence_def split: option.split)

definition sequences_of :: "string \<Rightarrow> string obj \<Rightarrow> string list" where
  "sequences_of a t = map fst (filter (\<lambda>e. snd e = a) t)"

lemma fold_push_sequence:
  "(case obj_get (fold push_sequence t m) a of Some l \<Rightarrow> l | None \<Rightarrow> []) =
     (case obj_get m a of Some l \<Rightarrow> l | None \<Rightarrow> []) @ sequences_of a t"
proof (induction t arbitrary: m)
  case Nil
  then show ?case by (simp add: sequences_of_def)
next
  case (Cons e t)
  obtain sq act where e: "e = (sq, act)" by (cases e)
  show ?case
    using Cons.IH [of "push_sequence (sq, act) m"]
    by (auto simp: e push_sequence_get sequences_of_def split: option.split)
qed

lemma fold_push_sequence_dom:
  "obj_get (fold push_sequence t m) a = None \<longleftrightarrow> obj_get m a = None \<and> sequences_of a t = []"
proof (induction t arbitrary: m)
  case Nil
  then show ?case by (simp add: sequences_of_def)
next
  case (Cons e t)
  obtain sq act where e: "e = (sq, act)" by (cases e)
  show ?case
    using Cons.IH [of "push_sequence (sq, act) m"]
    by (auto simp: e push_sequence_get sequences_of_def)
qed

lemma reverse_scope_get:
  "obj_get (reverse_scope t) a = (if sequences_of a t = [] then None else Some (sequences_of a t))"
  using fold_push_sequence [of t "[]" a] fold_push_sequence_dom [of t "[]" a]
  by (auto simp: reverse_scope_def split: option.splits)

lemma sequences_of_mem: "obj_wf t \<Longrightarrow> sq \<in> set (sequences_of a t) \<longleftrightarrow> obj_get t sq = Some a"
  by (force simp: sequences_of_def obj_in_set_get dest: obj_get_in_set)

lemma reverseKeyMappings_get:
  "obj_get (reverseKeyMappings mac) scope = map_option reverse_scope (obj_get (keyMappings mac) scope)"
  by (simp add: reverseKeyMappings_def keyMappings_def)

text \<open>The lookup on an event whose spelled-out sequence is in the table of the scope.\<close>

lemma keyToAction_key:
  assumes "obj_get (keyMappings mac) scope = Some t" "ke_key ev \<noteq> ''''" "ke_code ev \<noteq> ''''"
    and "obj_get t (modifiers ev @ toLowerCase (ke_key ev)) = Some a"
  shows "keyToAction mac scope ev = Inr (Val a, True)"
  using assms by (simp add: keyToAction_def Let_def)

section \<open>Properties\<close>

text \<open>
  The reversed tables, which the tooltips read, are exactly the inverse of the forward
  tables: on either platform and in every scope a sequence is listed under an action if and
  only if the forward table sends it to that action, no sequence is listed twice, and an action
  that no sequence reaches has no entry.
\<close>

theorem shortcuts_inverse:
  assumes "obj_get (keyMappings mac) scope = Some t"
  shows "\<exists>r. obj_get (reverseKeyMappings mac) scope = Some r \<and>
    (\<forall>a. case obj_get r a of
           Some sqs \<Rightarrow> sqs \<noteq> [] \<and> distinct sqs \<and> {sq. obj_get t sq = Some a} = set sqs
         | None \<Rightarrow> {sq. obj_get t sq = Some a} = {})"
proof -
  have wf: "obj_wf t" using assms by (rule table_wf)
  have d: "distinct (sequences_of a t)" for a
    using wf by (simp add: sequences_of_def obj_wf_def distinct_map_filter)
  have m: "{sq. obj_get t sq = Some a} = set (sequences_of a t)" for a
    using sequences_of_mem [OF wf] by auto
  show ?thesis
    using assms d by (auto simp: reverseKeyMappings_get reverse_scope_get m split: option.splits)
qed

theorem shortcuts_inverse_witness:
  "obj_get (the (obj_get (reverseKeyMappings True) ''popout'')) PARTICIPANTS_LIST_TOGGLE =
     Some [''alt+p'', ''meta+shift+p''] \<and>
   (\<exists>r. obj_get (reverseKeyMappings True) ''popout'' = Some r \<and>
    (\<forall>a. case obj_get r a of
           Some sqs \<Rightarrow> sqs \<noteq> [] \<and> distinct sqs \<and> {sq. obj_get (popoutMappings True) sq = Some a} = set sqs
         | None \<Rightarrow> {sq. obj_get (popoutMappings True) sq = Some a} = {}))"
proof
  show "obj_get (the (obj_get (reverseKeyMappings True) ''popout'')) PARTICIPANTS_LIST_TOGGLE =
     Some [''alt+p'', ''meta+shift+p'']" by code_simp
  show "\<exists>r. obj_get (reverseKeyMappings True) ''popout'' = Some r \<and>
    (\<forall>a. case obj_get r a of
           Some sqs \<Rightarrow> sqs \<noteq> [] \<and> distinct sqs \<and> {sq. obj_get (popoutMappings True) sq = Some a} = set sqs
         | None \<Rightarrow> {sq. obj_get (popoutMappings True) sq = Some a} = {})"
    by (rule shortcuts_inverse) (simp add: keyMappings_def)
qed

text \<open>
  Pressing a sequence that the reversed table lists under an action triggers that action and
  takes the event from the browser, whatever the layout says of the physical key; and an action
  is triggered only by a sequence the table lists under it, spelled with the key's character or,
  when that spelling is not in the table, with its physical position.
\<close>

theorem shortcut_pressed:
  assumes "obj_get (reverseKeyMappings mac) scope = Some r" "obj_get r a = Some sqs"
    and "ke_key ev \<noteq> ''''" "ke_code ev \<noteq> ''''"
  shows "(modifiers ev @ toLowerCase (ke_key ev) \<in> set sqs \<longrightarrow> keyToAction mac scope ev = Inr (Val a, True)) \<and>
    (keyToAction mac scope ev = Inr (Val a, True) \<longrightarrow>
       modifiers ev @ toLowerCase (ke_key ev) \<in> set sqs \<or>
       modifiers ev @ toLowerCase (drop_first ''Key'' (ke_code ev)) \<in> set sqs)"
proof -
  obtain t where t: "obj_get (keyMappings mac) scope = Some t" and r: "r = reverse_scope t"
    using assms(1) by (auto simp: reverseKeyMappings_get)
  have sq: "sq \<in> set sqs \<longleftrightarrow> obj_get t sq = Some a" for sq
    using assms(2) sequences_of_mem [OF table_wf [OF t]] by (auto simp: r reverse_scope_get split: if_splits)
  show ?thesis
    using keyToAction_key [OF t assms(3,4)] assms(3,4)
    by (auto simp: sq keyToAction_def t Let_def split: option.splits)
qed

definition sample_event :: key_event where
  "sample_event = \<lparr>ke_key = ''E'', ke_code = ''KeyD'', ke_meta = False, ke_ctrl = True, ke_shift = True, ke_alt = False\<rparr>"

theorem shortcut_pressed_witness:
  "keyToAction False ''widget'' sample_event = Inr (Val SHARE_UNSHARE_SCREEN, True)"
proof -
  have r: "obj_get (reverseKeyMappings False) ''widget'' = Some (reverse_scope (widgetMappings False))"
    by (simp add: reverseKeyMappings_get keyMappings_def)
  have "obj_get (reverse_scope (widgetMappings False)) SHARE_UNSHARE_SCREEN = Some [''ctrl+shift+e'']"
    by code_simp
  moreover have "ke_key sample_event \<noteq> ''''" "ke_code sample_event \<noteq> ''''" by (simp_all add: sample_event_def)
  moreover have "modifiers sample_event @ toLowerCase (ke_key sample_event) = ''ctrl+shift+e''"
    by code_simp
  ultimately show ?thesis using shortcut_pressed [OF r] by simp
qed

end
