(* ===== verification/Call_Widget.thy ===== *)
theory Call_Widget
  imports Complex_Main Call_Alerts Shortcuts
begin

text \<open>
  The call widget (\<open>components/call_widget/component.tsx\<close>): its state, the listeners it
  registers, and the handlers of its buttons, shortcuts and of the events of the client. What a
  handler calls outside the component is logged in \<open>wg_out\<close>; the continuation of an async
  handler waits in \<open>wg_awaits\<close>. Rendering is modelled by the decisions it takes, not by the
  markup.

  \<open>wg_batched\<close> says whether the running handler was called by React (see \<open>Call_Alerts\<close>).
  A media stream is its identifier, a pop-up window its number.
\<close>

section \<open>State\<close>

record widget_client =
  wc_channelID :: string
  wc_sessionID :: "string option"
  wc_audioInput :: "device option"
  wc_audioOutput :: "device option"
  wc_videoInput :: "device option"
  wc_voiceTracks :: "nat list"
  wc_remoteScreen :: "nat option"
  wc_localScreen :: "nat list option"

record widget_props =
  wp_currentUserID :: string
  wp_channel :: "channel option"
  wp_team :: "string option"
  wp_channelURL :: string
  wp_currentSession :: "user_session option"
  wp_screenSharingSession :: "user_session option"
  wp_sessions :: "user_session list"
  wp_otherSessions :: "user_session list"
  wp_profiles :: "profile obj"
  wp_callHostID :: string
  wp_callRecording :: "job_state option"
  wp_show :: bool
  wp_allowScreenSharing :: bool
  wp_global :: bool
  wp_callThreadID :: "string option"
  wp_enableVideo :: bool

record dragging_state =
  dg_dragging :: bool
  dg_x :: rat
  dg_y :: rat
  dg_initX :: rat
  dg_initY :: rat
  dg_offX :: rat
  dg_offY :: rat

definition dragging_default :: dragging_state where
  "dragging_default = \<lparr>dg_dragging = False, dg_x = 0, dg_y = 0, dg_initX = 0, dg_initY = 0, dg_offX = 0, dg_offY = 0\<rparr>"

record widget_state =
  st_showMenu :: bool
  st_showParticipantsList :: bool
  st_screenStream :: "nat option"
  st_selfVideoStream :: "nat option"
  st_initializingSelfVideo :: bool
  st_otherVideoStream :: "nat option"
  st_audioInput :: "device nullable"
  st_audioOutput :: "device nullable"
  st_videoInput :: "device nullable"
  st_devices :: "(device list \<times> device list) option"
  st_videoDevices :: "device list option"
  st_showInputMenu :: bool
  st_showOutputMenu :: bool
  st_showVideoMenu :: bool
  st_dragging :: dragging_state
  st_expandedViewWindow :: "nat option"
  st_audioEls :: "nat list"
  st_alerts :: call_alerts
  st_removeConfirmation :: "(string \<times> string) option"
  st_leaveMenuOpen :: bool

definition widget_state_initial :: widget_state where
  "widget_state_initial =
     \<lparr>st_showMenu = False, st_showParticipantsList = False, st_screenStream = None, st_selfVideoStream = None,
      st_initializingSelfVideo = False, st_otherVideoStream = None, st_audioInput = Undefined,
      st_audioOutput = Undefined, st_videoInput = Undefined, st_devices = None, st_videoDevices = None,
      st_showInputMenu = False, st_showOutputMenu = False, st_showVideoMenu = False,
      st_dragging = dragging_default, st_expandedViewWindow = None, st_audioEls = [],
      st_alerts = CallAlertStatesDefault, st_removeConfirmation = None, st_leaveMenuOpen = False\<rparr>"

datatype (plugins only: code size) widget_call =
    WMute | WUnmute | WRaiseHand | WUnraiseHand | WUnshareScreen | WShareScreen string bool
  | WStartVideo | WStopVideo | WDisconnect
  | WSetAudioInput device | WSetAudioOutput device | WSetVideoInput device
  | WDesktop string "string list"
  | WLegacy string "string list"
  | WResize int int
  | WPromptDismissed string int
  | WStartRecording string | WStopRecording string | WStopRecordingModal string
  | WSelectRHSPost string | WOpenUserSettings | WShowScreenSourceModal | WShowExpandedView
  | WHostRemove "string option" "string option"
  | WNavigate string
  | WOpenWindow string | WCloseWindow nat | WFocusWindow nat
  | WPopupMissingScreen nat bool | WPopupPromptDismissed nat string int
  | WBlurActive | WPreventDefault | WTransform rat rat
  | WLogErr string

text \<open>An \<open>audio\<close> element of the page: its track, the sink it was given, and whether it is there still.\<close>

record audio_el =
  ae_track :: nat
  ae_sink :: "string option"
  ae_attached :: bool

datatype widget_await = AwaitShare | AwaitShareToggle | AwaitVideo | AwaitRecording

record widget =
  wg_props :: widget_props
  wg_react :: "widget_state react"
  wg_batched :: bool
  wg_locked :: bool
  wg_client :: "widget_client option"
  wg_desktop :: "string option"
  wg_api :: "string list"
  wg_callData :: "bool option"
  wg_mac :: bool
  wg_shareAudio :: bool
  wg_basename :: string
  wg_now :: int
  wg_closedWindows :: "nat list"
  wg_subscribed :: bool
  wg_els :: "audio_el list"
  wg_dpr :: rat
  wg_prevDpr :: rat
  wg_listeners :: "string list"
  wg_unsubscribers :: "string list"
  wg_awaits :: "widget_await list"
  wg_out :: "widget_call list"

abbreviation this_state :: "widget \<Rightarrow> widget_state" where
  "this_state w \<equiv> rc_state (wg_react w)"

abbreviation has_api :: "string \<Rightarrow> widget \<Rightarrow> bool" where
  "has_api f w \<equiv> f \<in> set (wg_api w)"

definition setState :: "(widget_state \<Rightarrow> widget_state) \<Rightarrow> widget \<Rightarrow> widget" where
  "setState u w = w\<lparr>wg_react := merge_state (wg_batched w) u (wg_react w)\<rparr>"

definition out :: "widget_call \<Rightarrow> widget \<Rightarrow> widget" where
  "out c w = w\<lparr>wg_out := wg_out w @ [c]\<rparr>"

definition put_await :: "widget_await \<Rightarrow> widget \<Rightarrow> widget" where
  "put_await k w = w\<lparr>wg_awaits := wg_awaits w @ [k]\<rparr>"

text \<open>\<open>window.callsClient?.method()\<close>.\<close>

definition call_client :: "widget_call \<Rightarrow> widget \<Rightarrow> widget" where
  "call_client c w = (if wg_client w = None then w else out c w)"

text \<open>A handler that React calls, and one that the browser, the client or a promise calls.\<close>

definition by_react :: "(widget \<Rightarrow> widget) \<Rightarrow> widget \<Rightarrow> widget" where
  "by_react h w =
     (let w' = h (w\<lparr>wg_batched := True\<rparr>)
      in w'\<lparr>wg_batched := False, wg_react := settle_state (wg_react w')\<rparr>)"

definition by_listener :: "(widget \<Rightarrow> widget) \<Rightarrow> widget \<Rightarrow> widget" where
  "by_listener h w = h (w\<lparr>wg_batched := False\<rparr>)"

definition quiet :: "widget \<Rightarrow> bool" where
  "quiet w = (\<not> wg_batched w \<and> settled (wg_react w))"

lemma setState_simps [simp]:
  "wg_props (setState u w) = wg_props w"
  "wg_batched (setState u w) = wg_batched w"
  "wg_locked (setState u w) = wg_locked w"
  "wg_client (setState u w) = wg_client w"
  "wg_out (setState u w) = wg_out w"
  "wg_awaits (setState u w) = wg_awaits w"
  "wg_callData (setState u w) = wg_callData w"
  "wg_els (setState u w) = wg_els w"
  "wg_listeners (setState u w) = wg_listeners w"
  "wg_unsubscribers (setState u w) = wg_unsubscribers w"
  "wg_api (setState u w) = wg_api w"
  "wg_desktop (setState u w) = wg_desktop w"
  "wg_react (setState u w) = merge_state (wg_batched w) u (wg_react w)"
  by (simp_all add: setState_def)

lemma out_simps [simp]:
  "wg_props (out c w) = wg_props w"
  "wg_react (out c w) = wg_react w"
  "wg_batched (out c w) = wg_batched w"
  "wg_locked (out c w) = wg_locked w"
  "wg_client (out c w) = wg_client w"
  "wg_out (out c w) = wg_out w @ [c]"
  "wg_awaits (out c w) = wg_awaits w"
  "wg_callData (out c w) = wg_callData w"
  "wg_els (out c w) = wg_els w"
  "wg_listeners (out c w) = wg_listeners w"
  "wg_unsubscribers (out c w) = wg_unsubscribers w"
  "wg_api (out c w) = wg_api w"
  "wg_desktop (out c w) = wg_desktop w"
  by (simp_all add: out_def)

lemma call_client_simps [simp]:
  "wg_props (call_client c w) = wg_props w"
  "wg_react (call_client c w) = wg_react w"
  "wg_batched (call_client c w) = wg_batched w"
  "wg_locked (call_client c w) = wg_locked w"
  "wg_client (call_client c w) = wg_client w"
  "wg_out (call_client c w) = wg_out w @ (if wg_client w = None then [] else [c])"
  "wg_awaits (call_client c w) = wg_awaits w"
  by (simp_all add: call_client_def)

lemma put_await_simps [simp]:
  "wg_props (put_await k w) = wg_props w"
  "wg_react (put_await k w) = wg_react w"
  "wg_batched (put_await k w) = wg_batched w"
  "wg_locked (put_await k w) = wg_locked w"
  "wg_client (put_await k w) = wg_client w"
  "wg_out (put_await k w) = wg_out w"
  "wg_awaits (put_await k w) = wg_awaits w @ [k]"
  by (simp_all add: put_await_def)

section \<open>Alerts of the screen permissions\<close>

definition set_alerts :: "(call_alerts \<Rightarrow> call_alerts) \<Rightarrow> widget \<Rightarrow> widget" where
  "set_alerts f w = (let al = f (st_alerts (this_state w)) in setState (\<lambda>s. s\<lparr>st_alerts := al\<rparr>) w)"

definition setMissingScreenPermissions :: "bool \<Rightarrow> bool \<Rightarrow> widget \<Rightarrow> widget" where
  "setMissingScreenPermissions missing forward w0 =
     (let w = set_alerts (flag_alert MissingScreenPermissions missing) w0;
          w = (case st_expandedViewWindow (this_state w) of
                 Some win \<Rightarrow> if forward then out (WPopupMissingScreen win missing) w else w
               | None \<Rightarrow> w)
      in if wg_callData w = None then w else w\<lparr>wg_callData := Some missing\<rparr>)"

section \<open>Audio elements\<close>

definition new_audio_el :: "widget \<Rightarrow> nat \<Rightarrow> audio_el" where
  "new_audio_el w t =
     \<lparr>ae_track = t,
      ae_sink = (case wg_client w of
          None \<Rightarrow> None
        | Some c \<Rightarrow> (case wc_audioOutput c of
              None \<Rightarrow> None | Some d \<Rightarrow> if dev_id d = '''' then None else Some (dev_id d))),
      ae_attached = True\<rparr>"

definition attachVoiceTracks :: "nat list \<Rightarrow> widget \<Rightarrow> widget" where
  "attachVoiceTracks tracks w0 =
     (let audioEls = [length (wg_els w0)..<length (wg_els w0) + length tracks];
          w = w0\<lparr>wg_els := wg_els w0 @ map (new_audio_el w0) tracks\<rparr>;
          old = st_audioEls (this_state w)
      in setState (\<lambda>s. s\<lparr>st_audioEls := old @ audioEls\<rparr>) w)"

text \<open>The \<open>onended\<close> handler of a voice track removes its element from the page.\<close>

definition voice_track_ended :: "nat \<Rightarrow> widget \<Rightarrow> widget" where
  "voice_track_ended t w =
     w\<lparr>wg_els := map (\<lambda>e. if ae_track e = t then e\<lparr>ae_attached := False\<rparr> else e) (wg_els w)\<rparr>"

section \<open>Size of the widget\<close>

definition sendGlobalWidgetBounds :: "rat \<times> rat \<Rightarrow> widget \<Rightarrow> widget" where
  "sendGlobalWidgetBounds bounds w =
     (let width = \<lceil>fst bounds\<rceil>; height = \<lceil>snd bounds\<rceil>
      in out (if has_api ''resizeCallsWidget'' w then WResize width height
              else WLegacy ''calls-widget-resize'' [''calls-widget'']) w)"

text \<open>
  \<open>getBoundingClientRect\<close> of the base widget, of its menu and of the device menu when that is
  open; without a node the bounds are zero.
\<close>

definition getGlobalWidgetBounds :: "((rat \<times> rat) \<times> rat \<times> rat option) option \<Rightarrow> rat \<times> rat" where
  "getGlobalWidgetBounds node =
     (case node of
        None \<Rightarrow> (0, 0)
      | Some ((baseWidth, baseHeight), menuHeight, audioMenuWidth) \<Rightarrow>
          let hMargin = 6; vMargin = 6;
              width = baseWidth + hMargin;
              height = baseHeight + menuHeight + vMargin;
              height = (if menuHeight > 0 then height + vMargin else height);
              width = (case audioMenuWidth of None \<Rightarrow> width | Some aw \<Rightarrow> width + aw + hMargin)
          in (width, height))"

definition onViewportResize :: "rat \<times> rat \<Rightarrow> widget \<Rightarrow> widget" where
  "onViewportResize bounds w =
     (if wg_dpr w = wg_prevDpr w then w
      else sendGlobalWidgetBounds bounds (w\<lparr>wg_prevDpr := wg_dpr w\<rparr>))"

section \<open>Buttons\<close>

definition isMuted :: "widget \<Rightarrow> bool" where
  "isMuted w = (case wp_currentSession (wg_props w) of None \<Rightarrow> True | Some s \<Rightarrow> unmuted s \<noteq> Some True)"

definition isVideoOn :: "widget \<Rightarrow> bool" where
  "isVideoOn w = (case wp_currentSession (wg_props w) of None \<Rightarrow> False | Some s \<Rightarrow> video s = Some True)"

definition isHandRaised :: "widget \<Rightarrow> bool" where
  "isHandRaised w =
     (case wp_currentSession (wg_props w) of None \<Rightarrow> False | Some s \<Rightarrow> js_gt (raised_hand s) (Some 0))"

definition onMuteToggle :: "widget \<Rightarrow> widget" where
  "onMuteToggle w =
     (if wg_client w = None then w
      else out (if isMuted w then WUnmute else WMute) (out WBlurActive w))"

definition onRaiseHandToggle :: "widget \<Rightarrow> widget" where
  "onRaiseHandToggle w =
     (if wg_client w = None then w
      else out (if isHandRaised w then WUnraiseHand else WRaiseHand) (out WBlurActive w))"

definition onVideoToggle :: "widget \<Rightarrow> widget" where
  "onVideoToggle w =
     (if wg_client w = None then w
      else if isVideoOn w then setState (\<lambda>s. s\<lparr>st_selfVideoStream := None\<rparr>) (out WStopVideo w)
      else put_await AwaitVideo (out WStartVideo (setState (\<lambda>s. s\<lparr>st_initializingSelfVideo := True\<rparr>) w)))"

definition video_started :: "nat option \<Rightarrow> widget \<Rightarrow> widget" where
  "video_started stream = setState (\<lambda>s. s\<lparr>st_selfVideoStream := stream, st_initializingSelfVideo := False\<rparr>)"

definition onDisconnectClick :: "widget \<Rightarrow> widget" where
  "onDisconnectClick w0 =
     (let w = setState (\<lambda>s. s\<lparr>st_showMenu := False, st_showParticipantsList := False, st_audioInput := Null,
                st_dragging := dragging_default, st_expandedViewWindow := None\<rparr>) w0;
          w = (case st_expandedViewWindow (this_state w) of None \<Rightarrow> w | Some win \<Rightarrow> out (WCloseWindow win) w)
      in call_client WDisconnect w)"

definition onMenuClick :: "widget \<Rightarrow> widget" where
  "onMenuClick w =
     (let b = \<not> st_showMenu (this_state w)
      in setState (\<lambda>s. s\<lparr>st_showMenu := b, st_showParticipantsList := False\<rparr>) w)"

definition onParticipantsButtonClick :: "widget \<Rightarrow> widget" where
  "onParticipantsButtonClick w =
     (let b = \<not> st_showParticipantsList (this_state w)
      in setState (\<lambda>s. s\<lparr>st_showParticipantsList := b, st_showMenu := False\<rparr>) (out WBlurActive w))"

definition keyboardClose :: "string \<Rightarrow> widget \<Rightarrow> widget" where
  "keyboardClose key w = (if key = ''Escape'' then setState (\<lambda>s. s\<lparr>st_showMenu := False\<rparr>) w else w)"

text \<open>The argument says whether the click was inside the widget.\<close>

definition closeOnBlur :: "bool \<Rightarrow> widget \<Rightarrow> widget" where
  "closeOnBlur inside w = (if inside then w else setState (\<lambda>s. s\<lparr>st_showMenu := False\<rparr>) w)"

definition onLeaveMenuOpen :: "bool \<Rightarrow> widget \<Rightarrow> widget" where
  "onLeaveMenuOpen opened = setState (\<lambda>s. s\<lparr>st_leaveMenuOpen := opened\<rparr>)"

definition onRemove :: "string \<Rightarrow> string \<Rightarrow> widget \<Rightarrow> widget" where
  "onRemove sessionID userID = setState (\<lambda>s. s\<lparr>st_removeConfirmation := Some (sessionID, userID)\<rparr>)"

definition onRemoveConfirm :: "widget \<Rightarrow> widget" where
  "onRemoveConfirm w =
     setState (\<lambda>s. s\<lparr>st_removeConfirmation := None\<rparr>)
       (out (WHostRemove (map_option c_id (wp_channel (wg_props w)))
               (map_option fst (st_removeConfirmation (this_state w)))) w)"

definition onRemoveCancel :: "widget \<Rightarrow> widget" where
  "onRemoveCancel = setState (\<lambda>s. s\<lparr>st_removeConfirmation := None\<rparr>)"

section \<open>Devices\<close>

definition differs :: "device \<Rightarrow> device nullable \<Rightarrow> bool" where
  "differs d cur = (case cur of Val c \<Rightarrow> dev_id d \<noteq> dev_id c | _ \<Rightarrow> True)"

definition onAudioInputDeviceClick :: "device \<Rightarrow> widget \<Rightarrow> widget" where
  "onAudioInputDeviceClick d w =
     setState (\<lambda>s. s\<lparr>st_showInputMenu := False, st_audioInput := Val d\<rparr>)
       (if differs d (st_audioInput (this_state w)) then call_client (WSetAudioInput d) w else w)"

definition onVideoInputDeviceClick :: "device \<Rightarrow> widget \<Rightarrow> widget" where
  "onVideoInputDeviceClick d w =
     setState (\<lambda>s. s\<lparr>st_showVideoMenu := False, st_videoInput := Val d\<rparr>)
       (if differs d (st_videoInput (this_state w)) then call_client (WSetVideoInput d) w else w)"

definition set_sinks :: "string \<Rightarrow> nat list \<Rightarrow> audio_el list \<Rightarrow> audio_el list" where
  "set_sinks i els = map (\<lambda>(n, e). if n \<in> set els then e\<lparr>ae_sink := Some i\<rparr> else e) \<circ> List.enumerate 0"

definition onAudioOutputDeviceClick :: "device \<Rightarrow> widget \<Rightarrow> widget" where
  "onAudioOutputDeviceClick d w0 =
     (let w = (if differs d (st_audioOutput (this_state w0)) then
                 (let w = call_client (WSetAudioOutput d) w0
                  in w\<lparr>wg_els := set_sinks (dev_id d) (st_audioEls (this_state w)) (wg_els w)\<rparr>)
               else w0)
      in setState (\<lambda>s. s\<lparr>st_showOutputMenu := False, st_audioOutput := Val d\<rparr>) w)"

section \<open>Screen sharing, recording and the other windows\<close>

definition shareScreen_start :: "string \<Rightarrow> bool \<Rightarrow> widget_await \<Rightarrow> widget \<Rightarrow> widget" where
  "shareScreen_start sourceID withAudio k w = put_await k (call_client (WShareScreen sourceID withAudio) w)"

definition screen_answered :: "nat option \<Rightarrow> widget \<Rightarrow> widget" where
  "screen_answered stream w =
     (case stream of
        Some i \<Rightarrow> setMissingScreenPermissions False True (setState (\<lambda>s. s\<lparr>st_screenStream := Some i\<rparr>) w)
      | None \<Rightarrow> setMissingScreenPermissions True True w)"

definition sharing_session :: "widget \<Rightarrow> string option" where
  "sharing_session w = Option.bind (wp_screenSharingSession (wg_props w)) session_id"

definition own_session :: "widget \<Rightarrow> string option" where
  "own_session w = Option.bind (wp_currentSession (wg_props w)) session_id"

text \<open>\<open>compareSemVer\<close> is of the package \<open>semver-parser\<close>.\<close>

definition onShareScreenToggle :: "(string \<Rightarrow> string \<Rightarrow> int) \<Rightarrow> widget \<Rightarrow> widget" where
  "onShareScreenToggle compareSemVer w =
     (let finish = setState (\<lambda>s. s\<lparr>st_showMenu := False\<rparr>)
      in if \<not> wp_allowScreenSharing (wg_props w) then w
         else if sharing_session w = own_session w then
           setState (\<lambda>s. s\<lparr>st_screenStream := None, st_showMenu := False\<rparr>) (call_client WUnshareScreen w)
         else if wp_screenSharingSession (wg_props w) = None then
           (case wg_desktop w of
              Some version \<Rightarrow>
                if compareSemVer version ''5.1.0'' \<ge> 0 then
                  finish
                    (if wp_global (wg_props w) then
                       (if has_api ''openScreenShareModal'' w then out (WDesktop ''openScreenShareModal'' []) w
                        else out (WLegacy ''desktop-sources-modal-request'' []) w)
                     else out WShowScreenSourceModal w)
                else shareScreen_start '''' (wg_shareAudio w) AwaitShareToggle w
            | None \<Rightarrow> shareScreen_start '''' (wg_shareAudio w) AwaitShareToggle w)
         else finish w)"

definition dismissRecordingPrompt :: "widget \<Rightarrow> widget" where
  "dismissRecordingPrompt w0 =
     (case wp_channel (wg_props w0) of
        None \<Rightarrow> out (WLogErr ''missing channel'') w0
      | Some ch \<Rightarrow>
          let w = out (WPromptDismissed (c_id ch) (wg_now w0)) w0
          in (case st_expandedViewWindow (this_state w) of
                None \<Rightarrow> w
              | Some win \<Rightarrow> out (WPopupPromptDismissed win (c_id ch) (wg_now w0)) w))"

definition recording_runs :: "job_state option \<Rightarrow> bool" where
  "recording_runs r =
     ((case Option.bind r start_at of None \<Rightarrow> 0 | Some n \<Rightarrow> n) >
      (case Option.bind r end_at of None \<Rightarrow> 0 | Some n \<Rightarrow> n))"

definition onRecordToggle :: "widget \<Rightarrow> widget" where
  "onRecordToggle w =
     (let finish = setState (\<lambda>s. s\<lparr>st_showMenu := False\<rparr>)
      in case wp_channel (wg_props w) of
           None \<Rightarrow> out (WLogErr ''channel should be defined'') w
         | Some ch \<Rightarrow>
             if recording_runs (wp_callRecording (wg_props w)) then
               finish
                 (if wp_global (wg_props w) then
                    (if has_api ''openStopRecordingModal'' w then out (WDesktop ''openStopRecordingModal'' [c_id ch]) w
                     else out (WStopRecording (c_id ch)) w)
                  else out (WStopRecordingModal (c_id ch)) w)
             else put_await AwaitRecording (out (WStartRecording (c_id ch)) w))"

definition onChatThreadButtonClick :: "widget \<Rightarrow> widget" where
  "onChatThreadButtonClick w =
     (case wp_callThreadID (wg_props w) of
        None \<Rightarrow> out (WLogErr ''missing thread ID'') w
      | Some t \<Rightarrow>
          if t = '''' then out (WLogErr ''missing thread ID'') w
          else setState (\<lambda>s. s\<lparr>st_showMenu := False\<rparr>)
            (if wp_global (wg_props w) \<and> has_api ''openThreadForCalls'' w then out (WDesktop ''openThreadForCalls'' [t]) w
             else out (WSelectRHSPost t) w))"

definition onCallsSettingsButtonClick :: "widget \<Rightarrow> widget" where
  "onCallsSettingsButtonClick w =
     setState (\<lambda>s. s\<lparr>st_showMenu := False\<rparr>)
       (if wp_global (wg_props w) \<and> has_api ''openCallsUserSettings'' w then out (WDesktop ''openCallsUserSettings'' []) w
        else out WOpenUserSettings w)"

text \<open>\<open>getPopOutURL\<close> of \<open>utils.ts\<close>; \<open>window.open\<close> answers with the window, or \<open>null\<close> when it is blocked.\<close>

definition getPopOutURL :: "string \<Rightarrow> string \<Rightarrow> channel \<Rightarrow> string" where
  "getPopOutURL basename teamName ch =
     basename @ ''/'' @ teamName @ ''/com.mattermost.calls/expanded/'' @ c_id ch"

definition onExpandClick :: "nat option \<Rightarrow> widget \<Rightarrow> widget" where
  "onExpandClick opened w =
     (let show = (if wg_desktop w \<noteq> None \<and> \<not> wp_global (wg_props w) then out WShowExpandedView w
                  else case (wp_team (wg_props w), wp_channel (wg_props w)) of
                      (Some tm, Some ch) \<Rightarrow>
                        setState (\<lambda>s. s\<lparr>st_expandedViewWindow := opened\<rparr>)
                          (out (WOpenWindow (getPopOutURL (wg_basename w) tm ch)) w)
                    | _ \<Rightarrow> out (WLogErr ''missing team or channel'') w)
      in case st_expandedViewWindow (this_state w) of
           None \<Rightarrow> show
         | Some win \<Rightarrow>
             if win \<in> set (wg_closedWindows w) then show
             else if wp_global (wg_props w) then
               out (if has_api ''focusPopout'' w then WDesktop ''focusPopout'' [] else WLegacy ''calls-popout-focus'' []) w
             else out (WFocusWindow win) w)"

text \<open>
  The \<open>beforeunload\<close> listener of the window it opened: a screen shared from there is unshared.
  The argument is that window's \<open>screenSharingTrackId\<close>.
\<close>

definition popup_unloads :: "nat option \<Rightarrow> widget \<Rightarrow> widget" where
  "popup_unloads screenSharingTrackId w =
     (case wg_client w of
        None \<Rightarrow> w
      | Some c \<Rightarrow>
          (case wc_localScreen c of
             Some (t # _) \<Rightarrow> if Some t = screenSharingTrackId then out WUnshareScreen w else w
           | _ \<Rightarrow> w))"

definition w_onChannelLinkClick :: "widget \<Rightarrow> widget" where
  "w_onChannelLinkClick w =
     (let w = out WPreventDefault w; url = wp_channelURL (wg_props w)
      in if wp_global (wg_props w) then
           out (if has_api ''openLinkFromCalls'' w then WDesktop ''openLinkFromCalls'' [url]
                else WLegacy ''calls-widget-channel-link-click'' [url]) w
         else out (WNavigate url) w)"

section \<open>Continuations\<close>

text \<open>What the awaited call answers: a stream (or null), nothing, or it throws.\<close>

datatype widget_answer = Stream "nat option" | Returned | Threw js_error

fun w_resume :: "widget_await \<Rightarrow> widget_answer \<Rightarrow> widget \<Rightarrow> widget" where
  "w_resume AwaitShare (Stream i) w = screen_answered i w"
| "w_resume AwaitShareToggle (Stream i) w = setState (\<lambda>s. s\<lparr>st_showMenu := False\<rparr>) (screen_answered i w)"
| "w_resume AwaitVideo (Stream i) w = video_started i w"
| "w_resume AwaitRecording Returned w = setState (\<lambda>s. s\<lparr>st_showMenu := False\<rparr>) w"
| "w_resume _ _ w = w"

definition settle_await :: "nat \<Rightarrow> widget_answer \<Rightarrow> widget \<Rightarrow> widget" where
  "settle_await n a w =
     (if n < length (wg_awaits w) then
        by_listener (w_resume (wg_awaits w ! n) a) (w\<lparr>wg_awaits := take n (wg_awaits w) @ drop (Suc n) (wg_awaits w)\<rparr>)
      else w)"

section \<open>Keyboard and desktop events\<close>

definition handleKBShortcuts :: "(string \<Rightarrow> string \<Rightarrow> int) \<Rightarrow> key_event \<Rightarrow> widget \<Rightarrow> widget" where
  "handleKBShortcuts compareSemVer ev w0 =
     (if \<not> wp_show (wg_props w0) then w0
      else case keyToAction (wg_mac w0) ''widget'' ev of
          Inl _ \<Rightarrow> w0
        | Inr (act, taken) \<Rightarrow>
            let w = (if taken then out WPreventDefault w0 else w0)
            in if act = Val MUTE_UNMUTE then onMuteToggle w
               else if act = Val RAISE_LOWER_HAND then onRaiseHandToggle w
               else if act = Val SHARE_UNSHARE_SCREEN then onShareScreenToggle compareSemVer w
               else if act = Val PARTICIPANTS_LIST_TOGGLE then onParticipantsButtonClick w
               else if act = Val LEAVE_CALL then onDisconnectClick w
               else w)"

datatype desktop_message = CallsError string | ShareScreenMessage string bool | OtherMessage

text \<open>The first argument says whether the message comes from the window's own origin.\<close>

definition handleDesktopEvents :: "bool \<Rightarrow> desktop_message \<Rightarrow> widget \<Rightarrow> widget" where
  "handleDesktopEvents ownOrigin m w =
     (if \<not> ownOrigin then w
      else case m of
          CallsError err \<Rightarrow> if err = ''screen-permissions'' then setMissingScreenPermissions True True w else w
        | ShareScreenMessage sourceID withAudio \<Rightarrow> shareScreen_start sourceID withAudio AwaitShare w
        | OtherMessage \<Rightarrow> w)"

section \<open>Events of the client\<close>

text \<open>A device of the client, which holds \<open>null\<close> when it has none, as the state holds it.\<close>

definition of_client :: "device option \<Rightarrow> device nullable" where
  "of_client d = (case d of None \<Rightarrow> Null | Some x \<Rightarrow> Val x)"

definition on_devicechange :: "device list \<times> device list \<Rightarrow> device list \<Rightarrow> widget \<Rightarrow> widget" where
  "on_devicechange devices videoDevices w =
     (let s0 = this_state w;
          pick = (\<lambda>cur get. case wg_client w of
                     None \<Rightarrow> None
                   | Some c \<Rightarrow> if of_client (get c) \<noteq> cur then Some (of_client (get c)) else None);
          input = pick (st_audioInput s0) wc_audioInput;
          output = pick (st_audioOutput s0) wc_audioOutput;
          videoInput = pick (st_videoInput s0) wc_videoInput;
          al = flag_alert MissingVideoInput (wp_enableVideo (wg_props w) \<and> videoDevices = [])
                 (flag_alert MissingAudioInput (fst devices = []) (st_alerts s0))
      in setState (\<lambda>s. s\<lparr>st_audioInput := (case input of None \<Rightarrow> st_audioInput s | Some d \<Rightarrow> d),
                         st_audioOutput := (case output of None \<Rightarrow> st_audioOutput s | Some d \<Rightarrow> d),
                         st_videoInput := (case videoInput of None \<Rightarrow> st_videoInput s | Some d \<Rightarrow> d),
                         st_devices := Some devices, st_videoDevices := Some videoDevices, st_alerts := al\<rparr>) w)"

definition on_devicefallback :: "device \<Rightarrow> widget \<Rightarrow> widget" where
  "on_devicefallback d w =
     (if dev_kind d = ''audioinput'' then set_alerts (\<lambda>al. al(AudioInputDeviceFallback := fallback_alert d)) w
      else if dev_kind d = ''audiooutput'' then set_alerts (\<lambda>al. al(AudioOutputDeviceFallback := fallback_alert d)) w
      else w)"

definition on_connect :: "widget \<Rightarrow> widget" where
  "on_connect w0 =
     (let w = (case wg_client w0 of
                 None \<Rightarrow> w0
               | Some c \<Rightarrow>
                   if \<not> wp_global (wg_props w0) then w0
                   else
                     let sid = (case wc_sessionID c of None \<Rightarrow> '''' | Some x \<Rightarrow> x)
                     in out (if has_api ''callsWidgetConnected'' w0
                             then WDesktop ''callsWidgetConnected'' [wc_channelID c, sid]
                             else WLegacy ''calls-joined-call'' [wc_channelID c, sid]) w0);
          ch = wp_channel (wg_props w);
          w = (if isDMChannel ch \<or> isGMChannel ch then call_client WUnmute w else w);
          dev = (\<lambda>get. case wg_client w of None \<Rightarrow> Undefined | Some c \<Rightarrow> of_client (get c));
          w = setState (\<lambda>s. s\<lparr>st_audioInput := dev wc_audioInput\<rparr>) w;
          w = setState (\<lambda>s. s\<lparr>st_audioOutput := dev wc_audioOutput\<rparr>) w
      in setState (\<lambda>s. s\<lparr>st_videoInput := dev wc_videoInput\<rparr>) w)"

definition on_error :: "js_error \<Rightarrow> widget \<Rightarrow> widget" where
  "on_error err w =
     (if err = AudioInputPermissionsError then set_alerts (\<lambda>al. al(MissingAudioInputPermissions := alert_on)) w
      else if err = VideoInputPermissionsError then set_alerts (\<lambda>al. al(MissingVideoInputPermissions := alert_on)) w
      else w)"

definition on_initaudio :: "widget \<Rightarrow> widget" where
  "on_initaudio = set_alerts (\<lambda>al. al(MissingAudioInputPermissions := alert_off))"

definition on_initvideo :: "widget \<Rightarrow> widget" where
  "on_initvideo = set_alerts (\<lambda>al. al(MissingVideoInputPermissions := alert_off))"

text \<open>\<open>mosThreshold\<close> is a constant of calls-common; scores are only compared.\<close>

definition on_mos_score :: "'m::linorder \<Rightarrow> 'm \<Rightarrow> widget \<Rightarrow> widget" where
  "on_mos_score mosThreshold m w0 =
     (let w = (if \<not> wg_locked w0 \<and> \<not> al_show (st_alerts (this_state w0) DegradedCallQuality) \<and> m < mosThreshold
               then set_alerts (\<lambda>al. al(DegradedCallQuality := alert_on)) w0 else w0)
      in if \<not> wg_locked w \<and> al_show (st_alerts (this_state w) DegradedCallQuality) \<and> m \<ge> mosThreshold
         then set_alerts (\<lambda>al. al(DegradedCallQuality := alert_off)) w else w)"

section \<open>Banners\<close>

text \<open>The alerts that have a banner, with the state each was rendered with.\<close>

definition renderAlertBanners :: "widget \<Rightarrow> (alert_id \<times> alert_state) list" where
  "renderAlertBanners w =
     map (\<lambda>a. (a, st_alerts (this_state w) a)) (filter (\<lambda>a. al_show (st_alerts (this_state w) a)) alert_ids)"

text \<open>The button of a banner that was rendered with \<open>alertState\<close>, and the timer it starts.\<close>

definition close_alert :: "alert_id \<Rightarrow> alert_state \<Rightarrow> widget \<Rightarrow> widget" where
  "close_alert a alertState w0 =
     (if \<not> ac_dismissable (CallAlertConfigs a) then w0
      else
        let w = set_alerts (\<lambda>al. al(a := alertState\<lparr>al_show := False\<rparr>)) w0
        in if a = DegradedCallQuality then w\<lparr>wg_locked := True\<rparr> else w)"

definition unlock_banner :: "widget \<Rightarrow> widget" where
  "unlock_banner w = w\<lparr>wg_locked := False\<rparr>"

section \<open>Device menus\<close>

datatype device_type = AudioInputType | AudioOutputType | VideoInputType

definition onDevicesMenuClick :: "device_type \<Rightarrow> widget \<Rightarrow> widget" where
  "onDevicesMenuClick t w =
     (let s0 = this_state w
      in case t of
           AudioInputType \<Rightarrow>
             setState (\<lambda>s. s\<lparr>st_showInputMenu := \<not> st_showInputMenu s0, st_showOutputMenu := False, st_showVideoMenu := False\<rparr>) w
         | AudioOutputType \<Rightarrow>
             setState (\<lambda>s. s\<lparr>st_showOutputMenu := \<not> st_showOutputMenu s0, st_showInputMenu := False, st_showVideoMenu := False\<rparr>) w
         | VideoInputType \<Rightarrow>
             setState (\<lambda>s. s\<lparr>st_showVideoMenu := \<not> st_showVideoMenu s0, st_showInputMenu := False, st_showOutputMenu := False\<rparr>) w)"

definition menus_exclusive :: "widget_state \<Rightarrow> bool" where
  "menus_exclusive s =
     (\<not> (st_showInputMenu s \<and> st_showOutputMenu s) \<and> \<not> (st_showInputMenu s \<and> st_showVideoMenu s) \<and>
      \<not> (st_showOutputMenu s \<and> st_showVideoMenu s) \<and> \<not> (st_showMenu s \<and> st_showParticipantsList s))"

text \<open>The devices a menu lists, its label, and whether its entry is disabled.\<close>

definition named :: "device \<Rightarrow> bool" where
  "named d = (dev_id d \<noteq> '''' \<and> dev_label d \<noteq> '''')"

definition renderDevices :: "device_type \<Rightarrow> widget \<Rightarrow> (device list \<times> string \<times> bool) option" where
  "renderDevices t w =
     (let s = this_state w
      in case st_devices s of
           None \<Rightarrow> None
         | Some (inputs, outputs) \<Rightarrow>
             if wg_client w = None then None
             else if t = AudioOutputType \<and> outputs = [] then None
             else
               let current = (case t of AudioInputType \<Rightarrow> st_audioInput s | AudioOutputType \<Rightarrow> st_audioOutput s
                                | VideoInputType \<Rightarrow> st_videoInput s);
                   noInputDevices = (t = AudioInputType \<and> inputs = [] \<or> t = VideoInputType \<and> st_videoDevices s = Some []);
                   noInputPermissions =
                     (t = AudioInputType \<and> al_active (st_alerts s MissingAudioInputPermissions) \<or>
                      t = VideoInputType \<and> al_active (st_alerts s MissingVideoInputPermissions));
                   plain = (case current of Val d \<Rightarrow> if dev_label d = '''' then ''Default'' else dev_label d | _ \<Rightarrow> ''Default'');
                   label = (if noInputPermissions then
                              the (ac_tooltipText (CallAlertConfigs
                                (if t = AudioInputType then MissingAudioInputPermissions else MissingVideoInputPermissions)))
                            else if noInputDevices then
                              the (ac_tooltipText (CallAlertConfigs
                                (if t = AudioInputType then MissingAudioInput else MissingVideoInput)))
                            else plain);
                   listed = (case (t, st_videoDevices s) of
                               (VideoInputType, Some vs) \<Rightarrow> filter named vs
                             | (AudioInputType, _) \<Rightarrow> filter named inputs
                             | _ \<Rightarrow> filter named outputs)
               in Some (listed, label, listed = []))"

definition makeDeviceLabel :: "device \<Rightarrow> string" where
  "makeDeviceLabel d =
     (if starts_with ''default'' (dev_id d) \<and> \<not> starts_with ''Default'' (dev_label d)
      then ''Default - '' @ dev_label d else dev_label d)"

section \<open>Dragging\<close>

definition set_dragging :: "(dragging_state \<Rightarrow> dragging_state) \<Rightarrow> widget \<Rightarrow> widget" where
  "set_dragging f w = (let d = f (st_dragging (this_state w)) in setState (\<lambda>s. s\<lparr>st_dragging := d\<rparr>) w)"

definition add_listener :: "string \<Rightarrow> widget \<Rightarrow> widget" where
  "add_listener l w = w\<lparr>wg_listeners := List.insert l (wg_listeners w)\<rparr>"

definition remove_listener :: "string \<Rightarrow> widget \<Rightarrow> widget" where
  "remove_listener l w = w\<lparr>wg_listeners := removeAll l (wg_listeners w)\<rparr>"

definition onMouseDown :: "rat \<Rightarrow> rat \<Rightarrow> widget \<Rightarrow> widget" where
  "onMouseDown clientX clientY w =
     set_dragging (\<lambda>d. d\<lparr>dg_dragging := True, dg_initX := clientX - dg_offX d, dg_initY := clientY - dg_offY d\<rparr>)
       (add_listener ''document:mousemove'' w)"

definition onMouseUp :: "widget \<Rightarrow> widget" where
  "onMouseUp w =
     set_dragging (\<lambda>d. d\<lparr>dg_dragging := False, dg_initX := dg_x d, dg_initY := dg_y d\<rparr>)
       (remove_listener ''document:mousemove'' w)"

text \<open>One coordinate: where the edges of the widget are, the size of the body, the old and the wanted shift.\<close>

definition clamp_shift :: "rat \<Rightarrow> rat \<Rightarrow> rat \<Rightarrow> rat \<Rightarrow> rat \<Rightarrow> rat" where
  "clamp_shift lo hi extent old new =
     (let maxDiff = extent - \<bar>extent - lo\<bar>;
          diff = \<bar>old - new\<bar>
      in if diff > maxDiff \<and> new < old then old - maxDiff
         else if hi + diff > extent \<and> new > old then old + (extent - hi)
         else new)"

record rect =
  rc_left :: rat
  rc_top :: rat
  rc_right :: rat
  rc_bottom :: rat

definition onMouseMove :: "rat \<Rightarrow> rat \<Rightarrow> rect option \<Rightarrow> rat \<times> rat \<Rightarrow> widget \<Rightarrow> widget" where
  "onMouseMove clientX clientY node body w0 =
     (let d = st_dragging (this_state w0)
      in case node of
           None \<Rightarrow> w0
         | Some r \<Rightarrow>
             if \<not> dg_dragging d then w0
             else
               let w = out WPreventDefault w0;
                   x = clamp_shift (rc_left r) (rc_right r) (fst body) (dg_x d) (clientX - dg_initX d);
                   y = clamp_shift (rc_top r) (rc_bottom r) (snd body) (dg_y d) (clientY - dg_initY d);
                   w = set_dragging (\<lambda>d. d\<lparr>dg_x := x, dg_y := y, dg_offX := x, dg_offY := y\<rparr>) w
               in out (WTransform x y) w)"

section \<open>Mounting and unmounting\<close>

definition subscribe :: "string \<Rightarrow> widget \<Rightarrow> widget" where
  "subscribe l w = (add_listener l w)\<lparr>wg_unsubscribers := wg_unsubscribers w @ [l]\<rparr>"

definition set_screen_stream :: "nat option \<Rightarrow> widget \<Rightarrow> widget" where
  "set_screen_stream i = setState (\<lambda>s. s\<lparr>st_screenStream := i\<rparr>)"

text \<open>
  The two resize observers are disconnected by name when the widget unmounts, every other
  listener by its unsubscriber. \<open>wg_subscribed\<close> stands for the listeners on the client.
\<close>

definition componentDidMount :: "widget \<Rightarrow> widget" where
  "componentDidMount w0 =
     (case wg_client w0 of
        None \<Rightarrow> out (WLogErr ''callsClient should be defined'') w0
      | Some c \<Rightarrow>
          let w = (if wp_global (wg_props w0) then
                     (let w = subscribe ''visualViewport:resize'' w0;
                          w = add_listener ''observer:menu'' (add_listener ''observer:widget'' w)
                      in if has_api ''onScreenShared'' w \<and> has_api ''onCallsError'' w
                         then subscribe ''desktop:callsError'' (subscribe ''desktop:screenShared'' w)
                         else subscribe ''window:message'' w)
                   else subscribe ''document:mouseup'' w0);
              w = subscribe ''document:keydown'' (subscribe ''document:keyup'' (subscribe ''document:click'' w));
              w = attachVoiceTracks (wc_voiceTracks c) w
          in set_screen_stream (wc_remoteScreen c) (w\<lparr>wg_subscribed := True\<rparr>))"

definition componentWillUnmount :: "widget \<Rightarrow> widget" where
  "componentWillUnmount w0 =
     (let w = fold remove_listener (wg_unsubscribers w0) w0\<lparr>wg_unsubscribers := []\<rparr>
      in remove_listener ''observer:menu'' (remove_listener ''observer:widget'' w))"

section \<open>Properties from the store\<close>

text \<open>
  \<open>mapStateToProps\<close> of \<open>call_widget/index.ts\<close>, with what it selects for the modelled part.
  The channel is the client's own, so the widget shows before the store knows the call. The
  application's URL of the channel is an argument.
\<close>

definition mapStateToProps :: "(string \<Rightarrow> string \<Rightarrow> int) \<Rightarrow> string \<Rightarrow> bool \<Rightarrow> app \<Rightarrow> widget_props" where
  "mapStateToProps localeCompare channelURL global_widget a =
     (let ch = getChannel a (case client a of None \<Rightarrow> ''undefined'' | Some c \<Rightarrow> cv_channelID c);
          presenter = screenSharingSessionForCurrentCall a;
          profiles = profilesInCurrentCallMap a
      in \<lparr>wp_currentUserID = g_currentUserId (host a),
          wp_channel = ch,
          wp_team = obj_get (g_teams (host a)) (str_or (map_option c_team_id ch) (g_currentTeamId (host a))),
          wp_channelURL = channelURL,
          wp_currentSession = sessionForCurrentCall a,
          wp_screenSharingSession = presenter,
          wp_sessions = sorted_participants localeCompare profiles
            (str_or (Option.bind presenter session_id) '''') (sessionsInCurrentCall a),
          wp_otherSessions = sessionsForOtherUsersInCall a,
          wp_profiles = profiles,
          wp_callHostID = hostIDForCurrentCall a,
          wp_callRecording = Some (recordingForCurrentCall a),
          wp_show = (\<not> s_expandedView (plugin a)),
          wp_allowScreenSharing = allowScreenSharing a,
          wp_global = global_widget,
          wp_callThreadID = Some (threadIDForCallInChannel a (case ch of None \<Rightarrow> '''' | Some c \<Rightarrow> c_id c)),
          wp_enableVideo = (EnableVideo (sel_callsConfig a) \<and> isDMChannel ch)\<rparr>)"

section \<open>What the buttons show\<close>

definition renderSpeaking :: "widget \<Rightarrow> profile option" where
  "renderSpeaking w =
     (case List.find (\<lambda>s. voice s = Some True \<and> Option.bind (user_id s) (obj_get (wp_profiles (wg_props w))) \<noteq> None)
             (wp_sessions (wg_props w)) of
        None \<Rightarrow> None | Some s \<Rightarrow> Option.bind (user_id s) (obj_get (wp_profiles (wg_props w))))"

record button_view =
  bv_tooltip :: string
  bv_subtext :: string
  bv_shortcut :: "string option"
  bv_enabled :: bool
  bv_unavailable :: bool

definition widget_shortcut :: "string \<Rightarrow> widget \<Rightarrow> string option" where
  "widget_shortcut act w =
     Option.bind (Option.bind (obj_get (reverseKeyMappings (wg_mac w)) ''widget'') (\<lambda>r. obj_get r act))
       (\<lambda>sqs. case sqs of [] \<Rightarrow> None | sq # _ \<Rightarrow> Some sq)"

definition tooltip_of :: "alert_id \<Rightarrow> string" where
  "tooltip_of a = the (ac_tooltipText (CallAlertConfigs a))"

definition subtext_of :: "alert_id \<Rightarrow> string" where
  "subtext_of a = the (ac_tooltipSubtext (CallAlertConfigs a))"

definition mute_button :: "widget \<Rightarrow> button_view" where
  "mute_button w =
     (let al = st_alerts (this_state w);
          noInputDevices = al_active (al MissingAudioInput);
          noAudioPermissions = al_active (al MissingAudioInputPermissions)
      in \<lparr>bv_tooltip = (if noAudioPermissions then tooltip_of MissingAudioInputPermissions
                        else if noInputDevices then tooltip_of MissingAudioInput
                        else if isMuted w then ''Unmute'' else ''Mute''),
          bv_subtext = (if noAudioPermissions then subtext_of MissingAudioInputPermissions
                        else if noInputDevices then subtext_of MissingAudioInput else ''''),
          bv_shortcut = (if noInputDevices \<or> noAudioPermissions then None else widget_shortcut MUTE_UNMUTE w),
          bv_enabled = (\<not> noInputDevices),
          bv_unavailable = (noInputDevices \<or> noAudioPermissions)\<rparr>)"

definition video_button :: "widget \<Rightarrow> button_view option" where
  "video_button w =
     (let al = st_alerts (this_state w);
          noVideoInputDevices = al_active (al MissingVideoInput);
          noVideoPermissions = al_active (al MissingVideoInputPermissions)
      in if \<not> wp_enableVideo (wg_props w) then None
         else Some
         \<lparr>bv_tooltip = (if noVideoPermissions then tooltip_of MissingVideoInputPermissions
                        else if noVideoInputDevices then tooltip_of MissingVideoInput
                        else if isVideoOn w then ''Turn camera off'' else ''Turn camera on''),
          bv_subtext = (if noVideoPermissions then subtext_of MissingVideoInputPermissions
                        else if noVideoInputDevices then subtext_of MissingVideoInput else ''''),
          bv_shortcut = None,
          bv_enabled = (\<not> noVideoInputDevices),
          bv_unavailable = (noVideoInputDevices \<or> noVideoPermissions)\<rparr>)"

definition renderScreenShareButton :: "widget \<Rightarrow> button_view" where
  "renderScreenShareButton w =
     (let sharingID = str_or (sharing_session w) '''';
          isSharing = (sharingID \<noteq> '''' \<and> Some sharingID = own_session w);
          noScreenPermissions = al_active (st_alerts (this_state w) MissingScreenPermissions)
      in \<lparr>bv_tooltip = (if noScreenPermissions then tooltip_of MissingScreenPermissions
                        else if isSharing then ''Stop presenting'' else ''Start presenting''),
          bv_subtext = (if noScreenPermissions \<and> \<not> wp_global (wg_props w) then subtext_of MissingScreenPermissions else ''''),
          bv_shortcut = (if noScreenPermissions then None else widget_shortcut SHARE_UNSHARE_SCREEN w),
          bv_enabled = (\<not> (sharingID \<noteq> '''' \<and> \<not> isSharing)),
          bv_unavailable = noScreenPermissions\<rparr>)"

definition show_leave_shim :: "widget \<Rightarrow> bool" where
  "show_leave_shim w =
     (\<not> (st_showMenu (this_state w) \<or> st_showParticipantsList (this_state w) \<or>
          wp_screenSharingSession (wg_props w) \<noteq> None) \<and> st_leaveMenuOpen (this_state w))"

end
