(* ===== verification/Widget_Loop.thy ===== *)
theory Widget_Loop
  imports Call_Widget
begin

text \<open>
  The widget as a machine: one step per event that reaches it, from the user, the browser, the
  desktop application, the client, a settled promise or the store. A click on a button runs in a
  React event, so its updates are batched; every other event runs its handler directly.
\<close>

datatype (plugins only: code size) widget_event =
    ClickMute | ClickVideo | ClickHand | ClickShare | ClickRecord | ClickThread | ClickSettings
  | ClickDisconnect | ClickMenu | ClickParticipants | ClickExpand "nat option" | ClickLink
  | ClickRemove string string | ClickRemoveConfirm | ClickRemoveCancel | ClickLeaveMenu bool
  | ClickDevices device_type | ClickInput device | ClickOutput device | ClickVideoInput device
  | ClickBanner alert_id | ClickPrompt | DragStart rat rat
  | KeyDown key_event | KeyUp string | DocumentClick bool | DragMove rat rat "rect option" "rat \<times> rat" | DragEnd
  | DesktopMessage bool desktop_message | ViewportResize "rat \<times> rat"
  | ClientEvent client_event "device list \<times> device list" "device list"
  | Answer nat widget_answer | BannerTimer | PopupUnload "nat option" | TrackEnded nat
  | NewProps widget_props | NewClient "widget_client option"

text \<open>
  The listeners on the client. A new remote voice stream brings the tracks it has, here one per
  event; the threshold of the scores is an argument.
\<close>

fun on_client :: "int \<Rightarrow> client_event \<Rightarrow> device list \<times> device list \<Rightarrow> device list \<Rightarrow> widget \<Rightarrow> widget" where
  "on_client thr (ClRemoteVoice t) _ _ w = attachVoiceTracks [t] w"
| "on_client thr (ClRemoteScreen i) _ _ w = set_screen_stream (Some i) w"
| "on_client thr (ClLocalScreen i) _ _ w = set_screen_stream (Some i) w"
| "on_client thr (ClLocalVideo i) _ _ w = setState (\<lambda>s. s\<lparr>st_selfVideoStream := Some i\<rparr>) w"
| "on_client thr (ClRemoteVideo i) _ _ w = setState (\<lambda>s. s\<lparr>st_otherVideoStream := Some i\<rparr>) w"
| "on_client thr ClDeviceChange ds vs w = on_devicechange ds vs w"
| "on_client thr (ClDeviceFallback d) _ _ w = on_devicefallback d w"
| "on_client thr ClConnect _ _ w = on_connect w"
| "on_client thr (ClError e) _ _ w = on_error e w"
| "on_client thr ClInitAudio _ _ w = on_initaudio w"
| "on_client thr ClInitVideo _ _ w = on_initvideo w"
| "on_client thr (ClMos m) _ _ w = on_mos_score thr m w"
| "on_client thr _ _ _ w = w"

fun widget_step :: "(string \<Rightarrow> string \<Rightarrow> int) \<Rightarrow> int \<Rightarrow> widget_event \<Rightarrow> widget \<Rightarrow> widget" where
  "widget_step cmp thr ClickMute w = by_react onMuteToggle w"
| "widget_step cmp thr ClickVideo w = by_react onVideoToggle w"
| "widget_step cmp thr ClickHand w = by_react onRaiseHandToggle w"
| "widget_step cmp thr ClickShare w = by_react (onShareScreenToggle cmp) w"
| "widget_step cmp thr ClickRecord w = by_react onRecordToggle w"
| "widget_step cmp thr ClickThread w = by_react onChatThreadButtonClick w"
| "widget_step cmp thr ClickSettings w = by_react onCallsSettingsButtonClick w"
| "widget_step cmp thr ClickDisconnect w = by_react onDisconnectClick w"
| "widget_step cmp thr ClickMenu w = by_react onMenuClick w"
| "widget_step cmp thr ClickParticipants w = by_react onParticipantsButtonClick w"
| "widget_step cmp thr (ClickExpand win) w = by_react (onExpandClick win) w"
| "widget_step cmp thr ClickLink w = by_react w_onChannelLinkClick w"
| "widget_step cmp thr (ClickRemove s u) w = by_react (onRemove s u) w"
| "widget_step cmp thr ClickRemoveConfirm w = by_react onRemoveConfirm w"
| "widget_step cmp thr ClickRemoveCancel w = by_react onRemoveCancel w"
| "widget_step cmp thr (ClickLeaveMenu b) w = by_react (onLeaveMenuOpen b) w"
| "widget_step cmp thr (ClickDevices t) w = by_react (onDevicesMenuClick t) w"
| "widget_step cmp thr (ClickInput d) w = by_react (onAudioInputDeviceClick d) w"
| "widget_step cmp thr (ClickOutput d) w = by_react (onAudioOutputDeviceClick d) w"
| "widget_step cmp thr (ClickVideoInput d) w = by_react (onVideoInputDeviceClick d) w"
| "widget_step cmp thr (ClickBanner a) w =
     (case map_of (renderAlertBanners w) a of None \<Rightarrow> w | Some st \<Rightarrow> by_react (close_alert a st) w)"
| "widget_step cmp thr ClickPrompt w = by_react dismissRecordingPrompt w"
| "widget_step cmp thr (DragStart x y) w = by_react (onMouseDown x y) w"
| "widget_step cmp thr (KeyDown ev) w = by_listener (handleKBShortcuts cmp ev) w"
| "widget_step cmp thr (KeyUp key) w = by_listener (keyboardClose key) w"
| "widget_step cmp thr (DocumentClick inside) w = by_listener (closeOnBlur inside) w"
| "widget_step cmp thr (DragMove x y node body) w = by_listener (onMouseMove x y node body) w"
| "widget_step cmp thr DragEnd w = by_listener onMouseUp w"
| "widget_step cmp thr (DesktopMessage own m) w = by_listener (handleDesktopEvents own m) w"
| "widget_step cmp thr (ViewportResize b) w = by_listener (onViewportResize b) w"
| "widget_step cmp thr (ClientEvent e ds vs) w = (if wg_subscribed w then by_listener (on_client thr e ds vs) w else w)"
| "widget_step cmp thr (Answer n a) w = settle_await n a w"
| "widget_step cmp thr BannerTimer w = unlock_banner w"
| "widget_step cmp thr (PopupUnload t) w = by_listener (popup_unloads t) w"
| "widget_step cmp thr (TrackEnded t) w = voice_track_ended t w"
| "widget_step cmp thr (NewProps p) w = w\<lparr>wg_props := p\<rparr>"
| "widget_step cmp thr (NewClient c) w = w\<lparr>wg_client := c\<rparr>"

text \<open>A widget React has just constructed.\<close>

definition constructed :: "widget \<Rightarrow> bool" where
  "constructed w =
     (rc_state (wg_react w) = widget_state_initial \<and> rc_next (wg_react w) = widget_state_initial \<and>
      \<not> wg_batched w \<and> \<not> wg_locked w \<and> wg_listeners w = [] \<and> wg_unsubscribers w = [] \<and>
      wg_awaits w = [] \<and> wg_els w = [] \<and> \<not> wg_subscribed w)"

section \<open>The menus\<close>

definition widget_inv :: "widget \<Rightarrow> bool" where
  "widget_inv w = (quiet w \<and> menus_exclusive (this_state w))"

text \<open>
  A handler is orderly when from a settled state it leaves the menus of the merged state exclusive
  and the mode it was called in, and settles its updates when they are not batched.
\<close>

definition orderly :: "(widget \<Rightarrow> widget) \<Rightarrow> bool" where
  "orderly h =
     (\<forall>w. settled (wg_react w) \<longrightarrow> menus_exclusive (rc_next (wg_react w)) \<longrightarrow>
        menus_exclusive (rc_next (wg_react (h w))) \<and> wg_batched (h w) = wg_batched w \<and>
        (\<not> wg_batched w \<longrightarrow> settled (wg_react (h w))))"

lemma orderlyI:
  assumes "\<And>w. settled (wg_react w) \<Longrightarrow> menus_exclusive (rc_next (wg_react w)) \<Longrightarrow>
      menus_exclusive (rc_next (wg_react (h w))) \<and> wg_batched (h w) = wg_batched w \<and>
      (\<not> wg_batched w \<longrightarrow> settled (wg_react (h w)))"
  shows "orderly h"
  using assms by (simp add: orderly_def)

lemma orderlyD:
  assumes "orderly h" "settled (wg_react w)" "menus_exclusive (rc_next (wg_react w))"
  shows "menus_exclusive (rc_next (wg_react (h w)))" "wg_batched (h w) = wg_batched w"
    "\<not> wg_batched w \<Longrightarrow> settled (wg_react (h w))"
  using assms by (auto simp: orderly_def)

lemma by_react_inv: "orderly h \<Longrightarrow> widget_inv w \<Longrightarrow> widget_inv (by_react h w)"
  using orderlyD(1) [of h "w\<lparr>wg_batched := True\<rparr>"]
  by (auto simp: by_react_def widget_inv_def quiet_def settled_iff Let_def)

lemma by_listener_inv: "orderly h \<Longrightarrow> widget_inv w \<Longrightarrow> widget_inv (by_listener h w)"
  using orderlyD [of h "w\<lparr>wg_batched := False\<rparr>"]
  by (auto simp: by_listener_def widget_inv_def quiet_def settled_iff)

lemma settled_merge_any: "\<not> b \<Longrightarrow> settled (merge_state b u c)"
  by (cases b) (simp_all add: settled_iff)

lemma orderly_quiet: "(\<And>w. wg_react (h w) = wg_react w \<and> wg_batched (h w) = wg_batched w) \<Longrightarrow> orderly h"
  by (simp add: orderly_def)

lemma orderly_comp: "orderly g \<Longrightarrow> (\<And>w. wg_react (h w) = wg_react w \<and> wg_batched (h w) = wg_batched w) \<Longrightarrow> orderly (\<lambda>w. g (h w))"
  by (simp add: orderly_def)

named_theorems orderly_handlers "handlers that keep the menus exclusive"

lemma orderly_set: "(\<And>s. menus_exclusive s \<Longrightarrow> menus_exclusive (u s)) \<Longrightarrow> orderly (setState u)"
  by (simp add: orderly_def settled_merge_any)

lemmas menu_defs = menus_exclusive_def settled_merge_any

lemma orderly_buttons [orderly_handlers]:
  "orderly onMuteToggle" "orderly onRaiseHandToggle" "orderly onVideoToggle"
  "orderly onDisconnectClick" "orderly onMenuClick" "orderly onParticipantsButtonClick"
  "orderly (keyboardClose key)" "orderly (closeOnBlur inside)" "orderly (onLeaveMenuOpen b)"
  "orderly (onRemove s u)" "orderly onRemoveConfirm" "orderly onRemoveCancel"
  by (rule orderlyI;
      auto simp: onMuteToggle_def onRaiseHandToggle_def onVideoToggle_def onDisconnectClick_def onMenuClick_def
        onParticipantsButtonClick_def keyboardClose_def closeOnBlur_def onLeaveMenuOpen_def onRemove_def
        onRemoveConfirm_def onRemoveCancel_def menu_defs Let_def split: option.splits)+

lemma orderly_id [orderly_handlers]: "orderly (\<lambda>w. w)"
  by (simp add: orderly_def)

lemma orderly_if: "orderly g \<Longrightarrow> orderly h \<Longrightarrow> orderly (\<lambda>w. if c w then g w else h w)"
  by (simp add: orderly_def)

lemma orderly_devices [orderly_handlers]:
  "orderly (onAudioInputDeviceClick d)" "orderly (onVideoInputDeviceClick d)" "orderly (onAudioOutputDeviceClick d)"
  "orderly (onDevicesMenuClick t)" "orderly (attachVoiceTracks ts)" "orderly (set_screen_stream i)"
  "orderly (setMissingScreenPermissions m fw)" "orderly (video_started i)"
  by (rule orderlyI;
      auto simp: onAudioInputDeviceClick_def onVideoInputDeviceClick_def onAudioOutputDeviceClick_def
        onDevicesMenuClick_def attachVoiceTracks_def set_screen_stream_def setMissingScreenPermissions_def
        video_started_def set_alerts_def menu_defs Let_def split: option.splits device_type.splits)+

lemma orderly_events [orderly_handlers]:
  "orderly (on_devicechange ds vs)" "orderly (on_devicefallback d)" "orderly on_connect" "orderly (on_error e)"
  "orderly on_initaudio" "orderly on_initvideo" "orderly (on_mos_score thr m)" "orderly (close_alert a st)"
  by (rule orderlyI;
      auto simp: on_devicechange_def on_devicefallback_def on_connect_def on_error_def on_initaudio_def
        on_initvideo_def on_mos_score_def close_alert_def set_alerts_def menu_defs Let_def split: option.splits)+

lemma orderly_windows [orderly_handlers]:
  "orderly (onExpandClick win)" "orderly w_onChannelLinkClick" "orderly dismissRecordingPrompt"
  "orderly onRecordToggle" "orderly onChatThreadButtonClick" "orderly onCallsSettingsButtonClick"
  "orderly (popup_unloads t)" "orderly (onViewportResize b)"
  by (rule orderlyI;
      auto simp: onExpandClick_def w_onChannelLinkClick_def dismissRecordingPrompt_def onRecordToggle_def
        onChatThreadButtonClick_def onCallsSettingsButtonClick_def popup_unloads_def onViewportResize_def
        sendGlobalWidgetBounds_def menu_defs Let_def split: option.splits list.splits)+

lemma orderly_share [orderly_handlers]:
  "orderly (onShareScreenToggle cmp)" "orderly (screen_answered i)" "orderly (handleDesktopEvents own m)"
proof -
  show "orderly (onShareScreenToggle cmp)"
    by (rule orderlyI; auto simp: onShareScreenToggle_def shareScreen_start_def menu_defs Let_def split: option.splits)
  have p: "orderly (setMissingScreenPermissions m fw)" for m fw by (rule orderly_devices)
  show "orderly (screen_answered i)"
  proof (cases i)
    case None
    then show ?thesis using p by (simp add: screen_answered_def [abs_def])
  next
    case (Some n)
    have "orderly (\<lambda>w. setMissingScreenPermissions False True (setState (\<lambda>s. s\<lparr>st_screenStream := Some n\<rparr>) w))"
      by (rule orderlyI; auto simp: setMissingScreenPermissions_def set_alerts_def menu_defs Let_def split: option.splits)
    then show ?thesis using Some by (simp add: screen_answered_def [abs_def])
  qed
  show "orderly (handleDesktopEvents own m)"
    by (rule orderlyI; cases m;
        auto simp: handleDesktopEvents_def shareScreen_start_def setMissingScreenPermissions_def set_alerts_def menu_defs Let_def
          split: option.splits)
qed

lemma orderly_resume [orderly_handlers]: "orderly (w_resume k a)"
proof -
  have s: "orderly (screen_answered i)" for i by (rule orderly_share)
  have t: "orderly (\<lambda>w. setState (\<lambda>s. s\<lparr>st_showMenu := False\<rparr>) (screen_answered i w))" for i
  proof (rule orderlyI)
    fix w :: widget assume w: "settled (wg_react w)" "menus_exclusive (rc_next (wg_react w))"
    show "menus_exclusive (rc_next (wg_react (setState (\<lambda>s. s\<lparr>st_showMenu := False\<rparr>) (screen_answered i w)))) \<and>
      wg_batched (setState (\<lambda>s. s\<lparr>st_showMenu := False\<rparr>) (screen_answered i w)) = wg_batched w \<and>
      (\<not> wg_batched w \<longrightarrow> settled (wg_react (setState (\<lambda>s. s\<lparr>st_showMenu := False\<rparr>) (screen_answered i w))))"
      using orderlyD [OF s w, of i] by (auto simp: menu_defs)
  qed
  have r: "orderly (setState (\<lambda>s. s\<lparr>st_showMenu := False\<rparr>))"
    by (rule orderly_set) (simp add: menus_exclusive_def)
  show ?thesis
    by (cases k; cases a) (simp_all add: s t r orderly_id orderly_devices w_resume.simps [abs_def])
qed

lemma orderly_client [orderly_handlers]: "orderly (on_client thr e ds vs)"
proof (cases e)
  case (ClRemoteVoice t)
  then show ?thesis by (simp add: on_client.simps [abs_def] orderly_handlers)
next
  case (ClLocalVideo i)
  have "orderly (setState (\<lambda>s. s\<lparr>st_selfVideoStream := Some i\<rparr>))"
    by (rule orderly_set) (simp add: menus_exclusive_def)
  then show ?thesis using ClLocalVideo by (simp add: on_client.simps [abs_def])
next
  case (ClRemoteVideo i)
  have "orderly (setState (\<lambda>s. s\<lparr>st_otherVideoStream := Some i\<rparr>))"
    by (rule orderly_set) (simp add: menus_exclusive_def)
  then show ?thesis using ClRemoteVideo by (simp add: on_client.simps [abs_def])
qed (simp_all add: on_client.simps [abs_def] orderly_handlers)

lemma orderly_keyboard [orderly_handlers]: "orderly (handleKBShortcuts cmp ev)"
proof (rule orderlyI)
  fix w :: widget assume w: "settled (wg_react w)" "menus_exclusive (rc_next (wg_react w))"
  have o: "settled (wg_react (out c w))" "menus_exclusive (rc_next (wg_react (out c w)))" for c
    using w by simp_all
  show "menus_exclusive (rc_next (wg_react (handleKBShortcuts cmp ev w))) \<and>
      wg_batched (handleKBShortcuts cmp ev w) = wg_batched w \<and>
      (\<not> wg_batched w \<longrightarrow> settled (wg_react (handleKBShortcuts cmp ev w)))"
    using w orderlyD [OF orderly_buttons(1) w] orderlyD [OF orderly_buttons(1) o]
      orderlyD [OF orderly_buttons(2) w] orderlyD [OF orderly_buttons(2) o]
      orderlyD [OF orderly_share(1) w] orderlyD [OF orderly_share(1) o]
      orderlyD [OF orderly_buttons(6) w] orderlyD [OF orderly_buttons(6) o]
      orderlyD [OF orderly_buttons(4) w] orderlyD [OF orderly_buttons(4) o]
    by (auto simp: handleKBShortcuts_def Let_def split: sum.splits)
qed

lemma orderly_dragging [orderly_handlers]:
  "orderly (onMouseDown x y)" "orderly onMouseUp" "orderly (onMouseMove x y node body)"
  by (rule orderlyI;
      auto simp: onMouseDown_def onMouseUp_def onMouseMove_def set_dragging_def add_listener_def remove_listener_def
        menu_defs Let_def split: option.splits)+

lemma inv_update:
  assumes "widget_inv w" "wg_react w' = wg_react w" "wg_batched w' = wg_batched w"
  shows "widget_inv w'"
  using assms by (simp add: widget_inv_def quiet_def)

lemma widget_step_inv: "widget_inv w \<Longrightarrow> widget_inv (widget_step cmp thr e w)"
proof -
  assume w: "widget_inv w"
  note r = by_react_inv [OF _ w] by_listener_inv [OF _ w]
  show ?thesis
  proof (cases e)
    case (Answer n a)
    let ?w = "w\<lparr>wg_awaits := take n (wg_awaits w) @ drop (Suc n) (wg_awaits w)\<rparr>"
    have "widget_inv ?w" by (rule inv_update [OF w]) simp_all
    then show ?thesis using w Answer by (simp add: settle_await_def by_listener_inv orderly_resume)
  next
    case (ClickBanner a)
    then show ?thesis using w by (simp add: r orderly_events split: option.split)
  next
    case BannerTimer
    have "widget_inv (unlock_banner w)" by (rule inv_update [OF w]) (simp_all add: unlock_banner_def)
    then show ?thesis using BannerTimer by simp
  next
    case (TrackEnded t)
    have "widget_inv (voice_track_ended t w)" by (rule inv_update [OF w]) (simp_all add: voice_track_ended_def)
    then show ?thesis using TrackEnded by simp
  next
    case (NewProps p)
    have "widget_inv (w\<lparr>wg_props := p\<rparr>)" by (rule inv_update [OF w]) simp_all
    then show ?thesis using NewProps by simp
  next
    case (NewClient c)
    have "widget_inv (w\<lparr>wg_client := c\<rparr>)" by (rule inv_update [OF w]) simp_all
    then show ?thesis using NewClient by simp
  qed (simp_all add: w r orderly_handlers)
qed

interpretation menus_machine: invariant_machine "widget_step cmp thr" "\<lambda>_. True" widget_inv
  by unfold_locales (rule widget_step_inv)

lemma subscribe_simps [simp]:
  "wg_react (subscribe l w) = wg_react w" "wg_batched (subscribe l w) = wg_batched w"
  "wg_react (add_listener l w) = wg_react w" "wg_batched (add_listener l w) = wg_batched w"
  "wg_react (remove_listener l w) = wg_react w" "wg_batched (remove_listener l w) = wg_batched w"
  "set (wg_listeners (subscribe l w)) = insert l (set (wg_listeners w))"
  "set (wg_listeners (add_listener l w)) = insert l (set (wg_listeners w))"
  "set (wg_listeners (remove_listener l w)) = set (wg_listeners w) - {l}"
  "wg_unsubscribers (subscribe l w) = wg_unsubscribers w @ [l]"
  "wg_unsubscribers (add_listener l w) = wg_unsubscribers w"
  "wg_unsubscribers (remove_listener l w) = wg_unsubscribers w"
  by (simp_all add: subscribe_def add_listener_def remove_listener_def)

lemma orderly_update: "orderly h \<Longrightarrow> (\<And>w. wg_react (f w) = wg_react w \<and> wg_batched (f w) = wg_batched w) \<Longrightarrow> orderly (\<lambda>w. h (f w))"
  by (simp add: orderly_def)

lemma attach_settled:
  "settled (wg_react w) \<Longrightarrow> menus_exclusive (rc_next (wg_react w)) \<Longrightarrow>
     menus_exclusive (rc_next (wg_react (set_screen_stream i (f (attachVoiceTracks ts w))))) \<and>
     wg_batched (set_screen_stream i (f (attachVoiceTracks ts w))) = wg_batched w \<and>
     (\<not> wg_batched w \<longrightarrow> settled (wg_react (set_screen_stream i (f (attachVoiceTracks ts w)))))"
  if "\<And>w. wg_react (f w) = wg_react w \<and> wg_batched (f w) = wg_batched w" for w :: widget
  using that by (simp add: set_screen_stream_def attachVoiceTracks_def menu_defs Let_def)

lemma orderly_mount [orderly_handlers]: "orderly componentDidMount"
proof (rule orderlyI)
  fix w :: widget assume w: "settled (wg_react w)" "menus_exclusive (rc_next (wg_react w))"
  show "menus_exclusive (rc_next (wg_react (componentDidMount w))) \<and>
      wg_batched (componentDidMount w) = wg_batched w \<and>
      (\<not> wg_batched w \<longrightarrow> settled (wg_react (componentDidMount w)))"
  proof (cases "wg_client w")
    case None
    then show ?thesis using w by (simp add: componentDidMount_def)
  next
    case (Some c)
    show ?thesis
      unfolding componentDidMount_def Some option.case Let_def
      using attach_settled [of "\<lambda>w. w\<lparr>wg_subscribed := True\<rparr>" _ "wc_remoteScreen c" "wc_voiceTracks c"] w
      by simp
  qed
qed

lemma constructed_inv: "constructed w \<Longrightarrow> widget_inv w"
  by (simp add: constructed_def widget_inv_def quiet_def settled_iff menus_exclusive_def widget_state_initial_def)

section \<open>The listeners\<close>

text \<open>The listeners that mounting registers, those with an unsubscriber first.\<close>

definition registered :: "widget \<Rightarrow> bool" where
  "registered w = (set (wg_listeners w) \<subseteq> set (wg_unsubscribers w) \<union> {''observer:widget'', ''observer:menu'', ''document:mousemove''})"

lemma fold_remove_listener:
  "set (wg_listeners (fold remove_listener ls w)) = set (wg_listeners w) - set ls"
  by (induction ls arbitrary: w) auto

lemma mount_registered: "constructed w \<Longrightarrow> registered (by_react componentDidMount w)"
  by (auto simp: constructed_def registered_def by_react_def componentDidMount_def attachVoiceTracks_def
      set_screen_stream_def Let_def split: option.splits)

definition still :: "(widget \<Rightarrow> widget) \<Rightarrow> bool" where
  "still h = (\<forall>w. wg_listeners (h w) = wg_listeners w \<and> wg_unsubscribers (h w) = wg_unsubscribers w)"

lemma set_alerts_listeners [simp]:
  "wg_listeners (set_alerts f w) = wg_listeners w" "wg_unsubscribers (set_alerts f w) = wg_unsubscribers w"
  by (simp_all add: set_alerts_def Let_def)

lemma call_client_listeners [simp]:
  "wg_listeners (call_client c w) = wg_listeners w" "wg_unsubscribers (call_client c w) = wg_unsubscribers w"
  "wg_listeners (put_await k w) = wg_listeners w" "wg_unsubscribers (put_await k w) = wg_unsubscribers w"
  by (simp_all add: call_client_def put_await_def)

named_theorems still_handlers "handlers that leave the listeners of the page alone"

lemma still_set [still_handlers]: "still (setState u)" "still (\<lambda>w. w)"
  by (simp_all add: still_def)

lemma still_buttons [still_handlers]:
  "still onMuteToggle" "still onRaiseHandToggle" "still onVideoToggle"
  "still onDisconnectClick" "still onMenuClick" "still onParticipantsButtonClick"
  "still (keyboardClose key)" "still (closeOnBlur inside)" "still (onLeaveMenuOpen b)"
  "still (onRemove s u)" "still onRemoveConfirm" "still onRemoveCancel"
  by (auto simp: still_def onMuteToggle_def onRaiseHandToggle_def onVideoToggle_def onDisconnectClick_def onMenuClick_def
        onParticipantsButtonClick_def keyboardClose_def closeOnBlur_def onLeaveMenuOpen_def onRemove_def
        onRemoveConfirm_def onRemoveCancel_def Let_def split: option.splits)

lemma still_devices [still_handlers]:
  "still (onAudioInputDeviceClick d)" "still (onVideoInputDeviceClick d)" "still (onAudioOutputDeviceClick d)"
  "still (onDevicesMenuClick t)" "still (attachVoiceTracks ts)" "still (set_screen_stream i)"
  "still (setMissingScreenPermissions m fw)" "still (video_started i)" "still (screen_answered i)"
  by (auto simp: still_def onAudioInputDeviceClick_def onVideoInputDeviceClick_def onAudioOutputDeviceClick_def
        onDevicesMenuClick_def attachVoiceTracks_def set_screen_stream_def setMissingScreenPermissions_def
        video_started_def screen_answered_def Let_def split: option.splits device_type.splits)

lemma still_events [still_handlers]:
  "still (on_devicechange ds vs)" "still (on_devicefallback d)" "still on_connect" "still (on_error e)"
  "still on_initaudio" "still on_initvideo" "still (on_mos_score thr m)" "still (close_alert a st)"
  by (auto simp: still_def on_devicechange_def on_devicefallback_def on_connect_def on_error_def on_initaudio_def
        on_initvideo_def on_mos_score_def close_alert_def Let_def split: option.splits)

lemma still_windows [still_handlers]:
  "still (onExpandClick win)" "still w_onChannelLinkClick" "still dismissRecordingPrompt"
  "still onRecordToggle" "still onChatThreadButtonClick" "still onCallsSettingsButtonClick"
  "still (popup_unloads t)" "still (onViewportResize b)" "still (onShareScreenToggle cmp)"
  "still (onMouseMove x y node body)"
  by (auto simp: still_def onExpandClick_def w_onChannelLinkClick_def dismissRecordingPrompt_def onRecordToggle_def
        onChatThreadButtonClick_def onCallsSettingsButtonClick_def popup_unloads_def onViewportResize_def
        sendGlobalWidgetBounds_def onShareScreenToggle_def shareScreen_start_def onMouseMove_def set_dragging_def
        Let_def split: option.splits list.splits)

lemma still_desktop [still_handlers]: "still (handleDesktopEvents own m)"
  using still_devices(7)
  by (cases m) (auto simp: still_def handleDesktopEvents_def shareScreen_start_def)

lemma still_keyboard [still_handlers]: "still (handleKBShortcuts cmp ev)"
  using still_buttons still_windows
  by (auto simp: still_def handleKBShortcuts_def Let_def split: sum.splits)

lemma still_resume [still_handlers]: "still (w_resume k a)"
  using still_devices by (cases k; cases a) (auto simp: still_def)

lemma still_client [still_handlers]: "still (on_client thr e ds vs)"
  by (cases e) (simp_all add: on_client.simps [abs_def] still_handlers)

lemma still_by_react: "still h \<Longrightarrow> wg_listeners (by_react h w) = wg_listeners w \<and> wg_unsubscribers (by_react h w) = wg_unsubscribers w"
  by (simp add: still_def by_react_def Let_def)

lemma still_by_listener: "still h \<Longrightarrow> wg_listeners (by_listener h w) = wg_listeners w \<and> wg_unsubscribers (by_listener h w) = wg_unsubscribers w"
  by (simp add: still_def by_listener_def)

lemma step_listeners:
  assumes "\<And>x y. e \<noteq> DragStart x y" "e \<noteq> DragEnd"
  shows "wg_listeners (widget_step cmp thr e w) = wg_listeners w \<and>
    wg_unsubscribers (widget_step cmp thr e w) = wg_unsubscribers w"
proof (cases e)
  case (Answer n a)
  then show ?thesis by (simp add: settle_await_def still_by_listener still_handlers)
next
  case (ClickBanner a)
  then show ?thesis by (simp add: still_by_react still_handlers split: option.split)
qed (simp_all add: assms still_by_react still_by_listener still_handlers unlock_banner_def voice_track_ended_def)

lemma drag_listeners:
  "set (wg_listeners (widget_step cmp thr (DragStart x y) w)) = insert ''document:mousemove'' (set (wg_listeners w))"
  "set (wg_listeners (widget_step cmp thr DragEnd w)) = set (wg_listeners w) - {''document:mousemove''}"
  "wg_unsubscribers (widget_step cmp thr (DragStart x y) w) = wg_unsubscribers w"
  "wg_unsubscribers (widget_step cmp thr DragEnd w) = wg_unsubscribers w"
  by (simp_all add: by_react_def by_listener_def onMouseDown_def onMouseUp_def set_dragging_def Let_def)

text \<open>Whether the last of the drag events so far was a start.\<close>

fun drag_held :: "widget_event list \<Rightarrow> bool \<Rightarrow> bool" where
  "drag_held [] b = b"
| "drag_held (DragStart x y # es) b = drag_held es True"
| "drag_held (DragEnd # es) b = drag_held es False"
| "drag_held (e # es) b = drag_held es b"

lemma drag_held_other: "(\<And>x y. e \<noteq> DragStart x y) \<Longrightarrow> e \<noteq> DragEnd \<Longrightarrow> drag_held (e # es) b = drag_held es b"
  by (cases e) auto

lemma run_listeners:
  assumes "set (wg_listeners w) - {''document:mousemove''} = L" "wg_unsubscribers w = U"
    and "(''document:mousemove'' \<in> set (wg_listeners w)) = b"
  shows "set (wg_listeners (fold (widget_step cmp thr) es w)) - {''document:mousemove''} = L \<and>
    wg_unsubscribers (fold (widget_step cmp thr) es w) = U \<and>
    (''document:mousemove'' \<in> set (wg_listeners (fold (widget_step cmp thr) es w))) = drag_held es b"
  using assms
proof (induction es arbitrary: w b)
  case Nil
  then show ?case by simp
next
  case (Cons e es)
  let ?w = "widget_step cmp thr e w"
  show ?case
  proof (cases "(\<exists>x y. e = DragStart x y) \<or> e = DragEnd")
    case True
    then consider x y where "e = DragStart x y" | "e = DragEnd" by blast
    then show ?thesis
    proof cases
      case 1
      have a: "set (wg_listeners ?w) - {''document:mousemove''} = L"
        using Cons.prems(1) unfolding 1 drag_listeners by simp
      have u: "wg_unsubscribers ?w = U" using Cons.prems(2) unfolding 1 drag_listeners by simp
      have m: "(''document:mousemove'' \<in> set (wg_listeners ?w)) = True" unfolding 1 drag_listeners by simp
      show ?thesis using Cons.IH [OF a u m] by (simp add: 1 del: widget_step.simps)
    next
      case 2
      have a: "set (wg_listeners ?w) - {''document:mousemove''} = L"
        using Cons.prems(1) unfolding 2 drag_listeners by auto
      have u: "wg_unsubscribers ?w = U" using Cons.prems(2) unfolding 2 drag_listeners by simp
      have m: "(''document:mousemove'' \<in> set (wg_listeners ?w)) = False" unfolding 2 drag_listeners by simp
      show ?thesis using Cons.IH [OF a u m] by (simp add: 2 del: widget_step.simps)
    qed
  next
    case False
    then have l: "wg_listeners ?w = wg_listeners w" "wg_unsubscribers ?w = wg_unsubscribers w"
      using step_listeners [of e cmp thr w] by blast+
    have "drag_held (e # es) b = drag_held es b" using False by (intro drag_held_other) auto
    moreover have "set (wg_listeners ?w) - {''document:mousemove''} = L" "wg_unsubscribers ?w = U"
      "(''document:mousemove'' \<in> set (wg_listeners ?w)) = b"
      using Cons.prems l by simp_all
    ultimately show ?thesis using Cons.IH [of ?w b] by (simp del: widget_step.simps)
  qed
qed

end
