(* ===== verification/Action_Creators.thy ===== *)
theory Action_Creators
  imports World
begin

text \<open>
  The action creators of \<open>webapp/src/actions.ts\<close>, as functions on the world. A REST call
  is an effect of the log with its method, its path below the plugin's and its body; what a
  call's promise does later is a definition of its own (\<open>startCallRecording_failed\<close>, the
  two continuations of \<open>incomingCallOnChannel\<close>).
\<close>

section \<open>Views and settings\<close>

definition showExpandedView :: "world \<Rightarrow> world" where
  "showExpandedView = put_action SHOW_EXPANDED_VIEW"

definition hideExpandedView :: "world \<Rightarrow> world" where
  "hideExpandedView = put_action HIDE_EXPANDED_VIEW"

definition showSwitchCallModal :: "string option \<Rightarrow> world \<Rightarrow> world" where
  "showSwitchCallModal targetID = put_action (SHOW_SWITCH_CALL_MODAL targetID)"

definition hideSwitchCallModal :: "world \<Rightarrow> world" where
  "hideSwitchCallModal = put_action HIDE_SWITCH_CALL_MODAL"

definition showScreenSourceModal :: "world \<Rightarrow> world" where
  "showScreenSourceModal = put_action SHOW_SCREEN_SOURCE_MODAL"

definition hideScreenSourceModal :: "world \<Rightarrow> world" where
  "hideScreenSourceModal = put_action HIDE_SCREEN_SOURCE_MODAL"

definition setRecordingsEnabled :: "bool \<Rightarrow> world \<Rightarrow> world" where
  "setRecordingsEnabled b = put_action (RECORDINGS_ENABLED b)"

definition setRTCDEnabled :: "bool \<Rightarrow> world \<Rightarrow> world" where
  "setRTCDEnabled b = put_action (RTCD_ENABLED b)"

definition setTranscriptionsEnabled :: "bool \<Rightarrow> world \<Rightarrow> world" where
  "setTranscriptionsEnabled b = put_action (TRANSCRIPTIONS_ENABLED b)"

definition setLiveCaptionsEnabled :: "bool \<Rightarrow> world \<Rightarrow> world" where
  "setLiveCaptionsEnabled b = put_action (LIVE_CAPTIONS_ENABLED b)"

definition setTranscribeAPI :: "transcribe_api \<Rightarrow> world \<Rightarrow> world" where
  "setTranscribeAPI v = put_action (TRANSCRIBE_API v)"

definition setClientConnecting :: "bool \<Rightarrow> world \<Rightarrow> world" where
  "setClientConnecting b = put_action (CLIENT_CONNECTING b)"

definition localSessionClose :: "string \<Rightarrow> world \<Rightarrow> world" where
  "localSessionClose channelID = put_action (LOCAL_SESSION_CLOSE channelID)"

text \<open>
  The three configuration requests, with the response of the REST call: \<open>bindClientFunc\<close>
  dispatches the success action with it, and nothing of the plugin's on an error.
\<close>

definition getCallsConfig :: "calls_config option \<Rightarrow> world \<Rightarrow> world" where
  "getCallsConfig res w =
     (let w = emit (Rest ''get'' ''/config'' []) w
      in case res of None \<Rightarrow> w | Some c \<Rightarrow> put_action (RECEIVED_CALLS_CONFIG c) w)"

definition getCallsConfigEnvOverrides :: "string obj option \<Rightarrow> world \<Rightarrow> world" where
  "getCallsConfigEnvOverrides res w =
     (let w = emit (Rest ''get'' ''/env'' []) w
      in case res of None \<Rightarrow> w | Some c \<Rightarrow> put_action (RECEIVED_CALLS_CONFIG_ENV_OVERRIDES c) w)"

definition getCallsVersionInfo :: "string obj option \<Rightarrow> world \<Rightarrow> world" where
  "getCallsVersionInfo res w =
     (let w = emit (Rest ''get'' ''/version'' []) w
      in case res of None \<Rightarrow> w | Some c \<Rightarrow> put_action (RECEIVED_CALLS_VERSION_INFO c) w)"

definition getCallActive :: "string \<Rightarrow> bool option \<Rightarrow> world \<Rightarrow> bool \<times> world" where
  "getCallActive channelID res w =
     ((case res of Some active \<Rightarrow> active | None \<Rightarrow> False),
      emit (Rest ''get'' (''/calls/'' @ channelID @ ''/active'') []) w)"

section \<open>Modals\<close>

definition displayFreeTrial :: "world \<Rightarrow> world" where
  "displayFreeTrial w = emit (OpenModal (if g_isAdmin (w_host w) then AdminTrialModal else UserTrialModal)) w"

definition displayCloudPricing :: "world \<Rightarrow> world" where
  "displayCloudPricing w = (if \<not> g_isAdmin (w_host w) then w else emit (OpenPricingModal ''calls > '') w)"

definition displayCallsTestModeUser :: "world \<Rightarrow> world" where
  "displayCallsTestModeUser = emit (OpenModal TestModeUserModal)"

definition displayGenericErrorModal :: "string \<Rightarrow> string \<Rightarrow> string option \<Rightarrow> world \<Rightarrow> world" where
  "displayGenericErrorModal title message confirmText = emit (OpenModal (GenericErrorModal title message confirmText))"

definition prefetchThread :: "string \<Rightarrow> (string \<Rightarrow> bool) \<Rightarrow> world \<Rightarrow> world" where
  "prefetchThread postId haveThread w =
     (if haveThread postId then w
      else emit (RequestThread (g_currentUserId (w_host w)) (g_currentTeamId (w_host w)) postId) w)"

definition selectRHSPost :: "string \<Rightarrow> bool \<Rightarrow> world \<Rightarrow> world" where
  "selectRHSPost postID hasProductApi w = (if hasProductApi then emit (SelectRhsPost postID) w else w)"

definition openCallsUserSettings :: "bool \<Rightarrow> world \<Rightarrow> world" where
  "openCallsUserSettings hasOpenUserSettings w = (if hasOpenUserSettings then emit OpenUserSettings w else w)"

section \<open>Requests of the host\<close>

definition host_path :: "string \<Rightarrow> string \<Rightarrow> string" where
  "host_path callID op = ''/calls/'' @ callID @ ''/host/'' @ op"

definition endCall :: "string \<Rightarrow> world \<Rightarrow> world" where
  "endCall channelID = emit (Rest ''post'' (host_path channelID ''end'') [])"

definition hostMake :: "string \<Rightarrow> string \<Rightarrow> world \<Rightarrow> world" where
  "hostMake callID newHostID = emit (Rest ''post'' (host_path callID ''make'') [(''new_host_id'', newHostID)])"

definition hostMute :: "string \<Rightarrow> string \<Rightarrow> world \<Rightarrow> world" where
  "hostMute callID sessionID = emit (Rest ''post'' (host_path callID ''mute'') [(''session_id'', sessionID)])"

definition hostScreenOff :: "string \<Rightarrow> string \<Rightarrow> world \<Rightarrow> world" where
  "hostScreenOff callID sessionID = emit (Rest ''post'' (host_path callID ''screen-off'') [(''session_id'', sessionID)])"

definition hostLowerHand :: "string \<Rightarrow> string \<Rightarrow> world \<Rightarrow> world" where
  "hostLowerHand callID sessionID = emit (Rest ''post'' (host_path callID ''lower-hand'') [(''session_id'', sessionID)])"

definition hostRemove :: "string option \<Rightarrow> string option \<Rightarrow> world \<Rightarrow> world" where
  "hostRemove callID sessionID w =
     (if str_or callID '''' = '''' \<or> str_or sessionID '''' = '''' then w
      else emit (Rest ''post'' (host_path (str_or callID '''') ''remove'') [(''session_id'', str_or sessionID '''')]) w)"

definition hostMuteOthers :: "string option \<Rightarrow> world \<Rightarrow> world" where
  "hostMuteOthers callID w =
     (if str_or callID '''' = '''' then w
      else emit (Rest ''post'' (host_path (str_or callID '''') ''mute-others'') []) w)"

section \<open>Recordings\<close>

definition startCallRecording :: "string \<Rightarrow> world \<Rightarrow> world" where
  "startCallRecording callID = emit (Rest ''post'' (''/calls/'' @ callID @ ''/recording/start'') [])"

definition startCallRecording_failed :: "string \<Rightarrow> string \<Rightarrow> world \<Rightarrow> world" where
  "startCallRecording_failed callID message w =
     put_action (CALL_RECORDING_STATE callID (Some
       \<lparr>js_type = None, init_at = Some 0, start_at = Some 0, end_at = Some 0,
        js_err = Some message, error_at = Some (w_now w), prompt_dismissed_at = None\<rparr>)) w"

definition stopCallRecording :: "string \<Rightarrow> world \<Rightarrow> world" where
  "stopCallRecording callID = emit (Rest ''post'' (''/calls/'' @ callID @ ''/recording/stop'') [])"

definition recordingPromptDismissedAt :: "string \<Rightarrow> int \<Rightarrow> world \<Rightarrow> world" where
  "recordingPromptDismissedAt callID dismissedAt w0 =
     (let w = put_action (CALL_REC_PROMPT_DISMISSED callID dismissedAt) w0
      in case w_promptDismissedAt w of
           None \<Rightarrow> w | Some _ \<Rightarrow> w\<lparr>w_promptDismissedAt := Some dismissedAt\<rparr>)"

section \<open>Ringing\<close>

definition stopRingingForCall :: "string \<Rightarrow> world \<Rightarrow> world" where
  "stopRingingForCall callID w0 =
     (let w = (if ringingForCall (w_plugin w0) callID then emit StopRing w0 else w0)
      in put_action (DID_RING_FOR_CALL callID) w)"

text \<open>\<open>hasSounds\<close>: the host application offers \<open>notificationSounds\<close>.\<close>

definition ringForCall :: "bool \<Rightarrow> string \<Rightarrow> string \<Rightarrow> world \<Rightarrow> world" where
  "ringForCall hasSounds callID sound w0 =
     (let w = (if hasSounds then emit (Ring sound) w0 else w0);
          w = put_action (RINGING_FOR_CALL callID) w
      in set_timeout RING_LENGTH (StopRinging callID) w)"

definition removeIncomingCallNotification :: "string \<Rightarrow> world \<Rightarrow> world" where
  "removeIncomingCallNotification callID w =
     put_action (REMOVE_INCOMING_CALL callID) (stopRingingForCall callID w)"

definition dismissIncomingCallNotification :: "string \<Rightarrow> string \<Rightarrow> world \<Rightarrow> world" where
  "dismissIncomingCallNotification channelID callID w0 =
     (let w = emit (Rest ''post'' (''/calls/'' @ channelID @ ''/dismiss-notification'') []) w0;
          w = removeIncomingCallNotification callID w
      in put_action (DISMISS_CALL callID) w)"

section \<open>The end of a call\<close>

definition callEnd :: "string \<Rightarrow> world \<Rightarrow> world" where
  "callEnd channelID w0 =
     (let w = (if channelIDForCurrentCall (world_app w0) = channelID then own_disconnect None w0 else w0);
          callID = str_or (map_option cs_ID (obj_get (sel_calls (world_app w)) channelID)) '''';
          w = put_action (CALL_END channelID callID) w
      in removeIncomingCallNotification callID w)"

definition userLeft :: "string \<Rightarrow> string \<Rightarrow> string \<Rightarrow> world \<Rightarrow> world" where
  "userLeft channelID userID sessionID w0 =
     (let w = put_action (USER_LEFT channelID userID sessionID) w0
      in if numSessionsInCallInChannel (w_plugin w) channelID = 0 then callEnd channelID w else w)"

section \<open>Profiles and the state of a call\<close>

definition loadProfilesByIdsIfMissing :: "string list \<Rightarrow> world \<Rightarrow> world" where
  "loadProfilesByIdsIfMissing ids w =
     (let missing = filter (\<lambda>u. obj_get (g_profiles (w_host w)) u = None) ids
      in if missing = [] then w else emit (RequestProfiles missing) w)"

text \<open>The call of a \<open>call_state\<close> event or of the channels' list, as the server sends it.\<close>

record remote_call =
  rc_id :: string
  rc_start_at :: int
  rc_owner_id :: string
  rc_host_id :: string
  rc_thread_id :: string
  rc_screen_sharing_session_id :: string
  rc_recording :: "job_state option"
  rc_live_captions :: "job_state option"
  rc_sessions :: "(string \<times> user_session) list"
  rc_dismissed_notification :: "bool obj option"

definition session_users :: "(string \<times> user_session) list \<Rightarrow> string list" where
  "session_users ss = List.map_filter (\<lambda>(_, s). user_id s) ss"

definition dismissed_by :: "remote_call \<Rightarrow> string \<Rightarrow> bool" where
  "dismissed_by call uid =
     (case rc_dismissed_notification call of None \<Rightarrow> False | Some d \<Rightarrow> obj_get d uid = Some True)"

definition loadCallState_actions :: "string \<Rightarrow> remote_call \<Rightarrow> world \<Rightarrow> action list" where
  "loadCallState_actions channelID call w =
     [CALL_STATE \<lparr>cs_ID = rc_id call, cs_startAt = rc_start_at call, cs_channelID = channelID,
        cs_threadID = rc_thread_id call, cs_ownerID = rc_owner_id call, cs_hostID = None\<rparr>,
      CALL_RECORDING_STATE channelID (rc_recording call),
      CALL_LIVE_CAPTIONS_STATE channelID (rc_live_captions call),
      USER_SCREEN_ON channelID (rc_screen_sharing_session_id call),
      CALL_HOST channelID (rc_host_id call)
        (num_or (Some (hostChangeAtForCurrentCall (world_app w))) (rc_start_at call))]
     @ (if dismissed_by call (g_currentUserId (w_host w)) then [DISMISS_CALL (rc_id call)] else [])
     @ [USERS_STATES channelID (getSessionsMapFromSessions (rc_sessions call))]"

definition loadCallState :: "string \<Rightarrow> remote_call \<Rightarrow> world \<Rightarrow> world" where
  "loadCallState channelID call w0 =
     (let acts = loadCallState_actions channelID call w0;
          w = (if rc_sessions call \<noteq> []
               then loadProfilesByIdsIfMissing (getUserIDsForSessions (session_users (rc_sessions call))) w0
               else w0)
      in put_batch acts w)"

section \<open>Incoming calls\<close>

definition incoming_add :: "incoming_call \<Rightarrow> world \<Rightarrow> world" where
  "incoming_add ic = put_action (ADD_INCOMING_CALL ic)"

text \<open>
  Everything between the two awaits runs in one go. Each continuation is a function of the
  world at the time its promise settles.
\<close>

definition incoming_checked ::
  "channel option \<Rightarrow> string \<Rightarrow> string \<Rightarrow> string \<Rightarrow> int \<Rightarrow> world \<Rightarrow> world" where
  "incoming_checked ch channelID callID callerID startAt w =
     (if \<not> (isDMChannel ch \<or> isGMChannel ch) then w
      else if callDismissedNotification (world_app w) channelID then w
      else if list_ex (\<lambda>ic. ic_callID ic = callID) (sel_incomingCalls (world_app w)) then w
      else if g_currentUserId (w_host w) = callerID \<or> idForCurrentCall (world_app w) = Some callID then w
      else
        (let ic = \<lparr>ic_callID = callID, ic_channelID = channelID, ic_callerID = callerID,
                   ic_startAt = startAt, ic_type = (if isDMChannel ch then DM else GM)\<rparr>
         in if getUser (world_app w) callerID = None
            then await (AwaitCaller ic) (emit (RequestProfiles [callerID]) w)
            else incoming_add ic w))"

definition incomingCallOnChannel :: "string \<Rightarrow> string \<Rightarrow> string \<Rightarrow> int \<Rightarrow> world \<Rightarrow> world" where
  "incomingCallOnChannel channelID callID callerID startAt w =
     (case getChannel (world_app w) channelID of
        None \<Rightarrow> await (AwaitChannel channelID callID callerID startAt) (emit (RequestChannel channelID) w)
      | Some c \<Rightarrow> incoming_checked (Some c) channelID callID callerID startAt w)"

text \<open>What a pending promise runs when it settles, \<open>res\<close> the channel it loaded, if any.\<close>

fun resume :: "pending \<Rightarrow> channel option \<Rightarrow> world \<Rightarrow> world" where
  "resume (AwaitChannel ch callID callerID startAt) res w = incoming_checked res ch callID callerID startAt w"
| "resume (AwaitCaller ic) res w = incoming_add ic w"

section \<open>Lemmas\<close>

text \<open>Removing a notification: the call stops ringing for good and leaves the list.\<close>

lemma stop_ringing_slices [simp]:
  "s_calls (w_plugin (stopRingingForCall c w)) = s_calls (w_plugin w)"
  "s_sessions (w_plugin (stopRingingForCall c w)) = s_sessions (w_plugin w)"
  "s_incomingCalls (w_plugin (stopRingingForCall c w)) = s_incomingCalls (w_plugin w)"
  "s_dismissedCalls (w_plugin (stopRingingForCall c w)) = s_dismissedCalls (w_plugin w)"
  "s_ringingForCalls (w_plugin (stopRingingForCall c w)) = obj_del c (s_ringingForCalls (w_plugin w))"
  "s_didRingForCalls (w_plugin (stopRingingForCall c w)) = obj_set c True (s_didRingForCalls (w_plugin w))"
  "w_host (stopRingingForCall c w) = w_host w"
  "w_own (stopRingingForCall c w) = w_own w"
  "w_opener (stopRingingForCall c w) = w_opener w"
  "world_client (stopRingingForCall c w) = world_client w"
  "w_timers (stopRingingForCall c w) = w_timers w"
  "w_effects (stopRingingForCall c w) =
     w_effects w @ (if ringingForCall (w_plugin w) c then [StopRing] else [])"
  by (simp_all add: stopRingingForCall_def Let_def)

lemma remove_incoming_slices [simp]:
  "s_calls (w_plugin (removeIncomingCallNotification c w)) = s_calls (w_plugin w)"
  "s_sessions (w_plugin (removeIncomingCallNotification c w)) = s_sessions (w_plugin w)"
  "s_incomingCalls (w_plugin (removeIncomingCallNotification c w)) =
     filter (\<lambda>ic. ic_callID ic \<noteq> c) (s_incomingCalls (w_plugin w))"
  "s_ringingForCalls (w_plugin (removeIncomingCallNotification c w)) = obj_del c (s_ringingForCalls (w_plugin w))"
  "s_didRingForCalls (w_plugin (removeIncomingCallNotification c w)) = obj_set c True (s_didRingForCalls (w_plugin w))"
  "s_dismissedCalls (w_plugin (removeIncomingCallNotification c w)) = s_dismissedCalls (w_plugin w)"
  "w_host (removeIncomingCallNotification c w) = w_host w"
  "w_own (removeIncomingCallNotification c w) = w_own w"
  "w_opener (removeIncomingCallNotification c w) = w_opener w"
  "world_client (removeIncomingCallNotification c w) = world_client w"
  "w_timers (removeIncomingCallNotification c w) = w_timers w"
  "w_effects (removeIncomingCallNotification c w) =
     w_effects w @ (if ringingForCall (w_plugin w) c then [StopRing] else [])"
  by (simp_all add: removeIncomingCallNotification_def)

text \<open>The identifier a call's end uses, and what its end does to each slice it changes.\<close>

definition call_id_in :: "plugin_state \<Rightarrow> string \<Rightarrow> string" where
  "call_id_in st ch = str_or (map_option cs_ID (obj_get (s_calls st) ch)) ''''"

lemma call_end_slices [simp]:
  "s_calls (w_plugin (callEnd ch w)) = obj_del ch (s_calls (w_plugin w))"
  "s_sessions (w_plugin (callEnd ch w)) = obj_del ch (s_sessions (w_plugin w))"
  "s_incomingCalls (w_plugin (callEnd ch w)) =
     filter (\<lambda>ic. ic_callID ic \<noteq> call_id_in (w_plugin w) ch) (s_incomingCalls (w_plugin w))"
  "s_ringingForCalls (w_plugin (callEnd ch w)) =
     obj_del (call_id_in (w_plugin w) ch) (s_ringingForCalls (w_plugin w))"
  by (simp_all add: callEnd_def call_id_in_def Let_def sel_calls_def sessions_call_end_def)

lemma call_end_client:
  "w_own (callEnd ch w) = (if channelIDForCurrentCall (world_app w) = ch then None else w_own w)"
  by (simp add: callEnd_def Let_def own_disconnect_client)

lemma obj_del_empty_iff: "obj_del k d = [] \<longleftrightarrow> (\<forall>k'. k' \<noteq> k \<longrightarrow> obj_get d k' = None)"
  by (induction d) (auto split: if_splits)

lemma left_sessions_zero_iff:
  "numSessionsInCallInChannel (dispatch (USER_LEFT ch uid sid) st) ch = 0 \<longleftrightarrow>
     (\<forall>s. s \<noteq> sid \<longrightarrow> session_of (s_sessions st) ch s = None)"
  by (auto simp: numSessions_zero_iff sessions_user_left_def session_of_def obj_del_empty_iff
      split: option.splits)

lemma user_left_cases:
  "userLeft ch uid sid w =
     (if \<forall>s. s \<noteq> sid \<longrightarrow> session_of (s_sessions (w_plugin w)) ch s = None
      then callEnd ch (put_action (USER_LEFT ch uid sid) w)
      else put_action (USER_LEFT ch uid sid) w)"
  by (simp add: userLeft_def Let_def left_sessions_zero_iff)

lemma load_profiles_simps [simp]:
  "w_plugin (loadProfilesByIdsIfMissing ids w) = w_plugin w"
  "w_host (loadProfilesByIdsIfMissing ids w) = w_host w"
  "world_client (loadProfilesByIdsIfMissing ids w) = world_client w"
  "w_timers (loadProfilesByIdsIfMissing ids w) = w_timers w"
  "w_pending (loadProfilesByIdsIfMissing ids w) = w_pending w"
  "w_now (loadProfilesByIdsIfMissing ids w) = w_now w"
  by (simp_all add: loadProfilesByIdsIfMissing_def Let_def)

lemma load_call_state_plugin:
  "w_plugin (loadCallState ch call w) = dispatch_all (loadCallState_actions ch call w) (w_plugin w)"
  by (simp add: loadCallState_def Let_def)

text \<open>What a call of \<open>incomingCallOnChannel\<close> can do to the store: nothing, or add one new call.\<close>

lemma incoming_add_new:
  "incoming_checked ch channelID callID callerID startAt w = w'' \<Longrightarrow>
   w'' = w \<or> (\<not> list_ex (\<lambda>ic. ic_callID ic = callID) (s_incomingCalls (w_plugin w)) \<and>
     (\<exists>ic. ic_callID ic = callID \<and>
        (w'' = incoming_add ic w \<or> w'' = await (AwaitCaller ic) (emit (RequestProfiles [callerID]) w))))"
  unfolding incoming_checked_def sel_incomingCalls_def Let_def world_app_simps
  by (elim subst) (auto split: if_split intro!: exI)

end
