(* ===== verification/Ws_Handlers.thy ===== *)
theory Ws_Handlers
  imports Action_Creators
begin

text \<open>
  The handlers of \<open>webapp/src/websocket_handlers.ts\<close>, one definition each, and the table of
  \<open>registerWebSocketEvents\<close> (\<open>index.tsx\<close>) that routes the events to them. A handler runs
  to its end without interruption; what it leaves behind are timers and promises of the world.
\<close>

text \<open>The part of a message every handler reads: \<open>ev.data.channelID\<close> and \<open>ev.broadcast\<close>.\<close>

record envelope =
  e_channelID :: "string option"
  e_broadcast_channel :: string
  e_broadcast_user :: string

definition ev_channel :: "envelope \<Rightarrow> string" where
  "ev_channel e = str_or (e_channelID e) (e_broadcast_channel e)"

section \<open>Calls\<close>

definition handleCallEnd :: "envelope \<Rightarrow> world \<Rightarrow> world" where
  "handleCallEnd e = callEnd (ev_channel e)"

text \<open>\<open>parsed\<close> is the result of \<open>JSON.parse\<close>: an exception is logged and nothing happens.\<close>

definition handleCallState :: "string \<Rightarrow> remote_call option \<Rightarrow> world \<Rightarrow> world" where
  "handleCallState channel_id parsed w =
     (case parsed of None \<Rightarrow> w | Some call \<Rightarrow> loadCallState channel_id call w)"

text \<open>\<open>followThread\<close> of \<open>utils.ts\<close>.\<close>

definition followThread :: "string \<Rightarrow> string \<Rightarrow> world \<Rightarrow> world" where
  "followThread channelID teamID w =
     (if teamID = '''' then w
      else let threadID = threadIDForCallInChannel (world_app w) channelID
           in if threadID \<noteq> '''' then emit (FollowThread (g_currentUserId (w_host w)) teamID threadID) w else w)"

record call_start_data =
  d_id :: string
  d_start_at :: int
  d_owner_id :: string
  d_host_id :: string
  d_thread_id :: string

definition handleCallStart :: "envelope \<Rightarrow> call_start_data \<Rightarrow> world \<Rightarrow> world" where
  "handleCallStart e d w0 =
     (let channelID = ev_channel e;
          w = put_action (CALL_RECORDING_STATE channelID None) w0;
          w = put_action (CALL_LIVE_CAPTIONS_STATE channelID None) w;
          w = put_action (CALL_STATE \<lparr>cs_ID = d_id d, cs_startAt = d_start_at d, cs_channelID = channelID,
                cs_threadID = d_thread_id d, cs_ownerID = d_owner_id d, cs_hostID = Some (d_host_id d)\<rparr>) w;
          w = put_action (CALL_HOST channelID (d_host_id d) (d_start_at d)) w
      in if map_option cv_channelID (world_client w) = Some channelID then
           (case getChannel (world_app w) channelID of
              None \<Rightarrow> w
            | Some c \<Rightarrow> followThread (c_id c) (c_team_id c) w)
         else if ringingEnabled (world_app w) then
           incomingCallOnChannel channelID (d_id d) (d_owner_id d) (d_start_at d) w
         else w)"

section \<open>Sessions\<close>

definition handleUserLeft :: "envelope \<Rightarrow> string \<Rightarrow> string \<Rightarrow> world \<Rightarrow> world" where
  "handleUserLeft e uid sid = userLeft (ev_channel e) uid sid"

definition handleUserJoined :: "envelope \<Rightarrow> string \<Rightarrow> string \<Rightarrow> world \<Rightarrow> world" where
  "handleUserJoined e uid sid w0 =
     (let channelID = ev_channel e;
          currentUserID = g_currentUserId (w_host w0);
          w = (if map_option cv_channelID (w_own w0) = Some channelID then
                 (if sid = getCallsClientSessionID (world_client w0) then emit (PlaySound ''join_self'') w0
                  else if uid \<noteq> currentUserID \<and> shouldPlayJoinUserSound (world_app w0)
                  then emit (PlaySound ''join_user'') w0
                  else w0)
               else w0);
          w = (if ringingEnabled (world_app w) \<and> uid = currentUserID then
                 emit StopRing (removeIncomingCallNotification (call_id_in (w_plugin w) channelID) w)
               else w);
          w = loadProfilesByIdsIfMissing [uid] w;
          w = put_action (USER_JOINED channelID uid sid) w
      in set_timeout JOINED_USER_NOTIFICATION_TIMEOUT (Dispatch (USER_JOINED_TIMEOUT channelID uid)) w)"

definition handleUserMuted :: "envelope \<Rightarrow> string \<Rightarrow> string \<Rightarrow> world \<Rightarrow> world" where
  "handleUserMuted e uid sid = put_action (USER_MUTED (ev_channel e) uid sid)"

definition handleUserUnmuted :: "envelope \<Rightarrow> string \<Rightarrow> string \<Rightarrow> world \<Rightarrow> world" where
  "handleUserUnmuted e uid sid = put_action (USER_UNMUTED (ev_channel e) uid sid)"

definition handleUserVoiceOn :: "envelope \<Rightarrow> string \<Rightarrow> string \<Rightarrow> world \<Rightarrow> world" where
  "handleUserVoiceOn e uid sid = put_action (USER_VOICE_ON (ev_channel e) uid sid)"

definition handleUserVoiceOff :: "envelope \<Rightarrow> string \<Rightarrow> string \<Rightarrow> world \<Rightarrow> world" where
  "handleUserVoiceOff e uid sid = put_action (USER_VOICE_OFF (ev_channel e) uid sid)"

definition handleUserScreenOn :: "envelope \<Rightarrow> string \<Rightarrow> world \<Rightarrow> world" where
  "handleUserScreenOn e sid = put_action (USER_SCREEN_ON (ev_channel e) sid)"

definition handleUserScreenOff :: "envelope \<Rightarrow> string \<Rightarrow> world \<Rightarrow> world" where
  "handleUserScreenOff e sid = put_action (USER_SCREEN_OFF (ev_channel e) sid)"

definition handleUserRaisedHand :: "envelope \<Rightarrow> string \<Rightarrow> string \<Rightarrow> int \<Rightarrow> world \<Rightarrow> world" where
  "handleUserRaisedHand e uid sid t = put_action (USER_RAISE_HAND (ev_channel e) uid sid (Some t))"

definition handleUserUnraisedHand :: "envelope \<Rightarrow> string \<Rightarrow> string \<Rightarrow> int \<Rightarrow> world \<Rightarrow> world" where
  "handleUserUnraisedHand e uid sid t = put_action (USER_LOWER_HAND (ev_channel e) uid sid (Some t))"

definition handleUserVideoOn :: "envelope \<Rightarrow> string \<Rightarrow> string \<Rightarrow> world \<Rightarrow> world" where
  "handleUserVideoOn e uid sid = put_action (USER_VIDEO_ON (ev_channel e) uid sid)"

definition handleUserVideoOff :: "envelope \<Rightarrow> string \<Rightarrow> string \<Rightarrow> world \<Rightarrow> world" where
  "handleUserVideoOff e uid sid = put_action (USER_VIDEO_OFF (ev_channel e) uid sid)"

definition handleUserReaction :: "envelope \<Rightarrow> string \<Rightarrow> string \<Rightarrow> string \<Rightarrow> int \<Rightarrow> world \<Rightarrow> world" where
  "handleUserReaction e uid sid emoji timestamp w0 =
     (let channelID = ev_channel e
      in if channelIDForCurrentCall (world_app w0) \<noteq> channelID then w0
         else
           let profiles = profilesInCurrentCallMap (world_app w0);
               r = \<lparr>r_user_id = uid, r_session_id = sid, r_emoji = emoji, r_timestamp = timestamp,
                    r_displayName = getUserDisplayName (obj_get profiles uid) False\<rparr>;
               w = put_action (USER_REACTED channelID uid sid (Some r)) w0
           in set_timeout REACTION_TIMEOUT_IN_REACTION_STREAM
                (Dispatch (USER_REACTED_TIMEOUT channelID uid sid (Some r))) w)"

section \<open>Hosts, jobs and dismissals\<close>

definition put_notice :: "host_control_notice \<Rightarrow> world \<Rightarrow> world" where
  "put_notice n w =
     set_timeout HOST_CONTROL_NOTICE_TIMEOUT
       (Dispatch (HOST_CONTROL_NOTICE_TIMEOUT_EVENT (hn_callID n) (hn_noticeID n)))
       (put_action (HOST_CONTROL_NOTICE n) w)"

text \<open>\<open>profilesInCurrentCallMap(state)[id] || getUser(state, id)\<close>.\<close>

definition call_profile :: "string \<Rightarrow> world \<Rightarrow> profile option" where
  "call_profile uid w =
     (case obj_get (profilesInCurrentCallMap (world_app w)) uid of
        Some p \<Rightarrow> Some p | None \<Rightarrow> getUser (world_app w) uid)"

definition handleCallHostChanged :: "envelope \<Rightarrow> string \<Rightarrow> string \<Rightarrow> world \<Rightarrow> world" where
  "handleCallHostChanged e hostID call_id w0 =
     (let w = put_action (CALL_HOST (ev_channel e) hostID (w_now w0)) w0
      in case call_profile hostID w of
           None \<Rightarrow> w
         | Some p \<Rightarrow>
             let (nid, w) = generateId w
             in put_notice \<lparr>hn_type = HostChanged, hn_callID = call_id, hn_noticeID = nid,
                  hn_displayName = getUserDisplayName (Some p) False, hn_userID = Some hostID\<rparr> w)"

definition handleCallJobState :: "string \<Rightarrow> job_state \<Rightarrow> world \<Rightarrow> world" where
  "handleCallJobState callID job w =
     (let job = (if str_or (js_err job) '''' \<noteq> '''' then job\<lparr>error_at := Some (w_now w)\<rparr> else job)
      in put_action
           (if js_type job = Some JOB_TYPE_RECORDING then CALL_RECORDING_STATE callID (Some job)
            else if js_type job = Some JOB_TYPE_CAPTIONING then CALL_LIVE_CAPTIONS_STATE callID (Some job)
            else OTHER '''') w)"

definition handleUserDismissedNotification :: "string \<Rightarrow> string \<Rightarrow> world \<Rightarrow> world" where
  "handleUserDismissedNotification uid callID w =
     (if uid \<noteq> g_currentUserId (w_host w) then w
      else put_action (DISMISS_CALL callID) (removeIncomingCallNotification callID w))"

text \<open>The errors of \<open>client.ts\<close> and \<open>call_error_modal\<close> a disconnection carries.\<close>

definition userLeftChannelErr :: js_error where
  "userLeftChannelErr = ErrorMsg ''user has left channel''"

definition userRemovedFromChannelErr :: js_error where
  "userRemovedFromChannelErr = ErrorMsg ''user was removed from channel''"

definition hostRemovedMsg :: js_error where
  "hostRemovedMsg = ErrorMsg ''host-removed''"

definition handleUserRemovedFromChannel ::
  "envelope \<Rightarrow> string option \<Rightarrow> string option \<Rightarrow> string \<Rightarrow> world \<Rightarrow> world" where
  "handleUserRemovedFromChannel e data_channel data_user remover w =
     (let channelID = str_or data_channel (e_broadcast_channel e);
          currentUserID = g_currentUserId (w_host w);
          removedUserID = str_or data_user (e_broadcast_user e)
      in if removedUserID = currentUserID \<and> channelID = channelIDForCurrentCall (world_app w) then
           (if world_client w = None then w
            else shared_disconnect (Some (if remover = currentUserID then userLeftChannelErr
                                          else userRemovedFromChannelErr)) w)
         else w)"

definition handleCaption :: "string \<Rightarrow> string \<Rightarrow> string \<Rightarrow> string \<Rightarrow> world \<Rightarrow> world" where
  "handleCaption channel_id uid sid txt w0 =
     (if channelIDForCurrentCall (world_app w0) \<noteq> channel_id then w0
      else
        let profiles = profilesInCurrentCallMap (world_app w0);
            (cid, w) = generateId w0;
            c = \<lparr>lc_channel_id = channel_id, lc_session_id = sid, lc_user_id = uid, lc_text = txt,
                 lc_display_name = getUserDisplayName (obj_get profiles uid) False, lc_caption_id = cid\<rparr>;
            w = put_action (LIVE_CAPTION c) w
        in set_timeout LIVE_CAPTION_TIMEOUT (Dispatch (LIVE_CAPTION_TIMEOUT_EVENT channel_id sid cid)) w)"

section \<open>Host controls\<close>

text \<open>
  Each of the four handlers acts only in the window of the call the message is about; the
  first three only on the session it names. \<open>for_own_session\<close> is their shared check.
\<close>

definition for_own_session :: "string \<Rightarrow> string \<Rightarrow> world \<Rightarrow> bool" where
  "for_own_session channelID sid w =
     (case world_client w of
        None \<Rightarrow> False
      | Some c \<Rightarrow> cv_channelID c = channelID \<and> cv_sessionID c = Some sid)"

definition handleHostMute :: "string \<Rightarrow> string \<Rightarrow> world \<Rightarrow> world" where
  "handleHostMute channelID sid w = (if \<not> for_own_session channelID sid w then w else emit (ClientCall CallMute) w)"

definition handleHostScreenOff :: "string \<Rightarrow> string \<Rightarrow> world \<Rightarrow> world" where
  "handleHostScreenOff channelID sid w =
     (if \<not> for_own_session channelID sid w then w else emit (ClientCall CallUnshareScreen) w)"

definition handleHostLowerHand :: "string \<Rightarrow> string \<Rightarrow> string \<Rightarrow> string \<Rightarrow> world \<Rightarrow> world" where
  "handleHostLowerHand channelID sid host_id call_id w0 =
     (if \<not> for_own_session channelID sid w0 then w0
      else
        let w = emit (ClientCall CallUnraiseHand) w0;
            profiles = profilesInCurrentCallMap (world_app w);
            (nid, w) = generateId w;
            n = \<lparr>hn_type = LowerHand, hn_callID = call_id, hn_noticeID = nid,
                 hn_displayName = getUserDisplayName (obj_get profiles host_id) False, hn_userID = None\<rparr>;
            w = set_timeout 0 (Dispatch (HOST_CONTROL_NOTICE n)) w
        in set_timeout HOST_CONTROL_NOTICE_TIMEOUT (Dispatch (HOST_CONTROL_NOTICE_TIMEOUT_EVENT call_id nid)) w)"

definition handleHostRemoved :: "string \<Rightarrow> string \<Rightarrow> string \<Rightarrow> string \<Rightarrow> world \<Rightarrow> world" where
  "handleHostRemoved channelID sid uid call_id w =
     (if map_option cv_channelID (world_client w) \<noteq> Some channelID then w
      else if Option.bind (world_client w) cv_sessionID = Some sid then
        shared_disconnect (Some hostRemovedMsg) w
      else case call_profile uid w of
          None \<Rightarrow> w
        | Some p \<Rightarrow>
            let (nid, w) = generateId w
            in put_notice \<lparr>hn_type = HostRemoved, hn_callID = call_id, hn_noticeID = nid,
                 hn_displayName = getUserDisplayName (Some p) False, hn_userID = None\<rparr> w)"

section \<open>Routing\<close>

text \<open>The events of \<open>registerWebSocketEvents\<close>, with the data their handler reads.\<close>

datatype (plugins only: code size) ws_event =
    EvChannelEnable envelope
  | EvChannelDisable envelope
  | EvUserJoined envelope string string
  | EvUserLeft envelope string string
  | EvUserMuted envelope string string
  | EvUserUnmuted envelope string string
  | EvUserVoiceOn envelope string string
  | EvUserVoiceOff envelope string string
  | EvCallStart envelope call_start_data
  | EvCallEnd envelope
  | EvUserScreenOn envelope string
  | EvUserScreenOff envelope string
  | EvUserRaiseHand envelope string string int
  | EvUserUnraiseHand envelope string string int
  | EvUserReacted envelope string string string int
  | EvCallHostChanged envelope string string
  | EvCallJobState string job_state
  | EvUserDismissedNotification string string
  | EvCallState string "remote_call option"
  | EvUserRemoved envelope "string option" "string option" string
  | EvCaption string string string string
  | EvHostMute string string
  | EvHostScreenOff string string
  | EvHostLowerHand string string string string
  | EvHostRemoved string string string string
  | EvUserVideoOn envelope string string
  | EvUserVideoOff envelope string string

fun handle :: "ws_event \<Rightarrow> world \<Rightarrow> world" where
  "handle (EvChannelEnable e) = put_action (RECEIVED_CHANNEL_STATE \<lparr>ch_id = e_broadcast_channel e, ch_enabled = Some True\<rparr>)"
| "handle (EvChannelDisable e) = put_action (RECEIVED_CHANNEL_STATE \<lparr>ch_id = e_broadcast_channel e, ch_enabled = Some False\<rparr>)"
| "handle (EvUserJoined e uid sid) = handleUserJoined e uid sid"
| "handle (EvUserLeft e uid sid) = handleUserLeft e uid sid"
| "handle (EvUserMuted e uid sid) = handleUserMuted e uid sid"
| "handle (EvUserUnmuted e uid sid) = handleUserUnmuted e uid sid"
| "handle (EvUserVoiceOn e uid sid) = handleUserVoiceOn e uid sid"
| "handle (EvUserVoiceOff e uid sid) = handleUserVoiceOff e uid sid"
| "handle (EvCallStart e d) = handleCallStart e d"
| "handle (EvCallEnd e) = handleCallEnd e"
| "handle (EvUserScreenOn e sid) = handleUserScreenOn e sid"
| "handle (EvUserScreenOff e sid) = handleUserScreenOff e sid"
| "handle (EvUserRaiseHand e uid sid t) = handleUserRaisedHand e uid sid t"
| "handle (EvUserUnraiseHand e uid sid t) = handleUserUnraisedHand e uid sid t"
| "handle (EvUserReacted e uid sid emoji t) = handleUserReaction e uid sid emoji t"
| "handle (EvCallHostChanged e h c) = handleCallHostChanged e h c"
| "handle (EvCallJobState c j) = handleCallJobState c j"
| "handle (EvUserDismissedNotification uid c) = handleUserDismissedNotification uid c"
| "handle (EvCallState ch c) = handleCallState ch c"
| "handle (EvUserRemoved e ch uid remover) = handleUserRemovedFromChannel e ch uid remover"
| "handle (EvCaption ch uid sid txt) = handleCaption ch uid sid txt"
| "handle (EvHostMute ch sid) = handleHostMute ch sid"
| "handle (EvHostScreenOff ch sid) = handleHostScreenOff ch sid"
| "handle (EvHostLowerHand ch sid h c) = handleHostLowerHand ch sid h c"
| "handle (EvHostRemoved ch sid uid c) = handleHostRemoved ch sid uid c"
| "handle (EvUserVideoOn e uid sid) = handleUserVideoOn e uid sid"
| "handle (EvUserVideoOff e uid sid) = handleUserVideoOff e uid sid"

lemmas handler_defs =
  handleCallEnd_def handleCallState_def handleCallStart_def handleUserLeft_def handleUserJoined_def
  handleUserMuted_def handleUserUnmuted_def handleUserVoiceOn_def handleUserVoiceOff_def
  handleUserScreenOn_def handleUserScreenOff_def handleUserRaisedHand_def handleUserUnraisedHand_def
  handleUserVideoOn_def handleUserVideoOff_def handleUserReaction_def handleCallHostChanged_def
  handleCallJobState_def handleUserDismissedNotification_def handleUserRemovedFromChannel_def
  handleCaption_def handleHostMute_def handleHostScreenOff_def handleHostLowerHand_def
  handleHostRemoved_def

end
