(* ===== verification/Event_Loop.thy ===== *)
theory Event_Loop
  imports Ws_Handlers
begin

text \<open>
  The event loop: any order of websocket events, timers, settled promises and actions of the
  user interface. A timer fires when it is due and no pending one is due earlier, which is the
  order browsers guarantee; promises settle in any order.

  Every handler is a \<^emph>\<open>good\<close> move: it dispatches well-formed actions, and where it adds a
  caption, a reaction, a notice or a recent join, it leaves the timer that removes it. The
  locale \<open>expiring\<close> turns this into an invariant of each of these slices: nothing short-lived
  is in the store without a pending timer that removes it.
\<close>

section \<open>Moves\<close>

text \<open>The action of the timer that removes what an action adds.\<close>

fun expiry_of :: "action \<Rightarrow> action option" where
  "expiry_of (LIVE_CAPTION c) =
     Some (LIVE_CAPTION_TIMEOUT_EVENT (lc_channel_id c) (lc_session_id c) (lc_caption_id c))"
| "expiry_of (USER_REACTED ch uid sid r) = Some (USER_REACTED_TIMEOUT ch uid sid r)"
| "expiry_of (USER_JOINED ch uid sid) = Some (USER_JOINED_TIMEOUT ch uid)"
| "expiry_of (HOST_CONTROL_NOTICE n) = Some (HOST_CONTROL_NOTICE_TIMEOUT_EVENT (hn_callID n) (hn_noticeID n))"
| "expiry_of _ = None"

fun sound_action :: "action \<Rightarrow> bool" where
  "sound_action (USERS_STATES _ states) = obj_wf states"
| "sound_action (USER_REACTED _ uid sid r) = (case r of None \<Rightarrow> False | Some x \<Rightarrow> r_user_id x = uid \<and> r_session_id x = sid)"
| "sound_action (USER_REACTED_TIMEOUT _ _ _ r) = (r \<noteq> None)"
| "sound_action _ = True"

lemma sound_action_wf: "sound_action a \<Longrightarrow> action_wf a"
  by (cases a) auto

fun is_notice_timeout :: "action \<Rightarrow> bool" where
  "is_notice_timeout (HOST_CONTROL_NOTICE_TIMEOUT_EVENT _ _) = True"
| "is_notice_timeout _ = False"

text \<open>
  The actions \<open>as\<close> a move dispatches and the timers \<open>ts\<close> it starts at time \<open>now\<close>: what an
  action adds has its timer; a timer that itself adds a notice has its timer due later.
\<close>

definition tidy_action :: "(int \<times> task) list \<Rightarrow> action \<Rightarrow> bool" where
  "tidy_action ts a \<longleftrightarrow> sound_action a \<and> \<not> is_notice_timeout a \<and>
     (case expiry_of a of None \<Rightarrow> True | Some x \<Rightarrow> Dispatch x \<in> snd ` set ts)"

definition tidy_timer :: "(int \<times> task) list \<Rightarrow> int \<times> task \<Rightarrow> bool" where
  "tidy_timer ts dt =
     (case snd dt of
        StopRinging _ \<Rightarrow> True
      | Dispatch a \<Rightarrow> sound_action a \<and>
          (case expiry_of a of
             None \<Rightarrow> True
           | Some x \<Rightarrow> (\<exists>d' > fst dt. (d', Dispatch x) \<in> set ts)))"

definition tidy :: "int \<Rightarrow> action list \<Rightarrow> (int \<times> task) list \<Rightarrow> bool" where
  "tidy now as ts \<longleftrightarrow>
     (\<forall>a\<in>set as. tidy_action ts a) \<and> (\<forall>dt\<in>set ts. tidy_timer ts dt) \<and>
     (\<forall>dt\<in>set ts. now \<le> fst dt \<and> fst dt \<le> now + RING_LENGTH)"

text \<open>A notice timeout a move starts is for a notice of the same move.\<close>

definition notices_paired :: "action list \<Rightarrow> (int \<times> task) list \<Rightarrow> bool" where
  "notices_paired as ts \<longleftrightarrow>
     (\<forall>d c n. (d, Dispatch (HOST_CONTROL_NOTICE_TIMEOUT_EVENT c n)) \<in> set ts \<longrightarrow>
        (\<exists>h. hn_callID h = c \<and>
           (HOST_CONTROL_NOTICE h \<in> set as \<or> (\<exists>d' < d. (d', Dispatch (HOST_CONTROL_NOTICE h)) \<in> set ts))))"

definition runs :: "world \<Rightarrow> world \<Rightarrow> action list \<Rightarrow> (int \<times> task) list \<Rightarrow> bool" where
  "runs w w' as ts \<longleftrightarrow>
     w_plugin w' = dispatch_all as (w_plugin w) \<and> w_timers w' = w_timers w @ ts \<and> w_now w' = w_now w"

definition good :: "world \<Rightarrow> world \<Rightarrow> bool" where
  "good w w' \<longleftrightarrow> (\<exists>as ts. runs w w' as ts \<and> tidy (w_now w) as ts \<and> notices_paired as ts)"

lemma tidy_append:
  assumes "tidy now as ts" and "tidy now bs us"
  shows "tidy now (as @ bs) (ts @ us)"
proof -
  have a: "tidy_action ts a \<Longrightarrow> tidy_action (ts @ us) a"
    "tidy_action us a \<Longrightarrow> tidy_action (ts @ us) a" for a
    by (auto simp: tidy_action_def image_Un split: option.splits)
  have t: "tidy_timer ts dt \<Longrightarrow> tidy_timer (ts @ us) dt"
    "tidy_timer us dt \<Longrightarrow> tidy_timer (ts @ us) dt" for dt
    by (auto simp: tidy_timer_def split: option.splits task.splits)
  show ?thesis using assms a t unfolding tidy_def set_append by blast
qed

lemma notices_paired_append:
  assumes "notices_paired as ts" and "notices_paired bs us"
  shows "notices_paired (as @ bs) (ts @ us)"
  unfolding notices_paired_def
proof (intro allI impI)
  fix d c n
  let ?P = "\<lambda>(as :: action list) (ts :: (int \<times> task) list). \<exists>h. hn_callID h = c \<and> (HOST_CONTROL_NOTICE h \<in> set as \<or> (\<exists>d' < d. (d', Dispatch (HOST_CONTROL_NOTICE h)) \<in> set ts))"
  have mono: "?P as ts \<Longrightarrow> ?P (as @ bs) (ts @ us)" "?P bs us \<Longrightarrow> ?P (as @ bs) (ts @ us)"
    unfolding set_append by blast+
  assume "(d, Dispatch (HOST_CONTROL_NOTICE_TIMEOUT_EVENT c n)) \<in> set (ts @ us)"
  then consider "(d, Dispatch (HOST_CONTROL_NOTICE_TIMEOUT_EVENT c n)) \<in> set ts"
    | "(d, Dispatch (HOST_CONTROL_NOTICE_TIMEOUT_EVENT c n)) \<in> set us" by auto
  then show "?P (as @ bs) (ts @ us)"
  proof cases
    case 1 then show ?thesis using assms(1) mono(1) by (simp only: notices_paired_def)
  next
    case 2 then show ?thesis using assms(2) mono(2) by (simp only: notices_paired_def)
  qed
qed

lemma good_refl [simp, intro]: "good w w"
  unfolding good_def runs_def by (intro exI [of _ "[]"]) (simp add: tidy_def notices_paired_def)

lemma good_trans [trans]:
  assumes "good w w'" and "good w' w''"
  shows "good w w''"
proof -
  from assms(1) obtain as ts where 1: "runs w w' as ts" "tidy (w_now w) as ts" "notices_paired as ts"
    by (auto simp: good_def)
  from assms(2) obtain bs us where 2: "runs w' w'' bs us" "tidy (w_now w') bs us" "notices_paired bs us"
    by (auto simp: good_def)
  have "runs w w'' (as @ bs) (ts @ us)" using 1 2 by (simp add: runs_def)
  moreover have "tidy (w_now w) (as @ bs) (ts @ us)" using 1 2 by (auto simp: runs_def intro: tidy_append)
  moreover have "notices_paired (as @ bs) (ts @ us)" using 1 2 by (intro notices_paired_append)
  ultimately show ?thesis unfolding good_def by blast
qed

lemma good_same:
  "w_plugin w' = w_plugin w \<Longrightarrow> w_timers w' = w_timers w \<Longrightarrow> w_now w' = w_now w \<Longrightarrow> good w w'"
  unfolding good_def runs_def by (intro exI [of _ "[]"]) (simp add: tidy_def notices_paired_def)

text \<open>An action that adds nothing short-lived.\<close>

definition plain :: "action \<Rightarrow> bool" where
  "plain a \<longleftrightarrow> sound_action a \<and> expiry_of a = None \<and> \<not> is_notice_timeout a"

lemma good_put: "plain a \<Longrightarrow> good w (put_action a w)"
  unfolding good_def runs_def plain_def
  by (intro exI [of _ "[a]"] exI [of _ "[]"])
    (simp add: tidy_def tidy_action_def notices_paired_def)

lemma good_batch: "list_all plain as \<Longrightarrow> good w (put_batch as w)"
  unfolding good_def runs_def plain_def
  by (intro exI [of _ as] exI [of _ "[]"])
    (auto simp: tidy_def tidy_action_def notices_paired_def list_all_iff)

lemma good_emit: "good w (emit e w)"
  by (rule good_same) simp_all

lemma good_await: "good w (await p w)"
  by (rule good_same) simp_all

lemma good_stop_timer: "good w (set_timeout RING_LENGTH (StopRinging c) w)"
  unfolding good_def runs_def
  by (intro exI [of _ "[]"] exI [of _ "[(w_now w + RING_LENGTH, StopRinging c)]"])
    (simp add: tidy_def tidy_timer_def notices_paired_def constant_defs)

text \<open>Adding something short-lived together with its timer.\<close>

lemma good_add:
  assumes "sound_action a" and "expiry_of a = Some x" and "sound_action x" and "expiry_of x = None"
    and "0 \<le> d" and "d \<le> RING_LENGTH"
    and "\<And>c n. x = HOST_CONTROL_NOTICE_TIMEOUT_EVENT c n \<Longrightarrow> \<exists>h. hn_callID h = c \<and> a = HOST_CONTROL_NOTICE h"
  shows "good w (set_timeout d (Dispatch x) (put_action a w))"
proof -
  let ?ts = "[(w_now w + d, Dispatch x)]"
  have "\<not> is_notice_timeout a" using assms(2) by (cases a) auto
  then have "tidy (w_now w) [a] ?ts"
    using assms by (simp add: tidy_def tidy_action_def tidy_timer_def)
  moreover have "notices_paired [a] ?ts" using assms(7) by (auto simp: notices_paired_def)
  ultimately show ?thesis unfolding good_def
    by (intro exI [of _ "[a]"] exI [of _ ?ts]) (simp add: runs_def)
qed

section \<open>Every operation is a good move\<close>

named_theorems good_intros "moves built from good moves"

lemma good_then_put [good_intros]: "good w w' \<Longrightarrow> plain a \<Longrightarrow> good w (put_action a w')"
  by (erule good_trans) (rule good_put)

lemma good_then_emit [good_intros]: "good w w' \<Longrightarrow> good w (emit e w')"
  by (erule good_trans) (rule good_emit)

lemma good_then_await [good_intros]: "good w w' \<Longrightarrow> good w (await p w')"
  by (erule good_trans) (rule good_await)

lemma good_then_fields [good_intros]:
  "good w w' \<Longrightarrow> good w (w'\<lparr>w_own := c\<rparr>)"
  "good w w' \<Longrightarrow> good w (w'\<lparr>w_opener := op\<rparr>)"
  "good w w' \<Longrightarrow> good w (w'\<lparr>w_promptDismissedAt := t\<rparr>)"
  "good w w' \<Longrightarrow> good w (w'\<lparr>w_idCount := n\<rparr>)"
  by (erule good_trans, rule good_same; simp)+

lemma plain_simps [simp]:
  "plain (CLIENT_CONNECTING b)" "plain (LOCAL_SESSION_CLOSE ch)" "plain (DID_RING_FOR_CALL c)"
  "plain (RINGING_FOR_CALL c)" "plain (REMOVE_INCOMING_CALL c)" "plain (DISMISS_CALL c)"
  "plain (CALL_END ch c)" "plain (USER_LEFT ch uid sid)" "plain (ADD_INCOMING_CALL ic)"
  "plain (CALL_RECORDING_STATE ch j)" "plain (CALL_LIVE_CAPTIONS_STATE ch j)" "plain (CALL_STATE call)"
  "plain (CALL_HOST ch h t)" "plain (USER_SCREEN_ON ch sid)" "plain (USER_SCREEN_OFF ch sid)"
  "plain (USER_MUTED ch uid sid)" "plain (USER_UNMUTED ch uid sid)" "plain (USER_VOICE_ON ch uid sid)"
  "plain (USER_VOICE_OFF ch uid sid)" "plain (USER_RAISE_HAND ch uid sid rh)"
  "plain (USER_LOWER_HAND ch uid sid rh)" "plain (USER_VIDEO_ON ch uid sid)"
  "plain (USER_VIDEO_OFF ch uid sid)" "plain (RECEIVED_CHANNEL_STATE cs)" "plain (OTHER s)"
  "plain (USERS_STATES ch states) \<longleftrightarrow> obj_wf states"
  by (simp_all add: plain_def)

lemma good_on_close [good_intros]: "good w w' \<Longrightarrow> good w (on_close err w')"
  unfolding on_close_def displayCallErrorModal_def Let_def
  by (auto split: option.split intro!: good_intros)

lemma good_own_disconnect [good_intros]: "good w w' \<Longrightarrow> good w (own_disconnect err w')"
  unfolding own_disconnect_def by (auto split: option.split intro!: good_intros)

lemma good_shared_disconnect [good_intros]: "good w w' \<Longrightarrow> good w (shared_disconnect err w')"
  unfolding shared_disconnect_def by (auto split: calls_window.split intro!: good_intros)

lemma good_stop_ringing [good_intros]: "good w w' \<Longrightarrow> good w (stopRingingForCall c w')"
  unfolding stopRingingForCall_def Let_def by (auto intro!: good_intros)

lemma good_remove_incoming [good_intros]: "good w w' \<Longrightarrow> good w (removeIncomingCallNotification c w')"
  unfolding removeIncomingCallNotification_def by (auto intro!: good_intros)

lemma good_dismiss [good_intros]: "good w w' \<Longrightarrow> good w (dismissIncomingCallNotification ch c w')"
  unfolding dismissIncomingCallNotification_def Let_def by (auto intro!: good_intros)

lemma good_ring [good_intros]: "good w w' \<Longrightarrow> good w (ringForCall h c s w')"
proof -
  assume "good w w'"
  then have "good w (put_action (RINGING_FOR_CALL c) (if h then emit (Ring s) w' else w'))"
    by (auto intro!: good_intros)
  then show ?thesis unfolding ringForCall_def Let_def by (rule good_trans) (rule good_stop_timer)
qed

lemma good_call_end [good_intros]: "good w w' \<Longrightarrow> good w (callEnd ch w')"
  unfolding callEnd_def Let_def by (auto intro!: good_intros)

lemma good_user_left [good_intros]: "good w w' \<Longrightarrow> good w (userLeft ch uid sid w')"
  unfolding userLeft_def Let_def by (auto intro!: good_intros)

lemma good_load_profiles [good_intros]: "good w w' \<Longrightarrow> good w (loadProfilesByIdsIfMissing ids w')"
  unfolding loadProfilesByIdsIfMissing_def Let_def by (auto intro!: good_intros)

lemma sessions_map_wf: "obj_wf (getSessionsMapFromSessions ss)"
proof -
  have "obj_wf m \<Longrightarrow> obj_wf (fold (\<lambda>(sid, s) m. obj_set sid s m) ss m)" for m
    by (induction ss arbitrary: m) auto
  then show ?thesis by (simp add: getSessionsMapFromSessions_def)
qed

lemma good_load_call_state [good_intros]: "good w w' \<Longrightarrow> good w (loadCallState ch call w')"
proof -
  assume "good w w'"
  then have "good w (if rc_sessions call \<noteq> []
      then loadProfilesByIdsIfMissing (getUserIDsForSessions (session_users (rc_sessions call))) w' else w')"
    by (auto intro!: good_intros)
  moreover have "list_all plain (loadCallState_actions ch call w')"
    by (simp add: loadCallState_actions_def sessions_map_wf)
  ultimately show ?thesis unfolding loadCallState_def Let_def
    by (blast intro: good_trans good_batch)
qed

lemma good_incoming_checked [good_intros]:
  "good w w' \<Longrightarrow> good w (incoming_checked c ch callID callerID startAt w')"
  unfolding incoming_checked_def incoming_add_def Let_def by (auto intro!: good_intros)

lemma good_incoming [good_intros]: "good w w' \<Longrightarrow> good w (incomingCallOnChannel ch callID callerID startAt w')"
  unfolding incomingCallOnChannel_def by (auto split: option.split intro!: good_intros)

lemma good_resume [good_intros]: "good w w' \<Longrightarrow> good w (resume p res w')"
  by (cases p) (auto simp: incoming_add_def intro!: good_intros)

lemma good_generateId [good_intros]: "good w w' \<Longrightarrow> good w (snd (generateId w'))"
  by (auto simp: generateId_def intro!: good_intros)

lemma good_put_notice [good_intros]: "good w w' \<Longrightarrow> good w (put_notice n w')"
  unfolding put_notice_def
  by (erule good_trans, rule good_add) (auto simp: constant_defs)

lemma good_user_joined: "good w (handleUserJoined e uid sid w)"
proof -
  define w1 where "w1 = (if map_option cv_channelID (w_own w) = Some (ev_channel e) then
      (if sid = getCallsClientSessionID (world_client w) then emit (PlaySound ''join_self'') w
       else if uid \<noteq> g_currentUserId (w_host w) \<and> shouldPlayJoinUserSound (world_app w)
       then emit (PlaySound ''join_user'') w else w) else w)"
  define w2 where "w2 = loadProfilesByIdsIfMissing [uid]
      (if ringingEnabled (world_app w1) \<and> uid = g_currentUserId (w_host w)
       then emit StopRing (removeIncomingCallNotification (call_id_in (w_plugin w1) (ev_channel e)) w1) else w1)"
  have "good w w1" by (auto simp: w1_def intro!: good_intros)
  then have "good w w2" by (auto simp: w2_def intro!: good_intros)
  moreover have "good w2 (set_timeout JOINED_USER_NOTIFICATION_TIMEOUT
      (Dispatch (USER_JOINED_TIMEOUT (ev_channel e) uid)) (put_action (USER_JOINED (ev_channel e) uid sid) w2))"
    by (rule good_add) (simp_all add: constant_defs)
  ultimately have "good w (set_timeout JOINED_USER_NOTIFICATION_TIMEOUT
      (Dispatch (USER_JOINED_TIMEOUT (ev_channel e) uid)) (put_action (USER_JOINED (ev_channel e) uid sid) w2))"
    by (rule good_trans)
  then show ?thesis unfolding handleUserJoined_def Let_def w1_def w2_def .
qed

lemma good_user_reaction: "good w (handleUserReaction e uid sid emoji t w)"
  unfolding handleUserReaction_def Let_def
  by (auto intro!: good_add simp: constant_defs)

lemma good_caption: "good w (handleCaption ch uid sid txt w)"
  unfolding handleCaption_def Let_def
  by (auto simp: case_prod_beta constant_defs intro!: good_trans [OF good_generateId good_add])

lemma good_host_changed: "good w (handleCallHostChanged e h c w)"
proof -
  have "good w (put_action (CALL_HOST (ev_channel e) h (w_now w)) w)" by (rule good_put) simp
  then show ?thesis unfolding handleCallHostChanged_def Let_def
    by (auto simp: case_prod_beta split: option.split intro!: good_intros)
qed

lemma good_host_removed: "good w (handleHostRemoved ch sid uid c w)"
  unfolding handleHostRemoved_def Let_def
  by (auto simp: case_prod_beta split: option.split intro!: good_intros)

lemma good_lower_hand: "good w (handleHostLowerHand ch sid h c w)"
proof -
  let ?w1 = "emit (ClientCall CallUnraiseHand) w"
  let ?w2 = "snd (generateId ?w1)"
  let ?n = "\<lparr>hn_type = LowerHand, hn_callID = c, hn_noticeID = fst (generateId ?w1),
     hn_displayName = getUserDisplayName (obj_get (profilesInCurrentCallMap (world_app ?w1)) h) False,
     hn_userID = None\<rparr>"
  let ?x = "HOST_CONTROL_NOTICE_TIMEOUT_EVENT c (hn_noticeID ?n)"
  let ?ts = "[(w_now ?w2, Dispatch (HOST_CONTROL_NOTICE ?n)), (w_now ?w2 + HOST_CONTROL_NOTICE_TIMEOUT, Dispatch ?x)]"
  let ?w3 = "set_timeout HOST_CONTROL_NOTICE_TIMEOUT (Dispatch ?x)
     (set_timeout 0 (Dispatch (HOST_CONTROL_NOTICE ?n)) ?w2)"
  have "good w ?w2" by (intro good_intros) simp
  moreover have "good ?w2 ?w3"
    unfolding good_def
    by (rule exI [of _ "[]"], rule exI [of _ ?ts])
      (auto simp: runs_def tidy_def tidy_timer_def notices_paired_def constant_defs)
  ultimately have "good w ?w3" by (rule good_trans)
  then show ?thesis by (simp add: handleHostLowerHand_def Let_def case_prod_beta)
qed

lemma good_handle: "good w (handle ev w)"
proof (cases ev)
  case (EvCallStart e d)
  then show ?thesis
    by (auto simp: handleCallStart_def followThread_def Let_def split: option.split intro!: good_intros)
qed (auto simp: handleCallEnd_def handleCallState_def handleUserLeft_def handleUserMuted_def
    handleUserUnmuted_def handleUserVoiceOn_def handleUserVoiceOff_def handleUserScreenOn_def
    handleUserScreenOff_def handleUserRaisedHand_def handleUserUnraisedHand_def handleUserVideoOn_def
    handleUserVideoOff_def handleCallJobState_def handleUserDismissedNotification_def
    handleUserRemovedFromChannel_def handleHostMute_def handleHostScreenOff_def Let_def
    good_user_joined good_user_reaction good_caption good_host_changed good_host_removed good_lower_hand
    split: option.split intro!: good_intros)

section \<open>The loop\<close>

fun run_task :: "task \<Rightarrow> world \<Rightarrow> world" where
  "run_task (Dispatch a) = put_action a"
| "run_task (StopRinging c) = stopRingingForCall c"

definition without :: "nat \<Rightarrow> 'a list \<Rightarrow> 'a list" where
  "without i xs = take i xs @ drop (Suc i) xs"

definition can_fire :: "nat \<Rightarrow> world \<Rightarrow> bool" where
  "can_fire i w \<longleftrightarrow> i < length (w_timers w) \<and> fst (w_timers w ! i) \<le> w_now w \<and>
     list_all (\<lambda>t. fst (w_timers w ! i) \<le> fst t) (w_timers w)"

definition fire :: "nat \<Rightarrow> world \<Rightarrow> world" where
  "fire i w = run_task (snd (w_timers w ! i)) (w\<lparr>w_timers := without i (w_timers w)\<rparr>)"

definition settle :: "nat \<Rightarrow> channel option \<Rightarrow> world \<Rightarrow> world" where
  "settle i res w = resume (w_pending w ! i) res (w\<lparr>w_pending := without i (w_pending w)\<rparr>)"

text \<open>
  The steps of a window. \<open>other_code\<close> is any further code of it that makes a good move: the join
  flow, the hooks and the commands are shown to be such in their own theories.
\<close>

inductive world_step :: "world \<Rightarrow> world \<Rightarrow> bool" where
  event: "world_step w (handle ev w)"
| timer: "can_fire i w \<Longrightarrow> world_step w (fire i w)"
| promise: "i < length (w_pending w) \<Longrightarrow> world_step w (settle i res w)"
| user_action: "plain a \<Longrightarrow> world_step w (put_action a w)"
| user_ring: "world_step w (ringForCall hasSounds c sound w)"
| user_dismiss: "world_step w (dismissIncomingCallNotification ch c w)"
| clock: "w_now w \<le> t \<Longrightarrow> world_step w (w\<lparr>w_now := t\<rparr>)"
| outside: "world_step w (w\<lparr>w_host := h, w_own := c, w_opener := op\<rparr>)"
| other_code: "good w w' \<Longrightarrow> world_step w w'"

inductive_cases world_stepE: "world_step w w'"

definition started :: "world \<Rightarrow> bool" where
  "started w \<longleftrightarrow> w_plugin w = init_state \<and> w_timers w = [] \<and> w_pending w = []"

inductive world_reach :: "world \<Rightarrow> bool" where
  initial: "started w \<Longrightarrow> world_reach w"
| step: "world_reach w \<Longrightarrow> world_step w w' \<Longrightarrow> world_reach w'"

lemma without_set: "i < length xs \<Longrightarrow> set xs = insert (xs ! i) (set (without i xs))"
  by (subst id_take_nth_drop) (auto simp: without_def)

lemma without_sub: "set (without i xs) \<subseteq> set xs"
  by (auto simp: without_def dest: in_set_takeD in_set_dropD)

lemma stop_ringing_plugin: "w_plugin (stopRingingForCall c w) = dispatch (DID_RING_FOR_CALL c) (w_plugin w)"
  by (simp add: stopRingingForCall_def Let_def)

definition task_action :: "task \<Rightarrow> action" where
  "task_action t = (case t of Dispatch a \<Rightarrow> a | StopRinging c \<Rightarrow> DID_RING_FOR_CALL c)"

lemma fire_simps [simp]:
  "w_plugin (fire i w) = dispatch (task_action (snd (w_timers w ! i))) (w_plugin w)"
  "w_timers (fire i w) = without i (w_timers w)"
  "w_now (fire i w) = w_now w"
  by (cases "snd (w_timers w ! i)";
      simp add: fire_def task_action_def stop_ringing_plugin stopRingingForCall_def)+

text \<open>A step is a good move, the firing of a timer, or a change the store and timers do not see.\<close>

lemma world_step_cases:
  assumes "world_step w w'"
  obtains "good w w'"
    | i where "can_fire i w" "w' = fire i w"
    | t where "w_now w \<le> t" "w' = w\<lparr>w_now := t\<rparr>"
  using assms
proof cases
  case (event ev)
  then show thesis using that(1) good_handle by simp
next
  case (promise i res)
  have "good w (w\<lparr>w_pending := without i (w_pending w)\<rparr>)" by (rule good_same) simp_all
  then show thesis using that(1) promise by (auto simp: settle_def intro: good_resume)
next
  case (outside h c op)
  have "good w w'" unfolding outside by (rule good_same) simp_all
  then show thesis by (rule that(1))
qed (auto intro: that good_intros)

section \<open>Invariants of the loop\<close>

definition timers_ok :: "world \<Rightarrow> bool" where
  "timers_ok w \<longleftrightarrow> (\<forall>dt\<in>set (w_timers w).
     tidy_timer (w_timers w) dt \<and> fst dt \<le> w_now w + RING_LENGTH)"

lemma tidy_timer_mono: "tidy_timer ts dt \<Longrightarrow> set ts \<subseteq> set us \<Longrightarrow> tidy_timer us dt"
  by (fastforce simp: tidy_timer_def split: option.splits task.splits)

lemma timers_ok_good:
  assumes "good w w'" and ok: "timers_ok w"
  shows "timers_ok w'"
proof -
  obtain ts where t: "w_timers w' = w_timers w @ ts" "w_now w' = w_now w"
    "\<forall>dt\<in>set ts. tidy_timer ts dt \<and> fst dt \<le> w_now w + RING_LENGTH"
    using assms(1) by (auto simp: good_def runs_def tidy_def)
  have "tidy_timer us dt \<Longrightarrow> set us \<subseteq> set (w_timers w') \<Longrightarrow> tidy_timer (w_timers w') dt" for us dt
    by (rule tidy_timer_mono)
  then show ?thesis using ok t unfolding timers_ok_def by fastforce
qed

text \<open>The timer that fires is due first, so no timer that must outlive another goes before it.\<close>

lemma fire_keeps_later:
  assumes "can_fire i w" and "dt \<in> set (w_timers w)" and "fst dt < fst x" and "x \<in> set (w_timers w)"
  shows "x \<in> set (without i (w_timers w))"
proof -
  have "i < length (w_timers w)" "fst (w_timers w ! i) \<le> fst dt"
    using assms by (auto simp: can_fire_def list_all_iff)
  then show ?thesis using assms(3,4) without_set [of i "w_timers w"] by auto
qed

lemma timers_ok_fire:
  assumes "can_fire i w" and "timers_ok w"
  shows "timers_ok (fire i w)"
  unfolding timers_ok_def
proof
  fix dt
  assume "dt \<in> set (w_timers (fire i w))"
  then have dt: "dt \<in> set (w_timers w)" using without_sub by fastforce
  then have "tidy_timer (w_timers w) dt" "fst dt \<le> w_now w + RING_LENGTH"
    using assms(2) by (auto simp: timers_ok_def)
  moreover have "tidy_timer (w_timers w) dt \<Longrightarrow> tidy_timer (without i (w_timers w)) dt"
    using fire_keeps_later [OF assms(1) dt]
    unfolding tidy_timer_def by (fastforce split: option.splits task.splits)
  ultimately show "tidy_timer (w_timers (fire i w)) dt \<and> fst dt \<le> w_now (fire i w) + RING_LENGTH"
    by simp
qed

lemma world_timers_ok: "world_reach w \<Longrightarrow> timers_ok w"
proof (induction rule: world_reach.induct)
  case (initial w)
  then show ?case by (simp add: started_def timers_ok_def)
next
  case (step w w')
  from step.hyps(2) show ?case
  proof (cases rule: world_step_cases)
    case 1
    then show ?thesis using step.IH by (rule timers_ok_good)
  next
    case (2 i)
    then show ?thesis using step.IH by (simp add: timers_ok_fire)
  next
    case (3 t)
    then show ?thesis using step.IH by (fastforce simp: timers_ok_def)
  qed
qed

lemma dispatch_all_reachable: "reachable st \<Longrightarrow> list_all sound_action as \<Longrightarrow> reachable (dispatch_all as st)"
  by (induction as arbitrary: st) (auto intro: reachable.step sound_action_wf)

lemma task_action_sound: "dt \<in> set (w_timers w) \<Longrightarrow> timers_ok w \<Longrightarrow> sound_action (task_action (snd dt))"
  by (fastforce simp: timers_ok_def tidy_timer_def task_action_def split: task.splits)

lemma can_fire_in: "can_fire i w \<Longrightarrow> w_timers w ! i \<in> set (w_timers w)"
  by (simp add: can_fire_def)

text \<open>
  The store of a window only ever holds states the store's own transition relation reaches, so
  every invariant of the store holds whatever the order of the events.
\<close>

lemma world_store_reachable: "world_reach w \<Longrightarrow> reachable (w_plugin w)"
proof (induction rule: world_reach.induct)
  case (initial w)
  then show ?case by (simp add: started_def reachable.start)
next
  case (step w w')
  from step.hyps(2) show ?case
  proof (cases rule: world_step_cases)
    case 1
    then show ?thesis using step.IH
      by (auto simp: good_def runs_def tidy_def tidy_action_def list_all_iff intro!: dispatch_all_reachable)
  next
    case (2 i)
    then show ?thesis using step world_timers_ok [OF step.hyps(1)]
      by (auto intro!: reachable.step sound_action_wf task_action_sound can_fire_in)
  next
    case (3 t)
    then show ?thesis using step.IH by simp
  qed
qed

section \<open>Nothing outlives its timer\<close>

text \<open>
  \<open>live st x\<close>: the store holds something the action \<open>x\<close> is to remove. An action adds only
  what its own expiry removes, and the expiry does remove it.
\<close>

locale expiring =
  fixes live :: "plugin_state \<Rightarrow> action \<Rightarrow> bool"
  assumes live_init: "\<not> live init_state x"
    and live_step: "sound_action a \<Longrightarrow> live (dispatch a st) x \<Longrightarrow> live st x \<or> expiry_of a = Some x"
    and live_expires: "\<not> live (dispatch x st) x"
begin

lemma live_run:
  "list_all sound_action as \<Longrightarrow> live (dispatch_all as st) x \<Longrightarrow>
   live st x \<or> (\<exists>a\<in>set as. expiry_of a = Some x)"
  by (induction as arbitrary: st) (auto dest: live_step)

lemma expires_good:
  assumes "good w w'" and "live (w_plugin w') x"
    and "live (w_plugin w) x \<Longrightarrow> Dispatch x \<in> snd ` set (w_timers w)"
  shows "Dispatch x \<in> snd ` set (w_timers w')"
proof -
  obtain as ts where r: "runs w w' as ts" and t: "tidy (w_now w) as ts" and s: "list_all sound_action as"
    using assms(1) by (auto simp: good_def tidy_def tidy_action_def list_all_iff)
  have "live (w_plugin w) x \<or> (\<exists>a\<in>set as. expiry_of a = Some x)"
    using live_run [OF s] assms(2) r by (simp add: runs_def)
  moreover have "a \<in> set as \<Longrightarrow> expiry_of a = Some x \<Longrightarrow> Dispatch x \<in> snd ` set ts" for a
    using t by (fastforce simp: tidy_def tidy_action_def)
  ultimately show ?thesis using assms(3) r by (auto simp: runs_def image_Un)
qed

lemma expires_fire:
  assumes "can_fire i w" and "timers_ok w" and live: "live (w_plugin (fire i w)) x"
    and "live (w_plugin w) x \<Longrightarrow> Dispatch x \<in> snd ` set (w_timers w)"
  shows "Dispatch x \<in> snd ` set (w_timers (fire i w))"
proof -
  let ?t = "w_timers w ! i"
  have i: "?t \<in> set (w_timers w)" "i < length (w_timers w)"
    using assms(1) by (auto simp: can_fire_def)
  have ne: "task_action (snd ?t) \<noteq> x" using live live_expires by auto
  consider "live (w_plugin w) x" | "expiry_of (task_action (snd ?t)) = Some x"
    using live_step [OF task_action_sound [OF i(1) assms(2)]] live by auto
  then show ?thesis
  proof cases
    case 1
    then obtain d where "(d, Dispatch x) \<in> set (w_timers w)" using assms(4) by force
    moreover have "(d, Dispatch x) \<noteq> ?t" using ne by (cases ?t) (auto simp: task_action_def)
    ultimately show ?thesis using without_set [OF i(2)] by force
  next
    case 2
    then obtain a where "snd ?t = Dispatch a" "expiry_of a = Some x"
      by (auto simp: task_action_def split: task.splits)
    then obtain d' where "fst ?t < d'" "(d', Dispatch x) \<in> set (w_timers w)"
      using assms(2) i(1) by (fastforce simp: timers_ok_def tidy_timer_def)
    then have "(d', Dispatch x) \<in> set (without i (w_timers w))"
      using fire_keeps_later [OF assms(1) i(1)] by auto
    then show ?thesis by force
  qed
qed

lemma always_expires: "world_reach w \<Longrightarrow> live (w_plugin w) x \<Longrightarrow> Dispatch x \<in> snd ` set (w_timers w)"
proof (induction rule: world_reach.induct)
  case (initial w)
  then show ?case by (simp add: started_def live_init)
next
  case (step w w')
  from step.hyps(2) show ?case
  proof (cases rule: world_step_cases)
    case 1
    then show ?thesis using step by (blast intro: expires_good)
  next
    case (2 i)
    then show ?thesis using step expires_fire [OF 2(1) world_timers_ok [OF step.hyps(1)]] by simp
  next
    case (3 t)
    then show ?thesis using step by simp
  qed
qed

end

section \<open>The four short-lived slices\<close>

definition caption_live :: "plugin_state \<Rightarrow> action \<Rightarrow> bool" where
  "caption_live st x \<longleftrightarrow>
     (\<exists>ch sid c. caption_of (s_liveCaptions st) ch sid = Some c \<and>
        x = LIVE_CAPTION_TIMEOUT_EVENT ch sid (lc_caption_id c))"

definition reaction_live :: "plugin_state \<Rightarrow> action \<Rightarrow> bool" where
  "reaction_live st x \<longleftrightarrow>
     (\<exists>ch r. r \<in> set (channel_reactions (s_reactions st) ch) \<and>
        x = USER_REACTED_TIMEOUT ch (r_user_id r) (r_session_id r) (Some r))"

definition join_live :: "plugin_state \<Rightarrow> action \<Rightarrow> bool" where
  "join_live st x \<longleftrightarrow>
     (\<exists>ch uid. uid \<in> set (recently_joined (s_recentlyJoinedUsers st) ch) \<and> x = USER_JOINED_TIMEOUT ch uid)"

definition notices_of :: "plugin_state \<Rightarrow> string \<Rightarrow> host_control_notice list" where
  "notices_of st c = (case obj_get (s_hostControlNotices st) c of None \<Rightarrow> [] | Some ns \<Rightarrow> ns)"

definition notice_live :: "plugin_state \<Rightarrow> action \<Rightarrow> bool" where
  "notice_live st x \<longleftrightarrow>
     (\<exists>c n. n \<in> set (notices_of st c) \<and> x = HOST_CONTROL_NOTICE_TIMEOUT_EVENT c (hn_noticeID n))"

interpretation captions: expiring caption_live
proof
  show "\<not> caption_live init_state x" for x
    by (simp add: caption_live_def init_state_def caption_of_def)
  show "\<not> caption_live (dispatch x st) x" for x st
    by (auto simp: caption_live_def slice_simps simp del: liveCaptions.simps split: option.splits if_splits)
  show "caption_live (dispatch a st) x \<Longrightarrow> caption_live st x \<or> expiry_of a = Some x" for a st x
    by (cases a)
      (auto simp: caption_live_def slice_simps simp del: liveCaptions.simps(1,2)
        split: option.splits if_splits)
qed

lemma queue_sub: "set (queueReactions rs r) \<subseteq> insert r (set rs)"
  by (auto simp: queueReactions_def Let_def dest: in_set_dropD split: if_splits)

lemma reactions_step_sub:
  assumes "x \<in> set (channel_reactions (reactions st a) ch)"
  shows "x \<in> set (channel_reactions st ch) \<or> (\<exists>uid sid. a = USER_REACTED ch uid sid (Some x))"
  using assms queue_sub
  by (cases a)
    (fastforce simp: channel_reactions_def removeReaction_def split: option.splits if_splits)+

interpretation reaction_stream: expiring reaction_live
proof
  show "\<not> reaction_live init_state x" for x
    by (simp add: reaction_live_def init_state_def channel_reactions_def)
  show "\<not> reaction_live (dispatch x st) x" for x st
    by (auto simp: reaction_live_def reactions_timeout_stream simp del: reactions.simps)
  show "sound_action a \<Longrightarrow> reaction_live (dispatch a st) x \<Longrightarrow> reaction_live st x \<or> expiry_of a = Some x" for a st x
    unfolding reaction_live_def dispatch_slices by (fastforce dest: reactions_step_sub)
qed

interpretation joins: expiring join_live
proof
  show "\<not> join_live init_state x" for x
    by (simp add: join_live_def init_state_def recently_joined_def joined_list_def)
  show "\<not> join_live (dispatch x st) x" for x st
    by (auto simp: join_live_def slice_simps simp del: recentlyJoinedUsers.simps split: if_splits)
  have "recently_joined [] c = []" for c by (simp add: recently_joined_def joined_list_def)
  then show "join_live (dispatch a st) x \<Longrightarrow> join_live st x \<or> expiry_of a = Some x" for a st x
    by (cases a)
      (auto simp: join_live_def slice_simps simp del: recentlyJoinedUsers.simps(2-5) split: if_splits)
qed

lemma notices_of_step:
  assumes "n \<in> set (notices_of (dispatch a st) c)"
  shows "n \<in> set (notices_of st c) \<or> (a = HOST_CONTROL_NOTICE n \<and> hn_callID n = c)"
  using assms
  by (cases a)
    (auto simp: notices_of_def dispatch_notices addHostControlNotice_def removeHostControlNotice_def
      split: option.splits sum.splits if_splits)

lemma notice_removed:
  "n \<in> set (notices_of (dispatch (HOST_CONTROL_NOTICE_TIMEOUT_EVENT c i) st) c) \<Longrightarrow> hn_noticeID n \<noteq> i"
  by (auto simp: notices_of_def dispatch_notices removeHostControlNotice_def split: option.splits sum.splits)

interpretation notices: expiring notice_live
proof
  show "\<not> notice_live init_state x" for x
    by (simp add: notice_live_def init_state_def notices_of_def)
  show "\<not> notice_live (dispatch x st) x" for x st
    by (auto simp: notice_live_def dest: notice_removed)
  show "notice_live (dispatch a st) x \<Longrightarrow> notice_live st x \<or> expiry_of a = Some x" for a st x
    unfolding notice_live_def by (fastforce dest: notices_of_step)
qed

section \<open>No timer throws\<close>

definition notices_ready :: "world \<Rightarrow> bool" where
  "notices_ready w \<longleftrightarrow>
     (\<forall>d c n. (d, Dispatch (HOST_CONTROL_NOTICE_TIMEOUT_EVENT c n)) \<in> set (w_timers w) \<longrightarrow>
        obj_get (s_hostControlNotices (w_plugin w)) c \<noteq> None \<or>
        (\<exists>h d'. d' < d \<and> hn_callID h = c \<and> (d', Dispatch (HOST_CONTROL_NOTICE h)) \<in> set (w_timers w)))"

lemma dispatch_keeps_notices:
  "obj_get (s_hostControlNotices st) c \<noteq> None \<Longrightarrow> obj_get (s_hostControlNotices (dispatch a st)) c \<noteq> None"
  using hostControlNotices_keeps_key by (auto simp: dispatch_notices split: sum.splits)

lemma dispatch_adds_notices:
  "obj_get (s_hostControlNotices (dispatch (HOST_CONTROL_NOTICE h) st)) (hn_callID h) \<noteq> None"
  by (simp add: dispatch_notices)

lemma dispatch_all_keeps_notices:
  "obj_get (s_hostControlNotices st) c \<noteq> None \<Longrightarrow> obj_get (s_hostControlNotices (dispatch_all as st)) c \<noteq> None"
  by (induction as arbitrary: st) (simp_all add: dispatch_keeps_notices del: not_None_eq)

lemma dispatch_all_adds_notices:
  "HOST_CONTROL_NOTICE h \<in> set as \<Longrightarrow> obj_get (s_hostControlNotices (dispatch_all as st)) (hn_callID h) \<noteq> None"
proof (induction as arbitrary: st)
  case (Cons a as)
  then show ?case
    using dispatch_all_keeps_notices [OF dispatch_adds_notices, of as h st] by auto
qed simp

lemma notices_ready_good:
  assumes "good w w'" and "notices_ready w"
  shows "notices_ready w'"
proof -
  obtain as ts where r: "runs w w' as ts" and p: "notices_paired as ts"
    using assms(1) by (auto simp: good_def)
  show ?thesis unfolding notices_ready_def
  proof (intro allI impI)
    fix d :: int and c n
    let ?x = "(d, Dispatch (HOST_CONTROL_NOTICE_TIMEOUT_EVENT c n))"
    assume "?x \<in> set (w_timers w')"
    then consider "?x \<in> set (w_timers w)" | "?x \<in> set ts" using r by (auto simp: runs_def)
    then show "obj_get (s_hostControlNotices (w_plugin w')) c \<noteq> None \<or>
        (\<exists>h d'. d' < d \<and> hn_callID h = c \<and> (d', Dispatch (HOST_CONTROL_NOTICE h)) \<in> set (w_timers w'))"
    proof cases
      case 1
      then show ?thesis using assms(2) r dispatch_all_keeps_notices
        unfolding notices_ready_def runs_def by (metis UnCI set_append)
    next
      case 2
      then show ?thesis using p r dispatch_all_adds_notices
        unfolding notices_paired_def runs_def by (metis UnCI set_append)
    qed
  qed
qed

lemma notices_ready_fire:
  assumes "can_fire i w" and "notices_ready w"
  shows "notices_ready (fire i w)"
  unfolding notices_ready_def
proof (intro allI impI)
  fix d c n
  let ?t = "w_timers w ! i"
  assume "(d, Dispatch (HOST_CONTROL_NOTICE_TIMEOUT_EVENT c n)) \<in> set (w_timers (fire i w))"
  then have "(d, Dispatch (HOST_CONTROL_NOTICE_TIMEOUT_EVENT c n)) \<in> set (w_timers w)"
    using without_sub by fastforce
  then consider "obj_get (s_hostControlNotices (w_plugin w)) c \<noteq> None"
    | h d' where "d' < d" "hn_callID h = c" "(d', Dispatch (HOST_CONTROL_NOTICE h)) \<in> set (w_timers w)"
    using assms(2) unfolding notices_ready_def by blast
  then show "obj_get (s_hostControlNotices (w_plugin (fire i w))) c \<noteq> None \<or>
      (\<exists>h d'. d' < d \<and> hn_callID h = c \<and> (d', Dispatch (HOST_CONTROL_NOTICE h)) \<in> set (w_timers (fire i w)))"
  proof cases
    case 1
    then show ?thesis using dispatch_keeps_notices by simp
  next
    case (2 h d')
    show ?thesis
    proof (cases "?t = (d', Dispatch (HOST_CONTROL_NOTICE h))")
      case True
      then show ?thesis using 2(2) dispatch_adds_notices [of h "w_plugin w"] by (simp add: task_action_def)
    next
      case False
      then show ?thesis using 2 assms(1) without_set [of i "w_timers w"]
        by (auto simp: can_fire_def)
    qed
  qed
qed

lemma world_notices_ready: "world_reach w \<Longrightarrow> notices_ready w"
proof (induction rule: world_reach.induct)
  case (initial w)
  then show ?case by (simp add: started_def notices_ready_def)
next
  case (step w w')
  from step.hyps(2) show ?case
  proof (cases rule: world_step_cases)
    case 1
    then show ?thesis using step.IH by (rule notices_ready_good)
  next
    case (2 i)
    then show ?thesis using step.IH by (simp add: notices_ready_fire)
  next
    case (3 t)
    then show ?thesis using step.IH by (simp add: notices_ready_def)
  qed
qed

end
