(* ===== verification/Samples.thy ===== *)
theory Samples
  imports Event_Loop
begin

text \<open>
  Concrete states the witnesses are evaluated on: a user \<open>u1\<close> and a user \<open>u2\<close> with profiles,
  a direct channel \<open>ch\<close>, and a window in the call of that channel.
\<close>

definition sample_profile :: "string \<Rightarrow> string \<Rightarrow> profile" where
  "sample_profile i n = \<lparr>p_id = i, p_username = n, p_first_name = '''', p_last_name = ''''\<rparr>"

definition sample_channel :: channel where
  "sample_channel = \<lparr>c_id = ''ch'', c_type = ''D'', c_name = ''u1__u2'', c_display_name = ''u2'', c_team_id = ''''\<rparr>"

definition sample_host :: host_state where
  "sample_host = \<lparr>g_currentUserId = ''u1'', g_currentChannelId = ''ch'', g_currentTeamId = ''t'',
     g_isAdmin = False, g_channels = [(''ch'', sample_channel)],
     g_profiles = [(''u1'', sample_profile ''u1'' ''ann''), (''u2'', sample_profile ''u2'' ''bob'')],
     g_teams = [], g_statuses = [], g_channelRoles = [], g_teamRoles = [], g_memberships = [],
     g_licenseCloud = None, g_licenseSku = None, g_subscription = None\<rparr>"

definition sample_client :: client_view where
  "sample_client = \<lparr>cv_channelID = ''ch'', cv_sessionID = Some ''s1'', cv_initTime = 0\<rparr>"

text \<open>A window that has just been opened, and one whose client is in the call of \<open>ch\<close>.\<close>

definition sample_start :: world where
  "sample_start = \<lparr>w_plugin = init_state, w_host = sample_host, w_opener = NoOpener, w_own = None,
     w_now = 0, w_genId = (\<lambda>n. ''id''), w_idCount = 0, w_timers = [], w_pending = [], w_effects = [],
     w_promptDismissedAt = None\<rparr>"

definition sample_joined :: world where
  "sample_joined = sample_start\<lparr>w_host := sample_host, w_own := Some sample_client, w_opener := NoOpener\<rparr>"

definition ev_ch :: envelope where
  "ev_ch = \<lparr>e_channelID = Some ''ch'', e_broadcast_channel = '''', e_broadcast_user = ''''\<rparr>"

lemma sample_start_reach: "world_reach sample_start"
  by (rule world_reach.initial) (simp add: sample_start_def started_def)

lemma sample_joined_reach: "world_reach sample_joined"
  unfolding sample_joined_def
  by (rule world_reach.step [OF sample_start_reach world_step.outside])

text \<open>A window five seconds after the host of its call has changed to \<open>u2\<close>.\<close>

definition sample_notice :: world where
  "sample_notice = (handle (EvCallHostChanged ev_ch ''u2'' ''c1'') sample_joined)\<lparr>w_now := 5000\<rparr>"

lemma sample_notice_reach: "world_reach sample_notice"
proof -
  have "world_reach (handle (EvCallHostChanged ev_ch ''u2'' ''c1'') sample_joined)"
    by (rule world_reach.step [OF sample_joined_reach world_step.event])
  moreover have "w_now (handle (EvCallHostChanged ev_ch ''u2'' ''c1'') sample_joined) \<le> 5000"
    by code_simp
  ultimately show ?thesis unfolding sample_notice_def
    by (rule world_reach.step [OF _ world_step.clock])
qed

text \<open>The same window after \<open>u2\<close> has reacted, spoken and joined.\<close>

definition sample_busy :: world where
  "sample_busy =
     handle (EvCaption ''ch'' ''u2'' ''s2'' ''hello'')
       (handle (EvUserReacted ev_ch ''u2'' ''s2'' ''smile'' 7)
         (handle (EvUserJoined ev_ch ''u2'' ''s2'') sample_notice))"

lemma sample_busy_reach: "world_reach sample_busy"
  unfolding sample_busy_def
  by (intro world_reach.step [OF _ world_step.event] sample_notice_reach)

end
