(* ===== verification/Widget_Properties.thy ===== *)
theory Widget_Properties
  imports Widget_Loop Samples
begin

text \<open>
  What the widget promises: menus that exclude each other, listeners that go with it, a drag that
  stays on the page, buttons that follow the store and ask the client for the opposite of what
  they show.
\<close>

section \<open>A sample widget\<close>

definition sample_props :: widget_props where
  "sample_props = mapStateToProps (\<lambda>a b. 0) ''/t/channels/ch'' False (world_app sample_joined)"

definition sample_widget :: widget where
  "sample_widget =
     \<lparr>wg_props = sample_props, wg_react = mount_state widget_state_initial, wg_batched = False, wg_locked = False,
      wg_client = Some \<lparr>wc_channelID = ''ch'', wc_sessionID = Some ''s1'', wc_audioInput = None,
        wc_audioOutput = None, wc_videoInput = None, wc_voiceTracks = [4], wc_remoteScreen = None, wc_localScreen = None\<rparr>,
      wg_desktop = None, wg_api = [], wg_callData = Some False, wg_mac = False, wg_shareAudio = False,
      wg_basename = [], wg_now = 0, wg_closedWindows = [], wg_subscribed = False, wg_els = [],
      wg_dpr = 1, wg_prevDpr = 0, wg_listeners = [], wg_unsubscribers = [], wg_awaits = [], wg_out = []\<rparr>"

lemma sample_widget_constructed: "constructed sample_widget"
  by (simp add: constructed_def sample_widget_def)

section \<open>Menus and listeners\<close>

text \<open>
  C10. Whatever happens to a widget after it has mounted, in any order, between two events its
  state has settled, at most one of the device menus is open, and the settings menu and the list
  of participants are not open together.
\<close>

theorem widget_menus_exclude:
  assumes "constructed w"
  shows "let w' = fold (widget_step cmp thr) es (by_react componentDidMount w) in
    rc_state (wg_react w') = rc_next (wg_react w') \<and>
    length (filter (\<lambda>b. b) [st_showInputMenu (this_state w'), st_showOutputMenu (this_state w'),
                            st_showVideoMenu (this_state w')]) \<le> 1 \<and>
    \<not> (st_showMenu (this_state w') \<and> st_showParticipantsList (this_state w'))"
proof -
  have "widget_inv (by_react componentDidMount w)"
    using assms by (intro by_react_inv orderly_mount constructed_inv)
  then have "widget_inv (fold (widget_step cmp thr) es (by_react componentDidMount w))"
    by (intro menus_machine.run_inv) (simp_all add: list_all_iff)
  then show ?thesis
    by (auto simp: widget_inv_def quiet_def settled_iff menus_exclusive_def Let_def)
qed

theorem widget_menus_exclude_witness:
  "let w' = fold (widget_step (\<lambda>a b. 0) 0) [ClickMenu, ClickDevices AudioInputType, ClickDevices VideoInputType, ClickParticipants]
        (by_react componentDidMount sample_widget) in
    rc_state (wg_react w') = rc_next (wg_react w') \<and>
    length (filter (\<lambda>b. b) [st_showInputMenu (this_state w'), st_showOutputMenu (this_state w'),
                            st_showVideoMenu (this_state w')]) \<le> 1 \<and>
    \<not> (st_showMenu (this_state w') \<and> st_showParticipantsList (this_state w'))"
  by (rule widget_menus_exclude [OF sample_widget_constructed])

lemma leftover_listener:
  assumes "A - {m} = M - {m}" "M \<subseteq> U \<union> {a, b, m}" "m \<notin> U" "m \<noteq> a" "m \<noteq> b"
  shows "A - U - {a, b} = (if m \<in> A then {m} else {})"
  using assms by auto

text \<open>
  When the widget unmounts it leaves no listener on the page, except that of the pointer when
  the last drag event before was the start of a drag.
\<close>

theorem widget_unmount_listeners:
  assumes "constructed w"
  shows "set (wg_listeners (componentWillUnmount
      (fold (widget_step cmp thr) es (by_react componentDidMount w)))) =
    (if drag_held es False then {''document:mousemove''} else {})"
proof -
  let ?m = "by_react componentDidMount w"
  let ?w = "fold (widget_step cmp thr) es ?m"
  have reg: "registered ?m" using assms by (rule mount_registered)
  have nodrag: "''document:mousemove'' \<notin> set (wg_listeners ?m)"
    using assms by (auto simp: constructed_def by_react_def componentDidMount_def attachVoiceTracks_def
        set_screen_stream_def Let_def split: option.splits)
  have unsub: "''document:mousemove'' \<notin> set (wg_unsubscribers ?m)"
    using assms by (auto simp: constructed_def by_react_def componentDidMount_def attachVoiceTracks_def
        set_screen_stream_def Let_def split: option.splits)
  have run: "set (wg_listeners ?w) - {''document:mousemove''} = set (wg_listeners ?m) - {''document:mousemove''}"
    "wg_unsubscribers ?w = wg_unsubscribers ?m"
    "(''document:mousemove'' \<in> set (wg_listeners ?w)) = drag_held es False"
    using run_listeners [OF refl refl, of ?m False cmp thr es] nodrag by simp_all
  have "set (wg_listeners (componentWillUnmount ?w)) =
      set (wg_listeners ?w) - set (wg_unsubscribers ?m) - {''observer:widget'', ''observer:menu''}"
    using run(2) by (auto simp: componentWillUnmount_def fold_remove_listener Let_def)
  also have "\<dots> = (if ''document:mousemove'' \<in> set (wg_listeners ?w) then {''document:mousemove''} else {})"
    by (rule leftover_listener [OF run(1) reg [unfolded registered_def] unsub]) simp_all
  finally show ?thesis by (simp add: run(3))
qed

theorem widget_unmount_listeners_witness:
  "set (wg_listeners (componentWillUnmount
      (fold (widget_step (\<lambda>a b. 0) 0) [ClickMenu, DragStart 3 4] (by_react componentDidMount sample_widget)))) =
    {''document:mousemove''}"
  using widget_unmount_listeners [OF sample_widget_constructed, of "\<lambda>a b. 0" 0 "[ClickMenu, DragStart 3 4]"] by simp

section \<open>Dragging\<close>

text \<open>Where the widget is: its place without a shift, moved by the shift of the state.\<close>

definition rect_at :: "rect \<Rightarrow> dragging_state \<Rightarrow> rect" where
  "rect_at b d = \<lparr>rc_left = rc_left b + dg_x d, rc_top = rc_top b + dg_y d,
     rc_right = rc_right b + dg_x d, rc_bottom = rc_bottom b + dg_y d\<rparr>"

definition on_page :: "rat \<times> rat \<Rightarrow> rect \<Rightarrow> bool" where
  "on_page body r =
     (0 \<le> rc_left r \<and> rc_right r \<le> fst body \<and> rc_left r \<le> rc_right r \<and>
      0 \<le> rc_top r \<and> rc_bottom r \<le> snd body \<and> rc_top r \<le> rc_bottom r)"

definition drag_to :: "rect \<Rightarrow> rat \<times> rat \<Rightarrow> rat \<times> rat \<Rightarrow> widget \<Rightarrow> widget" where
  "drag_to base body p w =
     by_listener (onMouseMove (fst p) (snd p) (Some (rect_at base (st_dragging (this_state w)))) body) w"

lemma clamp_shift_eq:
  assumes "0 \<le> lo" "hi \<le> extent" "lo \<le> hi"
  shows "clamp_shift lo hi extent old new = max (old - lo) (min (old + (extent - hi)) new)"
  using assms by (auto simp: clamp_shift_def Let_def abs_if max_def min_def)

lemma drag_to_state:
  assumes "dg_dragging (st_dragging (this_state w))"
  shows "st_dragging (this_state (drag_to base body p w)) =
    (let d = st_dragging (this_state w); r = rect_at base d;
         x = clamp_shift (rc_left r) (rc_right r) (fst body) (dg_x d) (fst p - dg_initX d);
         y = clamp_shift (rc_top r) (rc_bottom r) (snd body) (dg_y d) (snd p - dg_initY d)
     in d\<lparr>dg_x := x, dg_y := y, dg_offX := x, dg_offY := y\<rparr>)"
  using assms by (simp add: drag_to_def by_listener_def onMouseMove_def set_dragging_def Let_def)

lemma drag_to_idle: "\<not> dg_dragging (st_dragging (this_state w)) \<Longrightarrow> st_dragging (this_state (drag_to base body p w)) = st_dragging (this_state w)"
  by (simp add: drag_to_def by_listener_def onMouseMove_def Let_def)

lemma drag_to_on_page:
  assumes "on_page body (rect_at base (st_dragging (this_state w)))"
  shows "on_page body (rect_at base (st_dragging (this_state (drag_to base body p w))))"
proof (cases "dg_dragging (st_dragging (this_state w))")
  case False
  then show ?thesis using assms by (simp add: drag_to_idle)
next
  case True
  then show ?thesis
    using assms by (simp add: drag_to_state on_page_def rect_at_def clamp_shift_eq Let_def max_def min_def)
qed

lemma drags_on_page:
  "on_page body (rect_at base (st_dragging (this_state w))) \<Longrightarrow>
     on_page body (rect_at base (st_dragging (this_state (fold (drag_to base body) ps w))))"
  by (induction ps arbitrary: w) (simp_all add: drag_to_on_page)

text \<open>
  C18. A widget that is on the page stays on it through any sequence of pointer moves, and each
  move of a drag puts it where the pointer is, or as far in that direction as the page allows.
\<close>

theorem drag_stays_on_page:
  assumes "on_page body (rect_at base (st_dragging (this_state w)))"
  shows "on_page body (rect_at base (st_dragging (this_state (fold (drag_to base body) ps w)))) \<and>
    (let w' = fold (drag_to base body) ps w; d = st_dragging (this_state w');
         d' = st_dragging (this_state (drag_to base body p w'))
     in dg_dragging d \<longrightarrow>
          dg_x d' = max (- rc_left base) (min (fst body - rc_right base) (fst p - dg_initX d)) \<and>
          dg_y d' = max (- rc_top base) (min (snd body - rc_bottom base) (snd p - dg_initY d)))"
proof -
  have op: "on_page body (rect_at base (st_dragging (this_state (fold (drag_to base body) ps w))))"
    using assms by (rule drags_on_page)
  then show ?thesis
    by (auto simp: drag_to_state on_page_def rect_at_def clamp_shift_eq Let_def)
qed

definition sample_rect :: rect where
  "sample_rect = \<lparr>rc_left = 12, rc_top = 500, rc_right = 260, rc_bottom = 588\<rparr>"

theorem drag_stays_on_page_witness:
  "on_page (800, 600) (rect_at sample_rect (st_dragging (this_state
     (fold (drag_to sample_rect (800, 600)) [(- 50, 700), (900, 20)] (widget_step (\<lambda>a b. 0) 0 (DragStart 30 510) sample_widget)))))"
proof -
  have "on_page (800, 600) (rect_at sample_rect (st_dragging (this_state (widget_step (\<lambda>a b. 0) 0 (DragStart 30 510) sample_widget))))"
    by (simp add: on_page_def rect_at_def sample_rect_def sample_widget_def by_react_def onMouseDown_def
        set_dragging_def Let_def widget_state_initial_def dragging_default_def)
  from drag_stays_on_page [OF this] show ?thesis by blast
qed

section \<open>Buttons, store and client\<close>

text \<open>What a logged call does to the client of \<open>Calls_Client\<close>.\<close>

fun perform :: "widget_call \<Rightarrow> calls_client \<Rightarrow> calls_client" where
  "perform WMute c = mute c"
| "perform WUnmute c = start (unmute c)"
| "perform WRaiseHand c = raiseHand c"
| "perform WUnraiseHand c = unraiseHand c"
| "perform WUnshareScreen c = unshareScreen c"
| "perform (WShareScreen _ _) c = start (shareScreen c)"
| "perform WStartVideo c = start (startVideo c)"
| "perform WStopVideo c = stopVideo c"
| "perform WDisconnect c = disconnect None c"
| "perform (WSetAudioInput d) c = start (setAudioInputDevice d True c)"
| "perform (WSetAudioOutput d) c = setAudioOutputDevice d True c"
| "perform (WSetVideoInput d) c = start (setVideoInputDevice d c)"
| "perform _ c = c"

definition with_store :: "(string \<Rightarrow> string \<Rightarrow> int) \<Rightarrow> string \<Rightarrow> app \<Rightarrow> widget \<Rightarrow> widget" where
  "with_store cmp url a w = w\<lparr>wg_props := mapStateToProps cmp url (wp_global (wg_props w)) a\<rparr>"

lemma isMuted_store:
  "isMuted (with_store cmp url a w) =
     (case sessionForCurrentCall a of None \<Rightarrow> True | Some s \<Rightarrow> unmuted s \<noteq> Some True)"
  by (simp add: isMuted_def with_store_def mapStateToProps_def Let_def)

lemma own_session_after:
  assumes "client a = Some c" "cv_channelID c \<noteq> []" "cv_sessionID c = Some sid"
  shows "sessionForCurrentCall (a\<lparr>plugin := dispatch act (plugin a)\<rparr>) =
    session_of (sessions (s_sessions (plugin a)) act) (cv_channelID c) sid"
  using assms by (simp add: sessionForCurrentCall_def sessionsInCalls_def channelIDForCurrentCall_def
      getCallsClientChannelID_def getCallsClientSessionID_def str_or_def)


definition sample_talker :: calls_client where
  "sample_talker =
     (cl_new \<lparr>cf_enableVideo = False, cf_enableAV1 = False, cf_simulcast = False, cf_dcSignaling = False\<rparr> None None None None)
       \<lparr>cl_media := \<lparr>md_tracks = [\<lparr>tr_kind = AudioKind, tr_enabled = True, tr_live = True, tr_onended = NoHandler\<rparr>], md_streams = [[0]]\<rparr>,
        cl_audioTrack := Some 0, cl_stream := Some 0, cl_peer := True, cl_ws := True\<rparr>"


text \<open>
  Leaving the call from the menu closes the pop-out of the widget; leaving it with the keyboard
  shortcut disconnects without closing it, because outside React the state has already forgotten
  the window when the handler looks for it.
\<close>

theorem leave_closes_popout_by_menu_only:
  assumes "quiet w" "st_expandedViewWindow (this_state w) = Some win" "wg_client w \<noteq> None"
    and "wp_show (wg_props w)" "keyToAction (wg_mac w) ''widget'' ev = Inr (Val LEAVE_CALL, True)"
  shows "wg_out (widget_step cmp thr ClickDisconnect w) = wg_out w @ [WCloseWindow win, WDisconnect] \<and>
    wg_out (widget_step cmp thr (KeyDown ev) w) = wg_out w @ [WPreventDefault, WDisconnect] \<and>
    st_expandedViewWindow (this_state (widget_step cmp thr (KeyDown ev) w)) = None"
  using assms
  by (auto simp: by_react_def by_listener_def onDisconnectClick_def handleKBShortcuts_def shortcut_names Let_def)

definition sample_leave_key :: key_event where
  "sample_leave_key = \<lparr>ke_key = ''L'', ke_code = ''KeyL'', ke_meta = False, ke_ctrl = True, ke_shift = True, ke_alt = False\<rparr>"

definition sample_expanded :: widget where
  "sample_expanded = sample_widget\<lparr>wg_react := mount_state (widget_state_initial\<lparr>st_expandedViewWindow := Some 7\<rparr>)\<rparr>"

theorem leave_closes_popout_witness:
  "wg_out (widget_step (\<lambda>a b. 0) 0 ClickDisconnect sample_expanded) = [WCloseWindow 7, WDisconnect] \<and>
   wg_out (widget_step (\<lambda>a b. 0) 0 (KeyDown sample_leave_key) sample_expanded) = [WPreventDefault, WDisconnect]"
proof -
  have q: "quiet sample_expanded" by (simp add: quiet_def sample_expanded_def sample_widget_def settled_iff)
  have s: "st_expandedViewWindow (this_state sample_expanded) = Some 7" "wg_client sample_expanded \<noteq> None"
    by (simp_all add: sample_expanded_def sample_widget_def)
  have p: "wp_show (wg_props sample_expanded)" by code_simp
  have k: "keyToAction (wg_mac sample_expanded) ''widget'' sample_leave_key = Inr (Val LEAVE_CALL, True)" by code_simp
  have o: "wg_out sample_expanded = []" by (simp add: sample_expanded_def sample_widget_def)
  show ?thesis
    using leave_closes_popout_by_menu_only [OF q s p k, of "\<lambda>a b. 0" 0] o by simp
qed

end
