(* ===== verification/Expanded_View.thy ===== *)
theory Expanded_View
  imports Call_Alerts Shortcuts
begin

text \<open>
  The expanded view (\<open>components/expanded_view/component.tsx\<close>), shown inside the application or
  in a pop-out window whose opener holds the client: its state, its listeners and its handlers,
  push-to-talk among them. As in \<open>Call_Widget\<close>, \<open>vw_out\<close> logs what a handler calls
  outside, \<open>vw_awaits\<close> holds the continuations, and \<open>vw_batched\<close> says whether React runs
  the handler.
\<close>

section \<open>State\<close>

record view_client =
  vc_channelID :: string
  vc_inputs :: "device list"
  vc_videoDevices :: "device list"
  vc_audioTrack :: bool
  vc_localVideo :: "nat option"
  vc_remoteVideo :: "nat option"
  vc_localScreen :: "nat option"
  vc_remoteScreen :: "nat option"

record view_props =
  vp_show :: bool
  vp_currentUserID :: string
  vp_currentTeamID :: string
  vp_sessions :: "user_session list"
  vp_otherSessions :: "user_session list"
  vp_currentSession :: "user_session option"
  vp_screenSharingSession :: "user_session option"
  vp_callHostID :: string
  vp_isRecording :: bool
  vp_recordingsEnabled :: bool
  vp_channel :: "channel option"
  vp_channelTeam :: "(string \<times> string) option"
  vp_connectedDMUser :: "profile option"
  vp_threadID :: string
  vp_rhsSelectedThreadID :: "string option"
  vp_isRhsOpen :: bool
  vp_rhsSupported :: bool
  vp_allowScreenSharing :: bool
  vp_hostControlsAllowed :: bool
  vp_isAdmin :: bool
  vp_enableVideo :: bool

datatype view_mode = Grid | Speaker

record view_state =
  vs_screenStream :: "nat option"
  vs_selfVideoStream :: "nat option"
  vs_otherVideoStream :: "nat option"
  vs_showParticipantsList :: bool
  vs_showLiveCaptions :: bool
  vs_alerts :: call_alerts
  vs_removeConfirmation :: "(string \<times> string) option"
  vs_viewState :: view_mode

definition view_state_initial :: view_state where
  "view_state_initial =
     \<lparr>vs_screenStream = None, vs_selfVideoStream = None, vs_otherVideoStream = None,
      vs_showParticipantsList = False, vs_showLiveCaptions = False, vs_alerts = CallAlertStatesDefault,
      vs_removeConfirmation = None, vs_viewState = Speaker\<rparr>"

datatype (plugins only: code size) view_call =
    VMute | VUnmute | VRaiseHand | VUnraiseHand | VStartVideo | VStopVideo | VUnshareScreen
  | VGetScreenStream bool | VSetScreenStream nat | VDisconnect
  | VCloseWindow | VHideExpandedView | VDesktop string "string list" | VLegacy string "string list"
  | VStartRecording string | VStopRecordingModal string
  | VPromptDismissed string int | VOpenerPromptDismissed string int | VOpenerMissingScreen bool
  | VHostRemove "string option" "string option"
  | VSelectRhsPost string | VCloseRhs | VPushHistory string | VPrefetchThread string
  | VSendWs string string | VAddFirstConnect | VRemoveFirstConnect
  | VToggleEmoji | VPreventDefault | VForceUpdate | VTitle string | VLogErr string

datatype view_await = AwaitStream | AwaitSet nat

record view =
  vw_props :: view_props
  vw_react :: "view_state react"
  vw_batched :: bool
  vw_pushToTalk :: bool
  vw_locked :: bool
  vw_opener :: bool
  vw_openerActions :: bool
  vw_openerDesktop :: bool
  vw_openerMissing :: bool
  vw_ownClient :: bool
  vw_client :: "view_client option"
  vw_context :: "bool option"
  vw_api :: "string list"
  vw_mac :: bool
  vw_shareAudio :: bool
  vw_now :: int
  vw_trackId :: "nat option"
  vw_title :: string
  vw_listeners :: "string list"
  vw_awaits :: "view_await list"
  vw_out :: "view_call list"

abbreviation view_now :: "view \<Rightarrow> view_state" where
  "view_now v \<equiv> rc_state (vw_react v)"

definition v_set :: "(view_state \<Rightarrow> view_state) \<Rightarrow> view \<Rightarrow> view" where
  "v_set u v = v\<lparr>vw_react := merge_state (vw_batched v) u (vw_react v)\<rparr>"

definition v_out :: "view_call \<Rightarrow> view \<Rightarrow> view" where
  "v_out c v = v\<lparr>vw_out := vw_out v @ [c]\<rparr>"

text \<open>\<open>getCallsClient()?.method()\<close>.\<close>

definition v_client :: "view_call \<Rightarrow> view \<Rightarrow> view" where
  "v_client c v = (if vw_client v = None then v else v_out c v)"

definition v_await :: "view_await \<Rightarrow> view \<Rightarrow> view" where
  "v_await k v = v\<lparr>vw_awaits := vw_awaits v @ [k]\<rparr>"

definition v_by_react :: "(view \<Rightarrow> view) \<Rightarrow> view \<Rightarrow> view" where
  "v_by_react h v =
     (let v' = h (v\<lparr>vw_batched := True\<rparr>) in v'\<lparr>vw_batched := False, vw_react := settle_state (vw_react v')\<rparr>)"

definition v_by_listener :: "(view \<Rightarrow> view) \<Rightarrow> view \<Rightarrow> view" where
  "v_by_listener h v = h (v\<lparr>vw_batched := False\<rparr>)"

definition v_alerts :: "(call_alerts \<Rightarrow> call_alerts) \<Rightarrow> view \<Rightarrow> view" where
  "v_alerts f v = (let al = f (vs_alerts (view_now v)) in v_set (\<lambda>s. s\<lparr>vs_alerts := al\<rparr>) v)"

lemma v_set_simps [simp]:
  "vw_props (v_set u v) = vw_props v"
  "vw_batched (v_set u v) = vw_batched v"
  "vw_pushToTalk (v_set u v) = vw_pushToTalk v"
  "vw_locked (v_set u v) = vw_locked v"
  "vw_client (v_set u v) = vw_client v"
  "vw_opener (v_set u v) = vw_opener v"
  "vw_openerMissing (v_set u v) = vw_openerMissing v"
  "vw_openerActions (v_set u v) = vw_openerActions v"
  "vw_out (v_set u v) = vw_out v"
  "vw_awaits (v_set u v) = vw_awaits v"
  "vw_listeners (v_set u v) = vw_listeners v"
  "vw_react (v_set u v) = merge_state (vw_batched v) u (vw_react v)"
  by (simp_all add: v_set_def)

lemma v_out_simps [simp]:
  "vw_props (v_out c v) = vw_props v"
  "vw_react (v_out c v) = vw_react v"
  "vw_batched (v_out c v) = vw_batched v"
  "vw_pushToTalk (v_out c v) = vw_pushToTalk v"
  "vw_locked (v_out c v) = vw_locked v"
  "vw_client (v_out c v) = vw_client v"
  "vw_opener (v_out c v) = vw_opener v"
  "vw_openerMissing (v_out c v) = vw_openerMissing v"
  "vw_openerActions (v_out c v) = vw_openerActions v"
  "vw_out (v_out c v) = vw_out v @ [c]"
  "vw_awaits (v_out c v) = vw_awaits v"
  "vw_listeners (v_out c v) = vw_listeners v"
  by (simp_all add: v_out_def)

lemma v_client_simps [simp]:
  "vw_props (v_client c v) = vw_props v"
  "vw_react (v_client c v) = vw_react v"
  "vw_batched (v_client c v) = vw_batched v"
  "vw_pushToTalk (v_client c v) = vw_pushToTalk v"
  "vw_locked (v_client c v) = vw_locked v"
  "vw_client (v_client c v) = vw_client v"
  "vw_opener (v_client c v) = vw_opener v"
  "vw_out (v_client c v) = vw_out v @ (if vw_client v = None then [] else [c])"
  by (simp_all add: v_client_def)

lemma v_await_simps [simp]:
  "vw_props (v_await k v) = vw_props v"
  "vw_react (v_await k v) = vw_react v"
  "vw_batched (v_await k v) = vw_batched v"
  "vw_pushToTalk (v_await k v) = vw_pushToTalk v"
  "vw_locked (v_await k v) = vw_locked v"
  "vw_client (v_await k v) = vw_client v"
  "vw_out (v_await k v) = vw_out v"
  by (simp_all add: v_await_def)

lemma v_alerts_simps [simp]:
  "vw_props (v_alerts f v) = vw_props v"
  "vw_batched (v_alerts f v) = vw_batched v"
  "vw_pushToTalk (v_alerts f v) = vw_pushToTalk v"
  "vw_locked (v_alerts f v) = vw_locked v"
  "vw_client (v_alerts f v) = vw_client v"
  "vw_opener (v_alerts f v) = vw_opener v"
  "vw_openerMissing (v_alerts f v) = vw_openerMissing v"
  "vw_out (v_alerts f v) = vw_out v"
  "vw_awaits (v_alerts f v) = vw_awaits v"
  by (simp_all add: v_alerts_def Let_def)

section \<open>Alerts\<close>

definition v_setMissingScreenPermissions :: "bool \<Rightarrow> bool \<Rightarrow> view \<Rightarrow> view" where
  "v_setMissingScreenPermissions missing forward v0 =
     (let v = v_alerts (flag_alert MissingScreenPermissions missing) v0
      in if forward \<and> vw_opener v \<and> vw_openerActions v then v_out (VOpenerMissingScreen missing) v else v)"

definition setAudioDevices :: "device list \<Rightarrow> view \<Rightarrow> view" where
  "setAudioDevices inputs = v_alerts (flag_alert MissingAudioInput (inputs = []))"

definition setVideoDevices :: "device list \<Rightarrow> view \<Rightarrow> view" where
  "setVideoDevices devices = v_alerts (flag_alert MissingVideoInput (devices = []))"

definition v_on_devicefallback :: "device \<Rightarrow> view \<Rightarrow> view" where
  "v_on_devicefallback d v =
     (if dev_kind d = ''audioinput'' then v_alerts (\<lambda>al. al(AudioInputDeviceFallback := fallback_alert d)) v
      else if dev_kind d = ''audiooutput'' then v_alerts (\<lambda>al. al(AudioOutputDeviceFallback := fallback_alert d)) v
      else v)"

definition v_on_devicechange :: "device list \<Rightarrow> device list \<Rightarrow> view \<Rightarrow> view" where
  "v_on_devicechange inputs videoDevices v = setVideoDevices videoDevices (setAudioDevices inputs v)"

definition v_on_initaudio :: "view \<Rightarrow> view" where
  "v_on_initaudio = v_alerts (\<lambda>al. al(MissingAudioInputPermissions := alert_off))"

definition v_on_initvideo :: "view \<Rightarrow> view" where
  "v_on_initvideo = v_alerts (\<lambda>al. al(MissingVideoInputPermissions := alert_off))"

definition v_on_mos :: "'m::linorder \<Rightarrow> 'm \<Rightarrow> view \<Rightarrow> view" where
  "v_on_mos mosThreshold m v0 =
     (let v = (if \<not> vw_locked v0 \<and> \<not> al_show (vs_alerts (view_now v0) DegradedCallQuality) \<and> m < mosThreshold
               then v_alerts (\<lambda>al. al(DegradedCallQuality := alert_on)) v0 else v0)
      in if \<not> vw_locked v \<and> al_show (vs_alerts (view_now v) DegradedCallQuality) \<and> m \<ge> mosThreshold
         then v_alerts (\<lambda>al. al(DegradedCallQuality := alert_off)) v else v)"

definition shouldRenderAlertBanner :: "view \<Rightarrow> bool" where
  "shouldRenderAlertBanner v = (length (filter (\<lambda>a. al_show (vs_alerts (view_now v) a)) alert_ids) > 0)"

text \<open>Only the first alert that is shown has a banner here.\<close>

definition renderAlertBanner :: "view \<Rightarrow> (alert_id \<times> alert_state) option" where
  "renderAlertBanner v =
     map_option (\<lambda>a. (a, vs_alerts (view_now v) a)) (List.find (\<lambda>a. al_show (vs_alerts (view_now v) a)) alert_ids)"

definition v_close_alert :: "alert_id \<Rightarrow> alert_state \<Rightarrow> view \<Rightarrow> view" where
  "v_close_alert a alertState v0 =
     (if \<not> ac_dismissable (CallAlertConfigs a) then v0
      else
        let v = v_alerts (\<lambda>al. al(a := alertState\<lparr>al_show := False\<rparr>)) v0
        in if a = DegradedCallQuality then v\<lparr>vw_locked := True\<rparr> else v)"

definition v_unlock_banner :: "view \<Rightarrow> view" where
  "v_unlock_banner v = v\<lparr>vw_locked := False\<rparr>"

section \<open>Push-to-talk and the keyboard\<close>

definition force_update :: "view \<Rightarrow> view" where
  "force_update v = v_out VForceUpdate v"

definition talk_off :: "view \<Rightarrow> view" where
  "talk_off v = force_update ((v_client VMute v)\<lparr>vw_pushToTalk := False\<rparr>)"

definition handleBlur :: "view \<Rightarrow> view" where
  "handleBlur v = (if vw_pushToTalk v then talk_off v else v)"

text \<open>
  \<open>isActiveElementInteractable() && !root.contains(activeElement)\<close>: the tag of the active
  element, if there is one, and whether it is inside the view.
\<close>

definition isActiveElementInteractable :: "string option \<Rightarrow> bool" where
  "isActiveElementInteractable tag =
     (case tag of None \<Rightarrow> False | Some t \<Rightarrow> t \<in> set [''INPUT'', ''SELECT'', ''BUTTON'', ''TEXTAREA''])"

definition typing_elsewhere :: "string option \<times> bool \<Rightarrow> bool" where
  "typing_elsewhere focus = (isActiveElementInteractable (fst focus) \<and> \<not> snd focus)"

text \<open>\<open>keyToAction\<close> on the scope of the view, with the event taken from the browser when it matches.\<close>

definition popout_action :: "key_event \<Rightarrow> view \<Rightarrow> string nullable \<times> view" where
  "popout_action ev v =
     (case keyToAction (vw_mac v) ''popout'' ev of
        Inl _ \<Rightarrow> (Undefined, v)
      | Inr (act, taken) \<Rightarrow> (act, if taken then v_out VPreventDefault v else v))"

definition handleKeyUp :: "string option \<times> bool \<Rightarrow> key_event \<Rightarrow> view \<Rightarrow> view" where
  "handleKeyUp focus ev v0 =
     (if typing_elsewhere focus then v0
      else
        let (act, v) = popout_action ev v0
        in if act = Val PUSH_TO_TALK \<and> vw_pushToTalk v then talk_off v
           else if vw_opener v \<and> vw_openerDesktop v \<and> (ke_key ev = ''Alt'' \<or> ke_alt ev) then v_out VPreventDefault v
           else v)"

definition v_isMuted :: "view \<Rightarrow> bool" where
  "v_isMuted v = (case vp_currentSession (vw_props v) of None \<Rightarrow> True | Some s \<Rightarrow> unmuted s \<noteq> Some True)"

definition v_isVideoOn :: "view \<Rightarrow> bool" where
  "v_isVideoOn v = (case vp_currentSession (vw_props v) of None \<Rightarrow> False | Some s \<Rightarrow> video s = Some True)"

definition v_isHandRaised :: "view \<Rightarrow> bool" where
  "v_isHandRaised v =
     (case vp_currentSession (vw_props v) of None \<Rightarrow> False | Some s \<Rightarrow> js_gt (raised_hand s) (Some 0))"

definition v_onMuteToggle :: "view \<Rightarrow> view" where
  "v_onMuteToggle v =
     (if vw_pushToTalk v then v else v_client (if v_isMuted v then VUnmute else VMute) v)"

definition v_onVideoToggle :: "view \<Rightarrow> view" where
  "v_onVideoToggle v = v_client (if v_isVideoOn v then VStopVideo else VStartVideo) v"

definition v_onRaiseHandToggle :: "view \<Rightarrow> view" where
  "v_onRaiseHandToggle v = v_client (if v_isHandRaised v then VUnraiseHand else VRaiseHand) v"

definition v_onDisconnectClick :: "view \<Rightarrow> view" where
  "v_onDisconnectClick v0 =
     (let v = v_out VHideExpandedView v0
      in if vw_client v = None then v
         else
           let v = v_out VDisconnect v
           in if vw_opener v then v_out VCloseWindow v else v)"

definition v_onRecordToggle :: "view \<Rightarrow> view" where
  "v_onRecordToggle v =
     (case vp_channel (vw_props v) of
        None \<Rightarrow> v_out (VLogErr ''channel should be defined'') v
      | Some ch \<Rightarrow> v_out (if vp_isRecording (vw_props v) then VStopRecordingModal (c_id ch) else VStartRecording (c_id ch)) v)"

definition v_sharing :: "view \<Rightarrow> string option" where
  "v_sharing v = Option.bind (vp_screenSharingSession (vw_props v)) session_id"

definition v_own :: "view \<Rightarrow> string option" where
  "v_own v = Option.bind (vp_currentSession (vw_props v)) session_id"

definition v_onShareScreenToggle :: "view \<Rightarrow> view" where
  "v_onShareScreenToggle v =
     (if \<not> vp_allowScreenSharing (vw_props v) then v
      else if vp_screenSharingSession (vw_props v) \<noteq> None \<and> v_sharing v = v_own v then
        v_set (\<lambda>s. s\<lparr>vs_screenStream := None\<rparr>) (v_client VUnshareScreen v)
      else if vp_screenSharingSession (vw_props v) = None then
        (if ''openScreenShareModal'' \<in> set (vw_api v) then v_out (VDesktop ''openScreenShareModal'' []) v
         else v_await AwaitStream (v_out (VGetScreenStream (vw_shareAudio v)) v))
      else v)"

text \<open>\<open>getScreenStream\<close> of \<open>utils.ts\<close> answers with a stream and the identifier of its video track.\<close>

definition stream_answered :: "(nat \<times> nat) option \<Rightarrow> view \<Rightarrow> view" where
  "stream_answered stream v0 =
     (case stream of
        None \<Rightarrow> v_setMissingScreenPermissions True True v0
      | Some (i, track) \<Rightarrow>
          let v = (if vw_opener v0 then v0\<lparr>vw_trackId := Some track\<rparr> else v0)
          in v_await (AwaitSet i) (v_client (VSetScreenStream i) v))"

definition stream_set :: "nat \<Rightarrow> view \<Rightarrow> view" where
  "stream_set i v =
     v_setMissingScreenPermissions False True (v_set (\<lambda>s. s\<lparr>vs_screenStream := Some i\<rparr>) v)"

datatype view_answer = ScreenAnswer "(nat \<times> nat) option" | SetDone | Failed js_error

fun v_resume :: "view_await \<Rightarrow> view_answer \<Rightarrow> view \<Rightarrow> view" where
  "v_resume AwaitStream (ScreenAnswer s) v = stream_answered s v"
| "v_resume (AwaitSet i) SetDone v = stream_set i v"
| "v_resume _ _ v = v"

definition v_settle :: "nat \<Rightarrow> view_answer \<Rightarrow> view \<Rightarrow> view" where
  "v_settle n a v =
     (if n < length (vw_awaits v) then
        v_by_listener (v_resume (vw_awaits v ! n) a) (v\<lparr>vw_awaits := take n (vw_awaits v) @ drop (Suc n) (vw_awaits v)\<rparr>)
      else v)"

definition onParticipantsListToggle :: "view \<Rightarrow> view" where
  "onParticipantsListToggle v =
     (let b = \<not> vs_showParticipantsList (view_now v) in v_set (\<lambda>s. s\<lparr>vs_showParticipantsList := b\<rparr>) v)"

definition onLiveCaptionsToggle :: "view \<Rightarrow> view" where
  "onLiveCaptionsToggle v =
     (let b = \<not> vs_showLiveCaptions (view_now v) in v_set (\<lambda>s. s\<lparr>vs_showLiveCaptions := b\<rparr>) v)"

definition onCloseViewClick :: "view \<Rightarrow> view" where
  "onCloseViewClick v = v_out (if vw_opener v then VCloseWindow else VHideExpandedView) v"

definition onSwitchViewClick :: "view \<Rightarrow> view" where
  "onSwitchViewClick v =
     (let m = (if vs_viewState (view_now v) = Grid then Speaker else Grid) in v_set (\<lambda>s. s\<lparr>vs_viewState := m\<rparr>) v)"

definition press_to_talk :: "view \<Rightarrow> view" where
  "press_to_talk v =
     (if vw_pushToTalk v then v else force_update ((v_client VUnmute v)\<lparr>vw_pushToTalk := True\<rparr>))"

definition v_handleKBShortcuts :: "string option \<times> bool \<Rightarrow> key_event \<Rightarrow> view \<Rightarrow> view" where
  "v_handleKBShortcuts focus ev v0 =
     (if (\<not> vp_show (vw_props v0) \<or> \<not> vw_ownClient v0) \<and> \<not> vw_opener v0 then v0
      else if typing_elsewhere focus then v0
      else
        let (act, v) = popout_action ev v0
        in if act = Val PUSH_TO_TALK then press_to_talk v
           else if act = Val MUTE_UNMUTE then v_onMuteToggle v
           else if act = Val RAISE_LOWER_HAND then v_onRaiseHandToggle v
           else if act = Val MAKE_REACTION then v_out VToggleEmoji v
           else if act = Val SHARE_UNSHARE_SCREEN then v_onShareScreenToggle v
           else if act = Val PARTICIPANTS_LIST_TOGGLE then onParticipantsListToggle v
           else if act = Val LEAVE_CALL then v_onDisconnectClick v
           else if act = Val RECORDING_TOGGLE then v_onRecordToggle v
           else v)"

section \<open>The thread of the call\<close>

definition toggleChat :: "view \<Rightarrow> view" where
  "toggleChat v =
     (let p = vw_props v
      in if vp_isRhsOpen p \<and> vp_rhsSelectedThreadID p = Some (vp_threadID p) then
           (if vp_rhsSupported p then v_out VCloseRhs v else v)
         else case vp_channelTeam p of
             Some (tid, tname) \<Rightarrow>
               if tid \<noteq> vp_currentTeamID p then v_out (VPushHistory (''/'' @ tname @ ''/pl/'' @ vp_threadID p)) v
               else if vp_threadID p \<noteq> '''' \<and> vp_rhsSupported p then v_out (VSelectRhsPost (vp_threadID p)) v else v
           | None \<Rightarrow> if vp_threadID p \<noteq> '''' \<and> vp_rhsSupported p then v_out (VSelectRhsPost (vp_threadID p)) v else v)"

definition v_dismissRecordingPrompt :: "view \<Rightarrow> view" where
  "v_dismissRecordingPrompt v0 =
     (case vp_channel (vw_props v0) of
        None \<Rightarrow> v_out (VLogErr ''channel should be defined'') v0
      | Some ch \<Rightarrow>
          let v = v_out (VPromptDismissed (c_id ch) (vw_now v0)) v0
          in if vw_opener v \<and> vw_openerActions v then v_out (VOpenerPromptDismissed (c_id ch) (vw_now v0)) v else v)"

definition v_onRemove :: "string \<Rightarrow> string \<Rightarrow> view \<Rightarrow> view" where
  "v_onRemove sessionID userID = v_set (\<lambda>s. s\<lparr>vs_removeConfirmation := Some (sessionID, userID)\<rparr>)"

definition v_onRemoveConfirm :: "view \<Rightarrow> view" where
  "v_onRemoveConfirm v =
     v_set (\<lambda>s. s\<lparr>vs_removeConfirmation := None\<rparr>)
       (v_out (VHostRemove (map_option c_id (vp_channel (vw_props v)))
                 (map_option fst (vs_removeConfirmation (view_now v)))) v)"

definition v_onRemoveCancel :: "view \<Rightarrow> view" where
  "v_onRemoveCancel = v_set (\<lambda>s. s\<lparr>vs_removeConfirmation := None\<rparr>)"

section \<open>The life of the view\<close>

definition v_listen :: "string \<Rightarrow> view \<Rightarrow> view" where
  "v_listen l v = v\<lparr>vw_listeners := List.insert l (vw_listeners v)\<rparr>"

definition v_unlisten :: "string \<Rightarrow> view \<Rightarrow> view" where
  "v_unlisten l v = v\<lparr>vw_listeners := removeAll l (vw_listeners v)\<rparr>"

definition v_constructor :: "view \<Rightarrow> view" where
  "v_constructor v0 =
     (let v = v0\<lparr>vw_react := mount_state view_state_initial, vw_pushToTalk := False, vw_locked := False\<rparr>
      in if vw_opener v then
           v_listen ''history:block'' (if vw_client v = None then v else v_listen ''client:close'' v)
         else v)"

text \<open>
  What the listeners of the constructor do: the client of the opener closes; a navigation is
  blocked and handed to the main window; inside the old desktop application a navigation hides
  the view.
\<close>

definition v_on_client_close :: "view \<Rightarrow> view" where
  "v_on_client_close v = (if ''client:close'' \<in> set (vw_listeners v) then v_out VCloseWindow v else v)"

definition v_on_blocked :: "string \<Rightarrow> view \<Rightarrow> view" where
  "v_on_blocked path v =
     (if ''history:block'' \<in> set (vw_listeners v)
      then v_out (if ''openLinkFromCalls'' \<in> set (vw_api v) then VDesktop ''openLinkFromCalls'' [path]
                  else VLegacy ''calls-link-click'' [path]) v
      else v)"

definition v_on_history :: "bool \<Rightarrow> string \<Rightarrow> view \<Rightarrow> view" where
  "v_on_history desktop act v =
     (if vw_opener v \<or> \<not> desktop \<or> act = ''REPLACE'' then v else v_out VHideExpandedView v)"

definition requestCallState :: "view \<Rightarrow> view" where
  "requestCallState v =
     (case vw_client v of
        None \<Rightarrow> v_out (VLogErr ''callsClient should be defined'') v
      | Some c \<Rightarrow> v_out (VSendWs ''custom_com.mattermost.calls_call_state'' (vc_channelID c)) v)"

text \<open>The alerts and streams the view starts with, from the client.\<close>

definition mount_from_client :: "view_client \<Rightarrow> view \<Rightarrow> view" where
  "mount_from_client c v0 =
     (let v = setVideoDevices (vc_videoDevices c) (setAudioDevices (vc_inputs c) v0);
          al = vs_alerts (view_now v);
          noMic = (\<not> al_active (al MissingAudioInput) \<and> \<not> vc_audioTrack c);
          noCam = (vp_enableVideo (vw_props v) \<and> \<not> al_active (al MissingVideoInput) \<and> vc_localVideo c = None);
          al = flag_alert MissingVideoInputPermissions noCam (flag_alert MissingAudioInputPermissions noMic al);
          screen = (if vc_localScreen c \<noteq> None then vc_localScreen c else vc_remoteScreen c)
      in v_set (\<lambda>s. s\<lparr>vs_alerts := al, vs_screenStream := screen, vs_selfVideoStream := vc_localVideo c,
                     vs_otherVideoStream := vc_remoteVideo c\<rparr>) v)"

text \<open>What a pop-out does last: the unread messages of the thread, and the permissions of the opener.\<close>

definition mount_in_popout :: "view \<Rightarrow> view" where
  "mount_in_popout v0 =
     (if \<not> vw_opener v0 then v0
      else
        let v = (if vp_rhsSupported (vw_props v0) \<and> vp_threadID (vw_props v0) \<noteq> []
                 then v_out (VPrefetchThread (vp_threadID (vw_props v0))) v0 else v0)
        in if vw_openerMissing v then v_setMissingScreenPermissions True False v else v)"

definition v_componentDidMount :: "view \<Rightarrow> view" where
  "v_componentDidMount v0 =
     (case (vw_client v0, vw_context v0) of
        (None, _) \<Rightarrow> v_out (VLogErr ''callsClient should be defined'') v0
      | (Some _, None) \<Rightarrow> v_out (VLogErr ''context should be defined'') v0
      | (Some c, Some wsOpen) \<Rightarrow>
          let v = (if wsOpen then requestCallState v0 else v_out VAddFirstConnect v0);
              v = v_listen ''window:blur'' (v_listen ''window:keyup'' (v_listen ''window:keydown'' v))
          in mount_in_popout (mount_from_client c v))"

definition v_componentWillUnmount :: "view \<Rightarrow> view" where
  "v_componentWillUnmount v0 =
     (let v = v_unlisten ''window:blur'' (v_unlisten ''window:keyup'' (v_unlisten ''window:keydown'' v0));
          v = v_unlisten ''history:block'' v
      in if vw_context v = None then v else v_out VRemoveFirstConnect v)"

definition v_componentDidUpdate :: "view_props \<Rightarrow> view \<Rightarrow> view" where
  "v_componentDidUpdate prevProps v0 =
     (if \<not> vw_opener v0 then v0
      else
        let p = vw_props v0;
            v = (case vp_channel p of
                   None \<Rightarrow> v0
                 | Some ch \<Rightarrow>
                     if includes_str ''Call'' (vw_title v0) then v0
                     else
                       let name = (if isDMChannel (Some ch)
                                   then map_option (\<lambda>u. getUserDisplayName (Some u) False) (vp_connectedDMUser p)
                                   else Some (c_display_name ch))
                       in (case name of None \<Rightarrow> v0 | Some n \<Rightarrow> v_out (VTitle (''Call - '' @ n)) (v0\<lparr>vw_title := ''Call - '' @ n\<rparr>)))
        in if vp_rhsSupported p \<and> vp_threadID p \<noteq> '''' \<and> vp_threadID prevProps = ''''
           then v_out (VPrefetchThread (vp_threadID p)) v else v)"

section \<open>What is shown\<close>

text \<open>The participants list offers to mute the others to a host or administrator, while someone else speaks.\<close>

definition showMuteOthers :: "view \<Rightarrow> bool" where
  "showMuteOthers v =
     (let p = vw_props v; isHost = (vp_callHostID p = vp_currentUserID p)
      in vp_hostControlsAllowed p \<and> (isHost \<or> vp_isAdmin p) \<and>
         list_ex (\<lambda>s. unmuted s = Some True \<and> user_id s \<noteq> Some (vp_currentUserID p)) (vp_sessions p))"

definition has_video :: "user_session \<Rightarrow> bool" where
  "has_video s = (video s = Some True)"

definition own_video :: "view \<Rightarrow> bool" where
  "own_video v = (case vp_currentSession (vw_props v) of None \<Rightarrow> False | Some s \<Rightarrow> has_video s)"

definition shouldRenderVideoContainer :: "view \<Rightarrow> bool" where
  "shouldRenderVideoContainer v = (own_video v \<or> list_ex has_video (vp_otherSessions (vw_props v)))"

definition shouldRenderTopVideoContainer :: "view \<Rightarrow> bool" where
  "shouldRenderTopVideoContainer v =
     ((vs_viewState (view_now v) = Speaker \<or> vp_screenSharingSession (vw_props v) \<noteq> None) \<and>
      (own_video v \<and> vp_otherSessions (vw_props v) \<noteq> [] \<or> list_ex has_video (vp_otherSessions (vw_props v))))"

text \<open>The body of the view.\<close>

datatype body_kind = ParticipantsGrid | VideoContainer | ScreenPlayer | EmptyBody

definition view_body :: "view \<Rightarrow> body_kind" where
  "view_body v =
     (let p = vw_props v
      in if vp_screenSharingSession p \<noteq> None then ScreenPlayer
         else if shouldRenderVideoContainer v then VideoContainer
         else if vp_currentSession p \<noteq> None \<and> vp_channel p \<noteq> None then ParticipantsGrid
         else EmptyBody)"

end
