(* ===== verification/Recording_Banner.thy ===== *)
theory Recording_Banner
  imports Call_Alerts Shortcuts
begin

text \<open>
  The recording banner, which the two call windows decide on their own: \<open>renderRecordingDisclaimer\<close>
  of \<open>call_widget/component.tsx\<close> for the widget, \<open>recording_info_prompt.tsx\<close> for the
  pop-out, with the hooks of the latter. A translated message is named by a constructor. The
  badge and the record buttons of both windows are here too.
\<close>

section \<open>Messages\<close>

datatype rec_message =
    MsgRecordingHost | MsgRecordingParticipant | MsgTranscribingHost | MsgTranscribingParticipant
  | MsgRecordingStopped | MsgTranscribingStopped | MsgWentWrong | MsgTryAgain | MsgError string
  | MsgMaxDuration int | MsgMinutesLeft int

text \<open>The header and the body of each disclaimer share a name.\<close>

fun CallRecordingDisclaimerStrings :: "bool \<Rightarrow> rec_message" where
  "CallRecordingDisclaimerStrings True = MsgRecordingHost"
| "CallRecordingDisclaimerStrings False = MsgRecordingParticipant"

fun CallTranscribingDisclaimerStrings :: "bool \<Rightarrow> rec_message" where
  "CallTranscribingDisclaimerStrings True = MsgTranscribingHost"
| "CallTranscribingDisclaimerStrings False = MsgTranscribingParticipant"

definition capitalize :: "string \<Rightarrow> string" where
  "capitalize input = toUpperCase (take 1 input) @ drop 1 input"

section \<open>JavaScript conditions on optional fields\<close>

definition num_truthy :: "int option \<Rightarrow> bool" where
  "num_truthy n = (case n of None \<Rightarrow> False | Some x \<Rightarrow> x \<noteq> 0)"

definition str_truthy :: "string option \<Rightarrow> bool" where
  "str_truthy s = (case s of None \<Rightarrow> False | Some x \<Rightarrow> x \<noteq> [])"

text \<open>\<open>n ?? 0\<close>.\<close>

definition nullish_zero :: "int option \<Rightarrow> int" where
  "nullish_zero n = (case n of None \<Rightarrow> 0 | Some x \<Rightarrow> x)"

text \<open>\<open>recording?.field\<close>.\<close>

definition job_field :: "(job_state \<Rightarrow> 'a option) \<Rightarrow> job_state option \<Rightarrow> 'a option" where
  "job_field f r = Option.bind r f"

definition has_rec_ended :: "job_state option \<Rightarrow> bool" where
  "has_rec_ended r = (nullish_zero (job_field end_at r) > nullish_zero (job_field start_at r))"

lemmas job_cond_defs = num_truthy_def str_truthy_def nullish_zero_def job_field_def has_rec_ended_def

section \<open>The banner of the widget\<close>

record widget_banner =
  wb_header :: rec_message
  wb_body :: rec_message
  wb_confirmText :: string
  wb_rightText :: "string option"
  wb_alertIcon :: bool

definition renderRecordingDisclaimer ::
  "bool \<Rightarrow> int \<Rightarrow> job_state option \<Rightarrow> bool \<Rightarrow> widget_banner option" where
  "renderRecordingDisclaimer isHost hostChangeAt recording transcribes =
     (let dismissedAt = num_or (job_field prompt_dismissed_at recording) 0;
          startAt = job_field start_at recording;
          endAt = job_field end_at recording;
          errorAt = job_field error_at recording;
          hasRecEnded = has_rec_ended recording;
          shouldShowError = (num_truthy errorAt \<and> js_gt errorAt (Some dismissedAt))
      in if \<not> num_truthy startAt \<and> \<not> str_truthy (job_field js_err recording) then None
         else if hasRecEnded \<and> \<not> isHost then None
         else if \<not> hasRecEnded \<and> js_gt (Some dismissedAt) startAt \<and> dismissedAt > hostChangeAt \<and> \<not> shouldShowError then None
         else if hasRecEnded \<and> js_gt (Some dismissedAt) endAt \<and> \<not> shouldShowError then None
         else if js_gt (Some dismissedAt) startAt \<and> hostChangeAt > dismissedAt \<and> \<not> isHost \<and> \<not> shouldShowError then None
         else if isHost \<and> hasRecEnded \<and> js_gt (Some hostChangeAt) endAt \<and> \<not> shouldShowError then None
         else
           let disclaimer = (if transcribes then CallTranscribingDisclaimerStrings isHost
                             else CallRecordingDisclaimerStrings isHost);
               confirmText = (if isHost then ''Dismiss'' else ''Understood'');
               rightText = (if isHost then None else Some ''Leave call'');
               confirmText = (if hasRecEnded then (if isHost then ''Dismiss'' else '''') else confirmText);
               text = (if hasRecEnded
                       then (if transcribes then MsgTranscribingStopped else MsgRecordingStopped)
                       else disclaimer);
               failed = str_truthy (job_field js_err recording)
           in Some \<lparr>wb_header = (if failed then MsgWentWrong else text),
                    wb_body = (if failed then MsgError (the (job_field js_err recording)) else text),
                    wb_confirmText = confirmText, wb_rightText = rightText, wb_alertIcon = failed\<rparr>)"

definition renderRecordingBadge :: "bool \<Rightarrow> job_state option \<Rightarrow> bool option" where
  "renderRecordingBadge isHost recording =
     (let hasRecStarted = num_truthy (job_field start_at recording)
      in if \<not> num_truthy (job_field init_at recording) \<or> num_truthy (job_field end_at recording) then None
         else if \<not> isHost \<and> \<not> hasRecStarted then None
         else if str_truthy (job_field js_err recording) then None
         else Some (\<not> hasRecStarted))"

section \<open>The banner of the pop-out\<close>

definition minutesLeftThreshold :: int where
  "minutesLeftThreshold = 10"

record prompt_props =
  rp_isHost :: bool
  rp_hostChangeAt :: int
  rp_recording :: "job_state option"
  rp_recordingRef :: nat
  rp_maxDuration :: int
  rp_transcribes :: bool

text \<open>
  \<open>rp_recordingRef\<close> is the identity of the object \<open>props.recording\<close>: hooks compare their
  dependencies by identity. \<open>Math.round\<close> rounds half up; the quotient is exact here.
\<close>

definition getMinutesLeftBeforeEnd :: "prompt_props \<Rightarrow> int \<Rightarrow> int" where
  "getMinutesLeftBeforeEnd p now =
     (if \<not> num_truthy (job_field start_at (rp_recording p)) then 0
      else (2 * (rp_maxDuration p * 60000 - (now - nullish_zero (job_field start_at (rp_recording p)))) + 60000) div 120000)"

type_synonym effect_deps = "bool \<times> nat \<times> int \<times> int option \<times> int"

record prompt_hooks =
  ph_willEndSoon :: int
  ph_deps :: "effect_deps option"

definition hooks_mounted :: prompt_hooks where
  "hooks_mounted = \<lparr>ph_willEndSoon = 0, ph_deps = None\<rparr>"

definition effect_deps_of :: "prompt_props \<Rightarrow> int \<Rightarrow> effect_deps" where
  "effect_deps_of p soon =
     (rp_isHost p, rp_recordingRef p, soon, job_field start_at (rp_recording p), rp_maxDuration p)"

text \<open>
  The effect, and a rendering followed by its effects: React runs an effect when one of its
  dependencies has changed since the last rendering, and renders again when it sets state.
\<close>

definition end_soon_effect :: "prompt_props \<Rightarrow> int \<Rightarrow> int \<Rightarrow> int" where
  "end_soon_effect p now soon =
     (if \<not> rp_isHost p \<or> rp_recording p = None \<or> job_field start_at (rp_recording p) = Some 0 \<or>
         job_field end_at (rp_recording p) \<noteq> Some 0 \<or> soon \<noteq> 0 then soon
      else if getMinutesLeftBeforeEnd p now \<le> minutesLeftThreshold then now
      else soon)"

definition render_effects :: "prompt_props \<Rightarrow> int \<Rightarrow> prompt_hooks \<Rightarrow> prompt_hooks" where
  "render_effects p now h =
     (let deps = effect_deps_of p (ph_willEndSoon h)
      in if ph_deps h = Some deps then h
         else
           let soon = end_soon_effect p now (ph_willEndSoon h)
           in \<lparr>ph_willEndSoon = soon, ph_deps = Some (effect_deps_of p soon)\<rparr>)"

datatype popout_prompt =
    EndSoonPrompt int int
  | RecordingPrompt string rec_message rec_message string string string

definition RecordingInfoPrompt ::
  "prompt_props \<Rightarrow> int option \<Rightarrow> int \<Rightarrow> prompt_hooks \<Rightarrow> popout_prompt option" where
  "RecordingInfoPrompt p openerDismissedAt now h =
     (let recording = rp_recording p;
          isHost = rp_isHost p;
          hostChangeAt = rp_hostChangeAt p;
          startAt = job_field start_at recording;
          endAt = job_field end_at recording;
          errorAt = job_field error_at recording;
          hasRecEnded = has_rec_ended recording;
          own = num_or (job_field prompt_dismissed_at recording) 0;
          dismissedAt = (if js_gt openerDismissedAt (Some own) then the openerDismissedAt else own)
      in if isHost \<and> \<not> hasRecEnded \<and> ph_willEndSoon h > dismissedAt
         then Some (EndSoonPrompt (rp_maxDuration p) (getMinutesLeftBeforeEnd p now))
         else if \<not> num_truthy startAt \<and> \<not> str_truthy (job_field js_err recording) then None
         else if hasRecEnded \<and> \<not> isHost then None
         else
           let shouldShowError = (num_truthy errorAt \<and> js_gt errorAt (Some dismissedAt))
           in if \<not> hasRecEnded \<and> js_gt (Some dismissedAt) startAt \<and> dismissedAt > hostChangeAt \<and> \<not> shouldShowError then None
              else if hasRecEnded \<and> js_gt (Some dismissedAt) endAt \<and> \<not> shouldShowError then None
              else if js_gt (Some dismissedAt) startAt \<and> hostChangeAt > dismissedAt \<and> \<not> isHost \<and> \<not> shouldShowError then None
              else if isHost \<and> hasRecEnded \<and> js_gt (Some hostChangeAt) endAt \<and> \<not> shouldShowError then None
              else
                let transcribing = rp_transcribes p;
                    text = (if transcribing then CallTranscribingDisclaimerStrings isHost
                            else CallRecordingDisclaimerStrings isHost);
                    confirmText = (if isHost then ''Dismiss'' else ''Understood'');
                    declineText = (if isHost then '''' else ''Leave call'');
                    testId = ''banner-recording'';
                    confirmText = (if hasRecEnded then (if isHost then ''Dismiss'' else '''') else confirmText);
                    testId = (if hasRecEnded then ''banner-recording-stopped'' else testId);
                    text = (if hasRecEnded
                            then (if transcribing then MsgTranscribingStopped else MsgRecordingStopped) else text);
                    failed = str_truthy (job_field js_err recording);
                    testId = (if failed then ''banner-recording-error'' else testId)
                in Some (RecordingPrompt testId
                     (if failed then MsgWentWrong else text) (if failed then MsgTryAgain else text)
                     (if failed then capitalize (the (job_field js_err recording)) else '''') confirmText declineText))"

section \<open>When the banner is due\<close>

text \<open>
  What both windows promise, by the phase of the recording: a participant sees the banner while
  the recording runs, a host also after it, and a dismissal counts until something newer
  happens. An error the user has not dismissed is always shown to those the phase concerns.
\<close>

datatype rec_phase = NoRecording | Running | Over

definition rec_phase_of :: "job_state option \<Rightarrow> rec_phase" where
  "rec_phase_of r =
     (if \<not> num_truthy (job_field start_at r) \<and> \<not> str_truthy (job_field js_err r) then NoRecording
      else if has_rec_ended r then Over else Running)"

definition dismissal_stands :: "bool \<Rightarrow> int \<Rightarrow> int \<Rightarrow> job_state option \<Rightarrow> bool" where
  "dismissal_stands isHost hostChangeAt dismissedAt r =
     (case rec_phase_of r of
        NoRecording \<Rightarrow> False
      | Running \<Rightarrow> js_gt (Some dismissedAt) (job_field start_at r) \<and>
                   (if isHost then dismissedAt > hostChangeAt else dismissedAt \<noteq> hostChangeAt)
      | Over \<Rightarrow> js_gt (Some dismissedAt) (job_field end_at r) \<or> js_gt (Some hostChangeAt) (job_field end_at r))"

definition banner_due :: "bool \<Rightarrow> int \<Rightarrow> int \<Rightarrow> job_state option \<Rightarrow> bool" where
  "banner_due isHost hostChangeAt dismissedAt r =
     (rec_phase_of r \<noteq> NoRecording \<and> (rec_phase_of r = Over \<longrightarrow> isHost) \<and>
      (\<not> dismissal_stands isHost hostChangeAt dismissedAt r \<or>
       num_truthy (job_field error_at r) \<and> js_gt (job_field error_at r) (Some dismissedAt)))"

lemma widget_banner_due:
  "renderRecordingDisclaimer isHost hostChangeAt r tr \<noteq> None \<longleftrightarrow>
     banner_due isHost hostChangeAt (num_or (job_field prompt_dismissed_at r) 0) r"
  by (auto simp: renderRecordingDisclaimer_def banner_due_def dismissal_stands_def rec_phase_of_def Let_def)

lemma popout_banner_due:
  assumes "\<not> js_gt od (Some (num_or (job_field prompt_dismissed_at (rp_recording p)) 0))"
    and "ph_willEndSoon h \<le> num_or (job_field prompt_dismissed_at (rp_recording p)) 0"
  shows "RecordingInfoPrompt p od now h \<noteq> None \<longleftrightarrow>
     banner_due (rp_isHost p) (rp_hostChangeAt p) (num_or (job_field prompt_dismissed_at (rp_recording p)) 0) (rp_recording p)"
  using assms
  by (auto simp: RecordingInfoPrompt_def banner_due_def dismissal_stands_def rec_phase_of_def Let_def)

lemma render_effects_idle:
  "ph_deps h = Some (effect_deps_of p (ph_willEndSoon h)) \<Longrightarrow> render_effects p now h = h"
  by (simp add: render_effects_def)

lemma render_effects_deps:
  "ph_deps (render_effects p now h) = Some (effect_deps_of p (ph_willEndSoon (render_effects p now h)))"
  by (auto simp: render_effects_def Let_def)

lemma render_effects_again: "render_effects p t (render_effects p now h) = render_effects p now h"
  by (rule render_effects_idle) (rule render_effects_deps)

lemma render_effects_fold: "fold (render_effects p) ts (render_effects p now h) = render_effects p now h"
  by (induction ts) (simp_all add: render_effects_again)

lemma render_effects_set: "ph_willEndSoon h \<noteq> 0 \<Longrightarrow> ph_willEndSoon (render_effects p now h) = ph_willEndSoon h"
  by (simp add: render_effects_def end_soon_effect_def Let_def)

section \<open>Properties\<close>

definition sample_job :: job_state where
  "sample_job = empty_job\<lparr>init_at := Some 1000, start_at := Some 2000, end_at := Some 0\<rparr>"

definition sample_prompt :: prompt_props where
  "sample_prompt = \<lparr>rp_isHost = True, rp_hostChangeAt = 500, rp_recording = Some sample_job, rp_recordingRef = 1,
     rp_maxDuration = 60, rp_transcribes = False\<rparr>"

text \<open>
  C9. The recording banner of the widget and that of the pop-out, two copies of one decision,
  agree: when neither an unseen dismissal of the other window nor the end of the recording
  comes in between, one is shown exactly when the other is, which is when the banner is due, and
  they have the same heading and the same buttons; only a failure is told with different bodies.
\<close>

theorem recording_banners_agree:
  assumes "\<not> js_gt od (Some (num_or (job_field prompt_dismissed_at (rp_recording p)) 0))"
    and "ph_willEndSoon h \<le> num_or (job_field prompt_dismissed_at (rp_recording p)) 0"
  shows "case (renderRecordingDisclaimer (rp_isHost p) (rp_hostChangeAt p) (rp_recording p) (rp_transcribes p),
               RecordingInfoPrompt p od now h) of
      (None, None) \<Rightarrow> \<not> banner_due (rp_isHost p) (rp_hostChangeAt p)
                        (num_or (job_field prompt_dismissed_at (rp_recording p)) 0) (rp_recording p)
    | (Some b, Some (RecordingPrompt _ head body err left right)) \<Rightarrow>
        banner_due (rp_isHost p) (rp_hostChangeAt p)
          (num_or (job_field prompt_dismissed_at (rp_recording p)) 0) (rp_recording p) \<and>
        wb_header b = head \<and> wb_confirmText b = left \<and> str_or (wb_rightText b) '''' = right \<and>
        (if wb_alertIcon b then body = MsgTryAgain \<and> (\<exists>e. wb_body b = MsgError e \<and> err = capitalize e)
         else wb_body b = body \<and> err = '''')
    | _ \<Rightarrow> False"
proof -
  let ?w = "renderRecordingDisclaimer (rp_isHost p) (rp_hostChangeAt p) (rp_recording p) (rp_transcribes p)"
  note due = widget_banner_due [of "rp_isHost p" "rp_hostChangeAt p" "rp_recording p" "rp_transcribes p"]
    popout_banner_due [OF assms, of now]
  show ?thesis
  proof (cases ?w)
    case None
    then show ?thesis using due by auto
  next
    case (Some b)
    then obtain q where q: "RecordingInfoPrompt p od now h = Some q" using due by auto
    show ?thesis
      using Some q due(1) assms
      by (auto simp: renderRecordingDisclaimer_def RecordingInfoPrompt_def Let_def split: if_splits)
  qed
qed

theorem recording_banners_agree_witness:
  "renderRecordingDisclaimer True 500 (Some sample_job) False =
     Some \<lparr>wb_header = MsgRecordingHost, wb_body = MsgRecordingHost, wb_confirmText = ''Dismiss'',
       wb_rightText = None, wb_alertIcon = False\<rparr> \<and>
   RecordingInfoPrompt sample_prompt None 9000 hooks_mounted \<noteq> None"
proof -
  have w: "renderRecordingDisclaimer True 500 (Some sample_job) False =
     Some \<lparr>wb_header = MsgRecordingHost, wb_body = MsgRecordingHost, wb_confirmText = ''Dismiss'',
       wb_rightText = None, wb_alertIcon = False\<rparr>"
    by code_simp
  have "\<not> js_gt None (Some (num_or (job_field prompt_dismissed_at (rp_recording sample_prompt)) 0))"
    and "ph_willEndSoon hooks_mounted \<le> num_or (job_field prompt_dismissed_at (rp_recording sample_prompt)) 0"
    by code_simp+
  from recording_banners_agree [OF this, of 9000] w show ?thesis
    by (auto simp: sample_prompt_def split: option.splits)
qed

text \<open>
  The pop-out never warns that the recording is about to end because time passes: the effect
  that looks at the clock depends on nothing that changes with it, so when a recording is first
  rendered with more than ten minutes to go, no later rendering, however late, shows the warning.
\<close>

theorem end_soon_never_by_time:
  assumes "getMinutesLeftBeforeEnd p t0 > minutesLeftThreshold" and "ph_willEndSoon h0 = 0"
    and "num_or (job_field prompt_dismissed_at (rp_recording p)) 0 \<ge> 0"
  shows "ph_willEndSoon (fold (render_effects p) ts (render_effects p t0 h0)) = 0 \<and>
    RecordingInfoPrompt p None now (fold (render_effects p) ts (render_effects p t0 h0)) \<noteq> Some (EndSoonPrompt m l)"
proof -
  have soon: "ph_willEndSoon (render_effects p t0 h0) = 0"
    using assms(1,2) by (simp add: render_effects_def end_soon_effect_def Let_def)
  have gt: "\<not> js_gt None x" for x by (simp add: js_gt_def)
  show ?thesis
    using assms(3) soon gt
    by (simp add: render_effects_fold RecordingInfoPrompt_def Let_def)
qed

theorem end_soon_never_by_time_witness:
  "getMinutesLeftBeforeEnd sample_prompt 3302000 = 5 \<and>
   ph_willEndSoon (fold (render_effects sample_prompt) [32000, 3302000] (render_effects sample_prompt 2000 hooks_mounted)) = 0"
proof -
  have "getMinutesLeftBeforeEnd sample_prompt 2000 > minutesLeftThreshold" "ph_willEndSoon hooks_mounted = 0"
    "num_or (job_field prompt_dismissed_at (rp_recording sample_prompt)) 0 \<ge> 0"
    by code_simp+
  from end_soon_never_by_time [OF this, of "[32000, 3302000]"] show ?thesis
    by (simp add: getMinutesLeftBeforeEnd_def sample_prompt_def sample_job_def job_cond_defs)
qed

text \<open>
  Once the warning has been raised it belongs to no recording: in a later one it is shown from
  the first rendering whatever time is left, if the user had not closed a banner since, and
  otherwise it is never shown again.
\<close>

theorem end_soon_outlives_recording:
  assumes "ph_willEndSoon h \<noteq> 0" and "rp_isHost p" and "\<not> has_rec_ended (rp_recording p)"
  shows "RecordingInfoPrompt p None now (render_effects p now h) =
      Some (EndSoonPrompt (rp_maxDuration p) (getMinutesLeftBeforeEnd p now)) \<longleftrightarrow>
    ph_willEndSoon h > num_or (job_field prompt_dismissed_at (rp_recording p)) 0"
proof -
  have gt: "\<not> js_gt None x" for x by (simp add: js_gt_def)
  show ?thesis
    using assms by (simp add: RecordingInfoPrompt_def render_effects_set gt Let_def)
qed

theorem end_soon_outlives_recording_witness:
  "RecordingInfoPrompt sample_prompt None 2000 (render_effects sample_prompt 2000 \<lparr>ph_willEndSoon = 1500, ph_deps = None\<rparr>) =
     Some (EndSoonPrompt 60 60)"
proof -
  have h: "ph_willEndSoon \<lparr>ph_willEndSoon = 1500, ph_deps = None\<rparr> \<noteq> 0" "rp_isHost sample_prompt"
    "\<not> has_rec_ended (rp_recording sample_prompt)"
    by code_simp+
  have "rp_maxDuration sample_prompt = 60" "getMinutesLeftBeforeEnd sample_prompt 2000 = 60"
    "(1500::int) > num_or (job_field prompt_dismissed_at (rp_recording sample_prompt)) 0"
    by code_simp+
  with end_soon_outlives_recording [OF h, of 2000] show ?thesis by simp
qed

end
