(* ===== verification/Call_Windows.thy ===== *)
theory Call_Windows
  imports Widget_Properties Expanded_View Recording_Banner
begin

text \<open>
  The expanded view as a machine, and the two call windows side by side: push-to-talk, the alerts
  a view starts with, and where the copies of one behaviour in the two windows agree or do not.
\<close>

section \<open>The events of the expanded view\<close>

datatype (plugins only: code size) view_event =
    VClickMute | VClickVideo | VClickHand | VClickShare | VClickRecord | VClickParticipants | VClickCaptions
  | VClickClose | VClickSwitch | VClickChat | VClickLeave | VClickRemove string string | VClickRemoveConfirm
  | VClickRemoveCancel | VClickBanner | VClickPrompt
  | VKeyDown "string option \<times> bool" key_event | VKeyUp "string option \<times> bool" key_event | VBlur
  | VClientEvent client_event "device list" "device list" | VNavigate string
  | VAnswer nat view_answer | VBannerTimer | VNewProps view_props | VNewClient view_client

fun v_on_client :: "int \<Rightarrow> client_event \<Rightarrow> device list \<Rightarrow> device list \<Rightarrow> view \<Rightarrow> view" where
  "v_on_client thr (ClRemoteScreen i) _ _ v = v_set (\<lambda>s. s\<lparr>vs_screenStream := Some i\<rparr>) v"
| "v_on_client thr (ClLocalScreen i) _ _ v = v_set (\<lambda>s. s\<lparr>vs_screenStream := Some i\<rparr>) v"
| "v_on_client thr (ClLocalVideo i) _ _ v = v_set (\<lambda>s. s\<lparr>vs_selfVideoStream := Some i\<rparr>) v"
| "v_on_client thr (ClRemoteVideo i) _ _ v = v_set (\<lambda>s. s\<lparr>vs_otherVideoStream := Some i\<rparr>) v"
| "v_on_client thr (ClDeviceFallback d) _ _ v = v_on_devicefallback d v"
| "v_on_client thr ClDeviceChange ins vds v = v_on_devicechange ins vds v"
| "v_on_client thr ClInitAudio _ _ v = v_on_initaudio v"
| "v_on_client thr ClInitVideo _ _ v = v_on_initvideo v"
| "v_on_client thr (ClMos m) _ _ v = v_on_mos thr m v"
| "v_on_client thr (ClClose _) _ _ v = v_on_client_close v"
| "v_on_client thr _ _ _ v = v"

fun view_step :: "int \<Rightarrow> view_event \<Rightarrow> view \<Rightarrow> view" where
  "view_step thr VClickMute v = v_by_react v_onMuteToggle v"
| "view_step thr VClickVideo v = v_by_react v_onVideoToggle v"
| "view_step thr VClickHand v = v_by_react v_onRaiseHandToggle v"
| "view_step thr VClickShare v = v_by_react v_onShareScreenToggle v"
| "view_step thr VClickRecord v = v_by_react v_onRecordToggle v"
| "view_step thr VClickParticipants v = v_by_react onParticipantsListToggle v"
| "view_step thr VClickCaptions v = v_by_react onLiveCaptionsToggle v"
| "view_step thr VClickClose v = v_by_react onCloseViewClick v"
| "view_step thr VClickSwitch v = v_by_react onSwitchViewClick v"
| "view_step thr VClickChat v = v_by_react toggleChat v"
| "view_step thr VClickLeave v = v_by_react v_onDisconnectClick v"
| "view_step thr (VClickRemove s u) v = v_by_react (v_onRemove s u) v"
| "view_step thr VClickRemoveConfirm v = v_by_react v_onRemoveConfirm v"
| "view_step thr VClickRemoveCancel v = v_by_react v_onRemoveCancel v"
| "view_step thr VClickBanner v =
     (case renderAlertBanner v of None \<Rightarrow> v | Some (a, st) \<Rightarrow> v_by_react (v_close_alert a st) v)"
| "view_step thr VClickPrompt v = v_by_react v_dismissRecordingPrompt v"
| "view_step thr (VKeyDown focus ev) v = v_by_listener (v_handleKBShortcuts focus ev) v"
| "view_step thr (VKeyUp focus ev) v = v_by_listener (handleKeyUp focus ev) v"
| "view_step thr VBlur v = v_by_listener handleBlur v"
| "view_step thr (VClientEvent e ins vds) v = v_by_listener (v_on_client thr e ins vds) v"
| "view_step thr (VNavigate path) v = v_by_listener (v_on_blocked path) v"
| "view_step thr (VAnswer n a) v = v_settle n a v"
| "view_step thr VBannerTimer v = v_unlock_banner v"
| "view_step thr (VNewProps p) v = v\<lparr>vw_props := p\<rparr>"
| "view_step thr (VNewClient c) v = v\<lparr>vw_client := Some c\<rparr>"

definition view_constructed :: "view \<Rightarrow> bool" where
  "view_constructed v =
     (vw_react v = mount_state view_state_initial \<and> \<not> vw_batched v \<and> \<not> vw_pushToTalk v \<and> \<not> vw_locked v \<and>
      vw_awaits v = [])"

section \<open>Push-to-talk\<close>

definition mic_call :: "view_call \<Rightarrow> bool" where
  "mic_call c = (c = VMute \<or> c = VUnmute)"

definition mic_calls :: "view \<Rightarrow> view_call list" where
  "mic_calls v = filter mic_call (vw_out v)"

definition talk_ok :: "view \<Rightarrow> bool" where
  "talk_ok v = (vw_client v \<noteq> None \<and> (vw_pushToTalk v \<longrightarrow> mic_calls v \<noteq> [] \<and> last (mic_calls v) = VUnmute))"

text \<open>A handler that leaves the flag, the client and the calls to the microphone as they are.\<close>

definition silent :: "(view \<Rightarrow> view) \<Rightarrow> bool" where
  "silent h = (\<forall>v. vw_pushToTalk (h v) = vw_pushToTalk v \<and> vw_client (h v) = vw_client v \<and> mic_calls (h v) = mic_calls v)"

lemma silent_ok: "silent h \<Longrightarrow> talk_ok (h v) = talk_ok v"
  by (simp add: silent_def talk_ok_def)

lemma silent_by: "silent h \<Longrightarrow> silent (v_by_react h)" "silent h \<Longrightarrow> silent (v_by_listener h)"
  by (simp_all add: silent_def v_by_react_def v_by_listener_def mic_calls_def Let_def)

lemma mic_calls_simps [simp]:
  "mic_calls (v_set u v) = mic_calls v"
  "mic_calls (v_alerts f v) = mic_calls v"
  "mic_calls (v_out c v) = (if mic_call c then mic_calls v @ [c] else mic_calls v)"
  "mic_calls (v_client c v) = (if vw_client v \<noteq> None \<and> mic_call c then mic_calls v @ [c] else mic_calls v)"
  "mic_calls (v_await k v) = mic_calls v"
  "mic_calls (v\<lparr>vw_pushToTalk := b\<rparr>) = mic_calls v"
  "mic_calls (v\<lparr>vw_awaits := ks\<rparr>) = mic_calls v"
  "mic_calls (v\<lparr>vw_batched := b\<rparr>) = mic_calls v"
  "mic_calls (v\<lparr>vw_locked := b\<rparr>) = mic_calls v"
  "mic_calls (v\<lparr>vw_trackId := t\<rparr>) = mic_calls v"
  by (auto simp: mic_calls_def)

named_theorems silent_handlers "handlers that do not touch the microphone"

lemma silent_buttons [silent_handlers]:
  "silent v_onVideoToggle" "silent v_onRaiseHandToggle" "silent v_onShareScreenToggle" "silent v_onRecordToggle"
  "silent onParticipantsListToggle" "silent onLiveCaptionsToggle" "silent onCloseViewClick" "silent onSwitchViewClick"
  "silent toggleChat" "silent v_onDisconnectClick" "silent (v_onRemove s u)" "silent v_onRemoveConfirm"
  "silent v_onRemoveCancel" "silent v_dismissRecordingPrompt" "silent (v_close_alert a st)" "silent (v_on_blocked p)"
  by (auto simp: silent_def v_onVideoToggle_def v_onRaiseHandToggle_def v_onShareScreenToggle_def v_onRecordToggle_def
      onParticipantsListToggle_def onLiveCaptionsToggle_def onCloseViewClick_def onSwitchViewClick_def toggleChat_def
      v_onDisconnectClick_def v_onRemove_def v_onRemoveConfirm_def v_onRemoveCancel_def v_dismissRecordingPrompt_def
      v_close_alert_def v_on_blocked_def mic_call_def Let_def split: option.splits)

lemma silent_events [silent_handlers]:
  "silent (v_on_devicefallback d)" "silent (v_on_devicechange ins vds)" "silent v_on_initaudio" "silent v_on_initvideo"
  "silent (v_on_mos t m)" "silent v_on_client_close" "silent (v_setMissingScreenPermissions b f)" "silent (v_set u)"
  by (auto simp: silent_def v_on_devicefallback_def v_on_devicechange_def setAudioDevices_def setVideoDevices_def
      v_on_initaudio_def v_on_initvideo_def v_on_mos_def v_on_client_close_def v_setMissingScreenPermissions_def
      mic_call_def Let_def)

lemma silent_id [silent_handlers]: "silent (\<lambda>v. v)"
  by (simp add: silent_def)

lemma silent_client [silent_handlers]: "silent (v_on_client thr e ins vds)"
  by (cases e) (simp_all add: v_on_client.simps [abs_def] silent_handlers)

lemma silent_resume [silent_handlers]: "silent (v_resume k a)"
  using silent_events(7,8)
  by (cases k; cases a)
    (auto simp: silent_def stream_answered_def stream_set_def mic_call_def Let_def split: option.splits prod.splits)

lemma popout_action_simps:
  "vw_pushToTalk (snd (popout_action ev v)) = vw_pushToTalk v"
  "vw_client (snd (popout_action ev v)) = vw_client v"
  "mic_calls (snd (popout_action ev v)) = mic_calls v"
  by (auto simp: popout_action_def mic_call_def split: sum.splits)

lemma talk_ok_out [simp]: "\<not> mic_call c \<Longrightarrow> talk_ok (v_out c v) = talk_ok v"
  by (simp add: talk_ok_def)

lemma talk_ok_batched [simp]: "talk_ok (v\<lparr>vw_batched := b\<rparr>) = talk_ok v"
  by (simp add: talk_ok_def)

lemma talk_ok_mute_toggle: "talk_ok v \<Longrightarrow> talk_ok (v_onMuteToggle v)"
  by (auto simp: v_onMuteToggle_def talk_ok_def)

lemma talk_ok_talk: "talk_ok v \<Longrightarrow> talk_ok (talk_off v)" "talk_ok v \<Longrightarrow> talk_ok (press_to_talk v)"
  by (auto simp: talk_off_def press_to_talk_def force_update_def talk_ok_def mic_call_def)

lemma talk_ok_popout: "talk_ok (snd (popout_action ev v)) = talk_ok v"
  by (simp add: talk_ok_def popout_action_simps)

lemma talk_ok_keydown: "talk_ok v \<Longrightarrow> talk_ok (v_handleKBShortcuts focus ev v)"
proof -
  assume v: "talk_ok v"
  let ?v = "snd (popout_action ev v)"
  have p: "talk_ok ?v" using v by (simp add: talk_ok_popout)
  have e: "\<not> mic_call VToggleEmoji" by (simp add: mic_call_def)
  show ?thesis
    using v p talk_ok_mute_toggle [OF p] talk_ok_talk(2) [OF p] silent_ok [OF silent_buttons(2), of ?v]
      silent_ok [OF silent_buttons(3), of ?v] silent_ok [OF silent_buttons(4), of ?v]
      silent_ok [OF silent_buttons(5), of ?v] silent_ok [OF silent_buttons(10), of ?v]
    by (simp add: v_handleKBShortcuts_def case_prod_unfold Let_def e)
qed

lemma talk_ok_keyup: "talk_ok v \<Longrightarrow> talk_ok (handleKeyUp focus ev v)"
proof -
  assume v: "talk_ok v"
  let ?v = "snd (popout_action ev v)"
  have p: "talk_ok ?v" using v by (simp add: talk_ok_popout)
  have e: "\<not> mic_call VPreventDefault" by (simp add: mic_call_def)
  show ?thesis using v p talk_ok_talk(1) [OF p] by (simp add: handleKeyUp_def case_prod_unfold Let_def e)
qed

lemma talk_ok_settle: "talk_ok v \<Longrightarrow> talk_ok (v_settle n a v)"
proof -
  assume v: "talk_ok v"
  have "talk_ok (v_by_listener (v_resume k a) (v\<lparr>vw_awaits := ks\<rparr>))" for k ks
  proof -
    have "talk_ok (v\<lparr>vw_awaits := ks\<rparr>)" using v by (simp add: talk_ok_def)
    then show ?thesis using silent_ok [OF silent_by(2) [OF silent_resume]] by simp
  qed
  then show ?thesis using v by (simp add: v_settle_def)
qed

lemma talk_ok_by_react: "(\<And>v. talk_ok v \<Longrightarrow> talk_ok (h v)) \<Longrightarrow> talk_ok v \<Longrightarrow> talk_ok (v_by_react h v)"
proof -
  assume h: "\<And>v. talk_ok v \<Longrightarrow> talk_ok (h v)" and v: "talk_ok v"
  have "talk_ok (h (v\<lparr>vw_batched := True\<rparr>))" using h v by simp
  then show ?thesis by (simp add: v_by_react_def talk_ok_def mic_calls_def Let_def)
qed

lemma talk_ok_step: "talk_ok v \<Longrightarrow> talk_ok (view_step thr e v)"
proof -
  assume v: "talk_ok v"
  note s = silent_ok [OF silent_by(1)] silent_ok [OF silent_by(2)]
  show ?thesis
  proof (cases e)
    case VClickMute
    then show ?thesis using v by (simp add: talk_ok_by_react talk_ok_mute_toggle)
  next
    case VClickBanner
    then show ?thesis using v by (simp add: s silent_handlers split: option.split prod.split)
  next
    case (VKeyDown focus ev)
    then show ?thesis using v by (simp add: v_by_listener_def talk_ok_keydown)
  next
    case (VKeyUp focus ev)
    then show ?thesis using v by (simp add: v_by_listener_def talk_ok_keyup)
  next
    case VBlur
    then show ?thesis using v by (simp add: v_by_listener_def handleBlur_def talk_ok_talk)
  next
    case (VAnswer n a)
    then show ?thesis using v by (simp add: talk_ok_settle)
  next
    case VBannerTimer
    then show ?thesis using v by (simp add: v_unlock_banner_def talk_ok_def)
  next
    case (VNewProps p)
    then show ?thesis using v by (simp add: talk_ok_def mic_calls_def)
  next
    case (VNewClient c)
    then show ?thesis using v by (simp add: talk_ok_def mic_calls_def)
  qed (simp_all add: v s silent_handlers)
qed

interpretation talk_machine: invariant_machine "view_step thr" "\<lambda>_. True" talk_ok
  by unfold_locales (rule talk_ok_step)

definition sample_view_props :: view_props where
  "sample_view_props =
     \<lparr>vp_show = True, vp_currentUserID = ''u1'', vp_currentTeamID = ''t'', vp_sessions = [], vp_otherSessions = [],
      vp_currentSession = None, vp_screenSharingSession = None, vp_callHostID = ''u2'', vp_isRecording = False,
      vp_recordingsEnabled = True, vp_channel = Some sample_channel, vp_channelTeam = None, vp_connectedDMUser = None,
      vp_threadID = ''t1'', vp_rhsSelectedThreadID = None, vp_isRhsOpen = False, vp_rhsSupported = True,
      vp_allowScreenSharing = True, vp_hostControlsAllowed = True, vp_isAdmin = False, vp_enableVideo = True\<rparr>"

definition sample_view :: view where
  "sample_view =
     \<lparr>vw_props = sample_view_props, vw_react = mount_state view_state_initial, vw_batched = False,
      vw_pushToTalk = False, vw_locked = False, vw_opener = True, vw_openerActions = True, vw_openerDesktop = False,
      vw_openerMissing = False, vw_ownClient = False,
      vw_client = Some \<lparr>vc_channelID = ''ch'', vc_inputs = [], vc_videoDevices = [], vc_audioTrack = False,
        vc_localVideo = None, vc_remoteVideo = None, vc_localScreen = None, vc_remoteScreen = None\<rparr>,
      vw_context = Some True, vw_api = [], vw_mac = False, vw_shareAudio = False, vw_now = 0, vw_trackId = None,
      vw_title = [], vw_listeners = [], vw_awaits = [], vw_out = []\<rparr>"

definition space_key :: "bool \<Rightarrow> key_event" where
  "space_key shifted = \<lparr>ke_key = '' '', ke_code = ''Space'', ke_meta = False, ke_ctrl = False, ke_shift = shifted, ke_alt = False\<rparr>"

section \<open>Properties of push-to-talk\<close>

text \<open>
  C8. While push-to-talk is on, the last thing the view asked of the microphone is to be unmuted,
  whatever buttons, keys, answers and events of the client came in between; and the window losing
  the focus then mutes it and ends push-to-talk.
\<close>

theorem push_to_talk_held:
  assumes "view_constructed v" "vw_client v \<noteq> None"
  shows "let v' = fold (view_step thr) es v in
    vw_pushToTalk v' \<longrightarrow> mic_calls v' \<noteq> [] \<and> last (mic_calls v') = VUnmute \<and>
      last (mic_calls (view_step thr VBlur v')) = VMute \<and> \<not> vw_pushToTalk (view_step thr VBlur v')"
proof -
  have "talk_ok v" using assms by (simp add: talk_ok_def view_constructed_def)
  then have ok: "talk_ok (fold (view_step thr) es v)"
    by (intro talk_machine.run_inv) (simp_all add: list_all_iff)
  then show ?thesis
    by (auto simp: talk_ok_def v_by_listener_def handleBlur_def talk_off_def force_update_def mic_call_def Let_def)
qed

theorem push_to_talk_held_witness:
  "last (mic_calls (fold (view_step 0) [VKeyDown (None, False) (space_key False), VClickMute] sample_view)) = VUnmute"
proof -
  have c: "view_constructed sample_view" "vw_client sample_view \<noteq> None"
    by (simp_all add: view_constructed_def sample_view_def)
  have "vw_pushToTalk (fold (view_step 0) [VKeyDown (None, False) (space_key False), VClickMute] sample_view)"
    by code_simp
  then show ?thesis
    using push_to_talk_held [OF c, of 0 "[VKeyDown (None, False) (space_key False), VClickMute]"]
    unfolding Let_def by blast
qed

lemma space_needs_no_modifier:
  assumes "modifiers ev \<noteq> []"
  shows "obj_get (popoutMappings mac) (modifiers ev @ k) \<noteq> Some PUSH_TO_TALK"
  using assms
  by (cases "ke_meta ev"; cases "ke_ctrl ev"; cases "ke_shift ev"; cases "ke_alt ev")
    (simp_all add: modifiers_def popoutMappings_def widgetMappings_def shortcut_names)

text \<open>
  Push-to-talk ends only on the release of the bare space bar: a release while a modifier key
  is down is not recognised, so the view keeps the microphone open and push-to-talk on.
\<close>

theorem push_to_talk_stuck:
  assumes "vw_pushToTalk v" "modifiers ev \<noteq> []"
  shows "vw_pushToTalk (view_step thr (VKeyUp focus ev) v) \<and>
    mic_calls (view_step thr (VKeyUp focus ev) v) = mic_calls v"
proof -
  have "fst (popout_action ev u) \<noteq> Val PUSH_TO_TALK" for u
    using space_needs_no_modifier [OF assms(2), of "vw_mac u"]
    by (auto simp: popout_action_def keyToAction_def keyMappings_def Let_def split: sum.splits option.splits)
  then show ?thesis
    using assms(1)
    by (auto simp: v_by_listener_def handleKeyUp_def case_prod_unfold popout_action_simps mic_call_def Let_def)
qed

theorem push_to_talk_stuck_witness:
  "vw_pushToTalk (fold (view_step 0)
     [VKeyDown (None, False) (space_key False), VKeyUp (None, False) (space_key True)] sample_view)"
proof -
  let ?v = "view_step 0 (VKeyDown (None, False) (space_key False)) sample_view"
  have "vw_pushToTalk ?v" "modifiers (space_key True) \<noteq> []" by code_simp+
  from push_to_talk_stuck [OF this, of 0 "(None, False)"] show ?thesis by simp
qed

section \<open>The alerts a view starts with\<close>

lemma v_alerts_batched:
  assumes "vw_batched v"
  shows "view_now (v_alerts f v) = view_now v"
    "vs_alerts (rc_next (vw_react (v_alerts f v))) = f (vs_alerts (view_now v))"
  using assms by (simp_all add: v_alerts_def Let_def)

lemma mount_from_client_batched:
  assumes "vw_batched v" "vs_alerts (view_now v) = CallAlertStatesDefault"
  shows "view_now (mount_from_client c v) = view_now v"
    "vs_alerts (rc_next (vw_react (mount_from_client c v))) =
       flag_alert MissingVideoInputPermissions (vp_enableVideo (vw_props v) \<and> vc_localVideo c = None)
         (flag_alert MissingAudioInputPermissions (\<not> vc_audioTrack c) CallAlertStatesDefault)"
    "vw_batched (mount_from_client c v)" "vw_opener (mount_from_client c v) = vw_opener v"
    "vw_openerMissing (mount_from_client c v) = vw_openerMissing v"
  using assms
  by (simp_all add: mount_from_client_def setVideoDevices_def setAudioDevices_def v_alerts_batched
      CallAlertStatesDefault_def Let_def)

lemma missing_screen_batched:
  assumes "vw_batched v"
  shows "vs_alerts (rc_next (vw_react (v_setMissingScreenPermissions m False v))) =
    flag_alert MissingScreenPermissions m (vs_alerts (view_now v))"
  using assms by (simp add: v_setMissingScreenPermissions_def v_alerts_batched Let_def)

text \<open>
  What a view knows of the devices when it mounts is lost: the updates of one mounting are
  batched, so each computes its alerts from the defaults and the last replaces the others. A missing
  microphone or camera is never reported then; without a sending microphone or camera the view
  reports missing permissions instead, and not even those when the opener lacks the permission to
  share the screen.
\<close>

theorem mount_loses_device_alerts:
  assumes "view_constructed v" "vw_client v = Some c" "vw_context v = Some o'"
  shows "let al = vs_alerts (view_now (v_by_react v_componentDidMount v));
             screen = (vw_opener v \<and> vw_openerMissing v) in
    \<not> al_active (al MissingAudioInput) \<and> \<not> al_active (al MissingVideoInput) \<and>
    al_active (al MissingAudioInputPermissions) = (\<not> screen \<and> \<not> vc_audioTrack c) \<and>
    al_active (al MissingVideoInputPermissions) =
      (\<not> screen \<and> vp_enableVideo (vw_props v) \<and> vc_localVideo c = None) \<and>
    al_active (al MissingScreenPermissions) = screen"
proof -
  let ?u = "(if o' then requestCallState (v\<lparr>vw_batched := True\<rparr>) else v_out VAddFirstConnect (v\<lparr>vw_batched := True\<rparr>))"
  let ?l = "v_listen ''window:blur'' (v_listen ''window:keyup'' (v_listen ''window:keydown'' ?u))"
  let ?m = "mount_from_client c ?l"
  have l: "vw_batched ?l" "vs_alerts (view_now ?l) = CallAlertStatesDefault" "vw_props ?l = vw_props v"
    "vw_opener ?l = vw_opener v" "vw_openerMissing ?l = vw_openerMissing v"
    using assms by (auto simp: v_listen_def requestCallState_def view_constructed_def view_state_initial_def split: option.split)
  note m = mount_from_client_batched [OF l(1,2), of c]
  define v1 where "v1 = (if vp_rhsSupported (vw_props ?m) \<and> vp_threadID (vw_props ?m) \<noteq> []
      then v_out (VPrefetchThread (vp_threadID (vw_props ?m))) ?m else ?m)"
  have v1: "vw_react v1 = vw_react ?m" "vw_batched v1" "vw_openerMissing v1 = vw_openerMissing v"
    using m(3,5) l(5) by (simp_all add: v1_def)
  define v2 where "v2 = (if \<not> vw_opener ?m then ?m
      else if vw_openerMissing v1 then v_setMissingScreenPermissions True False v1 else v1)"
  have d: "v_componentDidMount (v\<lparr>vw_batched := True\<rparr>) = v2"
    using assms(2,3) by (simp add: v_componentDidMount_def mount_in_popout_def v2_def v1_def Let_def)
  have "vs_alerts (view_now (v_by_react v_componentDidMount v)) = vs_alerts (rc_next (vw_react v2))"
    by (simp add: v_by_react_def d Let_def)
  also have "\<dots> = (if vw_opener v \<and> vw_openerMissing v then flag_alert MissingScreenPermissions True CallAlertStatesDefault
      else flag_alert MissingVideoInputPermissions (vp_enableVideo (vw_props v) \<and> vc_localVideo c = None)
         (flag_alert MissingAudioInputPermissions (\<not> vc_audioTrack c) CallAlertStatesDefault))"
    using m l v1 by (simp add: v2_def missing_screen_batched)
  finally show ?thesis by (simp add: CallAlertStatesDefault_def Let_def)
qed

theorem mount_loses_device_alerts_witness:
  "al_active (vs_alerts (view_now (v_by_react v_componentDidMount sample_view)) MissingAudioInputPermissions) \<and>
   \<not> al_active (vs_alerts (view_now (v_by_react v_componentDidMount sample_view)) MissingAudioInput)"
proof -
  obtain c where v: "view_constructed sample_view" "vw_client sample_view = Some c" "vw_context sample_view = Some True"
    "vc_inputs c = []" "\<not> vc_audioTrack c" "\<not> (vw_opener sample_view \<and> vw_openerMissing sample_view)"
    by (simp add: view_constructed_def sample_view_def)
  show ?thesis using mount_loses_device_alerts [OF v(1-3)] v(5,6) by (simp add: Let_def)
qed

section \<open>The two windows side by side\<close>

text \<open>
  Where the copies of one handler differ. In a call without video, whose client lists no
  camera, a change of the devices raises the missing camera alert in the expanded view and not in
  the widget; and before the store knows the user's own session, the share button of the widget
  stops a share that nobody has started, where that of the expanded view starts one.
\<close>

theorem windows_disagree:
  assumes "quiet w" "\<not> wp_enableVideo (wg_props w)" "\<not> vw_batched v"
  shows "\<not> al_show (st_alerts (this_state (by_listener (on_devicechange (ins, outs) []) w)) MissingVideoInput) \<and>
    al_show (vs_alerts (view_now (v_by_listener (v_on_devicechange ins []) v)) MissingVideoInput) \<and>
    (wp_allowScreenSharing (wg_props w) \<and> wp_screenSharingSession (wg_props w) = None \<and>
      wp_currentSession (wg_props w) = None \<and> wg_client w \<noteq> None \<longrightarrow>
      wg_out (by_react (onShareScreenToggle cmp) w) = wg_out w @ [WUnshareScreen]) \<and>
    (vp_allowScreenSharing (vw_props v) \<and> vp_screenSharingSession (vw_props v) = None \<and> vw_api v = [] \<longrightarrow>
      vw_out (v_by_react v_onShareScreenToggle v) = vw_out v @ [VGetScreenStream (vw_shareAudio v)])"
proof (intro conjI impI)
  show "\<not> al_show (st_alerts (this_state (by_listener (on_devicechange (ins, outs) []) w)) MissingVideoInput)"
    using assms by (simp add: by_listener_def on_devicechange_def Let_def)
  show "al_show (vs_alerts (view_now (v_by_listener (v_on_devicechange ins []) v)) MissingVideoInput)"
    by (simp add: v_by_listener_def v_on_devicechange_def setVideoDevices_def setAudioDevices_def v_alerts_def Let_def)
next
  assume "wp_allowScreenSharing (wg_props w) \<and> wp_screenSharingSession (wg_props w) = None \<and>
      wp_currentSession (wg_props w) = None \<and> wg_client w \<noteq> None"
  then show "wg_out (by_react (onShareScreenToggle cmp) w) = wg_out w @ [WUnshareScreen]"
    by (simp add: by_react_def onShareScreenToggle_def sharing_session_def own_session_def Let_def)
next
  assume "vp_allowScreenSharing (vw_props v) \<and> vp_screenSharingSession (vw_props v) = None \<and> vw_api v = []"
  then show "vw_out (v_by_react v_onShareScreenToggle v) = vw_out v @ [VGetScreenStream (vw_shareAudio v)]"
    by (simp add: v_by_react_def v_onShareScreenToggle_def v_await_def v_out_def Let_def)
qed

theorem windows_disagree_witness:
  "\<not> al_show (st_alerts (this_state (by_listener (on_devicechange ([], []) [])
       (sample_widget\<lparr>wg_props := sample_props\<lparr>wp_enableVideo := False\<rparr>\<rparr>))) MissingVideoInput) \<and>
   al_show (vs_alerts (view_now (v_by_listener (v_on_devicechange [] []) sample_view)) MissingVideoInput)"
proof -
  let ?w = "sample_widget\<lparr>wg_props := sample_props\<lparr>wp_enableVideo := False\<rparr>\<rparr>"
  have "quiet ?w" "\<not> wp_enableVideo (wg_props ?w)" "\<not> vw_batched sample_view"
    by (simp_all add: quiet_def sample_widget_def settled_iff sample_view_def)
  from windows_disagree [OF this, of "[]" "[]"] show ?thesis by simp
qed

section \<open>The quality banner of both windows\<close>

definition w_close_quality :: "widget \<Rightarrow> widget" where
  "w_close_quality w = by_react (close_alert DegradedCallQuality (st_alerts (this_state w) DegradedCallQuality)) w"

definition v_close_quality :: "view \<Rightarrow> view" where
  "v_close_quality v = v_by_react (v_close_alert DegradedCallQuality (vs_alerts (view_now v) DegradedCallQuality)) v"

definition v_quiet :: "view \<Rightarrow> bool" where
  "v_quiet v = (\<not> vw_batched v \<and> settled (vw_react v))"

lemma set_alerts_now:
  "\<not> wg_batched w \<Longrightarrow> st_alerts (this_state (set_alerts f w)) = f (st_alerts (this_state w))"
  "wg_locked (set_alerts f w) = wg_locked w" "wg_batched (set_alerts f w) = wg_batched w"
  by (simp_all add: set_alerts_def Let_def)

lemma v_alerts_now:
  "\<not> vw_batched v \<Longrightarrow> vs_alerts (view_now (v_alerts f v)) = f (vs_alerts (view_now v))"
  by (simp add: v_alerts_def Let_def)

lemma quiet_alerts: "quiet w \<Longrightarrow> quiet (set_alerts f w)"
  by (simp add: quiet_def set_alerts_def settled_iff Let_def)

lemma v_quiet_alerts: "v_quiet v \<Longrightarrow> v_quiet (v_alerts f v)"
  by (simp add: v_quiet_def v_alerts_def settled_iff Let_def)

interpretation widget_quality: quality_banner
  "on_mos_score :: 'm::linorder \<Rightarrow> 'm \<Rightarrow> widget \<Rightarrow> widget" w_close_quality unlock_banner
  "\<lambda>w. al_show (st_alerts (this_state w) DegradedCallQuality)" wg_locked quiet
proof unfold_locales
  fix t m :: "'m::linorder" and s :: widget
  show "quiet s \<Longrightarrow> al_show (st_alerts (this_state (on_mos_score t m s)) DegradedCallQuality) =
      (if wg_locked s then al_show (st_alerts (this_state s) DegradedCallQuality) else m < t)"
    by (auto simp: on_mos_score_def set_alerts_now quiet_def Let_def)
  show "wg_locked (on_mos_score t m s) = wg_locked s" by (simp add: on_mos_score_def set_alerts_now Let_def)
  show "quiet s \<Longrightarrow> quiet (on_mos_score t m s)" by (simp add: on_mos_score_def quiet_alerts Let_def)
qed (auto simp: w_close_quality_def by_react_def close_alert_def set_alerts_def quiet_def unlock_banner_def settled_iff Let_def)

interpretation view_quality: quality_banner
  "v_on_mos :: 'm::linorder \<Rightarrow> 'm \<Rightarrow> view \<Rightarrow> view" v_close_quality v_unlock_banner
  "\<lambda>v. al_show (vs_alerts (view_now v) DegradedCallQuality)" vw_locked v_quiet
proof unfold_locales
  fix t m :: "'m::linorder" and s :: view
  show "v_quiet s \<Longrightarrow> al_show (vs_alerts (view_now (v_on_mos t m s)) DegradedCallQuality) =
      (if vw_locked s then al_show (vs_alerts (view_now s) DegradedCallQuality) else m < t)"
    by (auto simp: v_on_mos_def v_alerts_now v_quiet_def Let_def)
  show "vw_locked (v_on_mos t m s) = vw_locked s" by (simp add: v_on_mos_def Let_def)
  show "v_quiet s \<Longrightarrow> v_quiet (v_on_mos t m s)" by (simp add: v_on_mos_def v_quiet_alerts Let_def)
qed (auto simp: v_close_quality_def v_by_react_def v_close_alert_def v_alerts_def v_quiet_def v_unlock_banner_def settled_iff Let_def)

text \<open>
  In either window the quality banner follows the last score until the user closes it; from
  then until its timer no score brings it back, and after the timer it follows the scores again.
\<close>

theorem quality_banner_locked:
  fixes t :: "'m::linorder"
  assumes "quiet w" "v_quiet v" "ms' \<noteq> []"
  shows "(let w1 = fold (on_mos_score t) ms (w_close_quality w); w2 = fold (on_mos_score t) ms' (unlock_banner w1) in
      \<not> al_show (st_alerts (this_state w1) DegradedCallQuality) \<and>
      al_show (st_alerts (this_state w2) DegradedCallQuality) = (last ms' < t)) \<and>
    (let v1 = fold (v_on_mos t) ms (v_close_quality v); v2 = fold (v_on_mos t) ms' (v_unlock_banner v1) in
      \<not> al_show (vs_alerts (view_now v1) DegradedCallQuality) \<and>
      al_show (vs_alerts (view_now v2) DegradedCallQuality) = (last ms' < t))"
  by (simp add: Let_def widget_quality.closed_until_timer [OF assms(1)] view_quality.closed_until_timer [OF assms(2)] assms(3))

theorem quality_banner_locked_witness:
  "al_show (st_alerts (this_state (fold (on_mos_score (4::int)) [5, 2]
     (unlock_banner (fold (on_mos_score (4::int)) [1, 2] (w_close_quality sample_widget))))) DegradedCallQuality)"
proof -
  have "quiet sample_widget" "v_quiet sample_view" "[5, 2] \<noteq> ([] :: int list)"
    by (simp_all add: quiet_def v_quiet_def sample_widget_def sample_view_def settled_iff)
  note q = quality_banner_locked [OF this, of 4 "[1, 2]", unfolded Let_def]
  have l: "last [5, 2] < (4::int)" by simp
  show ?thesis using q [THEN conjunct1, THEN conjunct2] l by (rule iffD2)
qed

end
