(* ===== verification/Join_Flow.thy ===== *)
theory Join_Flow
  imports Samples
begin

text \<open>
  How a call is joined and left from the outside: \<open>joinCall\<close>, \<open>connectToCall\<close> and
  \<open>connectCall\<close> of \<open>webapp/src/index.tsx\<close> with the listeners they put on the client, the loading
  of the channels' calls, the bridge to the desktop app (\<open>desktop.ts\<close>, \<open>utils.ts\<close>), and the
  hooks of the incoming call notification (\<open>components/incoming_calls/hooks.ts\<close>). The URL of a
  channel comes from the application and is an argument.
\<close>

section \<open>The desktop app\<close>

text \<open>
  The version of the desktop app around the window, if any, whether the user agent is the app's,
  and which functions its bridge \<open>window.desktopAPI\<close> has.
\<close>

record desktop =
  dk_version :: "(nat \<times> nat) option"
  dk_userAgent :: bool
  dk_api :: "string list"

definition has_api :: "desktop \<Rightarrow> string \<Rightarrow> bool" where
  "has_api dk f \<longleftrightarrow> f \<in> set (dk_api dk)"

definition desktopGTE :: "desktop \<Rightarrow> nat \<Rightarrow> nat \<Rightarrow> bool" where
  "desktopGTE dk major minor =
     (case dk_version dk of
        None \<Rightarrow> False
      | Some (a, b) \<Rightarrow> if a < major then False else a > major \<or> b \<ge> minor)"

definition shouldRenderDesktopWidget :: "desktop \<Rightarrow> bool" where
  "shouldRenderDesktopWidget dk = desktopGTE dk 5 3"

definition isDesktopApp :: "desktop \<Rightarrow> bool" where
  "isDesktopApp dk = dk_userAgent dk"

definition sendDesktopEvent :: "string \<Rightarrow> (string \<times> string) list \<Rightarrow> world \<Rightarrow> world" where
  "sendDesktopEvent event msg = emit (DesktopCall event msg)"

definition sendDesktopError :: "desktop \<Rightarrow> string \<Rightarrow> string \<Rightarrow> world \<Rightarrow> world" where
  "sendDesktopError dk channelID errMsg =
     (if has_api dk ''sendCallsError''
      then emit (DesktopCall ''sendCallsError'' [(''err'', ''client-error''), (''callID'', channelID), (''errMsg'', errMsg)])
      else sendDesktopEvent ''calls-error'' [(''err'', ''client-error''), (''callID'', channelID), (''errMsg'', errMsg)])"

text \<open>The answer of the desktop app to a join: \<open>type\<close>, \<open>callID\<close> and \<open>sessionID\<close>.\<close>

definition handleDesktopJoinedCall :: "desktop \<Rightarrow> string \<Rightarrow> string \<Rightarrow> string \<Rightarrow> world \<Rightarrow> world" where
  "handleDesktopJoinedCall dk ty callID sessionID w =
     (if \<not> desktopGTE dk 5 5 \<and> ty = ''calls-join-request'' then showSwitchCallModal (Some callID) w
      else put_action (DESKTOP_WIDGET_CONNECTED callID sessionID) w)"

section \<open>Connecting\<close>

text \<open>
  \<open>connectCall\<close> up to its first await; where it asks for TURN credentials the rest,
  \<open>connectCall_client\<close>, runs when they have come or failed to come.
\<close>

definition connectCall_client :: "string \<Rightarrow> world \<Rightarrow> world" where
  "connectCall_client channelID w0 =
     (let w = w0\<lparr>w_own := Some \<lparr>cv_channelID = channelID, cv_sessionID = None, cv_initTime = w_now w0\<rparr>,
                 w_promptDismissedAt := Some 0\<rparr>;
          w = emit (CreateClient channelID) w
      in setClientConnecting True w)"

definition connect_payload :: "string \<Rightarrow> string \<Rightarrow> string \<Rightarrow> string \<Rightarrow> bool \<Rightarrow> (string \<times> string) list" where
  "connect_payload channelID title url rootID starting =
     [(''callID'', channelID), (''title'', title), (''channelURL'', url), (''rootID'', rootID),
      (''startingCall'', if starting then ''true'' else ''false'')]"

definition connectCall :: "desktop \<Rightarrow> string \<Rightarrow> string \<Rightarrow> string \<Rightarrow> string \<Rightarrow> world \<Rightarrow> world" where
  "connectCall dk url channelID title rootID w =
     (let payload = connect_payload channelID title url rootID (\<not> channelHasCall (world_app w) channelID)
      in if has_api dk ''joinCall'' then emit (DesktopCall ''joinCall'' payload) (setClientConnecting True w)
         else if shouldRenderDesktopWidget dk then sendDesktopEvent ''calls-join-call'' payload (setClientConnecting True w)
         else if w_own w \<noteq> None then w
         else if needsTURNCredentials (world_app w) then emit (Rest ''get'' ''/turn-credentials'' []) w
         else connectCall_client channelID w)"

definition connectCall_desktop_joined :: "desktop \<Rightarrow> string \<Rightarrow> string \<Rightarrow> string \<Rightarrow> world \<Rightarrow> world" where
  "connectCall_desktop_joined dk ty callID sessionID w =
     setClientConnecting False (handleDesktopJoinedCall dk ty callID sessionID w)"

definition connectCall_init_failed :: "js_error \<Rightarrow> string \<Rightarrow> world \<Rightarrow> world" where
  "connectCall_init_failed err channelID w0 =
     (let w = emit UnmountWidget (setClientConnecting False w0);
          w = displayCallErrorModal err (Some channelID) w
      in w\<lparr>w_own := None\<rparr>)"

text \<open>The listeners of the client that tell the store what the user does.\<close>

definition own_action :: "(string \<Rightarrow> string \<Rightarrow> string \<Rightarrow> action) \<Rightarrow> world \<Rightarrow> world" where
  "own_action f w =
     put_action (f (getCallsClientChannelID (w_own w)) (g_currentUserId (w_host w)) (getCallsClientSessionID (w_own w))) w"

definition on_client_connect :: "world \<Rightarrow> world" where "on_client_connect = setClientConnecting False"
definition on_client_mute :: "world \<Rightarrow> world" where "on_client_mute = own_action USER_MUTED"
definition on_client_unmute :: "world \<Rightarrow> world" where "on_client_unmute = own_action USER_UNMUTED"
definition on_client_raise_hand :: "world \<Rightarrow> world" where
  "on_client_raise_hand w = own_action (\<lambda>ch u s. USER_RAISE_HAND ch u s (Some (w_now w))) w"
definition on_client_lower_hand :: "world \<Rightarrow> world" where
  "on_client_lower_hand = own_action (\<lambda>ch u s. USER_LOWER_HAND ch u s None)"
definition on_client_video_on :: "world \<Rightarrow> world" where "on_client_video_on = own_action USER_VIDEO_ON"
definition on_client_video_off :: "world \<Rightarrow> world" where "on_client_video_off = own_action USER_VIDEO_OFF"

section \<open>Joining\<close>

definition connectToCall :: "desktop \<Rightarrow> string \<Rightarrow> string \<Rightarrow> string \<Rightarrow> string \<Rightarrow> string \<Rightarrow> world \<Rightarrow> world" where
  "connectToCall dk url channelID teamID title rootID w0 =
     (let current = channelIDForCurrentCall (world_app w0)
      in if current = '''' then
           (let w = connectCall dk url channelID title rootID w0
            in if channelHasCall (world_app w) channelID then followThread channelID teamID w else w)
         else if current \<noteq> channelID then showSwitchCallModal (Some channelID) w0
         else w0)"

definition DisabledCallsErr :: js_error where
  "DisabledCallsErr = ErrorMsg ''Cannot start or join call: calls are disabled in this channel.''"

definition joinCall :: "desktop \<Rightarrow> string \<Rightarrow> string \<Rightarrow> string \<Rightarrow> string \<Rightarrow> string \<Rightarrow> world \<Rightarrow> js_error + world" where
  "joinCall dk url channelID teamID title rootID w =
     (let a = world_app w;
          explicitlyEnabled = callsExplicitlyEnabled a channelID;
          explicitlyDisabled = callsExplicitlyDisabled a channelID
      in if channelHasCall a channelID \<or> explicitlyEnabled \<or> (\<not> explicitlyDisabled \<and> defaultEnabled a) then
           (if isLimitRestricted a then
              (if isCloudStarter a then Inr (displayFreeTrial w) else Inr w)
            else Inr (connectToCall dk url channelID teamID title rootID w))
         else if explicitlyDisabled then Inl DisabledCallsErr
         else if g_isAdmin (w_host w) then Inr (connectToCall dk url channelID teamID title rootID w)
         else Inr (displayCallsTestModeUser w))"

section \<open>Loading the calls of the channels\<close>

record channel_entry =
  ce_channel_id :: string
  ce_enabled :: "bool option"
  ce_call :: "remote_call option"

text \<open>
  One channel of the answer: the actions it adds to the batch and what it dispatches at once.
  The batch is dispatched only after the loop, so the loop reads the store without it.
\<close>

definition fetch_call :: "string \<Rightarrow> remote_call \<Rightarrow> world \<Rightarrow> action list \<times> world" where
  "fetch_call channelID call w0 =
     (let w = loadProfilesByIdsIfMissing (getUserIDsForSessions (session_users (rc_sessions call))) w0
      in if callStartAtForCallInChannel (world_app w) channelID \<noteq> 0 then ([], w)
         else
           let acts =
             [CALL_STATE \<lparr>cs_ID = rc_id call, cs_startAt = rc_start_at call, cs_channelID = channelID,
                cs_threadID = rc_thread_id call, cs_ownerID = rc_owner_id call, cs_hostID = None\<rparr>,
              USERS_STATES channelID (getSessionsMapFromSessions (rc_sessions call))]
           in if \<not> ringingEnabled (world_app w) then (acts, w)
              else if dismissed_by call (g_currentUserId (w_host w)) then (acts @ [DISMISS_CALL (rc_id call)], w)
              else (acts, incomingCallOnChannel channelID (rc_id call) (rc_owner_id call) (rc_start_at call) w))"

definition fetch_entry :: "string \<Rightarrow> channel_entry \<Rightarrow> world \<Rightarrow> action list \<times> world" where
  "fetch_entry skipChannelID e w =
     (if skipChannelID = ce_channel_id e then ([], w)
      else
        let state = RECEIVED_CHANNEL_STATE \<lparr>ch_id = ce_channel_id e, ch_enabled = ce_enabled e\<rparr>
        in case ce_call e of
             None \<Rightarrow> ([state], w)
           | Some call \<Rightarrow>
               if rc_sessions call = [] then ([state], w)
               else let (acts, w') = fetch_call (ce_channel_id e) call w in (state # acts, w'))"

primrec fetch_loop :: "string \<Rightarrow> channel_entry list \<Rightarrow> world \<Rightarrow> action list \<times> world" where
  "fetch_loop skip [] w = ([], w)"
| "fetch_loop skip (e # es) w0 =
     (let (acts, w) = fetch_entry skip e w0; (acts', w') = fetch_loop skip es w in (acts @ acts', w'))"

text \<open>\<open>res\<close> is the answer of the request, \<open>None\<close> when it failed.\<close>

definition fetchChannels :: "string \<Rightarrow> channel_entry list option \<Rightarrow> world \<Rightarrow> action list \<times> world" where
  "fetchChannels skipChannelID res w =
     (case res of None \<Rightarrow> ([], w) | Some data \<Rightarrow> fetch_loop skipChannelID data w)"

section \<open>Activation\<close>

text \<open>
  \<open>onActivate\<close> up to its requests for the configuration, and what follows them: in a pop-out
  only the profiles and the channel of its call, elsewhere the calls of all channels, and over
  the websocket the state of the current call.
\<close>

definition onActivate :: "world \<Rightarrow> world" where
  "onActivate w0 =
     (if g_currentUserId (w_host w0) = '''' then w0
      else
        let w = emit (Rest ''get'' ''/config'' []) w0;
            w = emit (Rest ''get'' ''/version'' []) w
        in if g_isAdmin (w_host w) then emit (Rest ''get'' ''/env'' []) w else w)"

definition activate_popout :: "world \<Rightarrow> world" where
  "activate_popout w =
     (let channelID = channelIDForCurrentCall (world_app w);
          users = List.map_filter user_id (sessionsInCurrentCall (world_app w))
      in emit (RequestChannel channelID) (loadProfilesByIdsIfMissing (getUserIDsForSessions users) w))"

definition activate_start :: "world \<Rightarrow> world" where
  "activate_start w =
     (if isCallsPopOut (w_opener w) then activate_popout w else emit (Rest ''get'' ''/channels'' []) w)"

text \<open>
  What follows the answer \<open>res\<close> of the channels' request: \<open>current\<close> is the channel of the current
  call when the request was made.
\<close>

definition activate_channels :: "string \<Rightarrow> bool \<Rightarrow> channel_entry list option \<Rightarrow> world \<Rightarrow> world" where
  "activate_channels current hasWsClient res w0 =
     (let (acts, w) = fetchChannels current res w0;
          w = put_batch acts w
      in if current \<noteq> '''' \<and> hasWsClient then emit (WsRequest current) w else w)"

text \<open>The reconnect handler of the application's websocket.\<close>

definition on_ws_reconnect :: "world \<Rightarrow> world" where
  "on_ws_reconnect w = onActivate (if world_client w = None then put_action UNINIT w else w)"

definition deactivate :: "world \<Rightarrow> world" where
  "deactivate w = put_action UNINIT (own_disconnect None w)"

section \<open>The incoming call notification\<close>

text \<open>The notification properties of a user and of a channel member; a missing one is the empty string.\<close>

record user_props =
  up_desktop :: string
  up_desktop_sound :: string
  up_notification_sound :: string
  up_calls_sound :: string
  up_calls_notification_sound :: string

record member_props =
  mp_muted :: bool
  mp_desktop :: string
  mp_desktop_sound :: string
  mp_notification_sound :: string

definition getNotificationSoundFromChannelMemberAndUser ::
  "member_props option \<Rightarrow> user_props option \<Rightarrow> string" where
  "getNotificationSoundFromChannelMemberAndUser m u =
     (if str_or (map_option mp_notification_sound m) '''' \<noteq> '''' then str_or (map_option mp_notification_sound m) ''''
      else str_or (map_option up_notification_sound u) ''Bing'')"

definition getDesktopSoundFromChannelMemberAndUser ::
  "member_props option \<Rightarrow> user_props option \<Rightarrow> bool" where
  "getDesktopSoundFromChannelMemberAndUser m u =
     (if map_option mp_desktop_sound m = Some ''off'' then False
      else case u of None \<Rightarrow> True | Some p \<Rightarrow> up_desktop_sound p = ''true'')"

definition getRingingFromUser :: "user_props option \<Rightarrow> bool" where
  "getRingingFromUser u =
     (case u of
        None \<Rightarrow> True
      | Some p \<Rightarrow> str_or (Some (up_calls_sound p)) ''true'' = ''true'' \<and> up_desktop p \<noteq> ''none'')"

definition getDesktopNotificationFromUser :: "user_props option \<Rightarrow> bool" where
  "getDesktopNotificationFromUser u = (case u of None \<Rightarrow> True | Some p \<Rightarrow> up_desktop p \<noteq> ''none'')"

definition getDesktopNotificationFromChannel :: "member_props option \<Rightarrow> bool" where
  "getDesktopNotificationFromChannel m = (str_or (map_option mp_desktop m) '''' = '''' \<or> map_option mp_desktop m \<noteq> Some ''none'')"

text \<open>Whether to ring, to play a sound with the notification, and to notify.\<close>

definition useNotificationSettings ::
  "member_props option \<Rightarrow> user_props option \<Rightarrow> world \<Rightarrow> bool \<times> bool \<times> bool" where
  "useNotificationSettings m u w =
     (let status = getStatusForCurrentUser (world_app w);
          muted = (m = None \<or> map_option mp_muted m = Some True \<or> status = Some ''dnd'' \<or> status = Some ''ooo'');
          ring = (\<not> muted \<and> getRingingFromUser u);
          sound = getDesktopSoundFromChannelMemberAndUser m u;
          notify = (getDesktopNotificationFromChannel m \<and> getDesktopNotificationFromUser u)
      in (\<not> muted \<and> ring, \<not> muted \<and> sound, \<not> muted \<and> notify))"

text \<open>The effect of \<open>useRingingAndNotification\<close>, run when a notification appears.\<close>

definition ring_effect ::
  "desktop \<Rightarrow> bool \<Rightarrow> bool \<Rightarrow> member_props option \<Rightarrow> user_props option \<Rightarrow> string \<Rightarrow> world \<Rightarrow> world" where
  "ring_effect dk hasSounds onWidget m u callID w =
     (let st = w_plugin w;
          connected = (channelIDForCurrentCall (world_app w) \<noteq> '''')
      in if connected \<or> (currentlyRinging st \<and> \<not> ringingForCall st callID) then put_action (DID_RING_FOR_CALL callID) w
         else if \<not> fst (useNotificationSettings m u w) \<or> didRingForCall st callID \<or> (onWidget \<and> shouldRenderDesktopWidget dk)
         then w
         else ringForCall hasSounds callID (str_or (map_option up_calls_notification_sound u) ''Calm'') w)"

text \<open>
  The effect of \<open>useNotification\<close>: \<open>hidden\<close> is the visibility of the page, \<open>canSend\<close> that the
  application has \<open>sendDesktopNotificationToMe\<close>, \<open>server81\<close> that it is version 8.1 at least.
\<close>

definition notification_effect ::
  "bool \<Rightarrow> bool \<Rightarrow> bool \<Rightarrow> member_props option \<Rightarrow> user_props option \<Rightarrow> string \<Rightarrow> string \<Rightarrow> incoming_call \<Rightarrow> world \<Rightarrow> world" where
  "notification_effect hidden canSend server81 m u title body call w =
     (let (_, sound, notify) = useNotificationSettings m u w
      in if notify \<and> \<not> didNotifyForCall (w_plugin w) (ic_callID call) \<and> hidden \<and> canSend then
           (if ic_type call = DM \<and> \<not> server81 then w
            else if getChannel (world_app w) (ic_channelID call) = None then w
            else put_action (DID_NOTIFY_FOR_CALL (ic_callID call))
              (emit (DesktopNotification title body (\<not> sound) (getNotificationSoundFromChannelMemberAndUser m u)) w))
         else put_action (DID_NOTIFY_FOR_CALL (ic_callID call)) w)"

definition onDismiss :: "string \<Rightarrow> string \<Rightarrow> world \<Rightarrow> world" where
  "onDismiss channelID callID = dismissIncomingCallNotification channelID callID"

definition onJoin :: "desktop \<Rightarrow> string \<Rightarrow> string \<Rightarrow> string \<Rightarrow> world \<Rightarrow> world" where
  "onJoin dk url channelID callID w0 =
     (let w = emit StopRing w0
      in if channelIDForCurrentCall (world_app w) \<noteq> '''' then
           (if isDesktopApp dk \<and> world_client w \<noteq> None then
              (if has_api dk ''sendJoinCallRequest'' then emit (DesktopCall ''sendJoinCallRequest'' [(''callID'', channelID)]) w
               else if desktopGTE dk 5 5 then sendDesktopEvent ''calls-join-request'' [(''callID'', channelID)] w
               else sendDesktopEvent ''calls-joined-call'' [(''type'', ''calls-join-request''), (''callID'', channelID)]
                      (sendDesktopEvent ''calls-widget-channel-link-click'' [(''pathName'', url)] w))
            else showSwitchCallModal (Some channelID) w)
         else emit (PostMessage ''connectCall'' channelID) (dismissIncomingCallNotification channelID callID w))"

definition useOnACallWithoutGlobalWidget :: "desktop \<Rightarrow> world \<Rightarrow> bool" where
  "useOnACallWithoutGlobalWidget dk w =
     (channelIDForCurrentCall (world_app w) \<noteq> '''' \<and> \<not> shouldRenderDesktopWidget dk)"

definition onChannelLinkClick :: "desktop \<Rightarrow> string \<Rightarrow> world \<Rightarrow> world" where
  "onChannelLinkClick dk channelURL w0 =
     (let w = emit StopRing w0
      in if isDesktopApp dk \<and> world_client w0 \<noteq> None then
           (let url = (if take 9 channelURL = ''/channels''
                       then ''/'' @ str_or (teamForCurrentCall (world_app w0)) '''' @ channelURL else channelURL)
            in if has_api dk ''openLinkFromCalls'' then emit (DesktopCall ''openLinkFromCalls'' [(''link'', url)]) w
               else sendDesktopEvent ''calls-link-click'' [(''link'', url)] w)
         else emit (NavigateTo channelURL) w)"

section \<open>Desktop notifications of posts\<close>

text \<open>
  \<open>desktopNotificationHandler\<close> as the \<open>notify\<close> flag it answers with; \<open>mentioned\<close> is whether the
  post's mentions name the current user.
\<close>

definition desktopNotificationHandler ::
  "string \<Rightarrow> string \<Rightarrow> string \<Rightarrow> bool \<Rightarrow> channel option \<Rightarrow> bool \<Rightarrow> world \<Rightarrow> bool" where
  "desktopNotificationHandler postType post_channel_id post_root_id mentioned channel notify w =
     (if \<not> notify then False
      else if postType = ''custom_calls'' \<and> isDmGmChannel channel \<and> ringingEnabled (world_app w) then False
      else if channelIDForCurrentCall (world_app w) = post_channel_id \<and>
              threadIDForCurrentCall (world_app w) = Some post_root_id then mentioned
      else True)"

section \<open>The join flow in the loop\<close>

text \<open>Every operation above is a good move, so it is a step of the window and keeps its invariants.\<close>

lemma plain_more [simp]:
  "plain UNINIT" "plain (DESKTOP_WIDGET_CONNECTED ch s)" "plain (SHOW_SWITCH_CALL_MODAL t)"
  "plain (DID_NOTIFY_FOR_CALL c)"
  by (simp_all add: plain_def)

lemma good_simple [good_intros]:
  "good w w' \<Longrightarrow> good w (showSwitchCallModal t w')"
  "good w w' \<Longrightarrow> good w (setClientConnecting b w')"
  "good w w' \<Longrightarrow> good w (sendDesktopEvent e m w')"
  "good w w' \<Longrightarrow> good w (displayFreeTrial w')"
  "good w w' \<Longrightarrow> good w (displayCallsTestModeUser w')"
  "good w w' \<Longrightarrow> good w (displayCallErrorModal err c w')"
  unfolding showSwitchCallModal_def setClientConnecting_def sendDesktopEvent_def displayFreeTrial_def
    displayCallsTestModeUser_def displayCallErrorModal_def
  by (auto intro!: good_intros)

lemma good_desktop [good_intros]:
  "good w w' \<Longrightarrow> good w (sendDesktopError dk ch m w')"
  "good w w' \<Longrightarrow> good w (handleDesktopJoinedCall dk ty c s w')"
  unfolding sendDesktopError_def handleDesktopJoinedCall_def by (auto intro!: good_intros)

lemma good_connect [good_intros]:
  "good w w' \<Longrightarrow> good w (connectCall_client ch w')"
  "good w w' \<Longrightarrow> good w (connectCall dk url ch title root w')"
  "good w w' \<Longrightarrow> good w (connectCall_desktop_joined dk ty c s w')"
  "good w w' \<Longrightarrow> good w (connectCall_init_failed err ch w')"
proof -
  assume w: "good w w'"
  have "good w' (w'\<lparr>w_own := c, w_promptDismissedAt := t\<rparr>)" for c t by (rule good_same) simp_all
  then have c: "good w (w'\<lparr>w_own := c, w_promptDismissedAt := t\<rparr>)" for c t using w by (rule good_trans [rotated])
  show client: "good w (connectCall_client ch w')"
    unfolding connectCall_client_def Let_def by (intro good_intros c)
  show "good w (connectCall dk url ch title root w')"
    unfolding connectCall_def Let_def using w client by (auto intro!: good_intros)
  show "good w (connectCall_desktop_joined dk ty c s w')"
    unfolding connectCall_desktop_joined_def using w by (auto intro!: good_intros)
  show "good w (connectCall_init_failed err ch w')"
    unfolding connectCall_init_failed_def Let_def using w by (auto intro!: good_intros)
qed

lemma good_follow [good_intros]: "good w w' \<Longrightarrow> good w (followThread ch t w')"
  unfolding followThread_def Let_def by (auto intro!: good_intros)

lemma good_connect_to [good_intros]: "good w w' \<Longrightarrow> good w (connectToCall dk url ch team title root w')"
  unfolding connectToCall_def Let_def by (auto intro!: good_intros)

lemma good_join: "joinCall dk url ch team title root w = Inr w' \<Longrightarrow> good w w'"
  unfolding joinCall_def Let_def by (auto split: if_splits intro!: good_intros)

lemma good_fetch_call: "good w (snd (fetch_call ch call w)) \<and> list_all plain (fst (fetch_call ch call w))"
  unfolding fetch_call_def Let_def by (auto simp: sessions_map_wf intro!: good_intros)

lemma good_fetch_entry: "good w (snd (fetch_entry skip e w)) \<and> list_all plain (fst (fetch_entry skip e w))"
  using good_fetch_call unfolding fetch_entry_def Let_def case_prod_beta
  by (auto split: option.split)

lemma good_fetch_loop: "good w (snd (fetch_loop skip es w)) \<and> list_all plain (fst (fetch_loop skip es w))"
proof (induction es arbitrary: w)
  case (Cons e es)
  then show ?case using good_fetch_entry [of w skip e] by (auto simp: case_prod_beta intro: good_trans)
qed simp

lemma good_activate:
  "good w (onActivate w)" "good w (activate_start w)" "good w (activate_channels ch b res w)"
  "good w (on_ws_reconnect w)" "good w (deactivate w)"
proof -
  show act: "good w (onActivate w)" for w unfolding onActivate_def Let_def by (auto intro!: good_intros)
  show "good w (activate_start w)"
    unfolding activate_start_def activate_popout_def Let_def by (auto intro!: good_intros)
  have "good w (snd (fetchChannels ch res w)) \<and> list_all plain (fst (fetchChannels ch res w))" for ch
    using good_fetch_loop by (auto simp: fetchChannels_def split: option.split)
  then have "good w (put_batch (fst (fetchChannels ch res w)) (snd (fetchChannels ch res w)))" for ch
    by (blast intro: good_trans good_batch)
  then show "good w (activate_channels ch b res w)"
    unfolding activate_channels_def Let_def case_prod_beta by (auto intro!: good_intros)
  show "good w (on_ws_reconnect w)" unfolding on_ws_reconnect_def
    by (rule good_trans [OF _ act]) (auto intro!: good_intros)
  show "good w (deactivate w)" unfolding deactivate_def by (auto intro!: good_intros)
qed

lemma good_hooks:
  "good w (ring_effect dk h b m u c w)" "good w (notification_effect hid can s81 m u title body call w)"
  "good w (onDismiss ch c w)" "good w (onJoin dk url ch c w)" "good w (onChannelLinkClick dk url w)"
  unfolding ring_effect_def notification_effect_def onDismiss_def onJoin_def onChannelLinkClick_def Let_def
    case_prod_beta
  by (auto intro!: good_intros)

lemmas join_flow_steps =
  good_join [THEN world_step.other_code] good_activate [THEN world_step.other_code]
  good_hooks [THEN world_step.other_code]

section \<open>Properties\<close>

text \<open>The client of a window changes in \<open>joinCall\<close> only through \<open>connectCall_client\<close>.\<close>

lemma connect_own:
  "w_own (connectCall dk url ch title root w) =
     (if \<not> has_api dk ''joinCall'' \<and> \<not> shouldRenderDesktopWidget dk \<and> w_own w = None \<and>
         \<not> needsTURNCredentials (world_app w)
      then Some \<lparr>cv_channelID = ch, cv_sessionID = None, cv_initTime = w_now w\<rparr> else w_own w)"
  by (simp add: connectCall_def connectCall_client_def setClientConnecting_def sendDesktopEvent_def Let_def
      world_step_defs)

lemma connect_to_own:
  "w_own (connectToCall dk url ch team title root w) =
     (if channelIDForCurrentCall (world_app w) = '''' then w_own (connectCall dk url ch title root w) else w_own w)"
  by (simp add: connectToCall_def followThread_def showSwitchCallModal_def Let_def)


definition plain_browser :: desktop where
  "plain_browser = \<lparr>dk_version = None, dk_userAgent = False, dk_api = []\<rparr>"

definition sample_live :: world where
  "sample_live = put_action (RECEIVED_CALLS_CONFIG (CallsConfigDefault\<lparr>DefaultEnabled := True\<rparr>)) sample_start"

definition sample_turn :: world where
  "sample_turn = put_action (RECEIVED_CALLS_CONFIG
     (CallsConfigDefault\<lparr>DefaultEnabled := True, NeedsTURNCredentials := True\<rparr>)) sample_start"


text \<open>
  Joining twice while the TURN credentials are on their way makes two clients: the check for a
  client comes before the wait and is not repeated after it. The second client takes the place of
  the first, which nothing refers to any more.
\<close>

theorem double_join_race:
  assumes "\<not> has_api dk ''joinCall''" and "\<not> shouldRenderDesktopWidget dk"
    and "w_own w = None" and "needsTURNCredentials (world_app w)"
  shows "let w2 = connectCall dk url b t r (connectCall dk url a t r w);
         w4 = connectCall_client b (connectCall_client a w2)
     in w_effects w4 = w_effects w @ [Rest ''get'' ''/turn-credentials'' [], Rest ''get'' ''/turn-credentials'' [],
          CreateClient a, CreateClient b] \<and>
        map_option cv_channelID (w_own w4) = Some b"
proof -
  have "needsTURNCredentials (world_app (emit e w))" for e
    using assms(4) by (simp add: needsTURNCredentials_def sel_callsConfig_def)
  then show ?thesis
    using assms by (simp add: connectCall_def connectCall_client_def setClientConnecting_def Let_def)
qed

theorem double_join_race_witness:
  "let w2 = connectCall plain_browser '''' ''ch'' '''' '''' (connectCall plain_browser '''' ''ch'' '''' '''' sample_turn);
       w4 = connectCall_client ''ch'' (connectCall_client ''ch'' w2)
   in w_effects w4 = [Rest ''get'' ''/turn-credentials'' [], Rest ''get'' ''/turn-credentials'' [],
        CreateClient ''ch'', CreateClient ''ch''] \<and>
      map_option cv_channelID (w_own w4) = Some ''ch''"
proof -
  have a: "\<not> has_api plain_browser ''joinCall''" "\<not> shouldRenderDesktopWidget plain_browser"
    "w_own sample_turn = None" "needsTURNCredentials (world_app sample_turn)" by code_simp+
  have "w_effects sample_turn = []" by code_simp
  then show ?thesis using double_join_race [OF a, where url = "''''" and t = "''''" and r = "''''" and a = "''ch''" and b = "''ch''"]
    by (simp add: Let_def)
qed

text \<open>The slices of a channel's call, and the actions that write them.\<close>

definition call_slices :: "plugin_state \<Rightarrow> string \<Rightarrow>
    channel_state option \<times> call_state option \<times> user_session obj option" where
  "call_slices st ch = (obj_get (s_channels st) ch, obj_get (s_calls st) ch, obj_get (s_sessions st) ch)"

fun leaves_call :: "string \<Rightarrow> action \<Rightarrow> bool" where
  "leaves_call ch (RECEIVED_CHANNEL_STATE c) = (ch_id c \<noteq> ch)"
| "leaves_call ch (CALL_STATE c) = (cs_channelID c \<noteq> ch)"
| "leaves_call ch (USERS_STATES c _) = (c \<noteq> ch)"
| "leaves_call ch (DISMISS_CALL _) = True"
| "leaves_call ch (ADD_INCOMING_CALL _) = True"
| "leaves_call ch _ = False"

lemma leaves_slices: "leaves_call ch a \<Longrightarrow> call_slices (dispatch a st) ch = call_slices st ch"
  by (cases a) (auto simp: call_slices_def sessions_users_states_def)

lemma batch_leaves:
  "list_all (leaves_call ch) as \<Longrightarrow> call_slices (dispatch_all as st) ch = call_slices st ch"
  by (induction as arbitrary: st) (simp_all add: leaves_slices)

lemma incoming_call_slices:
  "call_slices (w_plugin (incomingCallOnChannel c callID callerID startAt w)) ch = call_slices (w_plugin w) ch"
  by (simp add: incomingCallOnChannel_def incoming_checked_def incoming_add_def Let_def leaves_slices
      split: option.split)

lemma fetch_call_leaves:
  "c \<noteq> ch \<Longrightarrow> list_all (leaves_call ch) (fst (fetch_call c call w)) \<and>
     call_slices (w_plugin (snd (fetch_call c call w))) ch = call_slices (w_plugin w) ch"
  by (simp add: fetch_call_def Let_def incoming_call_slices)

lemma fetch_loop_leaves:
  "list_all (leaves_call ch) (fst (fetch_loop ch es w)) \<and>
   call_slices (w_plugin (snd (fetch_loop ch es w))) ch = call_slices (w_plugin w) ch"
proof (induction es arbitrary: w)
  case (Cons e es)
  have "list_all (leaves_call ch) (fst (fetch_entry ch e w)) \<and>
     call_slices (w_plugin (snd (fetch_entry ch e w))) ch = call_slices (w_plugin w) ch"
    using fetch_call_leaves [of "ce_channel_id e" ch]
    by (simp add: fetch_entry_def Let_def case_prod_beta split: option.split)
  with Cons show ?case by (simp add: case_prod_beta)
qed simp

text \<open>
  C13. What the server's list says never touches the current call: after the channels have been
  loaded, the channel's setting, the call and the sessions of the call the window was in when it
  asked are what they were, whatever the list holds. Only websocket events write them.
\<close>

theorem fetch_keeps_current_call:
  "call_slices (w_plugin (activate_channels current b res w)) current = call_slices (w_plugin w) current"
proof -
  have "list_all (leaves_call current) (fst (fetchChannels current res w)) \<and>
     call_slices (w_plugin (snd (fetchChannels current res w))) current = call_slices (w_plugin w) current"
    using fetch_loop_leaves by (simp add: fetchChannels_def split: option.split)
  then show ?thesis by (simp add: activate_channels_def Let_def case_prod_beta batch_leaves)
qed

end
