(* ===== verification/Standalone.thy ===== *)
theory Standalone
  imports Join_Flow
begin

text \<open>
  The two pages the plugin serves on its own (\<open>standalone/src\<close>): the call widget of the desktop
  application and the page a recorder opens. Both start with \<open>init\<close> of \<open>init.ts\<close>, which builds a
  store of their own, fetches the configuration and creates the client; they differ in the hooks
  \<open>initStore\<close>, \<open>initCb\<close>, \<open>wsHandler\<close> and \<open>closeCb\<close> they pass to it.

  The handlers of the websocket events are those of \<open>Ws_Handlers\<close>. Four of them can disconnect
  the client; they are stated again here because the listener of its \<open>close\<close> is another one.
\<close>

section \<open>The page\<close>

text \<open>
  \<open>getCallID\<close>, \<open>getCallTitle\<close>, \<open>getRootID\<close> and \<open>getJobID\<close> read the query, \<open>getToken\<close> the decoded
  hash of the address.
\<close>

record page =
  pg_pathname :: string
  pg_query :: "string obj"
  pg_token :: "string option"

definition getCallID :: "page \<Rightarrow> string option" where
  "getCallID p = obj_get (pg_query p) ''call_id''"

definition getCallTitle :: "page \<Rightarrow> string" where
  "getCallTitle p = str_or (obj_get (pg_query p) ''title'') ''''"

definition getRootID :: "page \<Rightarrow> string" where
  "getRootID p = str_or (obj_get (pg_query p) ''root_id'') ''''"

definition getJobID :: "page \<Rightarrow> string" where
  "getJobID p = str_or (obj_get (pg_query p) ''job_id'') ''''"

definition getToken :: "page \<Rightarrow> string" where
  "getToken p = str_or (pg_token p) ''''"

text \<open>\<open>s.indexOf(p)\<close>.\<close>

fun index_of :: "string \<Rightarrow> string \<Rightarrow> nat option" where
  "index_of p [] = (if p = [] then Some 0 else None)"
| "index_of p (c # s) =
     (if take (length p) (c # s) = p then Some 0 else map_option Suc (index_of p s))"

definition setBasename :: "page \<Rightarrow> string option" where
  "setBasename p =
     (case index_of ''/plugins/'' (pg_pathname p) of
        Some (Suc n) \<Rightarrow> Some (take (Suc n) (pg_pathname p))
      | _ \<Rightarrow> None)"

section \<open>State\<close>

datatype sa_kind = WidgetPage | RecordingPage

record page_config =
  cc_iceServers :: "string list"
  cc_authToken :: string
  cc_simulcast :: bool
  cc_enableAV1 :: bool
  cc_dcSignaling :: bool
  cc_enableVideo :: bool

text \<open>
  \<open>sa_closed\<close> is the flag of the client, \<open>sa_closing\<close> holds when the timers of \<open>deinitWidget\<close> are
  due, \<open>sa_view\<close> the \<open>startingCall\<close> the view was mounted with, \<open>sa_mounting\<close> the one of a view
  that waits for the desktop application, and \<open>sa_left\<close> counts the requests to leave.
\<close>

record standalone =
  sa_kind :: sa_kind
  sa_world :: world
  sa_desk :: desktop
  sa_page :: page
  sa_config :: "page_config option"
  sa_closed :: bool
  sa_closing :: "int list"
  sa_view :: "bool option"
  sa_mounting :: "bool option"
  sa_listening :: bool
  sa_left :: nat
  sa_errors :: "string list"

definition in_world :: "(world \<Rightarrow> world) \<Rightarrow> standalone \<Rightarrow> standalone" where
  "in_world f s = s\<lparr>sa_world := f (sa_world s)\<rparr>"

definition sa_log :: "string \<Rightarrow> standalone \<Rightarrow> standalone" where
  "sa_log msg s = s\<lparr>sa_errors := sa_errors s @ [msg]\<rparr>"

definition drop_client :: "standalone \<Rightarrow> standalone" where
  "drop_client = in_world (\<lambda>w. w\<lparr>w_own := None\<rparr>)"

lemma in_world_simps [simp]:
  "sa_world (in_world f s) = f (sa_world s)"
  "sa_kind (in_world f s) = sa_kind s"
  "sa_desk (in_world f s) = sa_desk s"
  "sa_page (in_world f s) = sa_page s"
  "sa_closed (in_world f s) = sa_closed s"
  "sa_closing (in_world f s) = sa_closing s"
  "sa_view (in_world f s) = sa_view s"
  "sa_mounting (in_world f s) = sa_mounting s"
  "sa_listening (in_world f s) = sa_listening s"
  "sa_left (in_world f s) = sa_left s"
  by (simp_all add: in_world_def)

section \<open>The end of the call\<close>

definition err_message :: "js_error \<Rightarrow> string" where
  "err_message e = (case e of ErrorMsg m \<Rightarrow> m | TypeError \<Rightarrow> '''')"

definition deinitWidget :: "js_error option \<Rightarrow> standalone \<Rightarrow> standalone" where
  "deinitWidget err s0 =
     (let s = in_world (emit (PlaySound ''leave_self'')) s0;
          s = (case err of
                 None \<Rightarrow> s
               | Some e \<Rightarrow> in_world (sendDesktopError (sa_desk s)
                   (getCallsClientChannelID (w_own (sa_world s))) (err_message e)) s)
      in s\<lparr>sa_closing := sa_closing s @ [w_now (sa_world s) + 250]\<rparr>)"

text \<open>What that timer runs.\<close>

definition widget_closes :: "standalone \<Rightarrow> standalone" where
  "widget_closes s0 =
     (let s = (drop_client s0)\<lparr>sa_view := None, sa_left := Suc (sa_left s0), sa_listening := False\<rparr>
      in in_world (if has_api (sa_desk s) ''leaveCall'' then emit (DesktopCall ''leaveCall'' [])
                   else sendDesktopEvent ''calls-leave-call'' []) s)"

definition deinitRecording :: "standalone \<Rightarrow> standalone" where
  "deinitRecording s = (drop_client s)\<lparr>sa_listening := False\<rparr>"

definition closeCb :: "js_error option \<Rightarrow> standalone \<Rightarrow> standalone" where
  "closeCb err s = (case sa_kind s of WidgetPage \<Rightarrow> deinitWidget err s | RecordingPage \<Rightarrow> deinitRecording s)"

text \<open>The \<open>close\<close> listener of \<open>connectCall\<close>, and \<open>disconnect\<close>, which emits it once.\<close>

definition sa_on_close :: "js_error option \<Rightarrow> standalone \<Rightarrow> standalone" where
  "sa_on_close err s0 =
     (let s = in_world (setClientConnecting False) s0;
          s = (case w_own (sa_world s) of
                 None \<Rightarrow> s | Some c \<Rightarrow> in_world (localSessionClose (cv_channelID c)) s)
      in closeCb err s)"

definition sa_disconnect :: "js_error option \<Rightarrow> standalone \<Rightarrow> standalone" where
  "sa_disconnect err s =
     (if w_own (sa_world s) = None then s
      else
        let s = in_world (emit (ClientCall (CallDisconnect err))) s
        in if sa_closed s then s else sa_on_close err (s\<lparr>sa_closed := True\<rparr>))"

section \<open>Starting\<close>

text \<open>
  \<open>connectCall\<close>; the argument says that the constructor of the client throws. The promise of
  \<open>init\<close> settles later (\<open>sa_init_failed\<close>).
\<close>

definition sa_connectCall :: "page_config \<Rightarrow> bool \<Rightarrow> string \<Rightarrow> standalone \<Rightarrow> standalone" where
  "sa_connectCall cfg throws channelID s =
     (if w_own (sa_world s) \<noteq> None then sa_log ''calls client is already initialized'' s
      else if throws then closeCb None s
      else (in_world (connectCall_client channelID) s)\<lparr>sa_config := Some cfg, sa_closed := False\<rparr>)"

definition sa_init_failed :: "js_error \<Rightarrow> standalone \<Rightarrow> standalone" where
  "sa_init_failed err s = closeCb (Some err) (in_world (setClientConnecting False) s)"

text \<open>
  \<open>initWidget\<close> waits for \<open>getAppInfo\<close> when the application has it; then, or at once, it
  listens to the client and renders the widget. The other page renders its view at once.
\<close>

definition mount_widget :: "bool \<Rightarrow> standalone \<Rightarrow> standalone" where
  "mount_widget starting s =
     s\<lparr>sa_view := Some starting, sa_mounting := None, sa_listening := (w_own (sa_world s) \<noteq> None)\<rparr>"

definition initWidget :: "bool \<Rightarrow> standalone \<Rightarrow> standalone" where
  "initWidget starting s =
     (if has_api (sa_desk s) ''getAppInfo'' then s\<lparr>sa_mounting := Some starting\<rparr>
      else mount_widget starting (in_world (sendDesktopEvent ''get-app-version'' []) s))"

definition initRecording :: "bool \<Rightarrow> standalone \<Rightarrow> standalone" where
  "initRecording starting s = s\<lparr>sa_view := Some starting\<rparr>"

definition initCb :: "bool \<Rightarrow> standalone \<Rightarrow> standalone" where
  "initCb starting s = (case sa_kind s of WidgetPage \<Rightarrow> initWidget starting s | RecordingPage \<Rightarrow> initRecording starting s)"

text \<open>
  What \<open>initStoreWidget\<close> asks the application's store for, in two rounds: the second depends on the
  channel the first has loaded.
\<close>

datatype store_request =
    GetMe | GetMyPreferences | GetMyTeams | GetMyTeamMembers | GetChannel string
  | GetTeam string | GetChannelMembers string | SelectTeam "string option"

definition initStoreWidget :: "string \<Rightarrow> store_request list" where
  "initStoreWidget channelID = [GetMe, GetMyPreferences, GetMyTeams, GetMyTeamMembers, GetChannel channelID]"

definition initStoreWidget_channel :: "string \<Rightarrow> app \<Rightarrow> store_request list" where
  "initStoreWidget_channel channelID a =
     (case getChannel a channelID of
        None \<Rightarrow> []
      | Some ch \<Rightarrow>
          if c_type ch = ''O'' \<or> isPrivateChannel (Some ch) then [GetTeam (c_team_id ch)]
          else [GetChannelMembers (c_id ch),
                SelectTeam (case obj_values (g_teams (host a)) of [] \<Rightarrow> None | t # _ \<Rightarrow> Some t)])"

text \<open>
  \<open>initRecordingStore\<close>: the channel is fetched with retries; the identifier the application
  files it under is the channel's own.
\<close>

definition initRecordingStore ::
  "(nat \<Rightarrow> js_error + channel) \<Rightarrow> (nat \<Rightarrow> int) \<Rightarrow> standalone \<Rightarrow> standalone" where
  "initRecordingStore fetch jitter s =
     (case fst (runWithRetry fetch jitter 100 10) of
        Inl _ \<Rightarrow> sa_log ''failed to fetch channel'' s
      | Inr ch \<Rightarrow> in_world (\<lambda>w. w\<lparr>w_host := (w_host w)\<lparr>g_channels := obj_set (c_id ch) ch (g_channels (w_host w))\<rparr>\<rparr>) s)"

text \<open>
  What the requests of \<open>init\<close> answer. \<open>an_host\<close> is the application's store after \<open>initStore\<close>;
  \<open>an_action\<close> is what the actions of \<open>bindClientFunc\<close> (mattermost-redux) resolve to, for an
  answer or an error. \<open>getCallActive\<close> answers with a boolean in any case.
\<close>

record init_answers =
  an_host :: host_state
  an_config :: "calls_config option"
  an_version :: "string obj option"
  an_active :: "bool option"
  an_turn :: "js_error + string list"
  an_throws :: bool

fun js_truthy :: "jval \<Rightarrow> bool" where
  "js_truthy JUndef = False"
| "js_truthy JNull = False"
| "js_truthy (JBool b) = b"
| "js_truthy (JNum n) = (n \<noteq> 0)"
| "js_truthy (JStr s) = (s \<noteq> '''')"
| "js_truthy _ = True"

datatype init_end = InitReturned | InitThrew js_error | InitDone

definition init_config :: "channel \<Rightarrow> string list \<Rightarrow> standalone \<Rightarrow> page_config" where
  "init_config ch turn s =
     (let a = world_app (sa_world s); cfg = sel_callsConfig a
      in \<lparr>cc_iceServers = iceServers a @ turn, cc_authToken = getToken (sa_page s), cc_simulcast = EnableSimulcast cfg,
          cc_enableAV1 = EnableAV1 cfg, cc_dcSignaling = EnableDCSignaling cfg,
          cc_enableVideo = (EnableVideo cfg \<and> isDMChannel (Some ch))\<rparr>)"

text \<open>From the client on: the name \<open>active\<close> is bound to the second of the three results.\<close>

definition init_finish ::
  "channel \<Rightarrow> string \<Rightarrow> jval list \<Rightarrow> bool \<Rightarrow> string list \<Rightarrow> standalone \<Rightarrow> init_end \<times> standalone" where
  "init_finish ch channelID results throws turn s =
     (let active = results ! 1
      in (InitDone, initCb (\<not> js_truthy active) (sa_connectCall (init_config ch turn s) throws channelID s)))"

definition init_requests :: "(bool \<Rightarrow> jval) \<Rightarrow> string \<Rightarrow> init_answers \<Rightarrow> standalone \<Rightarrow> jval list \<times> standalone" where
  "init_requests an_action channelID ans s0 =
     (let s = in_world (getCallsConfig (an_config ans)) s0;
          s = in_world (getCallsVersionInfo (an_version ans)) s;
          (active, w) = getCallActive channelID (an_active ans) (sa_world s)
      in ([an_action (an_config ans \<noteq> None), an_action (an_version ans \<noteq> None), JBool active], s\<lparr>sa_world := w\<rparr>))"

definition init :: "(bool \<Rightarrow> jval) \<Rightarrow> init_answers \<Rightarrow> standalone \<Rightarrow> init_end \<times> standalone" where
  "init an_action ans s0 =
     (let channelID = str_or (getCallID (sa_page s0)) ''''
      in if channelID = '''' then (InitReturned, sa_log ''invalid call id'' s0)
         else
           let s = in_world (\<lambda>w. w\<lparr>w_host := an_host ans\<rparr>) s0
           in case getChannel (world_app (sa_world s)) channelID of
                None \<Rightarrow> (InitReturned, sa_log ''channel not found'' s)
              | Some ch \<Rightarrow>
                  let (results, s) = init_requests an_action channelID ans s
                  in if needsTURNCredentials (world_app (sa_world s)) then
                       (let s = in_world (emit (Rest ''get'' ''/turn-credentials'' [])) s
                        in case an_turn ans of
                             Inl e \<Rightarrow> (InitThrew e, s)
                           | Inr turn \<Rightarrow> init_finish ch channelID results (an_throws ans) turn s)
                     else init_finish ch channelID results (an_throws ans) [] s)"

section \<open>Websocket events\<close>

text \<open>The handlers that can disconnect the client, with the listener of this page.\<close>

definition sa_callEnd :: "string \<Rightarrow> standalone \<Rightarrow> standalone" where
  "sa_callEnd channelID s0 =
     (let s = (if channelIDForCurrentCall (world_app (sa_world s0)) = channelID then sa_disconnect None s0 else s0);
          callID = str_or (map_option cs_ID (obj_get (sel_calls (world_app (sa_world s))) channelID)) '''';
          s = in_world (put_action (CALL_END channelID callID)) s
      in in_world (removeIncomingCallNotification callID) s)"

definition sa_userLeft :: "string \<Rightarrow> string \<Rightarrow> string \<Rightarrow> standalone \<Rightarrow> standalone" where
  "sa_userLeft channelID userID sessionID s0 =
     (let s = in_world (put_action (USER_LEFT channelID userID sessionID)) s0
      in if numSessionsInCallInChannel (w_plugin (sa_world s)) channelID = 0 then sa_callEnd channelID s else s)"

definition sa_userRemoved ::
  "envelope \<Rightarrow> string option \<Rightarrow> string option \<Rightarrow> string \<Rightarrow> standalone \<Rightarrow> standalone" where
  "sa_userRemoved e data_channel data_user remover s =
     (let w = sa_world s; currentUserID = g_currentUserId (w_host w)
      in if str_or data_user (e_broadcast_user e) = currentUserID \<and>
            str_or data_channel (e_broadcast_channel e) = channelIDForCurrentCall (world_app w) then
           sa_disconnect (Some (if remover = currentUserID then userLeftChannelErr else userRemovedFromChannelErr)) s
         else s)"

definition sa_hostRemoved :: "string \<Rightarrow> string \<Rightarrow> string \<Rightarrow> string \<Rightarrow> standalone \<Rightarrow> standalone" where
  "sa_hostRemoved channelID sid uid call_id s =
     (if for_own_session channelID sid (sa_world s) then sa_disconnect (Some hostRemovedMsg) s
      else in_world (handleHostRemoved channelID sid uid call_id) s)"

text \<open>The switch of \<open>init\<close>: it has no case for channel settings and captions.\<close>

fun sa_handle :: "ws_event \<Rightarrow> standalone \<Rightarrow> standalone" where
  "sa_handle (EvChannelEnable e) s = s"
| "sa_handle (EvChannelDisable e) s = s"
| "sa_handle (EvCaption ch uid sid txt) s = s"
| "sa_handle (EvCallEnd e) s = sa_callEnd (ev_channel e) s"
| "sa_handle (EvUserLeft e uid sid) s = sa_userLeft (ev_channel e) uid sid s"
| "sa_handle (EvUserRemoved e ch uid remover) s = sa_userRemoved e ch uid remover s"
| "sa_handle (EvHostRemoved ch sid uid c) s = sa_hostRemoved ch sid uid c s"
| "sa_handle ev s = in_world (handle ev) s"

text \<open>The job a recorder is told to stop.\<close>

definition handle_job_stop :: "string \<Rightarrow> standalone \<Rightarrow> standalone" where
  "handle_job_stop job_id s =
     (if sa_kind s = RecordingPage \<and> getJobID (sa_page s) = job_id then sa_disconnect None s else s)"

section \<open>Steps\<close>

datatype (plugins only: code size) sa_event =
    SaSocket ws_event | SaJobStop string
  | SaConnected | SaClientClosed "js_error option" | SaInitFailed js_error
  | SaMuted | SaUnmuted | SaVideoOn | SaVideoOff
  | SaAppInfo | SaTimer | SaClock int | SaFire nat | SaSettle nat "channel option"

text \<open>
  A closed client reads no socket; it closes of itself only once. The timers and promises of the
  handlers are those of the window.
\<close>

fun sa_step :: "sa_event \<Rightarrow> standalone \<Rightarrow> standalone" where
  "sa_step (SaSocket ev) s = (if w_own (sa_world s) = None \<or> sa_closed s then s else sa_handle ev s)"
| "sa_step (SaJobStop j) s = (if w_own (sa_world s) = None \<or> sa_closed s then s else handle_job_stop j s)"
| "sa_step SaConnected s =
     (if w_own (sa_world s) = None \<or> sa_closed s then s else in_world on_client_connect s)"
| "sa_step (SaClientClosed err) s = sa_disconnect err s"
| "sa_step (SaInitFailed err) s = (if sa_config s = None then s else sa_init_failed err s)"
| "sa_step SaMuted s = (if sa_listening s then in_world on_client_mute s else s)"
| "sa_step SaUnmuted s = (if sa_listening s then in_world on_client_unmute s else s)"
| "sa_step SaVideoOn s = (if sa_listening s then in_world on_client_video_on s else s)"
| "sa_step SaVideoOff s = (if sa_listening s then in_world on_client_video_off s else s)"
| "sa_step SaAppInfo s = (case sa_mounting s of None \<Rightarrow> s | Some b \<Rightarrow> mount_widget b s)"
| "sa_step SaTimer s =
     (case sa_closing s of
        [] \<Rightarrow> s
      | t # ts \<Rightarrow> if t \<le> w_now (sa_world s) then widget_closes (s\<lparr>sa_closing := ts\<rparr>) else s)"
| "sa_step (SaClock t) s = (if w_now (sa_world s) \<le> t then in_world (\<lambda>w. w\<lparr>w_now := t\<rparr>) s else s)"
| "sa_step (SaFire i) s = (if can_fire i (sa_world s) then in_world (fire i) s else s)"
| "sa_step (SaSettle i res) s = (if i < length (w_pending (sa_world s)) then in_world (settle i res) s else s)"

end
