(* ===== verification/Standalone_Properties.thy ===== *)
theory Standalone_Properties
  imports Standalone
begin

text \<open>
  The standalone pages: they are windows in the sense of \<open>Event_Loop\<close>, the widget page always
  asks the desktop application to leave, and what the view is told about the start of the call.
\<close>

section \<open>A page is a window\<close>

lemma good_sa_simple [good_intros]:
  "good w (sa_world s) \<Longrightarrow> good w (sa_world (drop_client s))"
  "good w (sa_world s) \<Longrightarrow> good w (sa_world (sa_log m s))"
  "good w (sa_world s) \<Longrightarrow> good w (sa_world (deinitRecording s))"
  "good w (sa_world s) \<Longrightarrow> good w (sa_world (widget_closes s))"
  "good w (sa_world s) \<Longrightarrow> good w (sa_world (mount_widget b s))"
  by (auto simp: drop_client_def sa_log_def deinitRecording_def widget_closes_def mount_widget_def Let_def
      intro!: good_intros)

lemma good_deinit [good_intros]: "good w (sa_world s) \<Longrightarrow> good w (sa_world (deinitWidget err s))"
  by (auto simp: deinitWidget_def Let_def split: option.split intro!: good_intros)

lemma good_closeCb [good_intros]: "good w (sa_world s) \<Longrightarrow> good w (sa_world (closeCb err s))"
  by (auto simp: closeCb_def split: sa_kind.split intro!: good_intros)

lemma good_local_close [good_intros]: "good w w' \<Longrightarrow> good w (localSessionClose ch w')"
  unfolding localSessionClose_def by (auto intro!: good_intros)

lemma good_sa_close [good_intros]: "good w (sa_world s) \<Longrightarrow> good w (sa_world (sa_on_close err s))"
  by (auto simp: sa_on_close_def Let_def split: option.split intro!: good_intros)

lemma good_sa_disconnect [good_intros]: "good w (sa_world s) \<Longrightarrow> good w (sa_world (sa_disconnect err s))"
  by (auto simp: sa_disconnect_def Let_def intro!: good_intros)

lemma good_sa_init_failed [good_intros]: "good w (sa_world s) \<Longrightarrow> good w (sa_world (sa_init_failed err s))"
  by (auto simp: sa_init_failed_def intro!: good_intros)

lemma good_sa_call_end [good_intros]: "good w (sa_world s) \<Longrightarrow> good w (sa_world (sa_callEnd ch s))"
  by (auto simp: sa_callEnd_def Let_def intro!: good_intros)

lemma good_sa_user_left [good_intros]: "good w (sa_world s) \<Longrightarrow> good w (sa_world (sa_userLeft ch u sid s))"
  by (auto simp: sa_userLeft_def Let_def intro!: good_intros)

lemma good_sa_handle: "good (sa_world s) (sa_world (sa_handle ev s))"
proof -
  have h: "good w (handle e w)" for e w by (rule good_handle)
  have r: "good w (handleHostRemoved ch sid uid c w)" for ch sid uid c w
    using h [of w "EvHostRemoved ch sid uid c"] by simp
  show ?thesis
    by (cases ev)
      (use h [of "sa_world s" ev] r in
        \<open>auto simp: sa_userRemoved_def sa_hostRemoved_def Let_def intro!: good_intros\<close>)
qed

lemma good_job_stop [good_intros]: "good w (sa_world s) \<Longrightarrow> good w (sa_world (handle_job_stop j s))"
  by (auto simp: handle_job_stop_def intro!: good_intros)

lemma good_own_action [good_intros]:
  "(\<And>ch u sid. plain (f ch u sid)) \<Longrightarrow> good w w' \<Longrightarrow> good w (own_action f w')"
  unfolding own_action_def by (auto intro!: good_intros)

lemma good_client_events:
  "good w (on_client_connect w)" "good w (on_client_mute w)" "good w (on_client_unmute w)"
  "good w (on_client_video_on w)" "good w (on_client_video_off w)"
  unfolding on_client_connect_def on_client_mute_def on_client_unmute_def on_client_video_on_def
    on_client_video_off_def
  by (auto simp: plain_def intro!: good_intros)

lemma sa_step_reach:
  assumes "world_reach (sa_world s)"
  shows "world_reach (sa_world (sa_step ev s))"
proof -
  have g: "good (sa_world s) w' \<Longrightarrow> world_reach w'" for w'
    by (rule world_reach.step [OF assms world_step.other_code])
  show ?thesis
  proof (cases ev)
    case (SaClock t)
    then show ?thesis using assms by (auto intro: world_reach.step [OF assms world_step.clock])
  next
    case (SaFire i)
    then show ?thesis using assms by (auto intro: world_reach.step [OF assms world_step.timer])
  next
    case (SaSettle i res)
    then show ?thesis using assms by (auto intro: world_reach.step [OF assms world_step.promise])
  qed (use assms in \<open>auto intro!: g good_sa_handle good_intros good_client_events split: option.split list.split\<close>)
qed

lemma sa_steps_reach: "world_reach (sa_world s) \<Longrightarrow> world_reach (sa_world (fold sa_step es s))"
  by (induction es arbitrary: s) (simp_all add: sa_step_reach)

lemma good_config [good_intros]:
  "good w w' \<Longrightarrow> good w (getCallsConfig c w')"
  "good w w' \<Longrightarrow> good w (getCallsVersionInfo v w')"
  "good w w' \<Longrightarrow> good w (snd (getCallActive ch b w'))"
  unfolding getCallsConfig_def getCallsVersionInfo_def getCallActive_def Let_def
  by (auto simp: plain_def split: option.split intro!: good_intros)

lemma good_init_cb [good_intros]: "good w (sa_world s) \<Longrightarrow> good w (sa_world (initCb b s))"
  by (auto simp: initCb_def initWidget_def initRecording_def split: sa_kind.split intro!: good_intros)

lemma good_sa_connect [good_intros]: "good w (sa_world s) \<Longrightarrow> good w (sa_world (sa_connectCall cfg b ch s))"
  by (auto simp: sa_connectCall_def intro!: good_intros)

lemma good_init_finish [good_intros]:
  "good w (sa_world s) \<Longrightarrow> good w (sa_world (snd (init_finish c ch rs b turn s)))"
  by (auto simp: init_finish_def Let_def intro!: good_intros)

lemma good_init_requests: "good (sa_world s) (sa_world (snd (init_requests act ch ans s)))"
  by (auto simp: init_requests_def Let_def case_prod_unfold intro!: good_intros)

lemma init_reach:
  assumes "world_reach (sa_world s)"
  shows "world_reach (sa_world (snd (init act ans s)))"
proof -
  let ?s = "in_world (\<lambda>w. w\<lparr>w_host := an_host ans\<rparr>) s"
  have "w\<lparr>w_host := an_host ans\<rparr> = w\<lparr>w_host := an_host ans, w_own := w_own w, w_opener := w_opener w\<rparr>" for w :: world
    by simp
  then have h: "world_reach (sa_world ?s)"
    using world_reach.step [OF assms world_step.outside] by (metis in_world_simps(1))
  have g: "good (sa_world ?s) w' \<Longrightarrow> world_reach w'" for w'
    by (rule world_reach.step [OF h world_step.other_code])
  have r: "good (sa_world ?s) (sa_world (snd (init_requests act ch ans ?s)))" for ch
    by (rule good_init_requests)
  have turn: "good (sa_world ?s) (sa_world (snd (init_finish c ch rs b ts
      (in_world (emit e) (snd (init_requests act ch ans ?s))))))" for c ch rs b ts e
    by (rule good_init_finish) (use r [of ch] in \<open>simp add: good_then_emit\<close>)
  have plain: "good (sa_world ?s) (sa_world (snd (init_finish c ch rs b ts (snd (init_requests act ch ans ?s)))))"
    for c ch rs b ts by (rule good_init_finish) (rule r)
  show ?thesis
    using assms h turn plain r
    by (auto simp: init_def sa_log_def Let_def case_prod_unfold split: option.split sum.split intro!: g)
      (auto intro: good_then_emit)
qed

section \<open>Leaving\<close>

lemma good_now: "good w w' \<Longrightarrow> w_now w' = w_now w"
  by (auto simp: good_def runs_def)

text \<open>
  The state of a widget page: a client that has closed has a timer to leave or has left, and the
  timers are due within 250 ms; \<open>blameless\<close> is the converse.
\<close>

definition leave_inv :: "standalone \<Rightarrow> bool" where
  "leave_inv s =
     (sa_kind s = WidgetPage \<and> (sa_closed s \<longrightarrow> sa_closing s \<noteq> [] \<or> sa_left s > 0) \<and>
      (\<forall>t \<in> set (sa_closing s). t \<le> w_now (sa_world s) + 250) \<and>
      (sa_left s > 0 \<longrightarrow> w_own (sa_world s) = None))"

definition blameless :: "standalone \<Rightarrow> bool" where
  "blameless s = (sa_kind s = WidgetPage \<and> (sa_closing s \<noteq> [] \<or> sa_left s > 0 \<longrightarrow> sa_closed s))"

lemma leave_in_world:
  "leave_inv s \<Longrightarrow> w_now (f (sa_world s)) = w_now (sa_world s) \<Longrightarrow>
   (sa_left s > 0 \<Longrightarrow> w_own (f (sa_world s)) = None) \<Longrightarrow> leave_inv (in_world f s)"
  by (auto simp: leave_inv_def)

lemma blameless_in_world [simp]: "blameless (in_world f s) = blameless s"
  by (simp add: blameless_def)

lemma deinit_fields [simp]:
  "sa_kind (deinitWidget err s) = sa_kind s"
  "sa_left (deinitWidget err s) = sa_left s"
  "sa_closed (deinitWidget err s) = sa_closed s"
  "sa_closing (deinitWidget err s) = sa_closing s @ [w_now (sa_world s) + 250]"
  "w_own (sa_world (deinitWidget err s)) = w_own (sa_world s)"
  "w_now (sa_world (deinitWidget err s)) = w_now (sa_world s)"
  by (auto simp: deinitWidget_def sendDesktopError_def sendDesktopEvent_def emit_def Let_def split: option.split)

lemma put_own [simp]: "w_own (put_action a w) = w_own w" "w_own (emit e w) = w_own w"
  by (simp_all add: put_action_def emit_def)

lemma sa_close_fields:
  assumes "sa_kind s = WidgetPage"
  shows "sa_kind (sa_on_close err s) = WidgetPage" "sa_left (sa_on_close err s) = sa_left s"
    "sa_closed (sa_on_close err s) = sa_closed s"
    "sa_closing (sa_on_close err s) = sa_closing s @ [w_now (sa_world s) + 250]"
    "w_own (sa_world (sa_on_close err s)) = w_own (sa_world s)"
    "w_now (sa_world (sa_on_close err s)) = w_now (sa_world s)"
  using assms
  by (auto simp: sa_on_close_def closeCb_def setClientConnecting_def localSessionClose_def Let_def split: option.split)

lemma sa_disconnect_cases:
  assumes "sa_kind s = WidgetPage"
  obtains "sa_disconnect err s = s" | "sa_closed s" "sa_disconnect err s = in_world (emit (ClientCall (CallDisconnect err))) s"
    | "w_own (sa_world s) \<noteq> None" "\<not> sa_closed s"
      "sa_disconnect err s = sa_on_close err ((in_world (emit (ClientCall (CallDisconnect err))) s)\<lparr>sa_closed := True\<rparr>)"
  by (cases "w_own (sa_world s) = None"; cases "sa_closed s") (auto simp: sa_disconnect_def Let_def)

lemma leave_disconnect:
  assumes "leave_inv s"
  shows "leave_inv (sa_disconnect err s)"
proof -
  have k: "sa_kind s = WidgetPage" using assms by (simp add: leave_inv_def)
  show ?thesis
    by (rule sa_disconnect_cases [OF k, of err])
      (use assms k in \<open>auto simp: leave_inv_def sa_close_fields\<close>)
qed

lemma blameless_disconnect:
  assumes "blameless s"
  shows "blameless (sa_disconnect err s)"
proof -
  have k: "sa_kind s = WidgetPage" using assms by (simp add: blameless_def)
  show ?thesis
    by (rule sa_disconnect_cases [OF k, of err])
      (use assms k in \<open>auto simp: blameless_def sa_close_fields\<close>)
qed

lemma leave_put: "leave_inv s \<Longrightarrow> leave_inv (in_world (put_action a) s)"
  by (rule leave_in_world) (auto simp: leave_inv_def)

lemma leave_remove: "leave_inv s \<Longrightarrow> leave_inv (in_world (removeIncomingCallNotification c) s)"
  by (rule leave_in_world) (auto simp: leave_inv_def intro!: good_now [OF good_remove_incoming [OF good_refl]])

lemma leave_call_end: "leave_inv s \<Longrightarrow> leave_inv (sa_callEnd ch s)"
  by (simp add: sa_callEnd_def Let_def leave_remove leave_put leave_disconnect)

lemma blameless_call_end: "blameless s \<Longrightarrow> blameless (sa_callEnd ch s)"
  by (simp add: sa_callEnd_def Let_def blameless_disconnect)

text \<open>Every step keeps both.\<close>

lemma resume_own: "w_own (resume p res w) = w_own w"
  by (cases p) (auto simp: incoming_checked_def incoming_add_def await_def Let_def)

lemma resume_now: "w_now (resume p res w) = w_now w"
  by (cases p) (auto simp: incoming_checked_def incoming_add_def Let_def)

lemma fire_own: "w_own (fire i w) = w_own w"
  by (cases "snd (w_timers w ! i)") (auto simp: fire_def)

lemma client_event_own:
  "w_own (on_client_connect w) = w_own w" "w_own (on_client_mute w) = w_own w"
  "w_own (on_client_unmute w) = w_own w" "w_own (on_client_video_on w) = w_own w"
  "w_own (on_client_video_off w) = w_own w"
  by (simp_all add: on_client_connect_def on_client_mute_def on_client_unmute_def on_client_video_on_def
      on_client_video_off_def own_action_def setClientConnecting_def)

lemma leave_good: "leave_inv s \<Longrightarrow> good (sa_world s) (f (sa_world s)) \<Longrightarrow>
    w_own (sa_world s) \<noteq> None \<or> w_own (f (sa_world s)) = w_own (sa_world s) \<Longrightarrow> leave_inv (in_world f s)"
  by (rule leave_in_world) (auto simp: leave_inv_def dest: good_now)

lemma leave_handle: "leave_inv s \<Longrightarrow> w_own (sa_world s) \<noteq> None \<Longrightarrow> leave_inv (sa_handle ev s)"
proof -
  assume s: "leave_inv s" and c: "w_own (sa_world s) \<noteq> None"
  have h: "leave_inv (in_world (handle e) s)" for e using s c by (intro leave_good good_handle) auto
  have r: "leave_inv (in_world (handleHostRemoved ch sid uid cid) s)" for ch sid uid cid
    using h [of "EvHostRemoved ch sid uid cid"] by simp
  show ?thesis
    by (cases ev)
      (use s r h [of ev] in \<open>auto simp: sa_userLeft_def sa_userRemoved_def sa_hostRemoved_def Let_def
          intro!: leave_call_end leave_disconnect leave_put\<close>)
qed

lemma blameless_handle: "blameless s \<Longrightarrow> blameless (sa_handle ev s)"
  by (cases ev) (auto simp: sa_userLeft_def sa_userRemoved_def sa_hostRemoved_def Let_def
      intro!: blameless_call_end blameless_disconnect)

lemma leave_timer: "leave_inv s \<Longrightarrow> leave_inv (sa_step SaTimer s)"
  by (auto simp: leave_inv_def widget_closes_def drop_client_def sendDesktopEvent_def Let_def split: list.split)

lemma leave_init_failed: "leave_inv s \<Longrightarrow> leave_inv (sa_init_failed err s)"
  by (auto simp: leave_inv_def sa_init_failed_def closeCb_def setClientConnecting_def)

lemma leave_mount: "leave_inv s \<Longrightarrow> leave_inv (mount_widget b s)"
  by (simp add: leave_inv_def mount_widget_def)

lemma leave_job: "leave_inv s \<Longrightarrow> handle_job_stop j s = s"
  by (simp add: leave_inv_def handle_job_stop_def)

interpretation leaving: invariant_machine sa_step "\<lambda>_. True" leave_inv
proof
  fix ev s
  assume s: "leave_inv s"
  show "leave_inv (sa_step ev s)"
  proof (cases ev)
    case (SaClock t)
    then show ?thesis using s by (auto simp: leave_inv_def)
  next
    case SaTimer
    then show ?thesis using s leave_timer by blast
  qed (use s in \<open>auto split: option.split simp: client_event_own fire_own resume_own settle_def leave_job
      good_client_events [THEN good_now] resume_now
      intro!: leave_handle leave_disconnect leave_init_failed leave_mount leave_in_world\<close>,
      (auto simp: leave_inv_def))
qed

interpretation blaming: invariant_machine sa_step "\<lambda>ev. \<forall>e. ev \<noteq> SaInitFailed e" blameless
proof
  fix ev s
  assume ok: "\<forall>e. ev \<noteq> SaInitFailed e" and s: "blameless s"
  have job: "handle_job_stop j s = s" for j using s by (simp add: blameless_def handle_job_stop_def)
  have mount: "blameless (mount_widget b s)" for b using s by (simp add: blameless_def mount_widget_def)
  show "blameless (sa_step ev s)"
  proof (cases ev)
    case SaTimer
    then show ?thesis
      using s by (auto simp: blameless_def widget_closes_def drop_client_def Let_def split: list.split)
  qed (use ok s job mount in \<open>auto split: option.split intro!: blameless_handle blameless_disconnect\<close>)
qed

text \<open>A page whose script has just been loaded.\<close>

definition fresh_page :: "sa_kind \<Rightarrow> standalone \<Rightarrow> bool" where
  "fresh_page k s =
     (sa_kind s = k \<and> started (sa_world s) \<and> w_own (sa_world s) = None \<and> sa_closing s = [] \<and> sa_left s = 0 \<and>
      \<not> sa_closed s \<and> sa_view s = None \<and> sa_mounting s = None \<and> \<not> sa_listening s \<and> sa_config s = None)"

text \<open>What \<open>init\<close> leaves as it was, up to the client.\<close>

definition same_page :: "standalone \<Rightarrow> standalone \<Rightarrow> bool" where
  "same_page s s' =
     (sa_kind s' = sa_kind s \<and> sa_closing s' = sa_closing s \<and> sa_left s' = sa_left s \<and> sa_closed s' = sa_closed s \<and>
      w_own (sa_world s') = w_own (sa_world s) \<and> w_now (sa_world s') = w_now (sa_world s) \<and>
      sa_view s' = sa_view s \<and> sa_mounting s' = sa_mounting s \<and> sa_desk s' = sa_desk s)"

lemma requests_same: "same_page s (snd (init_requests act ch ans s))"
  by (auto simp: same_page_def init_requests_def getCallsConfig_def getCallsVersionInfo_def getCallActive_def
      put_action_def emit_def Let_def case_prod_unfold split: option.split)

lemma init_cases:
  obtains (returned) s' where "init act ans s = (InitReturned, s')" "same_page s s'"
  | (threw) s' e where "init act ans s = (InitThrew e, s')" "same_page s s'"
  | (finished) s' c turn where "init act ans s = init_finish c (str_or (getCallID (sa_page s)) '''')
      [act (an_config ans \<noteq> None), act (an_version ans \<noteq> None), JBool (an_active ans = Some True)] (an_throws ans) turn s'"
      "same_page s s'"
proof -
  let ?ch = "str_or (getCallID (sa_page s)) ''''"
  let ?h = "in_world (\<lambda>w. w\<lparr>w_host := an_host ans\<rparr>) s"
  let ?r = "snd (init_requests act ?ch ans ?h)"
  have h: "same_page s ?h" by (simp add: same_page_def in_world_def)
  have l: "same_page s (sa_log m s)" "same_page s (sa_log m ?h)" for m
    using h by (simp_all add: same_page_def sa_log_def)
  have r: "same_page s ?r" using h requests_same [of ?h act ?ch ans] by (simp add: same_page_def)
  have t: "same_page s (in_world (emit e) ?r)" for e using r by (simp add: same_page_def in_world_def emit_def)
  have rs: "fst (init_requests act ?ch ans ?h) =
      [act (an_config ans \<noteq> None), act (an_version ans \<noteq> None), JBool (an_active ans = Some True)]"
    by (auto simp: init_requests_def getCallActive_def Let_def split: option.split)
  show thesis
  proof (cases "?ch = '''' \<or> getChannel (world_app (sa_world ?h)) ?ch = None")
    case True
    then have "init act ans s = (InitReturned, sa_log (if ?ch = [] then ''invalid call id'' else ''channel not found'')
        (if ?ch = [] then s else ?h))"
      by (auto simp: init_def Let_def)
    then show thesis by (rule returned) (use l in simp)
  next
    case False
    then obtain c where ch: "?ch \<noteq> ''''" and c: "getChannel (world_app (sa_world ?h)) ?ch = Some c" by auto
    show thesis
    proof (cases "needsTURNCredentials (world_app (sa_world ?r))")
      case False
      with c ch rs have "init act ans s = init_finish c ?ch
          [act (an_config ans \<noteq> None), act (an_version ans \<noteq> None), JBool (an_active ans = Some True)] (an_throws ans) [] ?r"
        by (simp add: init_def Let_def case_prod_unfold)
      then show thesis using finished r by blast
    next
      case n: True
      show thesis
      proof (cases "an_turn ans")
        case (Inl e)
        with c ch n show thesis using threw t by (simp add: init_def Let_def case_prod_unfold)
      next
        case (Inr turn)
        with c ch n rs have "init act ans s = init_finish c ?ch
            [act (an_config ans \<noteq> None), act (an_version ans \<noteq> None), JBool (an_active ans = Some True)] (an_throws ans) turn
            (in_world (emit (Rest ''get'' ''/turn-credentials'' [])) ?r)"
          by (simp add: init_def Let_def case_prod_unfold)
        then show thesis using finished t by blast
      qed
    qed
  qed
qed

lemma init_cb_fields:
  "sa_kind (initCb b s) = sa_kind s" "sa_closing (initCb b s) = sa_closing s" "sa_left (initCb b s) = sa_left s"
  "sa_closed (initCb b s) = sa_closed s" "w_own (sa_world (initCb b s)) = w_own (sa_world s)"
  "w_now (sa_world (initCb b s)) = w_now (sa_world s)"
  by (auto simp: initCb_def initWidget_def initRecording_def mount_widget_def sendDesktopEvent_def emit_def
      split: sa_kind.split)

lemma init_keeps:
  assumes "fresh_page WidgetPage s"
  shows "leave_inv (snd (init act ans s))" "\<not> an_throws ans \<Longrightarrow> blameless (snd (init act ans s))"
proof -
  have i: "leave_inv s'" "blameless s'" if "same_page s s'" for s'
    using assms that by (auto simp: fresh_page_def same_page_def leave_inv_def blameless_def)
  have f: "leave_inv (snd (init_finish c ch rs th turn s'))"
    "\<not> th \<Longrightarrow> blameless (snd (init_finish c ch rs th turn s'))" if "same_page s s'" for s' c ch rs th turn
    using assms that
    by (auto simp: fresh_page_def same_page_def leave_inv_def blameless_def init_finish_def init_cb_fields
        sa_connectCall_def closeCb_def connectCall_client_def setClientConnecting_def Let_def)
  show "leave_inv (snd (init act ans s))" "\<not> an_throws ans \<Longrightarrow> blameless (snd (init act ans s))"
    by (rule init_cases [of act ans s]; use i f in simp)+
qed

section \<open>Properties\<close>


definition sample_page :: "sa_kind \<Rightarrow> standalone" where
  "sample_page k =
     \<lparr>sa_kind = k, sa_world = sample_start,
      sa_desk = \<lparr>dk_version = Some (5, 9), dk_userAgent = True, dk_api = [''leaveCall'']\<rparr>,
      sa_page = \<lparr>pg_pathname = ''/mm/plugins/com.mattermost.calls/standalone/widget.html'',
        pg_query = [(''call_id'', ''ch''), (''title'', ''standup'')], pg_token = None\<rparr>,
      sa_config = None, sa_closed = False, sa_closing = [], sa_view = None, sa_mounting = None,
      sa_listening = False, sa_left = 0, sa_errors = []\<rparr>"

definition sample_answers :: init_answers where
  "sample_answers = \<lparr>an_host = sample_host, an_config = Some CallsConfigDefault, an_version = None,
     an_active = Some False, an_turn = Inr [], an_throws = False\<rparr>"

definition data_or_error :: "bool \<Rightarrow> jval" where
  "data_or_error ok = JObj [(if ok then ''data'' else ''error'', JObj [])]"

lemma sample_page_fresh: "fresh_page k (sample_page k)"
  by (simp add: fresh_page_def sample_page_def started_def sample_start_def)


text \<open>
  C23. The widget page of the desktop application always leaves. Once its client has closed, however
  that came about, the page has asked the application to leave or a timer due within 250 ms will: when
  it runs, the client and the view are gone and the request is sent. The page never asks to leave while
  its client is open, unless the start of the client failed.
\<close>

theorem widget_page_leaves:
  assumes "fresh_page WidgetPage s0"
  shows "let s = fold sa_step es (snd (init act ans s0));
             s' = sa_step SaTimer (sa_step (SaClock (w_now (sa_world s) + 250)) s) in
    (sa_closed s \<longrightarrow> sa_left s > 0 \<or>
       sa_left s' = 1 \<and> sa_view s' = None \<and>
       last (w_effects (sa_world s')) = DesktopCall (if has_api (sa_desk s) ''leaveCall'' then ''leaveCall'' else ''calls-leave-call'') []) \<and>
    (sa_left s > 0 \<longrightarrow> w_own (sa_world s) = None) \<and> (sa_left s' > 0 \<longrightarrow> w_own (sa_world s') = None) \<and>
    (sa_left s > 0 \<longrightarrow> sa_closed s \<or> an_throws ans \<or> (\<exists>e. SaInitFailed e \<in> set es))"
proof -
  define s where "s = fold sa_step es (snd (init act ans s0))"
  define s' where "s' = sa_step SaTimer (sa_step (SaClock (w_now (sa_world s) + 250)) s)"
  have inv: "leave_inv s" unfolding s_def by (intro leaving.run_inv init_keeps assms) (simp add: list_all_iff)
  have inv': "leave_inv s'" unfolding s'_def by (intro leaving.step_inv inv TrueI)
  have b: "blameless s" if "\<not> an_throws ans" "\<nexists>e. SaInitFailed e \<in> set es"
    unfolding s_def by (intro blaming.run_inv init_keeps assms that) (use that in \<open>auto simp: list_all_iff\<close>)
  have live: "sa_left s' = 1 \<and> sa_view s' = None \<and>
      last (w_effects (sa_world s')) = DesktopCall (if has_api (sa_desk s) ''leaveCall'' then ''leaveCall'' else ''calls-leave-call'') []"
    if "sa_closed s" "sa_left s = 0"
    using inv that
    by (cases "sa_closing s")
      (auto simp: leave_inv_def s'_def widget_closes_def drop_client_def sendDesktopEvent_def in_world_def emit_def Let_def)
  show ?thesis
    using inv inv' b live unfolding s_def [symmetric] s'_def [symmetric] Let_def
    by (auto simp: leave_inv_def blameless_def)
qed

theorem widget_page_leaves_witness:
  "let s = fold sa_step [SaConnected, SaSocket (EvCallEnd ev_ch)] (snd (init data_or_error sample_answers (sample_page WidgetPage)));
       s' = sa_step SaTimer (sa_step (SaClock (w_now (sa_world s) + 250)) s) in
    sa_closed s \<and> sa_left s' = 1 \<and> w_own (sa_world s') = None"
proof -
  define s where "s = fold sa_step [SaConnected, SaSocket (EvCallEnd ev_ch)] (snd (init data_or_error sample_answers (sample_page WidgetPage)))"
  have c: "sa_closed s" "sa_left s = 0" unfolding s_def by code_simp+
  show ?thesis
    using widget_page_leaves [OF sample_page_fresh, of "[SaConnected, SaSocket (EvCallEnd ev_ch)]" data_or_error sample_answers] c
    unfolding s_def [symmetric] Let_def by simp
qed

text \<open>
  The standalone view is never told that the user is starting a call: of the three results of the
  start the code keeps the second, what the action that loads the version resolves to, which is an
  object, instead of the third, whether there is a call. What \<open>getCallActive\<close> answers has no effect.
\<close>

theorem starting_call_never_told:
  assumes "\<And>ok. isValidObject (act ok)" "fresh_page k s" "fst (init act ans s) = InitDone"
  shows "let s' = snd (init act ans s) in
    (sa_view s' = Some False \<or> sa_mounting s' = Some False) \<and> sa_view s' \<noteq> Some True \<and> sa_mounting s' \<noteq> Some True"
proof -
  have t: "js_truthy (act ok)" for ok using assms(1) [of ok] by (cases "act ok") auto
  have f: "sa_view (closeCb e s') = sa_view s'" "sa_mounting (closeCb e s') = sa_mounting s'" for e s'
    by (auto simp: closeCb_def deinitWidget_def deinitRecording_def drop_client_def Let_def split: sa_kind.split option.split)
  show ?thesis
  proof (cases rule: init_cases [of act ans s])
    case (finished s' c turn)
    then show ?thesis
      using assms(2) t
      by (auto simp: init_finish_def initCb_def initWidget_def initRecording_def mount_widget_def sa_connectCall_def
          same_page_def fresh_page_def f sa_log_def Let_def split: sa_kind.split)
  qed (use assms(3) in simp_all)
qed

theorem starting_call_never_told_witness:
  "sa_view (snd (init data_or_error sample_answers (sample_page WidgetPage))) = Some False"
proof -
  have o': "isValidObject (data_or_error ok)" for ok by (simp add: data_or_error_def)
  have "fst (init data_or_error sample_answers (sample_page WidgetPage)) = InitDone"
    "sa_mounting (snd (init data_or_error sample_answers (sample_page WidgetPage))) = None" by code_simp+
  then show ?thesis
    using starting_call_never_told [where act = data_or_error, OF o' sample_page_fresh, of sample_answers WidgetPage]
    by (auto simp: Let_def)
qed

end
