(* ===== verification/Recorder_Images.thy ===== *)
theory Recorder_Images
  imports Standalone
begin

text \<open>
  The profile images of the recording page (\<open>standalone/src/recording/index.tsx\<close>, \<open>reducers.ts\<close>,
  \<open>selectors.ts\<close>). \<open>fetchProfileImages\<close> fills one object as its requests settle and hands that
  object on, so objects are in an explicit store: \<open>ri_heap\<close> holds them, \<open>ri_images\<close> is the slice
  \<open>callProfileImages\<close>, from channels to references, and a fetch refers to the object it fills.

  A request is retried by \<open>runWithRetry\<close> before it counts as failed; \<open>fetchProfileImages\<close> catches
  the failure and answers with what it has, so the retries around it never run again.
\<close>

record fetch =
  ft_channel :: string
  ft_object :: nat
  ft_pending :: "string list"
  ft_answered :: bool

record recorder =
  ri_heap :: "string obj list"
  ri_images :: "nat obj"
  ri_fetches :: "fetch list"

definition recorder_start :: recorder where
  "recorder_start = \<lparr>ri_heap = [], ri_images = [], ri_fetches = []\<rparr>"

text \<open>\<open>{...a, ...b}\<close>.\<close>

definition spread :: "'v obj \<Rightarrow> 'v obj \<Rightarrow> 'v obj" where
  "spread a b = fold (\<lambda>(k, v) m. obj_set k v m) b a"

definition alloc :: "string obj \<Rightarrow> recorder \<Rightarrow> recorder" where
  "alloc d r = r\<lparr>ri_heap := ri_heap r @ [d]\<rparr>"

text \<open>The reducer: the first object of a channel is stored itself, a later one is copied into a new object.\<close>

definition reduce_images :: "string \<Rightarrow> nat \<Rightarrow> recorder \<Rightarrow> recorder" where
  "reduce_images channelID ref r =
     (case obj_get (ri_images r) channelID of
        None \<Rightarrow> r\<lparr>ri_images := obj_set channelID ref (ri_images r)\<rparr>
      | Some old \<Rightarrow>
          (alloc (spread (ri_heap r ! old) (ri_heap r ! ref)) r)
            \<lparr>ri_images := obj_set channelID (length (ri_heap r)) (ri_images r)\<rparr>)"

definition callProfileImages :: "string \<Rightarrow> recorder \<Rightarrow> string obj" where
  "callProfileImages channelID r =
     (case obj_get (ri_images r) channelID of None \<Rightarrow> [] | Some ref \<Rightarrow> ri_heap r ! ref)"

section \<open>Fetching\<close>

text \<open>\<open>fetchProfileImages\<close> up to its await, and the \<open>then\<close> of the handlers once it has answered.\<close>

definition fetchProfileImages :: "string \<Rightarrow> string list \<Rightarrow> recorder \<Rightarrow> recorder" where
  "fetchProfileImages channelID ids r0 =
     (let r = alloc [] r0;
          f = \<lparr>ft_channel = channelID, ft_object = length (ri_heap r0), ft_pending = ids, ft_answered = (ids = [])\<rparr>;
          r = r\<lparr>ri_fetches := ri_fetches r @ [f]\<rparr>
      in if ids = [] then reduce_images channelID (ft_object f) r else r)"

text \<open>One request of the fetch number \<open>n\<close> settles: with a link to the image, or for good with an error.\<close>

definition image_arrives :: "nat \<Rightarrow> string \<Rightarrow> string \<Rightarrow> recorder \<Rightarrow> recorder" where
  "image_arrives n uid url r0 =
     (if n < length (ri_fetches r0) \<and> uid \<in> set (ft_pending (ri_fetches r0 ! n)) then
        (let f = ri_fetches r0 ! n;
             ids = removeAll uid (ft_pending f);
             answers = (ids = [] \<and> \<not> ft_answered f);
             r = r0\<lparr>ri_heap := (ri_heap r0)[ft_object f := obj_set uid url (ri_heap r0 ! ft_object f)],
                    ri_fetches := (ri_fetches r0)[n := f\<lparr>ft_pending := ids, ft_answered := ft_answered f \<or> answers\<rparr>]\<rparr>
         in if answers then reduce_images (ft_channel f) (ft_object f) r else r)
      else r0)"

definition image_fails :: "nat \<Rightarrow> string \<Rightarrow> recorder \<Rightarrow> recorder" where
  "image_fails n uid r0 =
     (if n < length (ri_fetches r0) \<and> uid \<in> set (ft_pending (ri_fetches r0 ! n)) then
        (let f = ri_fetches r0 ! n;
             r = r0\<lparr>ri_fetches := (ri_fetches r0)[n := f\<lparr>ft_pending := removeAll uid (ft_pending f), ft_answered := True\<rparr>]\<rparr>
         in if ft_answered f then r else reduce_images (ft_channel f) (ft_object f) r)
      else r0)"

text \<open>
  The handler of the websocket events. It takes the channel from the data of the event only, and
  \<open>undefined\<close> is a property name like any other.
\<close>

definition wsHandlerRecording :: "ws_event \<Rightarrow> recorder \<Rightarrow> recorder" where
  "wsHandlerRecording ev r =
     (case ev of
        EvUserJoined e uid sid \<Rightarrow>
          fetchProfileImages (case e_channelID e of None \<Rightarrow> ''undefined'' | Some ch \<Rightarrow> ch) [uid] r
      | EvCallState ch (Some call) \<Rightarrow>
          if rc_sessions call \<noteq> [] then fetchProfileImages ch (getUserIDsForSessions (session_users (rc_sessions call))) r
          else r
      | _ \<Rightarrow> r)"

datatype (plugins only: code size) recorder_event =
    RecSocket ws_event | RecImage nat string string | RecFailed nat string

fun recorder_step :: "recorder_event \<Rightarrow> recorder \<Rightarrow> recorder" where
  "recorder_step (RecSocket ev) r = wsHandlerRecording ev r"
| "recorder_step (RecImage n uid url) r = image_arrives n uid url r"
| "recorder_step (RecFailed n uid) r = image_fails n uid r"

section \<open>Lemmas\<close>

lemma spread_last:
  "obj_get (spread a b) k = (case map_of (rev b) k of None \<Rightarrow> obj_get a k | Some v \<Rightarrow> Some v)"
proof (induction b arbitrary: a)
  case Nil
  then show ?case by (simp add: spread_def)
next
  case (Cons e b)
  obtain k' v where e: "e = (k', v)" by (cases e)
  show ?case using Cons.IH [of "obj_set k' v a"] by (auto simp: spread_def e map_add_def split: option.splits)
qed

lemma spread_keeps: "obj_get a k \<noteq> None \<Longrightarrow> obj_get (spread a b) k \<noteq> None"
  by (auto simp: spread_last split: option.split)

text \<open>References point into the heap.\<close>

definition refs_ok :: "recorder \<Rightarrow> bool" where
  "refs_ok r =
     ((\<forall>ch ref. obj_get (ri_images r) ch = Some ref \<longrightarrow> ref < length (ri_heap r)) \<and>
      (\<forall>f \<in> set (ri_fetches r). ft_object f < length (ri_heap r)))"

definition shown :: "string \<Rightarrow> string \<Rightarrow> recorder \<Rightarrow> bool" where
  "shown ch uid r = (obj_get (callProfileImages ch r) uid \<noteq> None)"

definition keeps_shown :: "recorder \<Rightarrow> recorder \<Rightarrow> bool" where
  "keeps_shown r r' = (refs_ok r \<longrightarrow> refs_ok r' \<and> (\<forall>ch uid. shown ch uid r \<longrightarrow> shown ch uid r'))"

lemma images_refl: "keeps_shown r r"
  by (simp add: keeps_shown_def)

lemma images_trans: "keeps_shown r r' \<Longrightarrow> keeps_shown r' r'' \<Longrightarrow> keeps_shown r r''"
  by (simp add: keeps_shown_def)

lemma keeps_alloc: "keeps_shown r (alloc d r)"
  by (auto simp: keeps_shown_def refs_ok_def shown_def callProfileImages_def alloc_def nth_append
      split: option.split) (meson less_SucI)+

lemma keeps_fetches:
  "(\<And>f. refs_ok r \<Longrightarrow> f \<in> set fs \<Longrightarrow> ft_object f < length (ri_heap r)) \<Longrightarrow> keeps_shown r (r\<lparr>ri_fetches := fs\<rparr>)"
proof -
  have "callProfileImages ch (r\<lparr>ri_fetches := fs\<rparr>) = callProfileImages ch r" for ch
    by (simp add: callProfileImages_def split: option.split)
  then show "(\<And>f. refs_ok r \<Longrightarrow> f \<in> set fs \<Longrightarrow> ft_object f < length (ri_heap r)) \<Longrightarrow> keeps_shown r (r\<lparr>ri_fetches := fs\<rparr>)"
    by (simp add: keeps_shown_def refs_ok_def shown_def)
qed

lemma keeps_reduce:
  assumes "refs_ok r \<Longrightarrow> ref < length (ri_heap r)"
  shows "keeps_shown r (reduce_images ch ref r)"
  using assms
  by (auto simp: keeps_shown_def refs_ok_def shown_def callProfileImages_def reduce_images_def alloc_def nth_append
      spread_last less_Suc_eq split: option.split if_splits)

lemma keeps_write: "keeps_shown r (r\<lparr>ri_heap := (ri_heap r)[n := obj_set k v (ri_heap r ! n)]\<rparr>)"
  by (cases "n < length (ri_heap r)")
    (auto simp: keeps_shown_def refs_ok_def shown_def callProfileImages_def nth_list_update not_less list_update_beyond split: option.split)

lemma keeps_fetch: "keeps_shown r (fetchProfileImages ch ids r)"
proof -
  let ?f = "\<lparr>ft_channel = ch, ft_object = length (ri_heap r), ft_pending = ids, ft_answered = (ids = [])\<rparr>"
  let ?r = "(alloc [] r)\<lparr>ri_fetches := ri_fetches (alloc [] r) @ [?f]\<rparr>"
  have "keeps_shown (alloc [] r) ?r"
    by (rule keeps_fetches) (auto simp: refs_ok_def alloc_def)
  then have k: "keeps_shown r ?r" by (rule images_trans [OF keeps_alloc])
  have "keeps_shown ?r (reduce_images ch (length (ri_heap r)) ?r)"
    by (rule keeps_reduce) (simp add: alloc_def)
  then have "keeps_shown r (reduce_images ch (length (ri_heap r)) ?r)" by (rule images_trans [OF k])
  with k show ?thesis
    unfolding fetchProfileImages_def Let_def if_distrib [of "keeps_shown r"] by (simp only: fetch.select_convs if_cancel simp_thms split: if_split)
qed

lemma fetch_object_bound: "refs_ok r \<Longrightarrow> n < length (ri_fetches r) \<Longrightarrow> ft_object (ri_fetches r ! n) < length (ri_heap r)"
  by (simp add: refs_ok_def)

lemma updated_fetches_bound:
  "refs_ok r \<Longrightarrow> n < length (ri_fetches r) \<Longrightarrow> ft_object f' = ft_object (ri_fetches r ! n) \<Longrightarrow>
   f \<in> set ((ri_fetches r)[n := f']) \<Longrightarrow> ft_object f < length (ri_heap r)"
  using set_update_subset_insert [of "ri_fetches r" n f'] by (auto simp: refs_ok_def)

lemma keeps_arrival: "keeps_shown r (image_arrives n uid url r)"
proof (cases "n < length (ri_fetches r) \<and> uid \<in> set (ft_pending (ri_fetches r ! n))")
  case True
  let ?f = "ri_fetches r ! n"
  let ?h = "r\<lparr>ri_heap := (ri_heap r)[ft_object ?f := obj_set uid url (ri_heap r ! ft_object ?f)]\<rparr>"
  let ?ids = "removeAll uid (ft_pending ?f)"
  let ?f' = "?f\<lparr>ft_pending := ?ids, ft_answered := ft_answered ?f \<or> ?ids = [] \<and> \<not> ft_answered ?f\<rparr>"
  let ?r = "?h\<lparr>ri_fetches := (ri_fetches r)[n := ?f']\<rparr>"
  have h: "keeps_shown r ?h" by (rule keeps_write)
  have "keeps_shown ?h ?r"
    by (rule keeps_fetches) (use True updated_fetches_bound [of ?h n ?f'] in auto)
  with h have k: "keeps_shown r ?r" by (rule images_trans)
  have "keeps_shown ?r (reduce_images (ft_channel ?f) (ft_object ?f) ?r)"
    by (rule keeps_reduce) (use True fetch_object_bound [of ?r n] in simp)
  with k have "keeps_shown r (reduce_images (ft_channel ?f) (ft_object ?f) ?r)" by (rule images_trans)
  moreover have "image_arrives n uid url r =
      (if ?ids = [] \<and> \<not> ft_answered ?f then reduce_images (ft_channel ?f) (ft_object ?f) ?r else ?r)"
    using True by (simp only: image_arrives_def Let_def if_True simp_thms)
  ultimately show ?thesis using k by (simp only: split: if_split) blast
qed (auto simp: image_arrives_def images_refl)

lemma keeps_failure: "keeps_shown r (image_fails n uid r)"
proof (cases "n < length (ri_fetches r) \<and> uid \<in> set (ft_pending (ri_fetches r ! n))")
  case True
  let ?f = "ri_fetches r ! n"
  let ?f' = "?f\<lparr>ft_pending := removeAll uid (ft_pending ?f), ft_answered := True\<rparr>"
  let ?r = "r\<lparr>ri_fetches := (ri_fetches r)[n := ?f']\<rparr>"
  have k: "keeps_shown r ?r"
    by (rule keeps_fetches) (use True updated_fetches_bound [of r n ?f'] in auto)
  have "keeps_shown ?r (reduce_images (ft_channel ?f) (ft_object ?f) ?r)"
    by (rule keeps_reduce) (use True fetch_object_bound [of ?r n] in simp)
  with k have "keeps_shown r (reduce_images (ft_channel ?f) (ft_object ?f) ?r)" by (rule images_trans)
  moreover have "image_fails n uid r =
      (if ft_answered ?f then ?r else reduce_images (ft_channel ?f) (ft_object ?f) ?r)"
    using True by (simp only: image_fails_def Let_def if_True simp_thms)
  ultimately show ?thesis using k by (simp only: split: if_split) blast
qed (auto simp: image_fails_def images_refl)

lemma images_step: "keeps_shown r (recorder_step ev r)"
  by (cases ev) (auto simp: wsHandlerRecording_def images_refl keeps_fetch keeps_arrival keeps_failure
      split: ws_event.split option.split)

interpretation recorder_machine: invariant_machine recorder_step "\<lambda>_. True" refs_ok
  by unfold_locales (use images_step in \<open>auto simp: keeps_shown_def\<close>)

section \<open>What is shown\<close>

lemma arrival_writes:
  assumes "n < length (ri_fetches r)" "ft_pending (ri_fetches r ! n) = [u]" "\<not> ft_answered (ri_fetches r ! n)"
    and "ft_object (ri_fetches r ! n) < length (ri_heap r)"
    and "v = u \<or> obj_get (ri_heap r ! ft_object (ri_fetches r ! n)) v \<noteq> None"
  shows "shown (ft_channel (ri_fetches r ! n)) v (image_arrives n u url r)"
proof -
  have w: "map_of (rev d) v = None \<longleftrightarrow> obj_get d v = None" for d :: "string obj"
    by (simp add: map_of_eq_None_iff obj_get_def)
  have d: "obj_get (obj_set u url (ri_heap r ! ft_object (ri_fetches r ! n))) v \<noteq> None"
    using assms(5) by auto
  show ?thesis
    using assms(1-4) d
    by (auto simp: image_arrives_def reduce_images_def alloc_def shown_def callProfileImages_def spread_last w
        nth_append Let_def split: option.split)
qed

text \<open>
  C24. The recording page never loses an image: once one is shown for a user of a channel, one is shown
  after any further joins, call states, answers and failures. And the last answer of a fetch in which
  nothing has failed shows every image the fetch has got, its own among them.
\<close>

theorem images_stay_shown:
  assumes "refs_ok r"
  shows "let r' = fold recorder_step es r in
    (\<forall>ch uid. shown ch uid r \<longrightarrow> shown ch uid r') \<and>
    (\<forall>n u url v. n < length (ri_fetches r') \<and> ft_pending (ri_fetches r' ! n) = [u] \<and> \<not> ft_answered (ri_fetches r' ! n) \<and>
       (v = u \<or> obj_get (ri_heap r' ! ft_object (ri_fetches r' ! n)) v \<noteq> None) \<longrightarrow>
       shown (ft_channel (ri_fetches r' ! n)) v (recorder_step (RecImage n u url) r'))"
proof -
  have "refs_ok (fold recorder_step es r) \<and> (\<forall>ch uid. shown ch uid r \<longrightarrow> shown ch uid (fold recorder_step es r))"
    using assms
  proof (induction es arbitrary: r)
    case (Cons ev es)
    then show ?case using images_step [of r ev] by (simp add: keeps_shown_def)
  qed simp
  then show ?thesis using arrival_writes fetch_object_bound by (simp add: Let_def)
qed

theorem images_stay_shown_witness:
  "shown ''ch'' ''u2'' (fold recorder_step [RecSocket (EvUserJoined ev_ch ''u3'' ''s3''), RecFailed 1 ''u3'']
     (fold recorder_step [RecSocket (EvUserJoined ev_ch ''u2'' ''s2''), RecImage 0 ''u2'' ''blob:2''] recorder_start))"
proof -
  let ?r = "fold recorder_step [RecSocket (EvUserJoined ev_ch ''u2'' ''s2''), RecImage 0 ''u2'' ''blob:2''] recorder_start"
  have "refs_ok ?r" by (rule recorder_machine.run_inv) (simp_all add: list_all_iff refs_ok_def recorder_start_def)
  moreover have "shown ''ch'' ''u2'' ?r" by code_simp
  ultimately show ?thesis using images_stay_shown by (meson Let_def)
qed

text \<open>
  After a failure the fetch has answered: an image that arrives later fills its object all the same,
  but is shown only where that object is itself the one the channel shows, which is so only for the
  first fetch of a channel.
\<close>

lemma late_image_lost:
  assumes "n < length (ri_fetches r)" "ft_answered (ri_fetches r ! n)"
    and "obj_get (ri_images r) ch = Some ref" "ref \<noteq> ft_object (ri_fetches r ! n)"
  shows "callProfileImages ch (image_arrives n u url r) = callProfileImages ch r"
  using assms by (auto simp: image_arrives_def callProfileImages_def Let_def split: option.split)

definition joined_session :: "string \<Rightarrow> string \<Rightarrow> user_session" where
  "joined_session sid uid = \<lparr>session_id = Some sid, user_id = Some uid, unmuted = None, voice = None, video = None,
     raised_hand = None, us_reaction = Undefined\<rparr>"

lemma late_image_lost_example:
  "\<not> shown ''ch'' ''u3'' (fold recorder_step
     [RecSocket (EvUserJoined ev_ch ''u1'' ''s1''), RecImage 0 ''u1'' ''blob:1'',
      RecSocket (EvCallState ''ch'' (Some \<lparr>rc_id = ''c'', rc_start_at = 1, rc_owner_id = ''u1'', rc_host_id = ''u1'',
        rc_thread_id = '''', rc_screen_sharing_session_id = '''', rc_recording = None, rc_live_captions = None,
        rc_sessions = [(''s2'', joined_session ''s2'' ''u2''), (''s3'', joined_session ''s3'' ''u3'')],
        rc_dismissed_notification = None\<rparr>)),
      RecFailed 1 ''u2'', RecImage 1 ''u3'' ''blob:3''] recorder_start)"
  by code_simp

section \<open>What is recorded\<close>

text \<open>
  \<open>recording_view/index.tsx\<close>: the grid of the participants, or the shared screen under the name of
  the presenter and, in the footer, of who is talking. Without a client the view is empty.
\<close>

datatype recorded_body = RecordedGrid | RecordedScreen string | RecordedNothing

definition recorded_sessions :: "(string \<Rightarrow> string \<Rightarrow> int) \<Rightarrow> app \<Rightarrow> user_session list" where
  "recorded_sessions localeCompare a =
     sorted_participants localeCompare (profilesInCurrentCallMap a)
       (str_or (Option.bind (screenSharingSessionForCurrentCall a) session_id) '''') (sessionsInCurrentCall a)"

definition recorded_screen :: "(string \<Rightarrow> string \<Rightarrow> int) \<Rightarrow> user_session \<Rightarrow> app \<Rightarrow> recorded_body" where
  "recorded_screen localeCompare presenter a =
     (case find (\<lambda>s. session_id s = session_id presenter) (recorded_sessions localeCompare a) of
        None \<Rightarrow> RecordedNothing
      | Some s \<Rightarrow>
          (case Option.bind (user_id s) (obj_get (profilesInCurrentCallMap a)) of
             None \<Rightarrow> RecordedNothing
           | Some p \<Rightarrow> RecordedScreen (''You'' @ CHR 0x27 # ''re viewing '' @ getUserDisplayName (Some p) False @ CHR 0x27 # ''s screen'')))"

definition recorded_speaker :: "(string \<Rightarrow> string \<Rightarrow> int) \<Rightarrow> app \<Rightarrow> profile option" where
  "recorded_speaker localeCompare a =
     (let profile = (\<lambda>s. Option.bind (user_id s) (obj_get (profilesInCurrentCallMap a)))
      in Option.bind
           (find (\<lambda>s. voice s = Some True \<and> profile s \<noteq> None) (recorded_sessions localeCompare a)) profile)"

definition recording_view :: "(string \<Rightarrow> string \<Rightarrow> int) \<Rightarrow> app \<Rightarrow> (recorded_body \<times> profile option) option" where
  "recording_view localeCompare a =
     (if client a = None then None
      else
        (case screenSharingSessionForCurrentCall a of
           None \<Rightarrow> Some (RecordedGrid, None)
         | Some presenter \<Rightarrow>
             Some (recorded_screen localeCompare presenter a, recorded_speaker localeCompare a)))"

lemma find_SomeD: "find P xs = Some x \<Longrightarrow> x \<in> set xs \<and> P x"
  by (induction xs) (auto split: if_splits)

lemma find_somebody: "x \<in> set xs \<Longrightarrow> P x \<Longrightarrow> \<exists>y. find P xs = Some y"
  by (induction xs) auto

lemma find_the_only:
  assumes "x \<in> set xs" "P x" "\<And>y. y \<in> set xs \<Longrightarrow> P y \<Longrightarrow> y = x"
  shows "find P xs = Some x"
proof -
  obtain y where "find P xs = Some y" using find_somebody [of x xs P] assms(1,2) by blast
  then show ?thesis using find_SomeD [of P xs y] assms(3) by blast
qed

text \<open>
  The screen is recorded under the presenter's name as soon as their profile is known; until then
  nothing is, not even the grid.
\<close>

lemma screen_recorded:
  assumes "client a \<noteq> None" "screenSharingSessionForCurrentCall a = Some s"
    and "s \<in> set (sessionsInCurrentCall a)"
    and "\<And>t. t \<in> set (sessionsInCurrentCall a) \<Longrightarrow> session_id t = session_id s \<Longrightarrow> t = s"
  shows "map_option fst (recording_view localeCompare a) =
     Some (case Option.bind (user_id s) (obj_get (profilesInCurrentCallMap a)) of
             None \<Rightarrow> RecordedNothing
           | Some p \<Rightarrow> RecordedScreen (''You'' @ CHR 0x27 # ''re viewing '' @ getUserDisplayName (Some p) False @ CHR 0x27 # ''s screen''))"
proof -
  have "find (\<lambda>t. session_id t = session_id s) (recorded_sessions localeCompare a) = Some s"
    using assms(3,4) by (intro find_the_only) (auto simp: recorded_sessions_def sorted_participants_def)
  then show ?thesis
    using assms(1,2) by (simp add: recording_view_def recorded_screen_def)
qed

text \<open>Whoever is shown as talking is; and somebody is shown if anybody with a known profile talks.\<close>

lemma speaker_talks:
  "recorded_speaker localeCompare a = Some p \<Longrightarrow>
     \<exists>s\<in>set (sessionsInCurrentCall a). voice s = Some True \<and> Option.bind (user_id s) (obj_get (profilesInCurrentCallMap a)) = Some p"
  "s \<in> set (sessionsInCurrentCall a) \<Longrightarrow> voice s = Some True \<Longrightarrow>
     Option.bind (user_id s) (obj_get (profilesInCurrentCallMap a)) \<noteq> None \<Longrightarrow> recorded_speaker localeCompare a \<noteq> None"
proof -
  let ?p = "\<lambda>s. Option.bind (user_id s) (obj_get (profilesInCurrentCallMap a))"
  have mem: "set (recorded_sessions localeCompare a) = set (sessionsInCurrentCall a)"
    by (simp add: recorded_sessions_def sorted_participants_def)
  have sp: "recorded_speaker localeCompare a = Option.bind
      (find (\<lambda>s. voice s = Some True \<and> ?p s \<noteq> None) (recorded_sessions localeCompare a)) ?p"
    unfolding recorded_speaker_def Let_def by (rule refl)
  show "\<exists>s\<in>set (sessionsInCurrentCall a). voice s = Some True \<and> ?p s = Some p"
    if speaks: "recorded_speaker localeCompare a = Some p"
  proof -
    obtain s where "find (\<lambda>s. voice s = Some True \<and> ?p s \<noteq> None) (recorded_sessions localeCompare a) = Some s" "?p s = Some p"
      using speaks unfolding sp bind_eq_Some_conv by blast
    then show ?thesis using find_SomeD [of "\<lambda>s. voice s = Some True \<and> ?p s \<noteq> None" "recorded_sessions localeCompare a" s] mem
      by blast
  qed
  show "recorded_speaker localeCompare a \<noteq> None"
    if "s \<in> set (sessionsInCurrentCall a)" "voice s = Some True" "?p s \<noteq> None"
  proof -
    have "s \<in> set (recorded_sessions localeCompare a)" "voice s = Some True \<and> ?p s \<noteq> None" using that mem by blast+
    then obtain t where t: "find (\<lambda>s. voice s = Some True \<and> ?p s \<noteq> None) (recorded_sessions localeCompare a) = Some t"
      by (rule find_somebody [THEN exE])
    then have "?p t \<noteq> None" using find_SomeD [OF t] by blast
    then show ?thesis unfolding sp t by simp
  qed
qed

end
