(* ===== verification/Device_Settings.thy ===== *)
theory Device_Settings
  imports Calls_Client
begin

text \<open>
  The device sections of the user settings (\<open>components/user_settings\<close>): the audio section, the
  video section with its camera preview, and the screen sharing section. They read and write the
  same keys of local storage as \<open>client.ts\<close>, in code of their own: \<open>with_storage\<close> gives a client
  what the sections have stored.
\<close>

section \<open>The selected option\<close>

record select_option =
  so_label :: string
  so_value :: string

definition to_option :: "device \<Rightarrow> select_option" where
  "to_option d = \<lparr>so_label = dev_label d, so_value = dev_id d\<rparr>"

definition first_option :: "device list \<Rightarrow> select_option" where
  "first_option devices =
     (case devices of [] \<Rightarrow> \<lparr>so_label = '''', so_value = ''''\<rparr> | d # _ \<Rightarrow> to_option d)"

text \<open>The device a stored selection names, by identifier if several match.\<close>

definition default_option :: "string \<times> string option \<Rightarrow> device list \<Rightarrow> select_option" where
  "default_option defaultDevice devices =
     (let selected = find_device defaultDevice devices;
          selected = (if length selected > 1 then filter (\<lambda>d. dev_id d = fst defaultDevice) selected else selected)
      in case selected of d # _ \<Rightarrow> to_option d | [] \<Rightarrow> first_option devices)"

definition getOption :: "select_option option \<Rightarrow> stored_device option \<Rightarrow> device list \<Rightarrow> select_option" where
  "getOption selectedOption data devices =
     (case selectedOption of Some opt \<Rightarrow> opt | None \<Rightarrow> default_option (stored_selection data) devices)"

text \<open>The camera's selection parses what is stored without a guard.\<close>

definition getDefaultOpt :: "stored_device option \<Rightarrow> device list \<Rightarrow> js_error + select_option" where
  "getDefaultOpt data devices =
     (case data of
        Some (StoredText t) \<Rightarrow> Inl (ErrorMsg t)
      | _ \<Rightarrow> Inr (default_option (stored_selection data) devices))"

definition v_getOption :: "select_option option \<Rightarrow> stored_device option \<Rightarrow> device list \<Rightarrow> js_error + select_option" where
  "v_getOption selectedOption data devices =
     (case selectedOption of Some opt \<Rightarrow> Inr opt | None \<Rightarrow> getDefaultOpt data devices)"

definition saved_option :: "select_option \<Rightarrow> stored_device" where
  "saved_option opt = StoredJson (so_value opt) (Some (so_label opt))"

section \<open>Local storage\<close>

record device_storage =
  ds_input :: "stored_device option"
  ds_output :: "stored_device option"
  ds_video :: "stored_device option"
  ds_mirror :: "string option"
  ds_blur :: "(bool \<times> int) option"
  ds_shareAudio :: "string option"

definition with_storage :: "device_storage \<Rightarrow> calls_client \<Rightarrow> calls_client" where
  "with_storage ds s = s\<lparr>cl_storedInput := ds_input ds, cl_storedOutput := ds_output ds,
     cl_storedVideo := ds_video ds, cl_blur := ds_blur ds\<rparr>"

section \<open>Audio section\<close>

text \<open>
  \<open>au_input\<close> and \<open>au_output\<close> are the states of the two selections, which exist while the section is
  open: closing it unmounts them.
\<close>

record audio_section =
  au_active :: bool
  au_devices :: "device list"
  au_input :: "select_option option"
  au_output :: "select_option option"

definition of_kind :: "string \<Rightarrow> device list \<Rightarrow> device list" where
  "of_kind k = filter (\<lambda>d. dev_kind d = k)"

definition au_close :: "audio_section \<Rightarrow> audio_section" where
  "au_close s = s\<lparr>au_active := False, au_input := None, au_output := None\<rparr>"

definition au_handleSave :: "audio_section \<times> device_storage \<Rightarrow> audio_section \<times> device_storage" where
  "au_handleSave sd =
     (case sd of (s, ds) \<Rightarrow>
        let ds' = (if au_active s then
                     ds\<lparr>ds_input := Some (saved_option (getOption (au_input s) (ds_input ds) (of_kind ''audioinput'' (au_devices s)))),
                        ds_output := Some (saved_option (getOption (au_output s) (ds_output ds) (of_kind ''audiooutput'' (au_devices s))))\<rparr>
                   else ds)
        in (au_close s, ds'))"

text \<open>
  \<open>loadAudioDevices\<close> once the browser has answered: the microphone opened for the labels is stopped
  in any case, the list is kept when there is one.
\<close>

definition loadAudioDevices :: "device list option \<Rightarrow> audio_section \<Rightarrow> audio_section" where
  "loadAudioDevices answer s = (case answer of None \<Rightarrow> s | Some ds \<Rightarrow> s\<lparr>au_devices := ds\<rparr>)"

section \<open>Video section\<close>

text \<open>
  \<open>vs_live\<close> holds the streams of the preview whose track is not stopped, \<open>vs_asked\<close> the devices of
  the requests of \<open>onSelectionChange\<close> that are not answered yet, \<open>vs_blurCalls\<close> the calls of the
  client. \<open>vs_pick\<close> and \<open>vs_initialSet\<close> are the state of the selection, which exists while the
  section is open.
\<close>

record video_section =
  vs_mounted :: bool
  vs_active :: bool
  vs_devices :: "device list"
  vs_pick :: "select_option option"
  vs_initialSet :: bool
  vs_preview :: "(nat \<times> string option) option"
  vs_live :: "nat list"
  vs_next :: nat
  vs_asked :: "string option list"
  vs_mirror :: bool
  vs_blur :: bool
  vs_intensity :: int
  vs_blurCalls :: "(bool \<times> int) list"

definition video_mount :: "device_storage \<Rightarrow> video_section" where
  "video_mount ds =
     (let blur = (case ds_blur ds of None \<Rightarrow> (False, 0) | Some b \<Rightarrow> b)
      in \<lparr>vs_mounted = True, vs_active = False, vs_devices = [], vs_pick = None, vs_initialSet = False,
          vs_preview = None, vs_live = [], vs_next = 0, vs_asked = [],
          vs_mirror = (ds_mirror ds = Some ''true''), vs_blur = fst blur, vs_intensity = snd blur, vs_blurCalls = []\<rparr>)"

definition stop_preview :: "video_section \<Rightarrow> video_section" where
  "stop_preview s =
     (case vs_preview s of None \<Rightarrow> s | Some (n, _) \<Rightarrow> s\<lparr>vs_live := removeAll n (vs_live s)\<rparr>)"

text \<open>\<open>onSelectionChange\<close> up to its await, and after it with the stream of the request number \<open>i\<close>.\<close>

definition onSelectionChange :: "select_option \<Rightarrow> video_section \<Rightarrow> video_section" where
  "onSelectionChange opt s0 =
     (let s = stop_preview s0
      in s\<lparr>vs_asked := vs_asked s @ [if so_value opt = '''' then None else Some (so_value opt)]\<rparr>)"

definition remove_nth :: "nat \<Rightarrow> 'a list \<Rightarrow> 'a list" where
  "remove_nth i xs = take i xs @ drop (Suc i) xs"

text \<open>
  \<open>setPreviewStream\<close> changes the state of a mounted component only; the clean-up of its effect stops
  the stream before.
\<close>

definition selection_granted :: "nat \<Rightarrow> video_section \<Rightarrow> video_section" where
  "selection_granted i s0 =
     (let dev = vs_asked s0 ! i;
          n = vs_next s0;
          s = s0\<lparr>vs_asked := remove_nth i (vs_asked s0), vs_next := Suc n, vs_live := vs_live s0 @ [n]\<rparr>
      in if vs_mounted s then (stop_preview s)\<lparr>vs_preview := Some (n, dev)\<rparr> else s)"

definition selection_denied :: "nat \<Rightarrow> video_section \<Rightarrow> video_section" where
  "selection_denied i s = s\<lparr>vs_asked := remove_nth i (vs_asked s)\<rparr>"

text \<open>
  A rendering computes the option shown, and the effect of the selection after it previews the
  default device the first time there are devices.
\<close>

definition vs_render :: "device_storage \<Rightarrow> video_section \<Rightarrow> js_error + video_section" where
  "vs_render ds s =
     (let devices = of_kind ''videoinput'' (vs_devices s)
      in if \<not> vs_active s then Inr s
         else
           (case v_getOption (vs_pick s) (ds_video ds) devices of
              Inl e \<Rightarrow> Inl e
            | Inr _ \<Rightarrow>
                if vs_initialSet s \<or> devices = [] then Inr s
                else
                  (case getDefaultOpt (ds_video ds) devices of
                     Inl e \<Rightarrow> Inl e
                   | Inr opt \<Rightarrow> Inr ((onSelectionChange opt s)\<lparr>vs_initialSet := True\<rparr>))))"

definition vs_close :: "video_section \<Rightarrow> video_section" where
  "vs_close s = s\<lparr>vs_active := False, vs_pick := None, vs_initialSet := False\<rparr>"

definition vs_handleSave :: "bool \<Rightarrow> video_section \<times> device_storage \<Rightarrow> js_error + (video_section \<times> device_storage)" where
  "vs_handleSave hasClient sd =
     (case sd of (s, ds) \<Rightarrow>
        let finish = (\<lambda>ds. (vs_close (if hasClient then s\<lparr>vs_blurCalls := vs_blurCalls s @ [(vs_blur s, vs_intensity s)]\<rparr> else s),
                            ds\<lparr>ds_mirror := Some (if vs_mirror s then ''true'' else ''false''),
                               ds_blur := Some (vs_blur s, vs_intensity s)\<rparr>))
        in if vs_active s then
             (case v_getOption (vs_pick s) (ds_video ds) (of_kind ''videoinput'' (vs_devices s)) of
                Inl e \<Rightarrow> Inl e
              | Inr opt \<Rightarrow> Inr (finish (ds\<lparr>ds_video := Some (saved_option opt)\<rparr>)))
           else Inr (finish ds))"

definition loadVideoDevices :: "device list option \<Rightarrow> video_section \<Rightarrow> video_section" where
  "loadVideoDevices answer s = (case answer of None \<Rightarrow> s | Some ds \<Rightarrow> s\<lparr>vs_devices := ds\<rparr>)"

definition vs_unmount :: "video_section \<Rightarrow> video_section" where
  "vs_unmount s = (vs_close (stop_preview s))\<lparr>vs_mounted := False, vs_preview := None\<rparr>"

section \<open>Screen sharing section\<close>

definition shareAudio_shown :: "device_storage \<Rightarrow> string" where
  "shareAudio_shown ds = str_or (ds_shareAudio ds) ''off''"

definition handleShareAudioChange :: "string \<Rightarrow> device_storage \<Rightarrow> device_storage" where
  "handleShareAudioChange v ds = ds\<lparr>ds_shareAudio := Some v\<rparr>"

definition shareAudioWithScreen :: "device_storage \<Rightarrow> bool" where
  "shareAudioWithScreen ds = (ds_shareAudio ds = Some ''on'')"

section \<open>Steps of the video section\<close>

datatype (plugins only: code size) video_event =
    VsOpen | VsLoaded "device list option" | VsPick select_option | VsGranted nat | VsDenied nat
  | VsMirror bool | VsBlur bool | VsIntensity int | VsSave bool | VsCancel | VsUnmount

text \<open>The buttons and the options exist in an open section; requests settle at any time.\<close>

fun vs_event :: "video_event \<Rightarrow> video_section \<times> device_storage \<Rightarrow> js_error + (video_section \<times> device_storage)" where
  "vs_event VsOpen (s, ds) = Inr (s\<lparr>vs_active := True\<rparr>, ds)"
| "vs_event (VsLoaded a) (s, ds) = Inr (loadVideoDevices a s, ds)"
| "vs_event (VsPick opt) (s, ds) =
     Inr (if vs_active s \<and> opt \<in> set (map to_option (of_kind ''videoinput'' (vs_devices s)))
          then (onSelectionChange opt s)\<lparr>vs_pick := Some opt\<rparr> else s, ds)"
| "vs_event (VsGranted i) (s, ds) = Inr (if i < length (vs_asked s) then selection_granted i s else s, ds)"
| "vs_event (VsDenied i) (s, ds) = Inr (selection_denied i s, ds)"
| "vs_event (VsMirror b) (s, ds) = Inr (if vs_active s then s\<lparr>vs_mirror := b\<rparr> else s, ds)"
| "vs_event (VsBlur b) (s, ds) = Inr (if vs_active s then s\<lparr>vs_blur := b\<rparr> else s, ds)"
| "vs_event (VsIntensity i) (s, ds) = Inr (if vs_active s \<and> vs_blur s then s\<lparr>vs_intensity := i\<rparr> else s, ds)"
| "vs_event (VsSave c) (s, ds) = (if vs_active s then vs_handleSave c (s, ds) else Inr (s, ds))"
| "vs_event VsCancel (s, ds) = Inr (if vs_active s then vs_close s else s, ds)"
| "vs_event VsUnmount (s, ds) = Inr (vs_unmount s, ds)"

text \<open>An unmounted section only has requests that are still to settle.\<close>

definition vs_step :: "video_event \<Rightarrow> video_section \<times> device_storage \<Rightarrow> js_error + (video_section \<times> device_storage)" where
  "vs_step e sd =
     (if vs_mounted (fst sd) then
        (case vs_event e sd of
           Inl err \<Rightarrow> Inl err
         | Inr (s, ds) \<Rightarrow> (case vs_render ds s of Inl err \<Rightarrow> Inl err | Inr s \<Rightarrow> Inr (s, ds)))
      else
        (case e of VsGranted i \<Rightarrow> vs_event e sd | VsDenied i \<Rightarrow> vs_event e sd | _ \<Rightarrow> Inr sd))"

fun vs_run :: "video_event list \<Rightarrow> video_section \<times> device_storage \<Rightarrow> js_error + (video_section \<times> device_storage)" where
  "vs_run [] sd = Inr sd"
| "vs_run (e # es) sd = (case vs_step e sd of Inl err \<Rightarrow> Inl err | Inr sd \<Rightarrow> vs_run es sd)"

section \<open>The settings and the client\<close>

lemma find_device_id: "d \<in> set ds \<Longrightarrow> d \<in> set (find_device (dev_id d, l) ds)"
  by (simp add: find_device_def)

lemma filter_id_unique:
  "distinct (map dev_id ds) \<Longrightarrow> d \<in> set ds \<Longrightarrow> filter (\<lambda>x. dev_id x = dev_id d) ds = [d]"
proof (induction ds)
  case (Cons a ds)
  show ?case
  proof (cases "a = d")
    case True
    then have "dev_id d \<notin> dev_id ` set ds" using Cons.prems(1) by simp
    then have "filter (\<lambda>x. dev_id x = dev_id d) ds = []" unfolding filter_empty_conv by (metis image_eqI)
    then show ?thesis using True by simp
  next
    case False
    then have "d \<in> set ds" using Cons.prems(2) by simp
    moreover from this have "dev_id a \<noteq> dev_id d" using Cons.prems(1) by force
    ultimately show ?thesis using Cons by simp
  qed
qed simp

lemma filter_find_device: "filter (\<lambda>x. dev_id x = i) (find_device (i, l) ds) = filter (\<lambda>x. dev_id x = i) ds"
  by (induction ds) (auto simp: find_device_def)

lemma find_filter: "List.find P xs = (case filter P xs of [] \<Rightarrow> None | x # _ \<Rightarrow> Some x)"
  by (induction xs) auto

lemma single_member: "length xs = 1 \<Longrightarrow> x \<in> set xs \<Longrightarrow> hd xs = x"
  by (cases xs) auto

text \<open>What was saved of a device selects that device again, in the settings and in the client.\<close>

lemma selection_of_device:
  assumes "distinct (map dev_id ds)" "d \<in> set ds"
  shows "default_option (dev_id d, l) ds = to_option d"
proof -
  let ?f = "find_device (dev_id d, l) ds"
  have m: "d \<in> set ?f" by (rule find_device_id [OF assms(2)])
  show ?thesis
  proof (cases "length ?f > 1")
    case True
    then show ?thesis using filter_id_unique [OF assms] by (simp add: default_option_def filter_find_device)
  next
    case False
    then have "length ?f = 1" using m by (cases ?f) auto
    then show ?thesis using single_member [OF _ m] m by (cases ?f) (auto simp: default_option_def)
  qed
qed

lemma default_is_device: "ds \<noteq> [] \<Longrightarrow> \<exists>d\<in>set ds. default_option sel ds = to_option d"
proof -
  assume n: "ds \<noteq> []"
  let ?f = "find_device sel ds"
  let ?g = "if length ?f > 1 then filter (\<lambda>d. dev_id d = fst sel) ?f else ?f"
  have sub: "set ?g \<subseteq> set ds" by (auto simp: find_device_def)
  show ?thesis
  proof (cases ?g)
    case Nil
    then show ?thesis using n by (cases ds) (auto simp: default_option_def Let_def first_option_def)
  next
    case (Cons d xs)
    then have "d \<in> set ds" using sub by auto
    then show ?thesis using Cons by (auto simp: default_option_def Let_def)
  qed
qed

lemma shown_is_device:
  assumes "ds \<noteq> []" "pick = None \<or> pick \<in> Some ` to_option ` set ds"
  shows "\<exists>d\<in>set ds. getOption pick data ds = to_option d"
  using assms default_is_device [OF assms(1)] by (auto simp: getOption_def split: option.split)

lemma v_shown_is_device:
  assumes "ds \<noteq> []" "pick = None \<or> pick \<in> Some ` to_option ` set ds" "v_getOption pick data ds = Inr opt"
  shows "\<exists>d\<in>set ds. opt = to_option d"
proof (cases pick)
  case None
  then have "opt = default_option (stored_selection data) ds"
    using assms(3) by (auto simp: v_getOption_def getDefaultOpt_def split: option.splits stored_device.splits)
  then show ?thesis using default_is_device [OF assms(1)] by simp
next
  case (Some p)
  then show ?thesis using assms(2,3) by (auto simp: v_getOption_def)
qed

lemma client_uses_saved_audio:
  assumes "distinct (map dev_id ds)" "d \<in> set ds" "dev_id d \<noteq> ''''"
    and "(if input then cl_storedInput s else cl_storedOutput s) = Some (saved_option (to_option d))"
    and "(if input then cl_inputs s else cl_outputs s) = ds"
  shows "getSelectedAudioDevice input s = Some d"
proof -
  let ?f = "find_device (dev_id d, Some (dev_label d)) ds"
  have m: "d \<in> set ?f" by (rule find_device_id [OF assms(2)])
  have "getSelectedAudioDevice input s =
      (if length ?f > 1 then List.find (\<lambda>x. dev_id x = dev_id d) ?f
       else if length ?f = 1 then Some (hd ?f) else None)"
    using assms(3-5) by (auto simp: getSelectedAudioDevice_def Let_def stored_selection_def saved_option_def to_option_def)
  moreover have "List.find (\<lambda>x. dev_id x = dev_id d) ?f = Some d"
    using filter_id_unique [OF assms(1,2)] by (simp add: find_filter filter_find_device)
  moreover have "length ?f \<noteq> 0" using m by auto
  moreover have "length ?f = 1 \<Longrightarrow> hd ?f = d" by (rule single_member [OF _ m])
  ultimately show ?thesis by (cases ?f) auto
qed

lemma client_uses_saved_video:
  assumes "distinct (map dev_id ds)" "d \<in> set ds" "dev_id d \<noteq> ''''"
    and "cl_storedVideo s = Some (saved_option (to_option d))" "cl_videoDevices s = ds" "cl_videoInput s = None"
  shows "video_device None s = (Some (dev_id d), s\<lparr>cl_videoInput := Some d\<rparr>)"
proof -
  let ?f = "find_device (dev_id d, Some (dev_label d)) ds"
  let ?g = "if length ?f > 1 then filter (\<lambda>x. dev_id x = dev_id d) ?f else ?f"
  have m: "d \<in> set ?f" by (rule find_device_id [OF assms(2)])
  have "?g = [d]"
  proof (cases "length ?f > 1")
    case True
    then show ?thesis using filter_id_unique [OF assms(1,2)] by (simp add: filter_find_device)
  next
    case False
    then show ?thesis using m by (cases ?f) auto
  qed
  then have g: "length ?g = 1" "hd ?g = d" by simp_all
  have "video_device None s =
      (if length ?g = 1 then (Some (dev_id (hd ?g)), s\<lparr>cl_videoInput := Some (hd ?g)\<rparr>)
       else (None, s\<lparr>cl_storedVideo := None\<rparr>))"
    using assms(3-6) by (simp add: video_device_def Let_def saved_option_def to_option_def del: One_nat_def)
  then show ?thesis using g by simp
qed


definition sample_devices :: "device list" where
  "sample_devices =
     [\<lparr>dev_id = ''m1'', dev_label = ''built-in'', dev_kind = ''audioinput''\<rparr>,
      \<lparr>dev_id = ''m2'', dev_label = ''headset'', dev_kind = ''audioinput''\<rparr>,
      \<lparr>dev_id = ''c1'', dev_label = ''camera'', dev_kind = ''videoinput''\<rparr>]"

definition sample_storage :: device_storage where
  "sample_storage = \<lparr>ds_input = Some (StoredText ''m2''), ds_output = None, ds_video = None, ds_mirror = None,
     ds_blur = None, ds_shareAudio = None\<rparr>"

definition sample_calls_client :: calls_client where
  "sample_calls_client = (cl_new \<lparr>cf_enableVideo = True, cf_enableAV1 = False, cf_simulcast = False, cf_dcSignaling = False\<rparr>
     None None None None)
     \<lparr>cl_inputs := of_kind ''audioinput'' sample_devices, cl_videoDevices := of_kind ''videoinput'' sample_devices\<rparr>"



definition sample_audio :: audio_section where
  "sample_audio = \<lparr>au_active = True, au_devices = sample_devices, au_input = None, au_output = None\<rparr>"

definition sample_video :: video_section where
  "sample_video = (video_mount sample_storage)\<lparr>vs_active := True, vs_devices := sample_devices\<rparr>"

lemma save_keeps_video: "au_handleSave (s, ds) = (s', ds') \<Longrightarrow> ds_video ds' = ds_video ds"
  by (auto simp: au_handleSave_def Let_def split: if_splits)

lemma save_returns: "ds_video ds = None \<Longrightarrow> \<exists>v' ds'. vs_handleSave c (v, ds) = Inr (v', ds')"
  by (auto simp: vs_handleSave_def v_getOption_def getDefaultOpt_def Let_def split: option.split)


text \<open>
  Saving before the browser has listed any device forgets the stored one: an audio section
  without microphones (none connected, no permission, or the list still to come) stores an empty
  device in the place of the user's choice, and from then on the client finds no stored microphone
  and the camera section no stored camera, whatever devices there are.
\<close>

theorem save_without_devices_forgets:
  assumes "au_active s" "au_input s = None" "of_kind ''audioinput'' (au_devices s) = []"
    and "vs_active v" "vs_pick v = None" "of_kind ''videoinput'' (vs_devices v) = []"
    and "au_handleSave (s, ds) = (s', ds')" "vs_handleSave c (v, ds') = Inr (v', ds'')"
  shows "ds_input ds'' = Some (StoredJson '''' (Some '''')) \<and> ds_video ds'' = Some (StoredJson '''' (Some '''')) \<and>
    getSelectedAudioDevice True (with_storage ds'' cl) = None \<and>
    (cl_videoInput cl = None \<longrightarrow> fst (video_device None (with_storage ds'' cl)) = None)"
proof -
  have n: "default_option sel [] = \<lparr>so_label = '''', so_value = ''''\<rparr>" for sel
    by (simp add: default_option_def find_device_def first_option_def)
  have "ds_input ds' = Some (StoredJson '''' (Some ''''))"
    using assms(1-3,7) by (auto simp: au_handleSave_def Let_def getOption_def n saved_option_def)
  moreover have "ds_input ds'' = ds_input ds'" "ds_video ds'' = Some (StoredJson '''' (Some ''''))"
    using assms(4-6,8)
    by (auto simp: vs_handleSave_def v_getOption_def getDefaultOpt_def Let_def n saved_option_def split: option.splits stored_device.splits)
  ultimately show ?thesis
    by (simp add: getSelectedAudioDevice_def video_device_def with_storage_def stored_selection_def Let_def)
qed

theorem save_without_devices_forgets_witness:
  "let (s', ds') = au_handleSave (sample_audio\<lparr>au_devices := []\<rparr>, sample_storage) in
     ds_input sample_storage = Some (StoredText ''m2'') \<and>
     getSelectedAudioDevice True (with_storage (snd (projr (vs_handleSave True (sample_video\<lparr>vs_devices := []\<rparr>, ds')))) sample_calls_client) = None"
proof -
  let ?v = "sample_video\<lparr>vs_devices := []\<rparr>"
  obtain s' ds' where a: "au_handleSave (sample_audio\<lparr>au_devices := []\<rparr>, sample_storage) = (s', ds')" by fastforce
  obtain v' ds'' where v: "vs_handleSave True (?v, ds') = Inr (v', ds'')"
    using save_returns save_keeps_video [OF a] by (fastforce simp: sample_storage_def)
  have "getSelectedAudioDevice True (with_storage ds'' sample_calls_client) = None"
    using save_without_devices_forgets [OF _ _ _ _ _ _ a v, of sample_calls_client]
    by (simp add: sample_audio_def sample_video_def video_mount_def of_kind_def Let_def)
  then show ?thesis using a v by (simp add: sample_storage_def)
qed

section \<open>The camera preview\<close>

text \<open>At most one stream of a mounted section is live, the one previewed; unmounting stops it.\<close>

definition one_camera :: "video_section \<Rightarrow> bool" where
  "one_camera s \<longleftrightarrow> vs_live s = [] \<or> (\<exists>n dev. vs_preview s = Some (n, dev) \<and> vs_live s = [n])"

lemma one_camera_stop: "one_camera s \<Longrightarrow> vs_live (stop_preview s) = []"
  by (auto simp: one_camera_def stop_preview_def split: option.splits)

lemma one_camera_select: "one_camera s \<Longrightarrow> one_camera (onSelectionChange opt s)"
  using one_camera_stop [of s] by (simp add: one_camera_def onSelectionChange_def Let_def)

lemma one_camera_fields:
  "one_camera s \<Longrightarrow> one_camera (s\<lparr>vs_active := a\<rparr>)" "one_camera s \<Longrightarrow> one_camera (s\<lparr>vs_devices := ds\<rparr>)"
  "one_camera s \<Longrightarrow> one_camera (s\<lparr>vs_pick := p\<rparr>)" "one_camera s \<Longrightarrow> one_camera (s\<lparr>vs_initialSet := b\<rparr>)"
  "one_camera s \<Longrightarrow> one_camera (s\<lparr>vs_mirror := b\<rparr>)" "one_camera s \<Longrightarrow> one_camera (s\<lparr>vs_blur := b\<rparr>)"
  "one_camera s \<Longrightarrow> one_camera (s\<lparr>vs_intensity := i\<rparr>)" "one_camera s \<Longrightarrow> one_camera (s\<lparr>vs_blurCalls := bs\<rparr>)"
  "one_camera s \<Longrightarrow> one_camera (s\<lparr>vs_asked := as\<rparr>)"
  by (simp_all add: one_camera_def)

lemma one_camera_granted:
  assumes "one_camera s" "vs_mounted s" "\<And>n dev. vs_preview s = Some (n, dev) \<Longrightarrow> n \<noteq> vs_next s"
  shows "one_camera (selection_granted i s)"
  using assms by (auto simp: one_camera_def selection_granted_def stop_preview_def Let_def split: option.splits)

definition cameras_ok :: "video_section \<Rightarrow> bool" where
  "cameras_ok s \<longleftrightarrow> vs_mounted s \<longrightarrow> one_camera s \<and> (\<forall>n dev. vs_preview s = Some (n, dev) \<longrightarrow> n < vs_next s)"

lemma preview_fields [simp]:
  "vs_preview (stop_preview s) = vs_preview s" "vs_next (stop_preview s) = vs_next s" "vs_mounted (stop_preview s) = vs_mounted s"
  "vs_preview (onSelectionChange opt s) = vs_preview s" "vs_next (onSelectionChange opt s) = vs_next s"
  "vs_mounted (onSelectionChange opt s) = vs_mounted s"
  "vs_preview (vs_close s) = vs_preview s" "vs_next (vs_close s) = vs_next s" "vs_mounted (vs_close s) = vs_mounted s"
  "vs_live (vs_close s) = vs_live s"
  by (simp_all add: stop_preview_def onSelectionChange_def vs_close_def Let_def split: option.split)

lemma cameras_event: "vs_event e (s, ds) = Inr (s', ds') \<Longrightarrow> vs_mounted s \<Longrightarrow> cameras_ok s \<Longrightarrow> cameras_ok s'"
proof (cases e)
  case (VsGranted i)
  assume a: "vs_event e (s, ds) = Inr (s', ds')" "vs_mounted s" "cameras_ok s"
  then have "one_camera (selection_granted i s)"
    by (intro one_camera_granted) (auto simp: cameras_ok_def)
  then show ?thesis using a VsGranted by (auto simp: cameras_ok_def selection_granted_def Let_def split: if_splits)
qed (auto simp: cameras_ok_def loadVideoDevices_def selection_denied_def vs_handleSave_def vs_unmount_def vs_close_def Let_def
      intro!: one_camera_fields one_camera_select split: if_splits option.splits sum.splits)

lemma cameras_render: "vs_render ds s = Inr s' \<Longrightarrow> cameras_ok s \<Longrightarrow> cameras_ok s'"
  by (auto simp: vs_render_def cameras_ok_def Let_def intro!: one_camera_fields one_camera_select split: if_splits sum.splits)

lemma cameras_step: "vs_step e (s, ds) = Inr (s', ds') \<Longrightarrow> cameras_ok s \<Longrightarrow> cameras_ok s'"
proof (cases "vs_mounted s")
  case True
  assume "vs_step e (s, ds) = Inr (s', ds')" "cameras_ok s"
  then show ?thesis
    using True cameras_event [of e s ds] cameras_render by (auto simp: vs_step_def split: sum.splits)
next
  case False
  assume "vs_step e (s, ds) = Inr (s', ds')"
  then have "\<not> vs_mounted s'"
    using False by (auto simp: vs_step_def selection_granted_def selection_denied_def Let_def split: video_event.splits if_splits)
  then show ?thesis by (simp add: cameras_ok_def)
qed

lemma cameras_run: "vs_run es (s, ds) = Inr (s', ds') \<Longrightarrow> cameras_ok s \<Longrightarrow> cameras_ok s'"
proof (induction es arbitrary: s ds)
  case (Cons e es)
  then show ?case using cameras_step by (auto split: sum.splits)
qed simp



text \<open>
  A stream granted after the section has gone stays live for ever, and of two selections in a row the
  preview shows the one granted last, not the one selected last.
\<close>

lemma preview_leaks:
  "map_sum id (vs_live \<circ> fst) (vs_run [VsOpen, VsLoaded (Some sample_devices), VsUnmount, VsGranted 0]
     (video_mount sample_storage, sample_storage)) = Inr [0]"
  by code_simp

end
