(* ===== verification/Call_Settings.thy ===== *)
theory Call_Settings
  imports Device_Settings
begin

text \<open>
  The settings menu of the pop-out (\<open>components/expanded_view/call_settings.tsx\<close>): its button, the
  three device menus and the lists they open. A device menu keeps copies of the client's devices,
  which the client's \<open>devicechange\<close> event refreshes, and asks the client to change them.
\<close>

section \<open>A device menu\<close>

datatype device_type = AudioInputs | AudioOutputs | VideoInputs

record devices_menu =
  dm_type :: device_type
  dm_audioInput :: "device option"
  dm_audioOutput :: "device option"
  dm_videoInput :: "device option"
  dm_inputs :: "device list"
  dm_outputs :: "device list"
  dm_videos :: "device list"

definition menu_initial :: "device_type \<Rightarrow> devices_menu" where
  "menu_initial k = \<lparr>dm_type = k, dm_audioInput = None, dm_audioOutput = None, dm_videoInput = None,
     dm_inputs = [], dm_outputs = [], dm_videos = []\<rparr>"

text \<open>
  \<open>handleDeviceChange\<close> is registered by the effect of the first rendering and keeps the devices of
  that rendering, which are all \<open>null\<close>: what it compares the client's with.
\<close>

definition handleDeviceChange :: "calls_client option \<Rightarrow> device list \<Rightarrow> device list \<Rightarrow> device list \<Rightarrow> devices_menu \<Rightarrow> devices_menu" where
  "handleDeviceChange client inputs outputs videos m0 =
     (let m = m0\<lparr>dm_inputs := inputs, dm_outputs := outputs, dm_videos := videos\<rparr>
      in case client of
           None \<Rightarrow> m
         | Some c \<Rightarrow>
             m\<lparr>dm_audioInput := (if cl_audioInput c \<noteq> None then cl_audioInput c else dm_audioInput m),
               dm_audioOutput := (if cl_audioOutput c \<noteq> None then cl_audioOutput c else dm_audioOutput m),
               dm_videoInput := (if cl_videoInput c \<noteq> None then cl_videoInput c else dm_videoInput m)\<rparr>)"

text \<open>The effect of the first rendering.\<close>

definition menu_mount :: "calls_client option \<Rightarrow> devices_menu \<Rightarrow> devices_menu" where
  "menu_mount client m0 =
     (case client of
        None \<Rightarrow> m0
      | Some c \<Rightarrow>
          let m = m0\<lparr>dm_inputs := cl_inputs c, dm_outputs := cl_outputs c, dm_videos := cl_videoDevices c\<rparr>
          in (case dm_type m of
                AudioInputs \<Rightarrow> m\<lparr>dm_audioInput := cl_audioInput c\<rparr>
              | AudioOutputs \<Rightarrow> m\<lparr>dm_audioOutput := cl_audioOutput c\<rparr>
              | VideoInputs \<Rightarrow> m\<lparr>dm_videoInput := cl_videoInput c\<rparr>))"

definition currentDevice :: "devices_menu \<Rightarrow> device option" where
  "currentDevice m =
     (case dm_type m of
        AudioInputs \<Rightarrow> dm_audioInput m | AudioOutputs \<Rightarrow> dm_audioOutput m | VideoInputs \<Rightarrow> dm_videoInput m)"

definition set_current :: "device \<Rightarrow> devices_menu \<Rightarrow> devices_menu" where
  "set_current d m =
     (case dm_type m of
        AudioInputs \<Rightarrow> m\<lparr>dm_audioInput := Some d\<rparr>
      | AudioOutputs \<Rightarrow> m\<lparr>dm_audioOutput := Some d\<rparr>
      | VideoInputs \<Rightarrow> m\<lparr>dm_videoInput := Some d\<rparr>)"

text \<open>What the click asks of the client.\<close>

definition ask_client :: "device_type \<Rightarrow> device \<Rightarrow> calls_client \<Rightarrow> calls_client" where
  "ask_client k d c =
     (case k of
        AudioInputs \<Rightarrow> start (setAudioInputDevice d True c)
      | AudioOutputs \<Rightarrow> setAudioOutputDevice d True c
      | VideoInputs \<Rightarrow> start (setVideoInputDevice d c))"

text \<open>The listener of the menu, for what the client has announced since \<open>c0\<close>.\<close>

definition notified :: "calls_client \<Rightarrow> calls_client \<Rightarrow> devices_menu \<Rightarrow> devices_menu" where
  "notified c0 c m =
     (if Fire ClDeviceChange \<in> set (drop (length (cl_out c0)) (cl_out c))
      then handleDeviceChange (Some c) (cl_inputs c) (cl_outputs c) (cl_videoDevices c) m else m)"

text \<open>
  Devices are compared by identity: \<open>same\<close> says that the clicked one is the very object the menu has
  as its current device.
\<close>

definition handleDeviceClick :: "device \<Rightarrow> bool \<Rightarrow> calls_client option \<Rightarrow> devices_menu \<Rightarrow> calls_client option \<times> devices_menu" where
  "handleDeviceClick d same client m =
     (case client of
        None \<Rightarrow> (None, set_current d m)
      | Some c0 \<Rightarrow>
          let c = (if same then c0 else ask_client (dm_type m) d c0)
          in (Some c, set_current d (notified c0 c m)))"

section \<open>What is shown\<close>

definition all_devices :: "devices_menu \<Rightarrow> device list" where
  "all_devices m =
     (case dm_type m of AudioInputs \<Rightarrow> dm_inputs m | AudioOutputs \<Rightarrow> dm_outputs m | VideoInputs \<Rightarrow> dm_videos m)"

definition listed_devices :: "devices_menu \<Rightarrow> device list" where
  "listed_devices m = filter (\<lambda>d. dev_id d \<noteq> '''' \<and> dev_label d \<noteq> '''') (all_devices m)"

definition starts_with :: "string \<Rightarrow> string \<Rightarrow> bool" where
  "starts_with p s \<longleftrightarrow> take (length p) s = p"

definition makeDeviceLabel :: "device \<Rightarrow> string" where
  "makeDeviceLabel d =
     (if starts_with ''default'' (dev_id d) \<and> \<not> starts_with ''Default'' (dev_label d)
      then ''Default - '' @ dev_label d else dev_label d)"

text \<open>The lines of an open list, with whether each is ticked.\<close>

definition MediaDevicesList :: "devices_menu \<Rightarrow> (string \<times> bool) list" where
  "MediaDevicesList m =
     map (\<lambda>d. (makeDeviceLabel d, Some (dev_id d) = map_option dev_id (currentDevice m))) (listed_devices m)"

record devices_line =
  dl_icon :: string
  dl_title :: string
  dl_label :: string
  dl_disabled :: bool
  dl_list :: "(string \<times> bool) list option"

definition Devices :: "bool \<Rightarrow> devices_menu \<Rightarrow> devices_line option" where
  "Devices isActive m =
     (if all_devices m = [] then None
      else Some
        \<lparr>dl_icon = (case dm_type m of AudioInputs \<Rightarrow> ''unmuted'' | AudioOutputs \<Rightarrow> ''speaker'' | VideoInputs \<Rightarrow> ''video-on''),
         dl_title = (case dm_type m of AudioInputs \<Rightarrow> ''Microphone'' | AudioOutputs \<Rightarrow> ''Audio output'' | VideoInputs \<Rightarrow> ''Camera''),
         dl_label = str_or (map_option dev_label (currentDevice m)) ''Default'',
         dl_disabled = (listed_devices m = []),
         dl_list = (if isActive then Some (MediaDevicesList m) else None)\<rparr>)"

section \<open>The menu and its button\<close>

text \<open>The menu exists while it is open: closing it forgets which list was.\<close>

record settings_button =
  sb_showCallSettings :: bool
  sb_showAudioInputs :: bool
  sb_showAudioOutputs :: bool
  sb_showVideoInputs :: bool
  sb_captionToggles :: nat

definition settings_button_initial :: settings_button where
  "settings_button_initial = \<lparr>sb_showCallSettings = False, sb_showAudioInputs = False,
     sb_showAudioOutputs = False, sb_showVideoInputs = False, sb_captionToggles = 0\<rparr>"

definition onToggle :: "device_type \<Rightarrow> settings_button \<Rightarrow> settings_button" where
  "onToggle k s =
     (case k of
        AudioInputs \<Rightarrow> s\<lparr>sb_showAudioInputs := \<not> sb_showAudioInputs s, sb_showAudioOutputs := False, sb_showVideoInputs := False\<rparr>
      | AudioOutputs \<Rightarrow> s\<lparr>sb_showAudioOutputs := \<not> sb_showAudioOutputs s, sb_showAudioInputs := False, sb_showVideoInputs := False\<rparr>
      | VideoInputs \<Rightarrow> s\<lparr>sb_showVideoInputs := \<not> sb_showVideoInputs s, sb_showAudioInputs := False, sb_showAudioOutputs := False\<rparr>)"

definition setShowCallSettings :: "bool \<Rightarrow> settings_button \<Rightarrow> settings_button" where
  "setShowCallSettings b s =
     (if b then s\<lparr>sb_showCallSettings := True\<rparr>
      else s\<lparr>sb_showCallSettings := False, sb_showAudioInputs := False, sb_showAudioOutputs := False, sb_showVideoInputs := False\<rparr>)"

definition sb_closeOnBlur :: "bool \<Rightarrow> settings_button \<Rightarrow> settings_button" where
  "sb_closeOnBlur inside s = (if inside then s else setShowCallSettings False s)"

definition sb_closeOnEscape :: "string \<Rightarrow> settings_button \<Rightarrow> settings_button" where
  "sb_closeOnEscape key s = (if key = ''Escape'' then setShowCallSettings False s else s)"

definition onCCButtonToggle :: "settings_button \<Rightarrow> settings_button" where
  "onCCButtonToggle s = setShowCallSettings False (s\<lparr>sb_captionToggles := Suc (sb_captionToggles s)\<rparr>)"

datatype settings_event = SbButton | SbToggle device_type | SbClick bool | SbKey string | SbCaptions

fun settings_step :: "settings_event \<Rightarrow> settings_button \<Rightarrow> settings_button" where
  "settings_step SbButton s = setShowCallSettings (\<not> sb_showCallSettings s) s"
| "settings_step (SbToggle k) s = (if sb_showCallSettings s then onToggle k s else s)"
| "settings_step (SbClick inside) s = sb_closeOnBlur inside s"
| "settings_step (SbKey key) s = sb_closeOnEscape key s"
| "settings_step SbCaptions s = (if sb_showCallSettings s then onCCButtonToggle s else s)"

section \<open>Lemmas\<close>

lemma settings_lists_exclude:
  "let s = fold settings_step es settings_button_initial
   in length (filter id [sb_showAudioInputs s, sb_showAudioOutputs s, sb_showVideoInputs s]) \<le> (if sb_showCallSettings s then 1 else 0)"
proof -
  define ok where "ok s \<longleftrightarrow>
      length (filter id [sb_showAudioInputs s, sb_showAudioOutputs s, sb_showVideoInputs s]) \<le> (if sb_showCallSettings s then 1 else 0)" for s :: settings_button
  have "ok (fold settings_step es s)" if "ok s" for s
    using that
  proof (induction es arbitrary: s)
    case (Cons e es)
    have "ok (settings_step e s)"
      using Cons.prems
      by (cases e) (auto simp: ok_def setShowCallSettings_def onToggle_def sb_closeOnBlur_def sb_closeOnEscape_def
          onCCButtonToggle_def split: device_type.split if_splits)
    then show ?case by (simp add: Cons.IH)
  qed simp
  moreover have "ok settings_button_initial" by (simp add: ok_def settings_button_initial_def)
  ultimately show ?thesis by (simp add: ok_def Let_def)
qed

text \<open>At most one line of a list is ticked.\<close>

lemma one_tick:
  assumes "distinct (map dev_id (all_devices m))"
  shows "length (filter snd (MediaDevicesList m)) \<le> 1"
proof -
  have "length (filter (\<lambda>d. Some (dev_id d) = x) ds) \<le> 1" if "distinct (map dev_id ds)" for x and ds :: "device list"
    using that
  proof (induction ds)
    case (Cons a ds)
    show ?case
    proof (cases "Some (dev_id a) = x")
      case True
      then have "filter (\<lambda>d. Some (dev_id d) = x) ds = []"
        using Cons.prems unfolding filter_empty_conv by (metis distinct.simps(2) image_eqI list.set_map list.simps(9) option.inject)
      then show ?thesis by simp
    next
      case False
      then show ?thesis using Cons by simp
    qed
  qed simp
  moreover have "distinct (map dev_id (listed_devices m))"
    using assms by (simp add: listed_devices_def distinct_map_filter)
  ultimately have "length (filter (\<lambda>d. Some (dev_id d) = map_option dev_id (currentDevice m)) (listed_devices m)) \<le> 1" by blast
  then show ?thesis by (simp add: MediaDevicesList_def filter_map comp_def)
qed

text \<open>
  A device chosen in the menu of a call is the one used. When the client has a peer, the click on
  a listed device that is not the current one makes it the client's device, the one ticked, and the
  stored choice: the client of the next call selects it, and the settings show it.
\<close>

theorem menu_choice_used:
  assumes "cl_peer c" "handleDeviceClick d False (Some c) m = (Some c', m')"
    and "d \<in> set (listed_devices m)" "distinct (map dev_id (all_devices m))"
    and "dm_type m = AudioInputs \<or> dm_type m = AudioOutputs"
  shows "currentDevice m' = Some d \<and>
    (if dm_type m = AudioInputs then cl_audioInput c' else cl_audioOutput c') = Some d \<and>
    getSelectedAudioDevice (dm_type m = AudioInputs)
      (later\<lparr>cl_storedInput := cl_storedInput c', cl_storedOutput := cl_storedOutput c',
            cl_inputs := all_devices m, cl_outputs := all_devices m\<rparr>) = Some d \<and>
    getOption None (if dm_type m = AudioInputs then cl_storedInput c' else cl_storedOutput c') (all_devices m) = to_option d"
proof -
  have d: "d \<in> set (all_devices m)" "dev_id d \<noteq> ''''" using assms(3) by (auto simp: listed_devices_def)
  have so: "stored_of d = saved_option (to_option d)" by (simp add: stored_of_def saved_option_def to_option_def)
  have c': "(if dm_type m = AudioInputs then cl_audioInput c' else cl_audioOutput c') = Some d"
    "(if dm_type m = AudioInputs then cl_storedInput c' else cl_storedOutput c') = Some (saved_option (to_option d))"
    using assms(1,2,5)
    by (auto simp: handleDeviceClick_def ask_client_def setAudioInputDevice_def setAudioOutputDevice_def cl_emit_def cl_log_def
        park_def finish_def initAudio_def so Let_def split: option.splits)
  have "dm_type (notified c c' m) = dm_type m"
    by (simp add: notified_def handleDeviceChange_def Let_def)
  then have "currentDevice m' = Some d"
    using assms(2) by (auto simp: handleDeviceClick_def Let_def set_current_def currentDevice_def split: device_type.splits)
  moreover have "getSelectedAudioDevice (dm_type m = AudioInputs)
      (later\<lparr>cl_storedInput := cl_storedInput c', cl_storedOutput := cl_storedOutput c',
            cl_inputs := all_devices m, cl_outputs := all_devices m\<rparr>) = Some d"
    using c' by (intro client_uses_saved_audio [OF assms(4) d]) (auto split: if_splits)
  moreover have "getOption None (Some (saved_option (to_option d))) (all_devices m) = to_option d"
    using selection_of_device [OF assms(4) d(1)]
    by (simp add: getOption_def stored_selection_def saved_option_def to_option_def)
  ultimately show ?thesis using c' by simp
qed

theorem menu_choice_used_witness:
  "let c = sample_calls_client\<lparr>cl_peer := True\<rparr>; d = \<lparr>dev_id = ''m2'', dev_label = ''headset'', dev_kind = ''audioinput''\<rparr> in
     currentDevice (snd (handleDeviceClick d False (Some c) (menu_mount (Some c) (menu_initial AudioInputs)))) = Some d"
proof -
  define c where "c = sample_calls_client\<lparr>cl_peer := True\<rparr>"
  define d where "d = \<lparr>dev_id = ''m2'', dev_label = ''headset'', dev_kind = ''audioinput''\<rparr>"
  define m where "m = menu_mount (Some c) (menu_initial AudioInputs)"
  have "cl_peer c" "d \<in> set (listed_devices m)" "distinct (map dev_id (all_devices m))" "dm_type m = AudioInputs"
    unfolding m_def c_def d_def by code_simp+
  moreover obtain c' m' where "handleDeviceClick d False (Some c) m = (Some c', m')"
    by (simp add: handleDeviceClick_def Let_def)
  ultimately show ?thesis
    using menu_choice_used [of c d m c' m'] unfolding m_def c_def d_def Let_def by simp
qed

text \<open>
  Without a peer the client ignores the click, but the menu ticks the device all the same.
\<close>

lemma early_choice_shown_not_used:
  assumes "\<not> cl_peer c"
  shows "handleDeviceClick d same (Some c) m = (Some c, set_current d m)" "currentDevice (set_current d m) = Some d"
  using assms
  by (auto simp: handleDeviceClick_def ask_client_def setAudioInputDevice_def setAudioOutputDevice_def setVideoInputDevice_def
      finish_def notified_def set_current_def currentDevice_def Let_def split: device_type.split)

end
