(* ===== verification/Slash_Commands.thy ===== *)
theory Slash_Commands
  imports Join_Flow
begin

text \<open>
  The \<open>/call\<close> commands of \<open>webapp/src/slash_commands.tsx\<close>. The result is what the hook returns:
  nothing (\<open>Handled\<close>), the message to post (\<open>Post\<close>), or an error. What the command awaits is an
  argument: the channel when the store has none, and the statistics of the client; \<open>btoa\<close> and
  the client's log come from the browser.
\<close>

section \<open>Commands\<close>

record command_args =
  a_channel_id :: string
  a_team_id :: string
  a_root_id :: string

datatype slash_result = Handled | Post string | SlashError js_error

definition is_space :: "char \<Rightarrow> bool" where
  "is_space c \<longleftrightarrow> of_char c \<in> {9, 10, 11, 12, 13, 32, 160 :: nat}"

text \<open>\<open>message.trim().split(/\s+/)\<close>: the words of the message.\<close>

fun words_acc :: "string \<Rightarrow> string \<Rightarrow> string list" where
  "words_acc w [] = (if w = '''' then [] else [w])"
| "words_acc w (c # s) =
     (if is_space c then (if w = '''' then words_acc '''' s else w # words_acc '''' s)
      else words_acc (w @ [c]) s)"

definition fields_of :: "string \<Rightarrow> string list" where
  "fields_of message = words_acc '''' message"

fun join_words :: "string list \<Rightarrow> string" where
  "join_words [] = ''''"
| "join_words [w] = w"
| "join_words (w # ws) = w @ '' '' @ join_words ws"

definition error_modal :: "string \<Rightarrow> string \<Rightarrow> world \<Rightarrow> world" where
  "error_modal title msg = displayGenericErrorModal title msg None"

definition not_connected_msg :: string where
  "not_connected_msg = ''You're not connected to a call in the current channel.''"

definition slash_join ::
  "desktop \<Rightarrow> string \<Rightarrow> channel option \<Rightarrow> string list \<Rightarrow> command_args \<Rightarrow> world \<Rightarrow> slash_result \<times> world" where
  "slash_join dk url loaded flds args w0 =
     (let stored = getChannel (world_app w0) (a_channel_id args);
          w = (if stored = None then emit (RequestChannel (a_channel_id args)) w0 else w0);
          channel = (if stored = None then loaded else stored)
      in (Handled,
        if \<not> isDMChannel channel \<and> \<not> areGroupCallsAllowed (world_app w) then
          error_modal ''Unable to join call'' ''Calls are only available in DM channels.'' w
        else if flds ! 1 = ''start'' \<and> channelHasCall (world_app w) (a_channel_id args) then
          error_modal ''Unable to start call'' ''A call is already ongoing in the channel.'' w
        else if channelIDForCurrentCall (world_app w0) = '''' then
          (case joinCall dk url (a_channel_id args)
                  (str_or (Some (a_team_id args)) (str_or (map_option c_team_id channel) ''''))
                  (join_words (drop 2 flds)) (a_root_id args) w of
             Inr w' \<Rightarrow> w'
           | Inl e \<Rightarrow>
               error_modal ''Unable to start or join call''
                 (if e = DisabledCallsErr then ''Calls are disabled in this channel.''
                  else ''An internal error occurred and prevented you from joining the call. Please try again.'') w)
        else error_modal ''Unable to join call'' ''You're already connected to a call in the current channel.'' w))"

definition slash_leave :: "desktop \<Rightarrow> command_args \<Rightarrow> world \<Rightarrow> world" where
  "slash_leave dk args w =
     (let connectedID = channelIDForCurrentCall (world_app w);
          fail = error_modal ''Unable to leave the call'' not_connected_msg w
      in if connectedID \<noteq> '''' \<and> a_channel_id args = connectedID then
           (if world_client w \<noteq> None then shared_disconnect None w
            else if has_api dk ''leaveCall'' then emit (DesktopCall ''leaveCall'' []) w
            else if shouldRenderDesktopWidget dk
            then sendDesktopEvent ''calls-leave-call'' [(''callID'', a_channel_id args)] w
            else fail)
         else fail)"

definition slash_end :: "command_args \<Rightarrow> world \<Rightarrow> world" where
  "slash_end args w =
     (if \<not> channelHasCall (world_app w) (a_channel_id args) then
        error_modal ''Unable to end the call'' ''There's no ongoing call in the channel.'' w
      else if \<not> g_isAdmin (w_host w) \<and>
          Some (g_currentUserId (w_host w)) \<noteq> hostIDForCallInChannel (world_app w) (a_channel_id args) then
        error_modal ''Unable to end the call''
          ''You don't have permission to end the call. Please ask the call owner to end call.'' w
      else emit (OpenModal (EndCallConfirmation (a_channel_id args))) w)"

definition slash_recording :: "string \<Rightarrow> string list \<Rightarrow> command_args \<Rightarrow> world \<Rightarrow> slash_result \<times> world" where
  "slash_recording message flds args w =
     (if length flds < 3 \<or> (flds ! 2 \<noteq> ''start'' \<and> flds ! 2 \<noteq> ''stop'') then (Post message, w)
      else
        let starting = (flds ! 2 = ''start'');
            title = (if starting then ''Unable to start recording'' else ''Unable to stop recording'');
            connectedID = channelIDForCurrentCall (world_app w);
            isHost = (hostIDForCurrentCall (world_app w) = g_currentUserId (w_host w));
            recording = isRecordingInCurrentCall (world_app w)
        in if a_channel_id args \<noteq> connectedID then (Handled, error_modal title not_connected_msg w)
           else if starting then
             (if \<not> isHost then
                (Handled, error_modal title
                  ''You don't have permission to start a recording. Please ask the call host to start a recording.'' w)
              else if recording then (Handled, error_modal title ''A recording is already in progress.'' w)
              else (Post message, startCallRecording connectedID w))
           else
             (if \<not> isHost then
                (Handled, error_modal title
                  ''You don't have permission to stop the recording. Please ask the call host to stop the recording.'' w)
              else if \<not> recording then (Handled, error_modal title ''No recording is in progress.'' w)
              else (Post message, stopCallRecording connectedID w)))"

text \<open>
  \<open>stats\<close> is what the client's \<open>getStats\<close> gives, \<open>stored\<close> the statistics of the last call in local
  storage, \<open>logs\<close> the client's log.
\<close>

definition slash_stats ::
  "(string \<Rightarrow> string) \<Rightarrow> js_error + string \<Rightarrow> string option \<Rightarrow> world \<Rightarrow> slash_result" where
  "slash_stats btoa stats stored w =
     (if w_own w \<noteq> None then
        (case stats of Inr s \<Rightarrow> Post (''/call stats '' @ btoa s) | Inl e \<Rightarrow> SlashError e)
      else Post (''/call stats '' @ btoa (str_or stored ''{}'')))"

definition slashCommandsHandler ::
  "desktop \<Rightarrow> string \<Rightarrow> channel option \<Rightarrow> (string \<Rightarrow> string) \<Rightarrow> js_error + string \<Rightarrow> string option \<Rightarrow> string \<Rightarrow>
   string \<Rightarrow> command_args \<Rightarrow> world \<Rightarrow> slash_result \<times> world" where
  "slashCommandsHandler dk url loaded btoa stats stored logs message args w =
     (let flds = fields_of message
      in if length flds < 2 \<or> flds ! 0 \<noteq> ''/call'' then (Post message, w)
         else if flds ! 1 = ''join'' \<or> flds ! 1 = ''start'' then slash_join dk url loaded flds args w
         else if flds ! 1 = ''leave'' then (Handled, slash_leave dk args w)
         else if flds ! 1 = ''end'' then (Handled, slash_end args w)
         else if flds ! 1 = ''stats'' then (slash_stats btoa stats stored w, w)
         else if flds ! 1 = ''logs'' then (Post (''/call logs '' @ btoa logs), w)
         else if flds ! 1 = ''recording'' then slash_recording message flds args w
         else (Post message, w))"

section \<open>Properties\<close>

fun is_rest :: "effect \<Rightarrow> bool" where
  "is_rest (Rest m p b) = True"
| "is_rest _ = False"

lemma error_modal_effects [simp]:
  "w_effects (error_modal title msg w) = w_effects w @ [OpenModal (GenericErrorModal title msg None)]"
  by (simp add: error_modal_def displayGenericErrorModal_def)

text \<open>
  The recording command talks to the server only for the host, in the channel of the call the
  host is in: it starts a recording exactly when none is running and stops one exactly when one is,
  and sends nothing otherwise. The end of a call is put to confirmation exactly when the channel has
  a call and the user is an administrator or its host.
\<close>

theorem slash_host_only:
  "filter is_rest (w_effects (snd (slash_recording message flds args w))) =
     filter is_rest (w_effects w) @
       (let current = channelIDForCurrentCall (world_app w);
            allowed = (length flds \<ge> 3 \<and> a_channel_id args = current \<and>
              hostIDForCurrentCall (world_app w) = g_currentUserId (w_host w));
            recording = isRecordingInCurrentCall (world_app w)
        in if allowed \<and> flds ! 2 = ''start'' \<and> \<not> recording then
             [Rest ''post'' (''/calls/'' @ current @ ''/recording/start'') []]
           else if allowed \<and> flds ! 2 = ''stop'' \<and> recording then
             [Rest ''post'' (''/calls/'' @ current @ ''/recording/stop'') []]
           else []) \<and>
   (last (w_effects (slash_end args w)) = OpenModal (EndCallConfirmation (a_channel_id args)) \<longleftrightarrow>
      channelHasCall (world_app w) (a_channel_id args) \<and>
      (g_isAdmin (w_host w) \<or>
       hostIDForCallInChannel (world_app w) (a_channel_id args) = Some (g_currentUserId (w_host w))))"
proof (intro conjI)
  let ?start = "flds ! 2 = ''start''" and ?stop = "flds ! 2 = ''stop''"
  have "\<not> (?start \<and> ?stop)" by simp
  then show "filter is_rest (w_effects (snd (slash_recording message flds args w))) =
     filter is_rest (w_effects w) @
       (let current = channelIDForCurrentCall (world_app w);
            allowed = (length flds \<ge> 3 \<and> a_channel_id args = current \<and>
              hostIDForCurrentCall (world_app w) = g_currentUserId (w_host w));
            recording = isRecordingInCurrentCall (world_app w)
        in if allowed \<and> ?start \<and> \<not> recording then
             [Rest ''post'' (''/calls/'' @ current @ ''/recording/start'') []]
           else if allowed \<and> ?stop \<and> recording then
             [Rest ''post'' (''/calls/'' @ current @ ''/recording/stop'') []]
           else [])"
    unfolding slash_recording_def Let_def startCallRecording_def stopCallRecording_def
    by (cases ?start; cases ?stop; cases "length flds < 3"; simp only: not_le [symmetric] if_True if_False simp_thms;
        simp)
  show "last (w_effects (slash_end args w)) = OpenModal (EndCallConfirmation (a_channel_id args)) \<longleftrightarrow>
      channelHasCall (world_app w) (a_channel_id args) \<and>
      (g_isAdmin (w_host w) \<or>
       hostIDForCallInChannel (world_app w) (a_channel_id args) = Some (g_currentUserId (w_host w)))"
    unfolding slash_end_def by (simp add: eq_commute)
qed

text \<open>A message that is not a command of the plugin is posted as it is.\<close>

lemma slash_other_message:
  "length (fields_of message) < 2 \<or> fields_of message ! 0 \<noteq> ''/call'' \<Longrightarrow>
   slashCommandsHandler dk url loaded btoa stats stored logs message args w = (Post message, w)"
  by (simp add: slashCommandsHandler_def Let_def)

text \<open>Leaving closes the client only from the channel of its call.\<close>

lemma slash_leave_other_channel:
  "a_channel_id args \<noteq> channelIDForCurrentCall (world_app w) \<Longrightarrow> world_client (slash_leave dk args w) = world_client w"
  by (simp add: slash_leave_def error_modal_def displayGenericErrorModal_def Let_def)

text \<open>Every command is a step of the window.\<close>

lemma good_slash_join: "good w (snd (slash_join dk url loaded flds args w))"
proof -
  define w1 where "w1 = (if getChannel (world_app w) (a_channel_id args) = None
     then emit (RequestChannel (a_channel_id args)) w else w)"
  have 1: "good w w1" by (auto simp: w1_def intro!: good_intros)
  have m: "good w (error_modal t m w1)" for t m
    unfolding error_modal_def displayGenericErrorModal_def using 1 by (rule good_intros)
  have j: "joinCall dk url ch team title root w1 = Inr w' \<Longrightarrow> good w w'" for ch team title root w'
    using 1 good_join by (blast intro: good_trans)
  show ?thesis unfolding slash_join_def Let_def w1_def [symmetric]
    by (simp only: snd_conv m j simp_thms split: if_split sum.split) (use j in blast)
qed

lemma good_error_modal [good_intros]: "good w w' \<Longrightarrow> good w (error_modal t m w')"
  unfolding error_modal_def displayGenericErrorModal_def by (rule good_intros)

lemma good_slash_parts:
  "good w (slash_leave dk args w)" "good w (slash_end args w)"
  "good w (snd (slash_recording message flds args w))"
  unfolding slash_leave_def slash_end_def slash_recording_def startCallRecording_def stopCallRecording_def Let_def
  by (simp_all add: good_intros)

lemma slash_command_step:
  "world_step w (snd (slashCommandsHandler dk url loaded btoa stats stored logs message args w))"
  by (rule world_step.other_code)
    (simp add: slashCommandsHandler_def Let_def good_slash_join good_slash_parts)


end
