(* ===== verification/Call_Switching.thy ===== *)
theory Call_Switching
  imports Slash_Commands
begin

text \<open>
  Changing from one call to another: the dialog that asks (\<open>components/switch_call_modal\<close>), the
  message it sends to the window that has the client, and the handler of such messages
  (\<open>windowEventHandler\<close> of \<open>index.tsx\<close>), which the legacy desktop application also uses. Message
  and dialog are good moves of the window, so the invariants of the event loop hold with them.
\<close>

section \<open>The dialog\<close>

record switch_props =
  sw_show :: bool
  sw_connected :: "channel option"
  sw_current :: "channel option"
  sw_connectedDMUser :: "profile option"
  sw_currentDMUser :: "profile option"
  sw_targetID :: "string option"
  sw_targetCallID :: string

text \<open>The other user of a direct channel.\<close>

definition dm_user :: "app \<Rightarrow> channel option \<Rightarrow> profile option" where
  "dm_user a ch =
     (if isDMChannel ch
      then Option.bind (getUserIdFromDM (str_or (map_option c_name ch) '''') (g_currentUserId (host a))) (getUser a)
      else None)"

text \<open>\<open>mapStateToProps\<close>: the channel to join is the target, or the current one without a target.\<close>

definition switch_map_state :: "app \<Rightarrow> switch_props" where
  "switch_map_state a =
     (let st = s_switchCallModal (plugin a);
          target = str_or (sm_targetID st) '''';
          connected = channelForCurrentCall a;
          current = getChannel a (if target \<noteq> '''' then target else g_currentChannelId (host a))
      in \<lparr>sw_show = sm_show st, sw_connected = connected, sw_current = current,
          sw_connectedDMUser = dm_user a connected, sw_currentDMUser = dm_user a current,
          sw_targetID = sm_targetID st, sw_targetCallID = str_or (idForCallInChannel a target) ''''\<rparr>)"

text \<open>
  \<open>joinCall\<close> runs in an event handler of React, so its properties are those of the rendering before
  it; an undefined identifier reads \<open>undefined\<close> in the path of the request.
\<close>

definition switch_joinCall :: "world \<Rightarrow> world" where
  "switch_joinCall w0 =
     (let p = switch_map_state (world_app w0);
          undef = (\<lambda>x. case x of None \<Rightarrow> ''undefined'' | Some s \<Rightarrow> s);
          w = dismissIncomingCallNotification (undef (sw_targetID p)) (sw_targetCallID p) w0;
          w = hideSwitchCallModal w;
          w = shared_disconnect None w
      in emit (PostMessage ''connectCall'' (undef (map_option c_id (sw_current p)))) w)"

definition switch_keyboardClose :: "string \<Rightarrow> world \<Rightarrow> world" where
  "switch_keyboardClose key w =
     (if sw_show (switch_map_state (world_app w)) \<and> key = ''Escape'' then hideSwitchCallModal w else w)"

definition switch_closeOnBlur :: "bool \<Rightarrow> world \<Rightarrow> world" where
  "switch_closeOnBlur inside w =
     (if \<not> sw_show (switch_map_state (world_app w)) \<or> inside then w else hideSwitchCallModal w)"

text \<open>The names in the two sentences of the dialog.\<close>

definition switch_name :: "channel option \<Rightarrow> profile option \<Rightarrow> string" where
  "switch_name ch user =
     (if isDMChannel ch then getUserDisplayName user False else str_or (map_option c_display_name ch) '''')"

definition switch_message :: "channel option \<Rightarrow> string" where
  "switch_message connected =
     (if isDMChannel connected then ''You are already in a call with {participant}.''
      else if isGMChannel connected then ''You are already in a call with {participants}.''
      else ''You are already in a call in {channel}.'')"

definition switch_question :: "channel option \<Rightarrow> string" where
  "switch_question current =
     (if isDMChannel current then ''Do you want to leave and join a call with {user}?''
      else if isGMChannel current then ''Do you want to leave and join a call with {users}?''
      else ''Do you want to leave and join a call in {channel}?'')"

definition switch_render :: "app \<Rightarrow> ((string \<times> string) \<times> (string \<times> string)) option" where
  "switch_render a =
     (let p = switch_map_state a
      in if \<not> sw_show p \<or> sw_connected p = None then None
         else Some ((switch_message (sw_connected p), switch_name (sw_connected p) (sw_connectedDMUser p)),
                    (switch_question (sw_current p), switch_name (sw_current p) (sw_currentDMUser p))))"

section \<open>Messages to the window\<close>

datatype window_message =
    WmConnectCall string
  | WmSourcesModal
  | WmJoinedCall string string string
  | WmJoinRequest string
  | WmClientError string string
  | WmSlashCommand string command_args
  | WmLink string

text \<open>\<open>slash\<close> is \<open>slashCommandsHandler\<close> with what it reads of the browser.\<close>

definition windowEventHandler ::
  "desktop \<Rightarrow> string \<Rightarrow> (string \<Rightarrow> command_args \<Rightarrow> world \<Rightarrow> slash_result \<times> world) \<Rightarrow> bool \<Rightarrow> window_message \<Rightarrow> world \<Rightarrow> world" where
  "windowEventHandler dk url slash sameOrigin m w =
     (if \<not> sameOrigin then w
      else
        (case m of
           WmConnectCall ch \<Rightarrow> followThread ch (g_currentTeamId (w_host w)) (connectCall dk url ch '''' '''' w)
         | WmSourcesModal \<Rightarrow> if has_api dk ''onOpenScreenShareModal'' then w else showScreenSourceModal w
         | WmJoinedCall ty callID sid \<Rightarrow>
             if has_api dk ''joinCall'' then w
             else handleDesktopJoinedCall dk ty callID sid (setClientConnecting False w)
         | WmJoinRequest callID \<Rightarrow>
             if has_api dk ''onJoinCallRequest'' then w else showSwitchCallModal (Some callID) w
         | WmClientError msg callID \<Rightarrow>
             if has_api dk ''onCallsError'' then w
             else displayCallErrorModal (ErrorMsg msg) (Some callID) (setClientConnecting False w)
         | WmSlashCommand msg args \<Rightarrow> snd (slash msg args w)
         | WmLink link \<Rightarrow> if has_api dk ''openLinkFromCalls'' then w else emit (NavigateTo link) w))"

section \<open>Lemmas\<close>

lemma plain_modals [simp]: "plain HIDE_SWITCH_CALL_MODAL" "plain SHOW_SCREEN_SOURCE_MODAL" "plain HIDE_SCREEN_SOURCE_MODAL"
  by (simp_all add: plain_def)

lemma good_switch_join: "good w (switch_joinCall w)"
  unfolding switch_joinCall_def Let_def by (auto intro!: good_intros simp: hideSwitchCallModal_def)

lemma good_switch_close:
  "good w (switch_keyboardClose key w)" "good w (switch_closeOnBlur inside w)"
  unfolding switch_keyboardClose_def switch_closeOnBlur_def by (auto intro!: good_intros simp: hideSwitchCallModal_def)

lemma good_window_message:
  assumes "\<And>msg args. good w (snd (slash msg args w))"
  shows "good w (windowEventHandler dk url slash sameOrigin m w)"
  unfolding windowEventHandler_def showScreenSourceModal_def displayCallErrorModal_def
  by (cases m) (auto intro!: good_intros assms simp: handleDesktopJoinedCall_def)

lemma own_disconnect_effects:
  "w_own w = Some c \<Longrightarrow> ClientCall (CallDisconnect err) \<in> set (w_effects (own_disconnect err w))"
  by (auto simp: own_disconnect_def on_close_def displayCallErrorModal_def emit_def put_action_def Let_def split: option.split)

lemma own_disconnect_modal: "s_switchCallModal (w_plugin (own_disconnect err w)) = s_switchCallModal (w_plugin w)"
  by (auto simp: own_disconnect_def on_close_def displayCallErrorModal_def Let_def split: option.split)


definition sample_two_calls :: world where
  "sample_two_calls =
     showSwitchCallModal (Some ''ch2'')
       (sample_joined\<lparr>w_plugin := (w_plugin sample_joined)\<lparr>s_calls := [(''ch2'', \<lparr>cs_ID = ''c2'', cs_startAt = 1, cs_channelID = ''ch2'',
            cs_threadID = ''t2'', cs_ownerID = ''u2'', cs_hostID = None\<rparr>)]\<rparr>,
          w_host := sample_host\<lparr>g_channels := [(''ch'', sample_channel), (''ch2'', sample_channel\<lparr>c_id := ''ch2''\<rparr>)]\<rparr>\<rparr>)"

definition sample_browser :: desktop where
  "sample_browser = \<lparr>dk_version = None, dk_userAgent = False, dk_api = []\<rparr>"


end
