(* ===== verification/Participants_Grid.thy ===== *)
theory Participants_Grid
  imports Complex_Main Utils
begin

text \<open>
  The grid of participants of the pop-out and of the recorder
  (\<open>components/expanded_view/participants_grid.tsx\<close>): the size of its tiles, and what each tile
  shows. Widths and heights are whole pixels; the margins, fractions of them, are exact here and
  rounded to doubles in the code.
\<close>

section \<open>The size of the tiles\<close>

datatype tile_size = Small | Medium | Large | ExtraLarge

fun tile_width :: "tile_size \<Rightarrow> int" where
  "tile_width Small = 96" | "tile_width Medium = 128" | "tile_width Large = 160" | "tile_width ExtraLarge = 208"

fun tile_height :: "tile_size \<Rightarrow> int" where
  "tile_height Small = 164" | "tile_height Medium = 204" | "tile_height Large = 236" | "tile_height ExtraLarge = 292"

definition tileSpacing :: int where "tileSpacing = 8"

record grid_sizes =
  gs_tileSize :: tile_size
  gs_paddingV :: int
  gs_paddingH :: int

definition hMargin :: "int \<Rightarrow> rat" where
  "hMargin width = min (12 / 100 * of_int width) 150"

definition vMargin :: "int \<Rightarrow> rat" where
  "vMargin height = 12 / 100 * of_int height"

definition tilesPerRow :: "int \<Rightarrow> tile_size \<Rightarrow> int" where
  "tilesPerRow width sz =
     \<lfloor>(of_int width - 2 * hMargin width + of_int tileSpacing) / of_int (tile_width sz + tileSpacing)\<rfloor>"

definition requiredRows :: "int \<Rightarrow> nat \<Rightarrow> tile_size \<Rightarrow> int" where
  "requiredRows width n sz = \<lceil>of_nat n / (of_int (tilesPerRow width sz) :: rat)\<rceil>"

text \<open>
  Where not even one tile fits in a row, the division by zero makes the height infinite, or not a
  number without participants: neither is at most the height that is there.
\<close>

definition size_fits :: "int \<Rightarrow> int \<Rightarrow> nat \<Rightarrow> tile_size \<Rightarrow> bool" where
  "size_fits width height n sz \<longleftrightarrow>
     tilesPerRow width sz \<noteq> 0 \<and>
     of_int (requiredRows width n sz * (tile_height sz + tileSpacing) - tileSpacing) \<le> of_int height - 2 * vMargin height"

definition computeSizes :: "(int \<times> int) option \<Rightarrow> nat \<Rightarrow> grid_sizes" where
  "computeSizes node n =
     (case node of
        None \<Rightarrow> \<lparr>gs_tileSize = Small, gs_paddingV = 0, gs_paddingH = 0\<rparr>
      | Some (width, height) \<Rightarrow>
          \<lparr>gs_tileSize = (case filter (size_fits width height n) [ExtraLarge, Large, Medium, Small] of
                            sz # _ \<Rightarrow> sz | [] \<Rightarrow> Small),
           gs_paddingV = \<lfloor>vMargin height\<rfloor>, gs_paddingH = \<lfloor>hMargin width\<rfloor>\<rparr>)"

section \<open>The tiles\<close>

record grid_tile =
  gt_name :: string
  gt_picture :: "string option"
  gt_isMuted :: bool
  gt_isSpeaking :: bool
  gt_isHandRaised :: bool
  gt_isYou :: bool
  gt_isHost :: bool
  gt_iAmHost :: bool

text \<open>
  The recorder passes images and no user; the pop-out passes its session and user, and
  \<open>picture\<close> is the address of a profile's picture. A session without a profile has no tile.
\<close>

definition grid_tile_of ::
  "(profile \<Rightarrow> string) \<Rightarrow> string obj option \<Rightarrow> string option \<Rightarrow> string option \<Rightarrow> string \<Rightarrow> profile \<Rightarrow> user_session \<Rightarrow> grid_tile" where
  "grid_tile_of picture images currentSessionID currentUserID hostID p s =
     (let you = (str_or currentSessionID '''' \<noteq> '''' \<and> session_id s = currentSessionID)
      in \<lparr>gt_name = getUserDisplayName (Some p) False @ '' '' @ (if you then ''(you)'' else ''''),
          gt_picture = (case images of None \<Rightarrow> Some (picture p) | Some m \<Rightarrow> obj_get m (p_id p)),
          gt_isMuted = (unmuted s \<noteq> Some True), gt_isSpeaking = (voice s = Some True),
          gt_isHandRaised = (num_or (raised_hand s) 0 > 0), gt_isYou = you,
          gt_isHost = (p_id p = hostID),
          gt_iAmHost = (str_or currentUserID '''' \<noteq> '''' \<and> currentUserID = Some hostID)\<rparr>)"

definition grid_tiles ::
  "(profile \<Rightarrow> string) \<Rightarrow> string obj option \<Rightarrow> string option \<Rightarrow> string option \<Rightarrow> string \<Rightarrow> profile obj \<Rightarrow>
   user_session list \<Rightarrow> grid_tile list" where
  "grid_tiles picture images currentSessionID currentUserID hostID profiles ss =
     List.map_filter
       (\<lambda>s. map_option (\<lambda>p. grid_tile_of picture images currentSessionID currentUserID hostID p s)
              (Option.bind (user_id s) (obj_get profiles)))
       ss"

section \<open>Lemmas\<close>

lemma tiles_at_most: "length (grid_tiles picture images sid uid hostID profiles ss) \<le> length ss"
  by (simp add: grid_tiles_def List.map_filter_def)

lemma tile_positive: "tile_width sz + tileSpacing > 0" "tile_height sz + tileSpacing > 0"
  by (cases sz; simp add: tileSpacing_def)+

lemma margins_leave:
  assumes "width \<ge> 0" "height \<ge> 0"
  shows "of_int width - 2 * hMargin width \<le> of_int (width - 2 * \<lfloor>hMargin width\<rfloor>)"
    and "of_int height - 2 * vMargin height \<le> of_int (height - 2 * \<lfloor>vMargin height\<rfloor>)"
    and "tilesPerRow width sz \<ge> 0"
proof -
  show "of_int width - 2 * hMargin width \<le> of_int (width - 2 * \<lfloor>hMargin width\<rfloor>)"
    using of_int_floor_le [of "hMargin width"] by (simp add: algebra_simps)
  show "of_int height - 2 * vMargin height \<le> of_int (height - 2 * \<lfloor>vMargin height\<rfloor>)"
    using of_int_floor_le [of "vMargin height"] by (simp add: algebra_simps)
  have "2 * hMargin width \<le> of_int width"
  proof -
    have "hMargin width \<le> 12 / 100 * of_int width" by (simp add: hMargin_def)
    then show ?thesis using assms(1) by (simp add: field_simps)
  qed
  then have "(of_int width - 2 * hMargin width + of_int tileSpacing) / of_int (tile_width sz + tileSpacing) \<ge> 0"
    using tile_positive(1) [of sz] by (intro divide_nonneg_pos) (auto simp: tileSpacing_def simp flip: of_int_add)
  then show "tilesPerRow width sz \<ge> 0" unfolding tilesPerRow_def by simp
qed

text \<open>A row of the tiles of a size is no wider than the space between the paddings.\<close>

lemma row_fits:
  assumes "width \<ge> 0"
  shows "tilesPerRow width sz * (tile_width sz + tileSpacing) - tileSpacing \<le> width - 2 * \<lfloor>hMargin width\<rfloor>"
proof -
  let ?a = "of_int width - 2 * hMargin width + of_int tileSpacing"
  let ?t = "of_int (tile_width sz + tileSpacing) :: rat"
  have "of_int (tilesPerRow width sz) \<le> ?a / ?t" unfolding tilesPerRow_def by (rule of_int_floor_le)
  moreover have "?t > 0" using tile_positive(1) [of sz] by (simp only: of_int_0_less_iff)
  ultimately have "of_int (tilesPerRow width sz) * ?t \<le> ?a" by (simp only: pos_le_divide_eq)
  then have "of_int (tilesPerRow width sz * (tile_width sz + tileSpacing) - tileSpacing) \<le> of_int width - 2 * hMargin width"
    by simp
  also have "\<dots> \<le> of_int (width - 2 * \<lfloor>hMargin width\<rfloor>)" using margins_leave(1) [OF assms order_refl] .
  finally show ?thesis by (simp only: of_int_le_iff)
qed

lemma rows_hold:
  assumes "tilesPerRow width sz > 0"
  shows "int n \<le> requiredRows width n sz * tilesPerRow width sz"
proof -
  let ?k = "of_int (tilesPerRow width sz) :: rat"
  have "of_nat n / ?k \<le> of_int (requiredRows width n sz)" unfolding requiredRows_def by (rule le_of_int_ceiling)
  moreover have "?k > 0" using assms by simp
  ultimately have "of_nat n \<le> of_int (requiredRows width n sz) * ?k" by (simp only: pos_divide_le_eq)
  then have "(of_int (int n) :: rat) \<le> of_int (requiredRows width n sz * tilesPerRow width sz)" by simp
  then show ?thesis by (simp only: of_int_le_iff)
qed

text \<open>
  C29. The tiles fit. Unless it falls back to the smallest, the size chosen leaves room between the
  paddings for rows that hold every participant, in width and in height; and no larger sz does so:
  its rows are too high for the height the margins leave, or not one of its tiles fits in the width.
\<close>

theorem grid_fits:
  assumes "width \<ge> 0" "height \<ge> 0"
  shows "let g = computeSizes (Some (width, height)) n; sz = gs_tileSize g;
             row = tilesPerRow width sz; rows = requiredRows width n sz in
    (size_fits width height n sz \<longrightarrow>
       row > 0 \<and> int n \<le> rows * row \<and>
       row * (tile_width sz + tileSpacing) - tileSpacing \<le> width - 2 * gs_paddingH g \<and>
       rows * (tile_height sz + tileSpacing) - tileSpacing \<le> height - 2 * gs_paddingV g) \<and>
    (\<not> size_fits width height n sz \<longrightarrow> sz = Small) \<and>
    (\<forall>larger. tile_width larger > tile_width sz \<longrightarrow> \<not> size_fits width height n larger)"
proof -
  define sz where "sz = gs_tileSize (computeSizes (Some (width, height)) n)"
  let ?row = "tilesPerRow width sz" and ?rows = "requiredRows width n sz"
  have choice: "size_fits width height n sz \<or> sz = Small"
    "tile_width larger > tile_width sz \<Longrightarrow> \<not> size_fits width height n larger" for larger
    by (cases larger; auto simp: sz_def computeSizes_def split: if_splits)+
  have fits: "?row > 0 \<and> int n \<le> ?rows * ?row \<and>
      ?row * (tile_width sz + tileSpacing) - tileSpacing \<le> width - 2 * \<lfloor>hMargin width\<rfloor> \<and>
      ?rows * (tile_height sz + tileSpacing) - tileSpacing \<le> height - 2 * \<lfloor>vMargin height\<rfloor>"
    if f: "size_fits width height n sz"
  proof -
    have row: "?row > 0" using f margins_leave(3) [OF assms, of sz] by (simp add: size_fits_def)
    have "(of_int (?rows * (tile_height sz + tileSpacing) - tileSpacing) :: rat) \<le> of_int height - 2 * vMargin height"
      using f unfolding size_fits_def by blast
    also have "\<dots> \<le> of_int (height - 2 * \<lfloor>vMargin height\<rfloor>)" by (rule margins_leave(2) [OF assms])
    finally have "?rows * (tile_height sz + tileSpacing) - tileSpacing \<le> height - 2 * \<lfloor>vMargin height\<rfloor>"
      by (simp only: of_int_le_iff)
    then show ?thesis using row rows_hold [OF row, of n] row_fits [OF assms(1), of sz] by blast
  qed
  have pads: "gs_paddingH (computeSizes (Some (width, height)) n) = \<lfloor>hMargin width\<rfloor>"
    "gs_paddingV (computeSizes (Some (width, height)) n) = \<lfloor>vMargin height\<rfloor>"
    by (simp_all add: computeSizes_def)
  show ?thesis unfolding Let_def pads sz_def [symmetric] using choice fits by blast
qed

theorem grid_fits_witness:
  "gs_tileSize (computeSizes (Some (1000, 700)) 6) = Large \<and> tilesPerRow 1000 Large = 4 \<and>
   4 * (160 + 8) - 8 \<le> (1000 :: int) - 2 * gs_paddingH (computeSizes (Some (1000, 700)) 6)"
proof -
  have c: "gs_tileSize (computeSizes (Some (1000, 700)) 6) = Large" "tilesPerRow 1000 Large = 4" "size_fits 1000 700 6 Large"
    by code_simp+
  show ?thesis using grid_fits [of 1000 700 6] c by (simp add: Let_def tileSpacing_def)
qed

end
