(* ===== verification/Screen_Source.thy ===== *)
theory Screen_Source
  imports Join_Flow Device_Settings
begin

text \<open>
  The dialog of the desktop application that asks what to share
  (\<open>components/screen_source_modal\<close>): the sources it lists, the one selected, the system audio, and
  the three ways it hands the choice on. Whether it is shown is a flag of the store; the setting for
  audio is in local storage.
\<close>

section \<open>State\<close>

record desktop_source =
  src_id :: string
  src_name :: string

datatype source_out =
    AskSources | AskSourcesLegacy | HideModal
  | ShareDesktop string bool | ShareLegacy string bool | ShareClient string bool

record source_modal =
  so_show :: bool
  so_sources :: "desktop_source list"
  so_selected :: string
  so_systemAudio :: bool
  so_asked :: nat
  so_out :: "source_out list"

definition source_modal_initial :: source_modal where
  "source_modal_initial = \<lparr>so_show = False, so_sources = [], so_selected = '''', so_systemAudio = False,
     so_asked = 0, so_out = []\<rparr>"

definition so_log :: "source_out \<Rightarrow> source_modal \<Rightarrow> source_modal" where
  "so_log x s = s\<lparr>so_out := so_out s @ [x]\<rparr>"

definition first_source :: "desktop_source list \<Rightarrow> string" where
  "first_source ss = (case ss of [] \<Rightarrow> '''' | s # _ \<Rightarrow> src_id s)"

section \<open>Operations\<close>

text \<open>\<open>hideScreenSourceModal\<close> clears the flag of the store.\<close>

definition so_hideModal :: "source_modal \<Rightarrow> source_modal" where
  "so_hideModal s = (so_log HideModal s)\<lparr>so_show := False\<rparr>"

definition so_hide :: "source_modal \<Rightarrow> source_modal" where
  "so_hide s = so_hideModal (s\<lparr>so_sources := [], so_selected := '''', so_systemAudio := False\<rparr>)"

definition so_keyboardClose :: "string \<Rightarrow> source_modal \<Rightarrow> source_modal" where
  "so_keyboardClose key s = (if so_show s \<and> key = ''Escape'' then so_hide s else s)"

definition so_closeOnBlur :: "bool \<Rightarrow> source_modal \<Rightarrow> source_modal" where
  "so_closeOnBlur inside s = (if \<not> so_show s \<or> inside then s else so_hide s)"

definition so_shareScreen :: "desktop \<Rightarrow> device_storage \<Rightarrow> bool \<Rightarrow> source_modal \<Rightarrow> source_modal" where
  "so_shareScreen dk ds hasClient s =
     (let audio = (shareAudioWithScreen ds \<and> so_systemAudio s)
      in so_hide
           (if has_api dk ''shareScreen'' then so_log (ShareDesktop (so_selected s) audio) s
            else if shouldRenderDesktopWidget dk then so_log (ShareLegacy (so_selected s) audio) s
            else if hasClient then so_log (ShareClient (so_selected s) (shareAudioWithScreen ds)) s
            else s))"

text \<open>\<open>componentDidUpdate\<close> when the dialog has become visible.\<close>

definition so_shown :: "desktop \<Rightarrow> source_modal \<Rightarrow> source_modal" where
  "so_shown dk s =
     (if has_api dk ''getDesktopSources'' then so_log AskSources (s\<lparr>so_asked := Suc (so_asked s)\<rparr>)
      else so_log AskSourcesLegacy s)"

text \<open>The answer to \<open>getDesktopSources\<close>; \<open>None\<close> is a failure.\<close>

definition so_answered :: "desktop_source list option \<Rightarrow> source_modal \<Rightarrow> source_modal" where
  "so_answered answer s =
     (case answer of
        None \<Rightarrow> so_hideModal s
      | Some sources \<Rightarrow>
          if sources = [] then so_hideModal s
          else
            let sources = filter (\<lambda>x. src_name x \<noteq> ''Calls Widget'') sources
            in s\<lparr>so_sources := sources, so_selected := first_source sources\<rparr>)"

datatype desktop_message = SourcesResult "desktop_source list" | CallsError string

definition so_handleDesktopEvents :: "bool \<Rightarrow> desktop_message \<Rightarrow> source_modal \<Rightarrow> source_modal" where
  "so_handleDesktopEvents sameOrigin m s =
     (if \<not> sameOrigin then s
      else
        (case m of
           SourcesResult sources \<Rightarrow> s\<lparr>so_sources := sources, so_selected := first_source sources\<rparr>
         | CallsError e \<Rightarrow> if e = ''screen-permissions'' then so_hideModal s else s))"

section \<open>Rendering\<close>

definition so_rendered :: "source_modal \<Rightarrow> bool" where
  "so_rendered s \<longleftrightarrow> so_show s \<and> so_sources s \<noteq> []"

definition shouldRenderAudioToggle :: "device_storage \<Rightarrow> string \<Rightarrow> bool" where
  "shouldRenderAudioToggle ds platformName \<longleftrightarrow>
     shareAudioWithScreen ds \<and> (platformName = ''Linux'' \<or> platformName = ''Windows'')"

section \<open>Steps\<close>

datatype source_event =
    SoShow | SoHideElsewhere | SoAnswer "desktop_source list option" | SoMessage bool desktop_message
  | SoSelect string | SoToggleAudio device_storage | SoShare device_storage bool | SoClose
  | SoKey string | SoBlur bool

text \<open>
  The buttons exist while the dialog is rendered. The messages of the legacy application are heard
  only without \<open>getDesktopSources\<close>.
\<close>

fun so_step :: "desktop \<Rightarrow> string \<Rightarrow> source_event \<Rightarrow> source_modal \<Rightarrow> source_modal" where
  "so_step dk platform SoShow s = (if so_show s then s else so_shown dk (s\<lparr>so_show := True\<rparr>))"
| "so_step dk platform SoHideElsewhere s = s\<lparr>so_show := False\<rparr>"
| "so_step dk platform (SoAnswer a) s =
     (case so_asked s of 0 \<Rightarrow> s | Suc n \<Rightarrow> so_answered a (s\<lparr>so_asked := n\<rparr>))"
| "so_step dk platform (SoMessage o' m) s =
     (if has_api dk ''getDesktopSources'' then s else so_handleDesktopEvents o' m s)"
| "so_step dk platform (SoSelect i) s =
     (if so_rendered s \<and> i \<in> src_id ` set (so_sources s) then s\<lparr>so_selected := i\<rparr> else s)"
| "so_step dk platform (SoToggleAudio ds) s =
     (if so_rendered s \<and> shouldRenderAudioToggle ds platform then s\<lparr>so_systemAudio := \<not> so_systemAudio s\<rparr> else s)"
| "so_step dk platform (SoShare ds hasClient) s = (if so_rendered s then so_shareScreen dk ds hasClient s else s)"
| "so_step dk platform SoClose s = (if so_rendered s then so_hide s else s)"
| "so_step dk platform (SoKey k) s = so_keyboardClose k s"
| "so_step dk platform (SoBlur inside) s = so_closeOnBlur inside s"

section \<open>Properties\<close>

definition sources_ok :: "desktop \<Rightarrow> string \<Rightarrow> source_modal \<Rightarrow> bool" where
  "sources_ok dk platform s \<longleftrightarrow>
     (if so_sources s = [] then so_selected s = '''' else so_selected s \<in> src_id ` set (so_sources s)) \<and>
     (has_api dk ''getDesktopSources'' \<longrightarrow> ''Calls Widget'' \<notin> src_name ` set (so_sources s)) \<and>
     (so_systemAudio s \<longrightarrow> platform = ''Linux'' \<or> platform = ''Windows'')"

lemma first_source_in: "if ss = [] then first_source ss = '''' else first_source ss \<in> src_id ` set ss"
  by (simp add: first_source_def split: list.split)

lemma sources_ok_hide:
  "sources_ok dk p s \<Longrightarrow> sources_ok dk p (so_hideModal s)" "sources_ok dk p (so_hide s)"
  by (simp_all add: sources_ok_def so_hide_def so_hideModal_def so_log_def)

lemma sources_ok_step: "sources_ok dk p s \<Longrightarrow> sources_ok dk p (so_step dk p e s)"
proof (cases e)
  case (SoAnswer a)
  assume ok: "sources_ok dk p s"
  have "sources_ok dk p (so_answered a (s\<lparr>so_asked := n\<rparr>))" for n
    using ok first_source_in [of "filter (\<lambda>x. src_name x \<noteq> ''Calls Widget'') (the a)"]
    by (auto simp: so_answered_def so_hideModal_def so_log_def sources_ok_def Let_def split: option.split)
  then show ?thesis using SoAnswer ok by (simp split: nat.split)
next
  case (SoMessage b m)
  assume ok: "sources_ok dk p s"
  then show ?thesis
    using SoMessage first_source_in [of "case m of SourcesResult ss \<Rightarrow> ss | _ \<Rightarrow> []"]
    by (auto simp: so_handleDesktopEvents_def so_hideModal_def so_log_def sources_ok_def split: desktop_message.split)
next
  case (SoShare ds c)
  assume "sources_ok dk p s"
  then show ?thesis using SoShare by (simp add: so_shareScreen_def sources_ok_hide Let_def)
qed (auto simp: sources_ok_def so_shown_def so_log_def so_keyboardClose_def so_closeOnBlur_def so_hide_def so_hideModal_def
      shouldRenderAudioToggle_def split: if_splits)

definition sharing :: "source_out list \<Rightarrow> (string \<times> bool) list" where
  "sharing xs = List.map_filter
     (\<lambda>x. case x of ShareDesktop i a \<Rightarrow> Some (i, a) | ShareLegacy i a \<Rightarrow> Some (i, a) | ShareClient i a \<Rightarrow> Some (i, a) | _ \<Rightarrow> None) xs"

lemma sharing_simps [simp]: "sharing [] = []" "sharing (xs @ ys) = sharing xs @ sharing ys"
  "sharing [HideModal] = []" "sharing [AskSources] = []" "sharing [AskSourcesLegacy] = []"
  "sharing [ShareDesktop i a] = [(i, a)]" "sharing [ShareLegacy i a] = [(i, a)]" "sharing [ShareClient i a] = [(i, a)]"
  by (simp_all add: sharing_def List.map_filter_def)


definition sample_app :: desktop where
  "sample_app = \<lparr>dk_version = Some (5, 8), dk_userAgent = True, dk_api = [''getDesktopSources'', ''shareScreen'']\<rparr>"

definition sample_modal :: source_modal where
  "sample_modal = fold (so_step sample_app ''Linux'')
     [SoShow, SoAnswer (Some [\<lparr>src_id = ''w'', src_name = ''Calls Widget''\<rparr>, \<lparr>src_id = ''s1'', src_name = ''Screen''\<rparr>]),
      SoToggleAudio (sample_storage\<lparr>ds_shareAudio := Some ''on''\<rparr>)] source_modal_initial"


text \<open>
  An answer that comes after the dialog was closed is kept, so the next opening shows the old list
  until the new one comes. And outside the desktop application the tick is not looked at.
\<close>

lemma late_sources_shown:
  assumes "has_api dk ''getDesktopSources''" "src_name x \<noteq> ''Calls Widget''"
  shows "so_rendered (fold (so_step dk platform) [SoShow, SoKey ''Escape'', SoAnswer (Some [x]), SoShow] source_modal_initial)"
  using assms by (simp add: so_shown_def so_log_def so_keyboardClose_def so_hide_def so_hideModal_def so_answered_def
      so_rendered_def source_modal_initial_def Let_def)

lemma client_share_ignores_tick:
  assumes "\<not> has_api dk ''shareScreen''" "\<not> shouldRenderDesktopWidget dk"
  shows "so_shareScreen dk ds True (s\<lparr>so_systemAudio := a\<rparr>) = so_shareScreen dk ds True (s\<lparr>so_systemAudio := b\<rparr>)"
  using assms by (simp add: so_shareScreen_def so_hide_def so_hideModal_def so_log_def)

end
