(* ===== verification/Call_Views.thy ===== *)
theory Call_Views
  imports Join_Flow Expanded_View
begin

text \<open>
  The smaller components that offer or show something of a call: the host's controls, the leave menu,
  the stream of reactions, raised hands, notices and captions, the reaction button, and the places a
  call can be joined from (the button in the channel header, the toast, the call's post, the incoming
  calls). Markup, icons and translations are not modelled: a component is what it offers and shows.
\<close>

section \<open>Host controls\<close>

text \<open>\<open>useHostControls\<close> of \<open>expanded_view/hooks.ts\<close>.\<close>

record host_controls =
  hc_hover :: bool
  hc_sticky :: bool

definition hoverOn :: "host_controls \<Rightarrow> host_controls" where "hoverOn s = s\<lparr>hc_hover := True\<rparr>"
definition hoverOff :: "host_controls \<Rightarrow> host_controls" where "hoverOff s = s\<lparr>hc_hover := False\<rparr>"

definition onOpenChange :: "bool \<Rightarrow> host_controls \<Rightarrow> host_controls" where
  "onOpenChange opened s = s\<lparr>hc_sticky := opened, hc_hover := opened\<rparr>"

definition hostControlsAvailable :: "app \<Rightarrow> bool \<Rightarrow> bool" where
  "hostControlsAvailable a iAmHost \<longleftrightarrow> areHostControlsAllowed a \<and> (iAmHost \<or> g_isAdmin (host a))"

definition showHostControls :: "app \<Rightarrow> bool \<Rightarrow> bool \<Rightarrow> bool \<Rightarrow> host_controls \<Rightarrow> bool" where
  "showHostControls a isYou isHost iAmHost s \<longleftrightarrow>
     hostControlsAvailable a iAmHost \<and> hc_hover s \<and> \<not> (isYou \<and> isHost) \<or> hc_sticky s"

text \<open>\<open>HostControlsMenu\<close>: its lines, and what a click on one asks of the server.\<close>

datatype host_item = MuteParticipant | StopScreenShare | LowerTheirHand | MakeHost | MenuSeparator | RemoveFromCall

definition HostControlsMenu :: "string option \<Rightarrow> bool \<Rightarrow> bool \<Rightarrow> bool \<Rightarrow> bool \<Rightarrow> host_item list" where
  "HostControlsMenu callID muted sharing handRaised isHost =
     (if str_or callID '''' = '''' then []
      else (if muted then [] else [MuteParticipant]) @ (if sharing then [StopScreenShare] else []) @
           (if handRaised then [LowerTheirHand] else []) @ (if isHost then [] else [MakeHost]) @
           (if \<not> muted \<or> sharing \<or> handRaised \<or> \<not> isHost then [MenuSeparator] else []) @ [RemoveFromCall])"

fun host_item_click :: "string \<Rightarrow> string \<Rightarrow> string \<Rightarrow> host_item \<Rightarrow> world \<Rightarrow> world" where
  "host_item_click callID uid sid MuteParticipant w = hostMute callID sid w"
| "host_item_click callID uid sid StopScreenShare w = hostScreenOff callID sid w"
| "host_item_click callID uid sid LowerTheirHand w = hostLowerHand callID sid w"
| "host_item_click callID uid sid MakeHost w = hostMake callID uid w"
| "host_item_click callID uid sid MenuSeparator w = w"
| "host_item_click callID uid sid RemoveFromCall w = w"

text \<open>\<open>ParticipantsList\<close> of the widget: when it offers to mute the others.\<close>

definition list_showMuteOthers :: "app \<Rightarrow> user_session option \<Rightarrow> string \<Rightarrow> user_session list \<Rightarrow> bool" where
  "list_showMuteOthers a currentSession callHostID ss \<longleftrightarrow>
     (let me = Option.bind currentSession user_id; isHost = (me = Some callHostID)
      in hostControlsAvailable a isHost \<and> list_ex (\<lambda>s. unmuted s = Some True \<and> user_id s \<noteq> me) ss)"

text \<open>\<open>LeaveCallMenu\<close>; outside the desktop widget the application has modals.\<close>

datatype leave_item = EndCallForEveryone | LeaveSeparator | LeaveCallItem | CancelItem

definition LeaveCallMenu :: "app \<Rightarrow> bool \<Rightarrow> nat \<Rightarrow> leave_item list" where
  "LeaveCallMenu a isHost numParticipants =
     (if (isHost \<or> g_isAdmin (host a)) \<and> numParticipants > 1 then [EndCallForEveryone, LeaveSeparator] else []) @
     [LeaveCallItem, CancelItem]"

definition endCallHandler :: "desktop \<Rightarrow> bool \<Rightarrow> string \<Rightarrow> string \<Rightarrow> world \<Rightarrow> world" where
  "endCallHandler dk hasModals channelURL channelID w0 =
     (if hasModals then emit (OpenModal (EndCallConfirmation channelID)) w0
      else
        let w = emit (DesktopCall ''sendDesktopMessage'' [(''type'', ''show_end_call_modal'')]) w0
        in if has_api dk ''openLinkFromCalls'' then emit (DesktopCall ''openLinkFromCalls'' [(''link'', channelURL)]) w else w)"

section \<open>The stream of reactions\<close>

definition HostNotices :: "app \<Rightarrow> string list" where
  "HostNotices a =
     map (\<lambda>n. case hn_type n of
            LowerHand \<Rightarrow> hn_displayName n @ '' lowered your hand''
          | HostChanged \<Rightarrow>
              if hn_userID n = Some (g_currentUserId (host a)) then ''You are now the host''
              else hn_displayName n @ '' is now the host''
          | HostRemoved \<Rightarrow> hn_displayName n @ '' was removed from the call'')
       (hostControlNoticesForCurrentCall a)"

definition user_of_session :: "app \<Rightarrow> user_session \<Rightarrow> profile option" where
  "user_of_session a s = Option.bind (user_id s) (obj_get (profilesInCurrentCallMap a))"

text \<open>The chips of the reactions, the newest first: the emoji and who sent it.\<close>

definition reaction_chips :: "app \<Rightarrow> (string \<times> string) list" where
  "reaction_chips a =
     map (\<lambda>r. (r_emoji r,
               if r_user_id r = g_currentUserId (host a) then ''You''
               else (let n = getUserDisplayName (obj_get (profilesInCurrentCallMap a) (r_user_id r)) True
                     in if n = '''' then ''Someone'' else n)))
       (rev (reactionsInCurrentCall a))"

definition by_hand_time :: "user_session \<Rightarrow> user_session \<Rightarrow> int" where
  "by_hand_time x y = hand_time x - hand_time y"

definition hands_raised :: "app \<Rightarrow> user_session list" where
  "hands_raised a = js_sort by_hand_time (filter hand_up (sessionsInCurrentCall a))"

text \<open>The chip of the raised hands: the names shown, and how many others there are.\<close>

definition hands_chip :: "app \<Rightarrow> (string list \<times> nat option) option" where
  "hands_chip a =
     (if hands_raised a = [] then None
      else
        let (displayed, overflowed) = split (hands_raised a) 2 True
        in Some
             (map (\<lambda>s. if user_id s = Some (g_currentUserId (host a)) then ''You''
                       else getUserDisplayName (user_of_session a s) True) displayed,
              map_option length overflowed))"

definition LiveCaptionsStream :: "app \<Rightarrow> string list" where
  "LiveCaptionsStream a =
     map (\<lambda>c. ''('' @ lc_display_name c @ '') '' @ lc_text c) (obj_values (liveCaptionsInCurrentCall a))"

section \<open>The reaction button\<close>

record reaction_button =
  rb_showPicker :: bool
  rb_showBar :: bool

definition rb_hide :: "reaction_button \<Rightarrow> reaction_button" where
  "rb_hide s = s\<lparr>rb_showPicker := False, rb_showBar := False\<rparr>"

definition rb_closeOnBlur :: "bool \<Rightarrow> reaction_button \<Rightarrow> reaction_button" where
  "rb_closeOnBlur inside s = (if inside then s else rb_hide s)"

definition rb_closeOnEscape :: "string \<Rightarrow> reaction_button \<Rightarrow> reaction_button" where
  "rb_closeOnEscape key s = (if key = ''Escape'' then rb_hide s else s)"

definition toggleShowPicker :: "reaction_button \<Rightarrow> reaction_button" where
  "toggleShowPicker s = s\<lparr>rb_showPicker := \<not> rb_showPicker s\<rparr>"

definition toggleReactions :: "reaction_button \<Rightarrow> reaction_button" where
  "toggleReactions s = s\<lparr>rb_showPicker := rb_showPicker s \<and> \<not> rb_showBar s, rb_showBar := \<not> rb_showBar s\<rparr>"

text \<open>Picking sends the reaction, if there is a client, and hides everything.\<close>

definition handleUserPicksEmoji :: "bool \<Rightarrow> string \<Rightarrow> reaction_button \<Rightarrow> string list \<times> reaction_button" where
  "handleUserPicksEmoji hasClient emoji s = (if hasClient then [emoji] else [], rb_hide s)"

datatype reaction_event = RbToggle | RbPicker | RbClick bool | RbKey string | RbPick string

text \<open>The bar has the button of the picker and the quick reactions; both offer emojis while shown.\<close>

fun rb_step :: "reaction_event \<Rightarrow> reaction_button \<Rightarrow> reaction_button" where
  "rb_step RbToggle s = toggleReactions s"
| "rb_step RbPicker s = (if rb_showBar s then toggleShowPicker s else s)"
| "rb_step (RbClick inside) s = rb_closeOnBlur inside s"
| "rb_step (RbKey key) s = rb_closeOnEscape key s"
| "rb_step (RbPick e) s = (if rb_showBar s \<or> rb_showPicker s then snd (handleUserPicksEmoji True e s) else s)"

lemma picker_needs_bar:
  "let s = fold rb_step es \<lparr>rb_showPicker = False, rb_showBar = False\<rparr> in rb_showPicker s \<longrightarrow> rb_showBar s"
proof -
  have "rb_showPicker (fold rb_step es s) \<longrightarrow> rb_showBar (fold rb_step es s)"
    if "rb_showPicker s \<longrightarrow> rb_showBar s" for s :: reaction_button
    using that
  proof (induction es arbitrary: s)
    case (Cons e es)
    have "rb_showPicker (rb_step e s) \<longrightarrow> rb_showBar (rb_step e s)"
      using Cons.prems by (cases e) (auto simp: toggleReactions_def toggleShowPicker_def rb_closeOnBlur_def rb_closeOnEscape_def
          rb_hide_def handleUserPicksEmoji_def)
    then show ?case by (simp add: Cons.IH)
  qed simp
  then show ?thesis by (simp add: Let_def)
qed

section \<open>Where a call is joined from\<close>

text \<open>
  The call's post (\<open>custom_post_types/post_type\<close>). The times it shows are texts of a library and
  left out.
\<close>

datatype post_button = NoButton | JoinButton | JoinDisabled | LeaveMenu "leave_item list"

record call_post =
  cp_active :: bool
  cp_title :: "string option"
  cp_profiles :: "profile list"
  cp_button :: post_button
  cp_recordings :: "nat option"
  cp_transcriptions :: "nat option"

definition with_file :: "job_metadata obj \<Rightarrow> job_metadata list" where
  "with_file m = filter (\<lambda>j. jm_file_id j \<noteq> '''') (obj_values m)"

definition post_limited :: "app \<Rightarrow> string \<Rightarrow> bool" where
  "post_limited a channelID \<longleftrightarrow>
     maxParticipants a > 0 \<and> int (length (profilesInCallInChannel a channelID)) \<ge> maxParticipants a"

text \<open>The line of the transcriptions is made only when there are recordings.\<close>

definition PostType :: "app \<Rightarrow> string \<Rightarrow> jval \<Rightarrow> call_post" where
  "PostType a channelID props =
     (let p = getCallPropsFromPost props;
          profiles = profilesInCallInChannel a channelID;
          isHost = (hostIDForCallInChannel a channelID = Some (g_currentUserId (host a)));
          active = (pp_end_at p = 0);
          recordings = length (with_file (pp_recordings p));
          transcriptions = length (with_file (pp_transcriptions p))
      in \<lparr>cp_active = active, cp_title = (if pp_title p = '''' then None else Some (pp_title p)),
          cp_profiles = (if active then profiles else []),
          cp_button = (if \<not> active then NoButton
                       else if channelIDForCurrentCall a = channelID then LeaveMenu (LeaveCallMenu a isHost (length profiles))
                       else if post_limited a channelID then JoinDisabled else JoinButton),
          cp_recordings = (if recordings > 0 then Some recordings else None),
          cp_transcriptions = (if transcriptions > 0 \<and> recordings > 0 then Some transcriptions else None)\<rparr>)"

definition post_leave :: "desktop \<Rightarrow> world \<Rightarrow> world" where
  "post_leave dk w =
     (if world_client w \<noteq> None then shared_disconnect None w
      else if has_api dk ''leaveCall'' then emit (DesktopCall ''leaveCall'' []) w else w)"

text \<open>The toast above the channel's posts.\<close>

definition ChannelCallToast :: "app \<Rightarrow> bool" where
  "ChannelCallToast a \<longleftrightarrow>
     callInCurrentChannel a \<noteq> None \<and> g_currentChannelId (host a) \<noteq> channelIDForCurrentCall a \<and>
     \<not> dismissedCallForCurrentChannel a \<and> \<not> isLimitRestricted a"

text \<open>
  The button of the channel header; whether the channel is archived and whether the other user of a
  direct channel is deactivated come from the application. \<open>joining\<close> is what the last click found.
\<close>

datatype header_tooltip = ArchivedTip | DeactivatedTip | UpsellTip | LimitTip int

record header_button =
  hb_text :: string
  hb_disabled :: bool
  hb_looksDisabled :: bool
  hb_connecting :: bool
  hb_tooltip :: "header_tooltip option"

definition ChannelHeaderButton :: "app \<Rightarrow> channel option \<Rightarrow> bool \<Rightarrow> (string \<Rightarrow> bool) \<Rightarrow> bool \<Rightarrow> header_button option" where
  "ChannelHeaderButton a ch archived deactivated joining =
     (case ch of
        None \<Rightarrow> None
      | Some c \<Rightarrow>
          let deactivatedDM = (isDMChannel ch \<and>
                (case getUserIdFromDM (c_name c) (g_currentUserId (host a)) of None \<Rightarrow> False | Some u \<Rightarrow> deactivated u));
              inCall = (channelIDForCurrentCall a = c_id c);
              limited = isLimitRestricted a;
              restricted = (limited \<or> archived \<or> deactivatedDM);
              upsell = (limited \<and> isCloudStarter a \<and> \<not> inCall);
              connecting = s_clientConnecting (plugin a)
          in if \<not> callsShowButton a (Some (c_id c)) \<or> \<not> (areGroupCallsAllowed a \<or> isDMChannel ch) then None
             else Some
               \<lparr>hb_text = (if connecting \<and> joining then ''Joining call'' else if connecting then ''Starting call''
                          else if currentChannelHasCall a then ''Join call'' else ''Start call''),
                hb_disabled = (archived \<or> deactivatedDM),
                hb_looksDisabled = (inCall \<or> restricted),
                hb_connecting = connecting,
                hb_tooltip = (if archived then Some ArchivedTip else if deactivatedDM then Some DeactivatedTip
                             else if upsell then Some UpsellTip
                             else if limited \<and> \<not> inCall then Some (LimitTip (maxParticipants a)) else None)\<rparr>)"

text \<open>
  The incoming calls: the last of the sorted ones in full, the others condensed. \<open>shouldRender\<close> is
  \<open>shouldRenderCallsIncoming\<close>, which reads the address of the page.
\<close>

definition IncomingCallContainer :: "desktop \<Rightarrow> bool \<Rightarrow> world \<Rightarrow> (incoming_call list \<times> incoming_call) option" where
  "IncomingCallContainer dk shouldRender w =
     (let calls = sortedIncomingCalls (world_app w)
      in if \<not> ringingEnabled (world_app w) \<or> \<not> shouldRender \<or> calls = [] \<or> useOnACallWithoutGlobalWidget dk w then None
         else Some (butlast calls, last calls))"

definition ExpandedIncomingCallContainer :: "app \<Rightarrow> incoming_call list" where
  "ExpandedIncomingCallContainer a = (if ringingEnabled a then sortedIncomingCalls a else [])"

text \<open>The label of a channel in the sidebar: the first names of who is on its call, and how many more.\<close>

definition ChannelLinkLabel :: "app \<Rightarrow> nat \<Rightarrow> string \<Rightarrow> (string list \<times> nat option) option" where
  "ChannelLinkLabel a maxNames channelID =
     (if \<not> channelHasCall a channelID then None
      else let (shown, more) = split (profilesInCallInChannel a channelID) maxNames False
           in Some (map (\<lambda>p. getUserDisplayName (Some p) False) shown, map_option length more))"

definition ConnectedProfiles :: "profile list \<Rightarrow> nat \<Rightarrow> profile list \<times> string list option" where
  "ConnectedProfiles profiles maxShown =
     (let (shown, more) = split profiles (if maxShown = 0 then 2 else maxShown) False
      in (shown, map_option (map (\<lambda>p. getUserDisplayName (Some p) False)) more))"

section \<open>Properties\<close>

lemma limit_of_current: "post_limited a (g_currentChannelId (host a)) \<longleftrightarrow> isLimitRestricted a"
  by (simp add: post_limited_def isLimitRestricted_def profilesInCallInChannel_def profilesInCallInCurrentChannel_def Let_def)


definition sample_elsewhere :: app where
  "sample_elsewhere = world_app (sample_start\<lparr>w_plugin := (w_plugin sample_start)
     \<lparr>s_calls := [(''ch'', \<lparr>cs_ID = ''c1'', cs_startAt = 1, cs_channelID = ''ch'', cs_threadID = ''t1'', cs_ownerID = ''u2'',
        cs_hostID = None\<rparr>)]\<rparr>\<rparr>)"


text \<open>A call that was transcribed but not recorded shows no transcriptions.\<close>

lemma post_hides_transcriptions:
  "with_file (pp_recordings (getCallPropsFromPost props)) = [] \<Longrightarrow> cp_transcriptions (PostType a ch props) = None"
  by (simp add: PostType_def Let_def)

text \<open>The two participants lists offer to mute the others in the same states.\<close>

lemma mute_others_agree:
  assumes "Option.bind me user_id = Some (vp_currentUserID (vw_props v))"
    and "vp_isAdmin (vw_props v) = g_isAdmin (host a)" "vp_hostControlsAllowed (vw_props v) = areHostControlsAllowed a"
  shows "list_showMuteOthers a me (vp_callHostID (vw_props v)) (vp_sessions (vw_props v)) \<longleftrightarrow> showMuteOthers v"
  using assms by (auto simp: list_showMuteOthers_def showMuteOthers_def hostControlsAvailable_def Let_def)

text \<open>
  The raised hands are listed in the order they were raised; the chip names all of up to three, else
  the first two and how many others.
\<close>

interpretation hand_order: comparator by_hand_time "\<lambda>_ _. True"
  by unfold_locales (auto simp: by_hand_time_def)

lemma hands_in_order:
  "sorted_wrt (\<lambda>x y. hand_time x \<le> hand_time y) (hands_raised a)"
  "mset (hands_raised a) = mset (filter hand_up (sessionsInCurrentCall a))"
proof -
  have "sorted_wrt (\<lambda>x y. by_hand_time x y \<le> 0) (hands_raised a)"
    unfolding hands_raised_def by (rule hand_order.sort_ordered) (simp add: sorted_wrt_iff_nth_less)
  then show "sorted_wrt (\<lambda>x y. hand_time x \<le> hand_time y) (hands_raised a)" by (simp add: by_hand_time_def)
  show "mset (hands_raised a) = mset (filter hand_up (sessionsInCurrentCall a))"
    by (simp add: hands_raised_def del: mset_filter)
qed

lemma hands_chip_counts:
  assumes "hands_chip a = Some (names, others)"
  shows "length names + (case others of None \<Rightarrow> 0 | Some n \<Rightarrow> n) = length (hands_raised a)"
    and "others = None \<and> length names \<le> 3 \<or> (\<exists>n. others = Some n \<and> n \<ge> 2 \<and> length names = 2)"
  using assms by (auto simp: hands_chip_def split_def Let_def split: if_splits prod.splits)

text \<open>The host's menu is offered to a host or an administrator only, unless it was left open.\<close>

lemma controls_offered:
  "showHostControls a you h me s \<Longrightarrow> \<not> hc_sticky s \<Longrightarrow> areHostControlsAllowed a \<and> (me \<or> g_isAdmin (host a))"
  "\<not> showHostControls a you h me (onOpenChange False s)"
  by (auto simp: showHostControls_def hostControlsAvailable_def onOpenChange_def)

end
