(* ===== verification/Admin_Settings.thy ===== *)
theory Admin_Settings
  imports Action_Creators
begin

text \<open>
  The settings of the plugin in the system console (\<open>components/admin_console_settings\<close>): what
  each of the 35 components shows for the value the console's form has, the configuration, its
  environment overrides and the licence, and what it gives the form when it is edited. The manifest
  is made by the build, so its entries are an argument, as is \<open>JSON.stringify\<close>. The fields of
  the configuration that only administrators are sent are a function of the setting (\<open>extra\<close>).
  Help texts are left out, but whether the note about RTCD is added to them is not.
\<close>

section \<open>Values and controls\<close>

text \<open>A value of the form: a number that could not be read is \<open>NaN\<close>.\<close>

datatype (plugins only: code size) setting_value =
    SvUndefined
  | SvNull
  | SvBool bool
  | SvNum int
  | SvNaN
  | SvStr string

datatype (plugins only: code size) setting =
    S_DefaultEnabled | S_MaxCallParticipants | S_AllowScreenSharing | S_EnableSimulcast | S_EnableRinging
  | S_EnableAV1 | S_EnableDCSignaling | S_EnableVideo
  | S_RTCDServiceURL
  | S_UDPServerAddress | S_UDPServerPort | S_TCPServerAddress | S_TCPServerPort | S_EnableIPv6
  | S_ICEHostOverride | S_ICEHostPortOverride | S_ICEServersConfigs | S_TURNStaticAuthSecret
  | S_TURNCredentialsExpirationMinutes | S_ServerSideTURN
  | S_EnableRecordings | S_JobServiceURL | S_MaxRecordingDuration | S_RecordingQuality
  | S_EnableTranscriptions | S_TranscribeAPI | S_TranscriberModelSize | S_TranscriberNumThreads
  | S_TranscribeAPIAzureSpeechKey | S_TranscribeAPIAzureSpeechRegion
  | S_EnableLiveCaptions | S_LiveCaptionsModelSize | S_LiveCaptionsNumTranscribers
  | S_LiveCaptionsNumThreadsPerTranscriber | S_LiveCaptionsLanguage

fun setting_key :: "setting \<Rightarrow> string" where
  "setting_key S_DefaultEnabled = ''DefaultEnabled''"
| "setting_key S_MaxCallParticipants = ''MaxCallParticipants''"
| "setting_key S_AllowScreenSharing = ''AllowScreenSharing''"
| "setting_key S_EnableSimulcast = ''EnableSimulcast''"
| "setting_key S_EnableRinging = ''EnableRinging''"
| "setting_key S_EnableAV1 = ''EnableAV1''"
| "setting_key S_EnableDCSignaling = ''EnableDCSignaling''"
| "setting_key S_EnableVideo = ''EnableVideo''"
| "setting_key S_RTCDServiceURL = ''RTCDServiceURL''"
| "setting_key S_UDPServerAddress = ''UDPServerAddress''"
| "setting_key S_UDPServerPort = ''UDPServerPort''"
| "setting_key S_TCPServerAddress = ''TCPServerAddress''"
| "setting_key S_TCPServerPort = ''TCPServerPort''"
| "setting_key S_EnableIPv6 = ''EnableIPv6''"
| "setting_key S_ICEHostOverride = ''ICEHostOverride''"
| "setting_key S_ICEHostPortOverride = ''ICEHostPortOverride''"
| "setting_key S_ICEServersConfigs = ''ICEServersConfigs''"
| "setting_key S_TURNStaticAuthSecret = ''TURNStaticAuthSecret''"
| "setting_key S_TURNCredentialsExpirationMinutes = ''TURNCredentialsExpirationMinutes''"
| "setting_key S_ServerSideTURN = ''ServerSideTURN''"
| "setting_key S_EnableRecordings = ''EnableRecordings''"
| "setting_key S_JobServiceURL = ''JobServiceURL''"
| "setting_key S_MaxRecordingDuration = ''MaxRecordingDuration''"
| "setting_key S_RecordingQuality = ''RecordingQuality''"
| "setting_key S_EnableTranscriptions = ''EnableTranscriptions''"
| "setting_key S_TranscribeAPI = ''TranscribeAPI''"
| "setting_key S_TranscriberModelSize = ''TranscriberModelSize''"
| "setting_key S_TranscriberNumThreads = ''TranscriberNumThreads''"
| "setting_key S_TranscribeAPIAzureSpeechKey = ''TranscribeAPIAzureSpeechKey''"
| "setting_key S_TranscribeAPIAzureSpeechRegion = ''TranscribeAPIAzureSpeechRegion''"
| "setting_key S_EnableLiveCaptions = ''EnableLiveCaptions''"
| "setting_key S_LiveCaptionsModelSize = ''LiveCaptionsModelSize''"
| "setting_key S_LiveCaptionsNumTranscribers = ''LiveCaptionsNumTranscribers''"
| "setting_key S_LiveCaptionsNumThreadsPerTranscriber = ''LiveCaptionsNumThreadsPerTranscriber''"
| "setting_key S_LiveCaptionsLanguage = ''LiveCaptionsLanguage''"

datatype (plugins only: code size) control =
    Radios bool string string
  | NumberField setting_value setting_value
  | TextField setting_value setting_value
  | TextArea setting_value setting_value
  | Dropdown setting_value "string list"

record setting_props =
  sp_value :: setting_value
  sp_disabled :: bool

record rendered =
  rd_label :: string
  rd_control :: control
  rd_disabled :: bool
  rd_rtcdNote :: bool
  rd_warning :: bool

record manifest_setting =
  ms_key :: string
  ms_placeholder :: setting_value
  ms_default :: setting_value
  ms_options :: "string list"

type_synonym admin_config = "setting \<Rightarrow> setting_value"

type_synonym setting_component =
  "manifest_setting list \<Rightarrow> app \<Rightarrow> admin_config \<Rightarrow> setting_props \<Rightarrow> rendered option"

text \<open>\<open>v || ''''\<close>.\<close>

definition value_or_empty :: "setting_value \<Rightarrow> setting_value" where
  "value_or_empty v =
     (case v of SvBool True \<Rightarrow> v | SvNum n \<Rightarrow> (if n = 0 then SvStr '''' else v) | SvStr s \<Rightarrow> v | _ \<Rightarrow> SvStr '''')"

text \<open>\<open>v ?? d\<close>, and \<open>v === null ? '''' : v\<close>.\<close>

definition value_default :: "setting_value \<Rightarrow> setting_value \<Rightarrow> setting_value" where
  "value_default v d = (if v = SvUndefined \<or> v = SvNull then d else v)"

definition null_as_empty :: "setting_value \<Rightarrow> setting_value" where
  "null_as_empty v = (if v = SvNull then SvStr '''' else v)"

definition manifest_find :: "manifest_setting list \<Rightarrow> setting \<Rightarrow> manifest_setting option" where
  "manifest_find m k = find (\<lambda>e. ms_key e = setting_key k) m"

definition placeholder_of :: "manifest_setting list \<Rightarrow> setting \<Rightarrow> setting_value" where
  "placeholder_of m k = (case manifest_find m k of None \<Rightarrow> SvStr '''' | Some e \<Rightarrow> value_or_empty (ms_placeholder e))"

definition default_of :: "manifest_setting list \<Rightarrow> setting \<Rightarrow> setting_value" where
  "default_of m k = (case manifest_find m k of None \<Rightarrow> SvStr '''' | Some e \<Rightarrow> value_or_empty (ms_default e))"

definition options_of :: "manifest_setting list \<Rightarrow> setting \<Rightarrow> string list" where
  "options_of m k = (case manifest_find m k of None \<Rightarrow> [] | Some e \<Rightarrow> ms_options e)"

definition overridden :: "app \<Rightarrow> setting \<Rightarrow> bool" where
  "overridden a k = (obj_get (s_callsConfigEnvOverrides (plugin a)) (setting_key k) \<noteq> None)"

text \<open>\<open>value === 'true' || value === true\<close>, and the same with the word \<open>on\<close>.\<close>

definition is_set :: "string \<Rightarrow> setting_value \<Rightarrow> bool" where
  "is_set word v = (v = SvStr word \<or> v = SvBool True)"

text \<open>The strings of the transcription interfaces, as the options of the manifest have them.\<close>

definition api_of :: "string \<Rightarrow> transcribe_api" where
  "api_of s = (if s = ''whisper.cpp'' then WhisperCPP else if s = ''azure'' then AzureAI else OtherAPI s)"

fun api_name :: "transcribe_api \<Rightarrow> string" where
  "api_name WhisperCPP = ''whisper.cpp''"
| "api_name AzureAI = ''azure''"
| "api_name (OtherAPI s) = s"

text \<open>
  \<open>useHelptext\<close> adds the note when RTCD is in use. The frame every component has: its control,
  and the warning that the environment sets the value.
\<close>

definition useHelptext :: "app \<Rightarrow> bool" where
  "useHelptext a = sel_rtcdEnabled a"

definition setting_box :: "string \<Rightarrow> control \<Rightarrow> bool \<Rightarrow> bool \<Rightarrow> bool \<Rightarrow> rendered" where
  "setting_box label ctl disabled note warning =
     \<lparr>rd_label = label, rd_control = ctl, rd_disabled = disabled, rd_rtcdNote = note, rd_warning = warning\<rparr>"

definition true_false :: "bool \<Rightarrow> control" where "true_false b = Radios b ''true'' ''false''"
definition on_off :: "bool \<Rightarrow> control" where "on_off b = Radios b ''on'' ''off''"

section \<open>Reading what is typed\<close>

text \<open>\<open>parseInt(s, 10)\<close>: white space, a sign, and the digits that follow.\<close>

definition is_digit :: "char \<Rightarrow> bool" where
  "is_digit c = (48 \<le> (of_char c :: nat) \<and> (of_char c :: nat) \<le> 57)"

definition is_white :: "char \<Rightarrow> bool" where
  "is_white c = ((of_char c :: nat) = 32 \<or> (9 \<le> (of_char c :: nat) \<and> (of_char c :: nat) \<le> 13))"

definition digits_value :: "string \<Rightarrow> int" where
  "digits_value ds = fold (\<lambda>c n. 10 * n + int ((of_char c :: nat) - 48)) ds 0"

definition parseInt :: "string \<Rightarrow> setting_value" where
  "parseInt s0 =
     (let s = dropWhile is_white s0;
          neg = (case s of c # _ \<Rightarrow> c = CHR ''-'' | [] \<Rightarrow> False);
          s = (case s of c # cs \<Rightarrow> if c = CHR ''-'' \<or> c = CHR ''+'' then cs else s | [] \<Rightarrow> []);
          ds = takeWhile is_digit s
      in if ds = [] then SvNaN else SvNum (if neg then - digits_value ds else digits_value ds))"

section \<open>What the components show\<close>

text \<open>General settings.\<close>

definition TestMode_setting :: setting_component where
  "TestMode_setting m a extra p =
     Some (setting_box ''Test mode''
        (on_off (if overridden a S_DefaultEnabled then \<not> DefaultEnabled (sel_callsConfig a)
           else value_or_empty (sp_value p) = SvStr '''' \<or> sp_value p = SvStr ''false''))
        (sp_disabled p \<or> overridden a S_DefaultEnabled) False (overridden a S_DefaultEnabled))"

definition MaxCallParticipants_setting :: setting_component where
  "MaxCallParticipants_setting m a extra p =
     Some (setting_box ''Max call participants''
        (NumberField (if overridden a S_MaxCallParticipants then SvNum (MaxCallParticipants (sel_callsConfig a)) else sp_value p)
          (placeholder_of m S_MaxCallParticipants))
        (sp_disabled p \<or> overridden a S_MaxCallParticipants) False (overridden a S_MaxCallParticipants))"

definition AllowScreenSharing_setting :: setting_component where
  "AllowScreenSharing_setting m a extra p =
     Some (setting_box ''Allow screen sharing''
        (true_false (if overridden a S_AllowScreenSharing then AllowScreenSharing (sel_callsConfig a)
           else sp_value p = SvUndefined \<or> is_set ''true'' (sp_value p)))
        (sp_disabled p \<or> overridden a S_AllowScreenSharing) False (overridden a S_AllowScreenSharing))"

definition EnableSimulcast_setting :: setting_component where
  "EnableSimulcast_setting m a extra p =
     Some (setting_box ''Enable simulcast for screen sharing (Experimental)''
        (true_false (if overridden a S_EnableSimulcast then EnableSimulcast (sel_callsConfig a) else is_set ''true'' (sp_value p)))
        (sp_disabled p \<or> overridden a S_EnableSimulcast) False (overridden a S_EnableSimulcast))"

definition EnableRinging_setting :: setting_component where
  "EnableRinging_setting m a extra p =
     Some (setting_box ''Enable call ringing''
        (true_false (if overridden a S_EnableRinging then EnableRinging (sel_callsConfig a) else is_set ''true'' (sp_value p)))
        (sp_disabled p \<or> overridden a S_EnableRinging) False (overridden a S_EnableRinging))"

definition EnableAV1_setting :: setting_component where
  "EnableAV1_setting m a extra p =
     Some (setting_box ''Enable AV1 codec for screen sharing (Experimental)''
        (true_false (if overridden a S_EnableAV1 then EnableAV1 (sel_callsConfig a) else is_set ''true'' (sp_value p)))
        (sp_disabled p \<or> overridden a S_EnableAV1) False (overridden a S_EnableAV1))"

definition EnableDCSignaling_setting :: setting_component where
  "EnableDCSignaling_setting m a extra p =
     Some (setting_box ''Use data channels for signaling (Experimental)''
        (true_false (if overridden a S_EnableDCSignaling then EnableDCSignaling (sel_callsConfig a) else is_set ''true'' (sp_value p)))
        (sp_disabled p \<or> overridden a S_EnableDCSignaling) False (overridden a S_EnableDCSignaling))"

text \<open>The component of video calls reads neither the configuration nor the overrides.\<close>

definition EnableVideo_setting :: setting_component where
  "EnableVideo_setting m a extra p =
     Some (setting_box ''Enable video calls in DMs (Experimental)''
        (true_false (is_set ''true'' (sp_value p)))
        (sp_disabled p) False False)"

text \<open>The RTCD service, and the settings of the integrated server, which it disables.\<close>

definition RTCDServiceURL_setting :: setting_component where
  "RTCDServiceURL_setting m a extra p =
     Some (setting_box ''RTCD service URL''
        (TextField (if overridden a S_RTCDServiceURL then extra S_RTCDServiceURL else sp_value p) (placeholder_of m S_RTCDServiceURL))
        (sp_disabled p \<or> overridden a S_RTCDServiceURL) False (overridden a S_RTCDServiceURL))"

definition UDPServerAddress_setting :: setting_component where
  "UDPServerAddress_setting m a extra p =
     Some (setting_box ''RTC Server Address (UDP)''
        (TextField (if overridden a S_UDPServerAddress then extra S_UDPServerAddress else sp_value p) (placeholder_of m S_UDPServerAddress))
        (sp_disabled p \<or> sel_rtcdEnabled a \<or> overridden a S_UDPServerAddress) (useHelptext a) (overridden a S_UDPServerAddress))"

definition TCPServerAddress_setting :: setting_component where
  "TCPServerAddress_setting m a extra p =
     Some (setting_box ''RTC Server Address (TCP)''
        (TextField (if overridden a S_TCPServerAddress then extra S_TCPServerAddress else sp_value p) (placeholder_of m S_TCPServerAddress))
        (sp_disabled p \<or> sel_rtcdEnabled a \<or> overridden a S_TCPServerAddress) (useHelptext a) (overridden a S_TCPServerAddress))"

definition UDPServerPort_setting :: setting_component where
  "UDPServerPort_setting m a extra p =
     Some (setting_box ''RTC Server Port (UDP)''
        (NumberField (if overridden a S_UDPServerPort then extra S_UDPServerPort else sp_value p) (placeholder_of m S_UDPServerPort))
        (sp_disabled p \<or> sel_rtcdEnabled a \<or> overridden a S_UDPServerPort) (useHelptext a) (overridden a S_UDPServerPort))"

definition TCPServerPort_setting :: setting_component where
  "TCPServerPort_setting m a extra p =
     Some (setting_box ''RTC Server Port (TCP)''
        (NumberField (if overridden a S_TCPServerPort then extra S_TCPServerPort else sp_value p) (placeholder_of m S_TCPServerPort))
        (sp_disabled p \<or> sel_rtcdEnabled a \<or> overridden a S_TCPServerPort) (useHelptext a) (overridden a S_TCPServerPort))"

definition EnableIPv6_setting :: setting_component where
  "EnableIPv6_setting m a extra p =
     Some (setting_box ''Enable IPv6 support (Experimental)''
        (true_false (if overridden a S_EnableIPv6 then extra S_EnableIPv6 = SvBool True else is_set ''true'' (sp_value p)))
        (sp_disabled p \<or> sel_rtcdEnabled a \<or> overridden a S_EnableIPv6) (useHelptext a) (overridden a S_EnableIPv6))"

text \<open>ICE and TURN. The field of the expiration looks up the placeholder of the secret.\<close>

definition ICEHostOverride_setting :: setting_component where
  "ICEHostOverride_setting m a extra p =
     Some (setting_box ''ICE Host Override''
        (TextField (if overridden a S_ICEHostOverride then extra S_ICEHostOverride else sp_value p) (placeholder_of m S_ICEHostOverride))
        (sp_disabled p \<or> sel_rtcdEnabled a \<or> overridden a S_ICEHostOverride) (useHelptext a) (overridden a S_ICEHostOverride))"

definition ICEHostPortOverride_setting :: setting_component where
  "ICEHostPortOverride_setting m a extra p =
     Some (setting_box ''ICE Host Port Override''
        (NumberField (null_as_empty (if overridden a S_ICEHostPortOverride then extra S_ICEHostPortOverride else sp_value p))
          (placeholder_of m S_ICEHostPortOverride))
        (sp_disabled p \<or> sel_rtcdEnabled a \<or> overridden a S_ICEHostPortOverride) (useHelptext a) (overridden a S_ICEHostPortOverride))"

definition ICEServersConfigs_setting :: "(string list \<Rightarrow> string) \<Rightarrow> setting_component" where
  "ICEServersConfigs_setting stringify m a extra p =
     Some (setting_box ''ICE Servers Configurations''
        (TextArea (if overridden a S_ICEServersConfigs then SvStr (stringify (ICEServersConfigs (sel_callsConfig a))) else sp_value p)
          (placeholder_of m S_ICEServersConfigs))
        (sp_disabled p \<or> overridden a S_ICEServersConfigs) False (overridden a S_ICEServersConfigs))"

definition TURNStaticAuthSecret_setting :: setting_component where
  "TURNStaticAuthSecret_setting m a extra p =
     Some (setting_box ''TURN Static Auth Secret''
        (TextField (if overridden a S_TURNStaticAuthSecret then extra S_TURNStaticAuthSecret else sp_value p) (placeholder_of m S_TURNStaticAuthSecret))
        (sp_disabled p \<or> overridden a S_TURNStaticAuthSecret) False (overridden a S_TURNStaticAuthSecret))"

definition TURNCredentialsExpirationMinutes_setting :: setting_component where
  "TURNCredentialsExpirationMinutes_setting m a extra p =
     Some (setting_box ''TURN Credentials Expiration (minutes)''
        (NumberField (null_as_empty (if overridden a S_TURNCredentialsExpirationMinutes then extra S_TURNCredentialsExpirationMinutes else sp_value p))
          (placeholder_of m S_TURNStaticAuthSecret))
        (sp_disabled p \<or> overridden a S_TURNCredentialsExpirationMinutes) False (overridden a S_TURNCredentialsExpirationMinutes))"

definition ServerSideTURN_setting :: setting_component where
  "ServerSideTURN_setting m a extra p =
     Some (setting_box ''Server Side TURN''
        (on_off (if overridden a S_ServerSideTURN then extra S_ServerSideTURN = SvBool True else is_set ''on'' (sp_value p)))
        (sp_disabled p \<or> sel_rtcdEnabled a \<or> overridden a S_ServerSideTURN) (useHelptext a) (overridden a S_ServerSideTURN))"

text \<open>Recordings.\<close>

definition EnableRecordings_setting :: setting_component where
  "EnableRecordings_setting m a extra p =
     (if isCloud a then None
      else Some (setting_box ''Enable call recordings''
        (true_false (if overridden a S_EnableRecordings then EnableRecordings (sel_callsConfig a) else is_set ''true'' (sp_value p)))
        (sp_disabled p \<or> overridden a S_EnableRecordings) False (overridden a S_EnableRecordings)))"

definition JobServiceURL_setting :: setting_component where
  "JobServiceURL_setting m a extra p =
     (if isCloud a \<or> isOnPremNotEnterprise a \<or> \<not> recordingsEnabled a then None
      else Some (setting_box ''Job service URL''
        (TextField (if overridden a S_JobServiceURL then extra S_JobServiceURL else sp_value p) (placeholder_of m S_JobServiceURL))
        (sp_disabled p \<or> overridden a S_JobServiceURL) False (overridden a S_JobServiceURL)))"

definition MaxRecordingDuration_setting :: setting_component where
  "MaxRecordingDuration_setting m a extra p =
     (if isCloud a \<or> isOnPremNotEnterprise a \<or> \<not> recordingsEnabled a then None
      else Some (setting_box ''Maximum call recording duration''
        (NumberField (if overridden a S_MaxRecordingDuration then SvNum (MaxRecordingDuration (sel_callsConfig a)) else value_default (sp_value p) (SvNum 60))
          (placeholder_of m S_MaxRecordingDuration))
        (sp_disabled p \<or> overridden a S_MaxRecordingDuration) False (overridden a S_MaxRecordingDuration)))"

definition RecordingQuality_setting :: setting_component where
  "RecordingQuality_setting m a extra p =
     (if isCloud a \<or> isOnPremNotEnterprise a \<or> \<not> recordingsEnabled a then None
      else Some (setting_box ''Call recording quality''
        (Dropdown (if overridden a S_RecordingQuality then extra S_RecordingQuality else value_default (sp_value p) (SvStr ''medium''))
          [''low'', ''medium'', ''high''])
        (sp_disabled p \<or> overridden a S_RecordingQuality) False (overridden a S_RecordingQuality)))"

text \<open>Transcriptions.\<close>

definition EnableTranscriptions_setting :: setting_component where
  "EnableTranscriptions_setting m a extra p =
     (if isCloud a \<or> isOnPremNotEnterprise a \<or> \<not> recordingsEnabled a then None
      else Some (setting_box ''Enable call transcriptions (Beta)''
        (true_false (if overridden a S_EnableTranscriptions then EnableTranscriptions (sel_callsConfig a) else is_set ''true'' (sp_value p)))
        (sp_disabled p \<or> overridden a S_EnableTranscriptions) False (overridden a S_EnableTranscriptions)))"

definition TranscribeAPI_setting :: setting_component where
  "TranscribeAPI_setting m a extra p =
     (if isCloud a \<or> isOnPremNotEnterprise a \<or> \<not> recordingsEnabled a \<or> \<not> transcriptionsEnabled a then None
      else Some (setting_box ''Call transcriber API''
        (Dropdown (if overridden a S_TranscribeAPI then SvStr (api_name (TranscribeAPI (sel_callsConfig a))) else sp_value p)
          (options_of m S_TranscribeAPI))
        (sp_disabled p \<or> overridden a S_TranscribeAPI) False (overridden a S_TranscribeAPI)))"

definition TranscriberModelSize_setting :: setting_component where
  "TranscriberModelSize_setting m a extra p =
     (if isCloud a \<or> isOnPremNotEnterprise a \<or> \<not> recordingsEnabled a \<or> \<not> transcriptionsEnabled a
         \<or> transcribeAPI a \<noteq> WhisperCPP then None
      else Some (setting_box ''Call transcriber model size''
        (Dropdown (if overridden a S_TranscriberModelSize then extra S_TranscriberModelSize else value_default (sp_value p) (SvStr ''base''))
          (options_of m S_TranscriberModelSize))
        (sp_disabled p \<or> overridden a S_TranscriberModelSize) False (overridden a S_TranscriberModelSize)))"

definition TranscriberNumThreads_setting :: setting_component where
  "TranscriberNumThreads_setting m a extra p =
     (if isCloud a \<or> isOnPremNotEnterprise a \<or> \<not> recordingsEnabled a \<or> \<not> transcriptionsEnabled a
         \<or> transcribeAPI a \<noteq> WhisperCPP then None
      else Some (setting_box ''Call transcriber threads''
        (NumberField (if overridden a S_TranscriberNumThreads then extra S_TranscriberNumThreads else sp_value p) (default_of m S_TranscriberNumThreads))
        (sp_disabled p \<or> overridden a S_TranscriberNumThreads) False (overridden a S_TranscriberNumThreads)))"

definition TranscribeAPIAzureSpeechKey_setting :: setting_component where
  "TranscribeAPIAzureSpeechKey_setting m a extra p =
     (if isCloud a \<or> isOnPremNotEnterprise a \<or> \<not> recordingsEnabled a \<or> \<not> transcriptionsEnabled a
         \<or> transcribeAPI a \<noteq> AzureAI then None
      else Some (setting_box ''Azure API Key''
        (TextField (if overridden a S_TranscribeAPIAzureSpeechKey then extra S_TranscribeAPIAzureSpeechKey else sp_value p) (SvStr ''''))
        (sp_disabled p \<or> overridden a S_TranscribeAPIAzureSpeechKey) False (overridden a S_TranscribeAPIAzureSpeechKey)))"

definition TranscribeAPIAzureSpeechRegion_setting :: setting_component where
  "TranscribeAPIAzureSpeechRegion_setting m a extra p =
     (if isCloud a \<or> isOnPremNotEnterprise a \<or> \<not> recordingsEnabled a \<or> \<not> transcriptionsEnabled a
         \<or> transcribeAPI a \<noteq> AzureAI then None
      else Some (setting_box ''Azure API Region''
        (TextField (if overridden a S_TranscribeAPIAzureSpeechRegion then extra S_TranscribeAPIAzureSpeechRegion else sp_value p) (SvStr ''''))
        (sp_disabled p \<or> overridden a S_TranscribeAPIAzureSpeechRegion) False (overridden a S_TranscribeAPIAzureSpeechRegion)))"

text \<open>Live captions.\<close>

definition EnableLiveCaptions_setting :: setting_component where
  "EnableLiveCaptions_setting m a extra p =
     (if isCloud a \<or> isOnPremNotEnterprise a \<or> \<not> recordingsEnabled a \<or> \<not> transcriptionsEnabled a then None
      else Some (setting_box ''Enable live captions (Beta)''
        (true_false (if overridden a S_EnableLiveCaptions then EnableLiveCaptions (sel_callsConfig a) else is_set ''true'' (sp_value p)))
        (sp_disabled p \<or> overridden a S_EnableLiveCaptions) False (overridden a S_EnableLiveCaptions)))"

definition LiveCaptionsModelSize_setting :: setting_component where
  "LiveCaptionsModelSize_setting m a extra p =
     (if isCloud a \<or> isOnPremNotEnterprise a \<or> \<not> recordingsEnabled a \<or> \<not> transcriptionsEnabled a \<or> \<not> liveCaptionsEnabled a then None
      else Some (setting_box ''Live captions: Model size''
        (Dropdown (if overridden a S_LiveCaptionsModelSize then extra S_LiveCaptionsModelSize else sp_value p) (options_of m S_LiveCaptionsModelSize))
        (sp_disabled p \<or> overridden a S_LiveCaptionsModelSize) False (overridden a S_LiveCaptionsModelSize)))"

definition LiveCaptionsNumTranscribers_setting :: setting_component where
  "LiveCaptionsNumTranscribers_setting m a extra p =
     (if isCloud a \<or> isOnPremNotEnterprise a \<or> \<not> recordingsEnabled a \<or> \<not> transcriptionsEnabled a \<or> \<not> liveCaptionsEnabled a then None
      else Some (setting_box ''Live captions: Number of transcribers used per call''
        (NumberField (if overridden a S_LiveCaptionsNumTranscribers then extra S_LiveCaptionsNumTranscribers else sp_value p)
          (default_of m S_LiveCaptionsNumTranscribers))
        (sp_disabled p \<or> overridden a S_LiveCaptionsNumTranscribers) False (overridden a S_LiveCaptionsNumTranscribers)))"

definition LiveCaptionsNumThreadsPerTranscriber_setting :: setting_component where
  "LiveCaptionsNumThreadsPerTranscriber_setting m a extra p =
     (if isCloud a \<or> isOnPremNotEnterprise a \<or> \<not> recordingsEnabled a \<or> \<not> transcriptionsEnabled a \<or> \<not> liveCaptionsEnabled a then None
      else Some (setting_box ''Live captions: Number of threads per transcriber''
        (NumberField (if overridden a S_LiveCaptionsNumThreadsPerTranscriber then extra S_LiveCaptionsNumThreadsPerTranscriber else sp_value p)
          (default_of m S_LiveCaptionsNumThreadsPerTranscriber))
        (sp_disabled p \<or> overridden a S_LiveCaptionsNumThreadsPerTranscriber) False (overridden a S_LiveCaptionsNumThreadsPerTranscriber)))"

definition LiveCaptionsLanguage_setting :: setting_component where
  "LiveCaptionsLanguage_setting m a extra p =
     (if isCloud a \<or> isOnPremNotEnterprise a \<or> \<not> recordingsEnabled a \<or> \<not> transcriptionsEnabled a \<or> \<not> liveCaptionsEnabled a then None
      else Some (setting_box ''Live captions language''
        (TextField (if overridden a S_LiveCaptionsLanguage then extra S_LiveCaptionsLanguage else sp_value p)
          (placeholder_of m S_LiveCaptionsLanguage))
        (sp_disabled p \<or> overridden a S_LiveCaptionsLanguage) False (overridden a S_LiveCaptionsLanguage)))"

section \<open>The registered components\<close>

text \<open>\<open>registerAdminConsoleCustomSetting\<close>: the component of every setting (\<open>index.tsx\<close>).\<close>

fun setting_view ::
  "(string list \<Rightarrow> string) \<Rightarrow> manifest_setting list \<Rightarrow> app \<Rightarrow> admin_config \<Rightarrow> setting \<Rightarrow> setting_props \<Rightarrow> rendered option" where
  "setting_view sf m a x S_DefaultEnabled p = TestMode_setting m a x p"
| "setting_view sf m a x S_MaxCallParticipants p = MaxCallParticipants_setting m a x p"
| "setting_view sf m a x S_AllowScreenSharing p = AllowScreenSharing_setting m a x p"
| "setting_view sf m a x S_EnableSimulcast p = EnableSimulcast_setting m a x p"
| "setting_view sf m a x S_EnableRinging p = EnableRinging_setting m a x p"
| "setting_view sf m a x S_EnableAV1 p = EnableAV1_setting m a x p"
| "setting_view sf m a x S_EnableDCSignaling p = EnableDCSignaling_setting m a x p"
| "setting_view sf m a x S_EnableVideo p = EnableVideo_setting m a x p"
| "setting_view sf m a x S_RTCDServiceURL p = RTCDServiceURL_setting m a x p"
| "setting_view sf m a x S_UDPServerAddress p = UDPServerAddress_setting m a x p"
| "setting_view sf m a x S_UDPServerPort p = UDPServerPort_setting m a x p"
| "setting_view sf m a x S_TCPServerAddress p = TCPServerAddress_setting m a x p"
| "setting_view sf m a x S_TCPServerPort p = TCPServerPort_setting m a x p"
| "setting_view sf m a x S_EnableIPv6 p = EnableIPv6_setting m a x p"
| "setting_view sf m a x S_ICEHostOverride p = ICEHostOverride_setting m a x p"
| "setting_view sf m a x S_ICEHostPortOverride p = ICEHostPortOverride_setting m a x p"
| "setting_view sf m a x S_ICEServersConfigs p = ICEServersConfigs_setting sf m a x p"
| "setting_view sf m a x S_TURNStaticAuthSecret p = TURNStaticAuthSecret_setting m a x p"
| "setting_view sf m a x S_TURNCredentialsExpirationMinutes p = TURNCredentialsExpirationMinutes_setting m a x p"
| "setting_view sf m a x S_ServerSideTURN p = ServerSideTURN_setting m a x p"
| "setting_view sf m a x S_EnableRecordings p = EnableRecordings_setting m a x p"
| "setting_view sf m a x S_JobServiceURL p = JobServiceURL_setting m a x p"
| "setting_view sf m a x S_MaxRecordingDuration p = MaxRecordingDuration_setting m a x p"
| "setting_view sf m a x S_RecordingQuality p = RecordingQuality_setting m a x p"
| "setting_view sf m a x S_EnableTranscriptions p = EnableTranscriptions_setting m a x p"
| "setting_view sf m a x S_TranscribeAPI p = TranscribeAPI_setting m a x p"
| "setting_view sf m a x S_TranscriberModelSize p = TranscriberModelSize_setting m a x p"
| "setting_view sf m a x S_TranscriberNumThreads p = TranscriberNumThreads_setting m a x p"
| "setting_view sf m a x S_TranscribeAPIAzureSpeechKey p = TranscribeAPIAzureSpeechKey_setting m a x p"
| "setting_view sf m a x S_TranscribeAPIAzureSpeechRegion p = TranscribeAPIAzureSpeechRegion_setting m a x p"
| "setting_view sf m a x S_EnableLiveCaptions p = EnableLiveCaptions_setting m a x p"
| "setting_view sf m a x S_LiveCaptionsModelSize p = LiveCaptionsModelSize_setting m a x p"
| "setting_view sf m a x S_LiveCaptionsNumTranscribers p = LiveCaptionsNumTranscribers_setting m a x p"
| "setting_view sf m a x S_LiveCaptionsNumThreadsPerTranscriber p = LiveCaptionsNumThreadsPerTranscriber_setting m a x p"
| "setting_view sf m a x S_LiveCaptionsLanguage p = LiveCaptionsLanguage_setting m a x p"

text \<open>\<open>handleChange\<close> of the component: the value given to the form for what was picked or typed.\<close>

fun setting_change :: "setting \<Rightarrow> string \<Rightarrow> setting_value" where
  "setting_change S_DefaultEnabled e = SvBool (e \<noteq> ''on'')"
| "setting_change S_MaxCallParticipants e = parseInt e"
| "setting_change S_AllowScreenSharing e = SvBool (e = ''true'')"
| "setting_change S_EnableSimulcast e = SvBool (e = ''true'')"
| "setting_change S_EnableRinging e = SvBool (e = ''true'')"
| "setting_change S_EnableAV1 e = SvBool (e = ''true'')"
| "setting_change S_EnableDCSignaling e = SvBool (e = ''true'')"
| "setting_change S_EnableVideo e = SvBool (e = ''true'')"
| "setting_change S_RTCDServiceURL e = SvStr e"
| "setting_change S_UDPServerAddress e = SvStr e"
| "setting_change S_UDPServerPort e = parseInt e"
| "setting_change S_TCPServerAddress e = SvStr e"
| "setting_change S_TCPServerPort e = parseInt e"
| "setting_change S_EnableIPv6 e = SvBool (e = ''true'')"
| "setting_change S_ICEHostOverride e = SvStr e"
| "setting_change S_ICEHostPortOverride e = parseInt e"
| "setting_change S_ICEServersConfigs e = SvStr e"
| "setting_change S_TURNStaticAuthSecret e = SvStr e"
| "setting_change S_TURNCredentialsExpirationMinutes e = parseInt e"
| "setting_change S_ServerSideTURN e = SvBool (e = ''on'')"
| "setting_change S_EnableRecordings e = SvBool (e = ''true'')"
| "setting_change S_JobServiceURL e = SvStr e"
| "setting_change S_MaxRecordingDuration e = parseInt e"
| "setting_change S_RecordingQuality e = SvStr e"
| "setting_change S_EnableTranscriptions e = SvBool (e = ''true'')"
| "setting_change S_TranscribeAPI e = SvStr e"
| "setting_change S_TranscriberModelSize e = SvStr e"
| "setting_change S_TranscriberNumThreads e = parseInt e"
| "setting_change S_TranscribeAPIAzureSpeechKey e = SvStr e"
| "setting_change S_TranscribeAPIAzureSpeechRegion e = SvStr e"
| "setting_change S_EnableLiveCaptions e = SvBool (e = ''true'')"
| "setting_change S_LiveCaptionsModelSize e = SvStr e"
| "setting_change S_LiveCaptionsNumTranscribers e = parseInt e"
| "setting_change S_LiveCaptionsNumThreadsPerTranscriber e = parseInt e"
| "setting_change S_LiveCaptionsLanguage e = SvStr e"

lemmas setting_view_defs =
  TestMode_setting_def
  MaxCallParticipants_setting_def
  AllowScreenSharing_setting_def
  EnableSimulcast_setting_def
  EnableRinging_setting_def
  EnableAV1_setting_def
  EnableDCSignaling_setting_def
  EnableVideo_setting_def
  RTCDServiceURL_setting_def
  UDPServerAddress_setting_def
  UDPServerPort_setting_def
  TCPServerAddress_setting_def
  TCPServerPort_setting_def
  EnableIPv6_setting_def
  ICEHostOverride_setting_def
  ICEHostPortOverride_setting_def
  ICEServersConfigs_setting_def
  TURNStaticAuthSecret_setting_def
  TURNCredentialsExpirationMinutes_setting_def
  ServerSideTURN_setting_def
  EnableRecordings_setting_def
  JobServiceURL_setting_def
  MaxRecordingDuration_setting_def
  RecordingQuality_setting_def
  EnableTranscriptions_setting_def
  TranscribeAPI_setting_def
  TranscriberModelSize_setting_def
  TranscriberNumThreads_setting_def
  TranscribeAPIAzureSpeechKey_setting_def
  TranscribeAPIAzureSpeechRegion_setting_def
  EnableLiveCaptions_setting_def
  LiveCaptionsModelSize_setting_def
  LiveCaptionsNumTranscribers_setting_def
  LiveCaptionsNumThreadsPerTranscriber_setting_def
  LiveCaptionsLanguage_setting_def
  setting_box_def true_false_def on_off_def

end
