(* ===== verification/Admin_Console.thy ===== *)
theory Admin_Console
  imports Admin_Settings Samples
begin

text \<open>
  The plugin's page of the system console as a whole: its seven sections, which show their settings
  or an offer of a trial, and the local state of the five components that tell the store what was
  picked (\<open>useState\<close> with \<open>useEffect\<close>), through which one setting decides whether others
  are shown.

  The form belongs to the application: it hands each component its value and takes what the
  component gives to \<open>onChange\<close>. A \<open>commit\<close> is one pass of React: the components whose section
  shows its body are mounted with the value the form has, the others unmounted, and the effects of
  the newly mounted ones run. Passes repeat until nothing changes, which \<open>settle_console\<close> does by three.
\<close>

section \<open>Sections\<close>

datatype (plugins only: code size) console_section =
    GeneralSettings | RTCDService | RTCServer | ICEAndTURN | CallRecordings | CallTranscriptions | CallLiveCaptions

fun section_of :: "setting \<Rightarrow> console_section" where
  "section_of S_RTCDServiceURL = RTCDService"
| "section_of S_UDPServerAddress = RTCServer"
| "section_of S_UDPServerPort = RTCServer"
| "section_of S_TCPServerAddress = RTCServer"
| "section_of S_TCPServerPort = RTCServer"
| "section_of S_EnableIPv6 = RTCServer"
| "section_of S_ICEHostOverride = ICEAndTURN"
| "section_of S_ICEHostPortOverride = ICEAndTURN"
| "section_of S_ICEServersConfigs = ICEAndTURN"
| "section_of S_TURNStaticAuthSecret = ICEAndTURN"
| "section_of S_TURNCredentialsExpirationMinutes = ICEAndTURN"
| "section_of S_ServerSideTURN = ICEAndTURN"
| "section_of S_EnableRecordings = CallRecordings"
| "section_of S_JobServiceURL = CallRecordings"
| "section_of S_MaxRecordingDuration = CallRecordings"
| "section_of S_RecordingQuality = CallRecordings"
| "section_of S_EnableTranscriptions = CallTranscriptions"
| "section_of S_TranscribeAPI = CallTranscriptions"
| "section_of S_TranscriberModelSize = CallTranscriptions"
| "section_of S_TranscriberNumThreads = CallTranscriptions"
| "section_of S_TranscribeAPIAzureSpeechKey = CallTranscriptions"
| "section_of S_TranscribeAPIAzureSpeechRegion = CallTranscriptions"
| "section_of S_EnableLiveCaptions = CallLiveCaptions"
| "section_of S_LiveCaptionsModelSize = CallLiveCaptions"
| "section_of S_LiveCaptionsNumTranscribers = CallLiveCaptions"
| "section_of S_LiveCaptionsNumThreadsPerTranscriber = CallLiveCaptions"
| "section_of S_LiveCaptionsLanguage = CallLiveCaptions"
| "section_of _ = GeneralSettings"

text \<open>
  A section is absent, an offer of a trial under a title, or a box: title, subtitle, whether the
  subtitle says that it is unavailable, the pill of the licence, and whether the settings are shown.
  (A typographic apostrophe of a text is written plain.)
\<close>

record section_box =
  sb_title :: string
  sb_subtitle :: string
  sb_unavailable :: bool
  sb_pill :: bool
  sb_body :: bool

datatype (plugins only: code size) section_render = NoSection | TrialOffer string | SectionBox section_box

definition box :: "string \<Rightarrow> string \<Rightarrow> bool \<Rightarrow> bool \<Rightarrow> bool \<Rightarrow> section_render" where
  "box title subtitle unavailable pill body =
     SectionBox \<lparr>sb_title = title, sb_subtitle = subtitle, sb_unavailable = unavailable, sb_pill = pill, sb_body = body\<rparr>"

definition GeneralSettingsSection :: section_render where
  "GeneralSettingsSection =
     box ''General settings'' ''Settings for participants, screen sharing, ringing, and more'' False False True"

definition RTCServerSection :: section_render where
  "RTCServerSection = box ''RTC Server'' ''Network configuration for the integrated RTC server'' False False True"

definition ICEAndTURNSection :: section_render where
  "ICEAndTURNSection = box ''ICE and TURN'' '''' False False True"

definition RTCDServiceSection :: "app \<Rightarrow> section_render" where
  "RTCDServiceSection a =
     (if isOnPremNotEnterprise a then TrialOffer ''Use your own WebRTC service''
      else box ''RTCD Service''
        ''Configure a dedicated service used to offload calls and efficiently support scalable and secure deployments''
        False (\<not> isCloud a) True)"

definition CallRecordingsSection :: "app \<Rightarrow> section_render" where
  "CallRecordingsSection a =
     (if isCloud a then NoSection
      else if isOnPremNotEnterprise a then TrialOffer ''Get access to call recordings, transcriptions, and live captions''
      else box ''Call recordings''
        (''Recordings include the entire call window view along with participants'' @ [CHR 0x27] @
         '' audio track and any shared screen video. Recordings are stored in Mattermost'') False (\<not> isCloud a) True)"

definition CallTranscriptionsSection :: "app \<Rightarrow> section_render" where
  "CallTranscriptionsSection a =
     (if isOnPremNotEnterprise a \<or> isCloud a then NoSection
      else box ''Call transcriptions''
        (if recordingsEnabled a then ''Allows calls to be transcribed to text files. Recordings must be enabled''
         else ''Allows calls to be transcribed to text files. To enable call transcriptions, recordings must be enabled first'')
        (\<not> recordingsEnabled a) True (recordingsEnabled a))"

definition CallLiveCaptionsSection :: "app \<Rightarrow> section_render" where
  "CallLiveCaptionsSection a =
     (if isOnPremNotEnterprise a \<or> isCloud a then NoSection
      else box ''Live captions''
        (if recordingsEnabled a \<and> transcriptionsEnabled a
         then ''Displays spoken words as text captions during a call. Recordings and transcriptions must be enabled''
         else ''Displays spoken words as text captions during a call. To enable live captions, recordings and transcriptions must be enabled first'')
        (\<not> (recordingsEnabled a \<and> transcriptionsEnabled a)) True (recordingsEnabled a \<and> transcriptionsEnabled a))"

text \<open>\<open>registerAdminConsoleCustomSection\<close>: the component of every section (\<open>index.tsx\<close>).\<close>

fun section_view :: "app \<Rightarrow> console_section \<Rightarrow> section_render" where
  "section_view a GeneralSettings = GeneralSettingsSection"
| "section_view a RTCDService = RTCDServiceSection a"
| "section_view a RTCServer = RTCServerSection"
| "section_view a ICEAndTURN = ICEAndTURNSection"
| "section_view a CallRecordings = CallRecordingsSection a"
| "section_view a CallTranscriptions = CallTranscriptionsSection a"
| "section_view a CallLiveCaptions = CallLiveCaptionsSection a"

definition shows_body :: "section_render \<Rightarrow> bool" where
  "shows_body s = (case s of SectionBox b \<Rightarrow> sb_body b | _ \<Rightarrow> False)"

section \<open>Asking for a trial\<close>

datatype (plugins only: code size) trial_step =
    TrialRequest int
  | TrialErrorModal
  | TrialSuccessModal
  | ReloadLicense

text \<open>
  \<open>requestLicense\<close>, with the number of users of the statistics when it is known, and the message of
  the failure of the request, if it fails; an empty message reads as no failure.
\<close>

definition requestOnPremTrialLicense :: "string option \<Rightarrow> string" where
  "requestOnPremTrialLicense failure = (case failure of None \<Rightarrow> '''' | Some msg \<Rightarrow> msg)"

definition requestLicense :: "int option \<Rightarrow> string option \<Rightarrow> trial_step list" where
  "requestLicense totalUsers failure =
     (let users = (case totalUsers of None \<Rightarrow> 0 | Some n \<Rightarrow> n);
          requestedUsers = max users 30
      in TrialRequest requestedUsers #
         (if requestOnPremTrialLicense failure \<noteq> '''' then [TrialErrorModal] else [TrialSuccessModal, ReloadLicense]))"

section \<open>The page\<close>

record console =
  k_world :: world
  k_extra :: admin_config
  k_form :: "setting \<Rightarrow> setting_value"
  k_readonly :: bool
  k_hasSections :: bool
  k_rtcd :: "bool option"
  k_recordings :: "bool option"
  k_transcriptions :: "bool option"
  k_api :: "setting_value option"
  k_captions :: "bool option"

definition console_app :: "console \<Rightarrow> app" where
  "console_app c = world_app (k_world c)"

text \<open>Without sections (older applications) the components are mounted one after the other.\<close>

definition mounted :: "console \<Rightarrow> setting \<Rightarrow> bool" where
  "mounted c k = (\<not> k_hasSections c \<or> shows_body (section_view (console_app c) (section_of k)))"

text \<open>The initial local states and the effects of the five components.\<close>

definition toggle_init :: "setting_value \<Rightarrow> bool" where
  "toggle_init v = is_set ''true'' v"

definition RTCDServiceURL_init :: "app \<Rightarrow> setting_value \<Rightarrow> bool" where
  "RTCDServiceURL_init a v = (\<not> isOnPremNotEnterprise a \<and> (case v of SvStr s \<Rightarrow> s \<noteq> '''' | _ \<Rightarrow> False))"

definition TranscribeAPI_effect :: "setting_value \<Rightarrow> world \<Rightarrow> world" where
  "TranscribeAPI_effect v w =
     (case v of SvStr s \<Rightarrow> if s = '''' then w else setTranscribeAPI (api_of s) w | _ \<Rightarrow> w)"

definition remount :: "bool \<Rightarrow> 'a \<Rightarrow> 'a option \<Rightarrow> 'a option" where
  "remount shown ini st = (if shown then Some (case st of None \<Rightarrow> ini | Some v \<Rightarrow> v) else None)"

definition effect_on_mount :: "'a option \<Rightarrow> 'a option \<Rightarrow> ('a \<Rightarrow> world \<Rightarrow> world) \<Rightarrow> world \<Rightarrow> world" where
  "effect_on_mount old new eff w = (case (old, new) of (None, Some v) \<Rightarrow> eff v w | _ \<Rightarrow> w)"

definition mount_all :: "console \<Rightarrow> console" where
  "mount_all c = c
     \<lparr>k_rtcd := remount (mounted c S_RTCDServiceURL)
        (RTCDServiceURL_init (console_app c) (k_form c S_RTCDServiceURL)) (k_rtcd c),
      k_recordings := remount (mounted c S_EnableRecordings) (toggle_init (k_form c S_EnableRecordings)) (k_recordings c),
      k_transcriptions := remount (mounted c S_EnableTranscriptions)
        (toggle_init (k_form c S_EnableTranscriptions)) (k_transcriptions c),
      k_api := remount (mounted c S_TranscribeAPI) (k_form c S_TranscribeAPI) (k_api c),
      k_captions := remount (mounted c S_EnableLiveCaptions) (toggle_init (k_form c S_EnableLiveCaptions)) (k_captions c)\<rparr>"

definition mount_effects :: "console \<Rightarrow> console \<Rightarrow> world \<Rightarrow> world" where
  "mount_effects c c' w0 =
     (let w = effect_on_mount (k_rtcd c) (k_rtcd c') setRTCDEnabled w0;
          w = effect_on_mount (k_recordings c) (k_recordings c') setRecordingsEnabled w;
          w = effect_on_mount (k_transcriptions c) (k_transcriptions c') setTranscriptionsEnabled w;
          w = effect_on_mount (k_api c) (k_api c') TranscribeAPI_effect w
      in effect_on_mount (k_captions c) (k_captions c') setLiveCaptionsEnabled w)"

definition commit :: "console \<Rightarrow> console" where
  "commit c = (let c' = mount_all c in c'\<lparr>k_world := mount_effects c c' (k_world c)\<rparr>)"

definition settle_console :: "console \<Rightarrow> console" where
  "settle_console c = commit (commit (commit c))"

text \<open>\<open>setEnabled\<close> with a new value runs the effect again, with the old one it does nothing.\<close>

definition set_local :: "'a \<Rightarrow> 'a option \<Rightarrow> ('a \<Rightarrow> world \<Rightarrow> world) \<Rightarrow> world \<Rightarrow> world" where
  "set_local v st eff w = (if st = Some v then w else eff v w)"

fun handleChange_local :: "setting \<Rightarrow> string \<Rightarrow> console \<Rightarrow> console" where
  "handleChange_local S_RTCDServiceURL e c =
     c\<lparr>k_rtcd := Some (e \<noteq> ''''), k_world := set_local (e \<noteq> '''') (k_rtcd c) setRTCDEnabled (k_world c)\<rparr>"
| "handleChange_local S_EnableRecordings e c =
     c\<lparr>k_recordings := Some (e = ''true''),
       k_world := set_local (e = ''true'') (k_recordings c) setRecordingsEnabled (k_world c)\<rparr>"
| "handleChange_local S_EnableTranscriptions e c =
     c\<lparr>k_transcriptions := Some (e = ''true''),
       k_world := set_local (e = ''true'') (k_transcriptions c) setTranscriptionsEnabled (k_world c)\<rparr>"
| "handleChange_local S_TranscribeAPI e c =
     c\<lparr>k_api := Some (SvStr e), k_world := set_local (SvStr e) (k_api c) TranscribeAPI_effect (k_world c)\<rparr>"
| "handleChange_local S_EnableLiveCaptions e c =
     c\<lparr>k_captions := Some (e = ''true''),
       k_world := set_local (e = ''true'') (k_captions c) setLiveCaptionsEnabled (k_world c)\<rparr>"
| "handleChange_local _ e c = c"

definition handleChange :: "setting \<Rightarrow> string \<Rightarrow> console \<Rightarrow> console" where
  "handleChange k e c = handleChange_local k e (c\<lparr>k_form := (k_form c)(k := setting_change k e)\<rparr>)"

text \<open>What is on the page for a setting, and an edit: only a control that is shown and enabled takes one.\<close>

definition console_view ::
  "(string list \<Rightarrow> string) \<Rightarrow> manifest_setting list \<Rightarrow> console \<Rightarrow> setting \<Rightarrow> rendered option" where
  "console_view sf m c k =
     (if mounted c k
      then setting_view sf m (console_app c) (k_extra c) k \<lparr>sp_value = k_form c k, sp_disabled = k_readonly c\<rparr>
      else None)"

definition edit ::
  "(string list \<Rightarrow> string) \<Rightarrow> manifest_setting list \<Rightarrow> setting \<Rightarrow> string \<Rightarrow> console \<Rightarrow> console" where
  "edit sf m k e c =
     (case console_view sf m c k of
        None \<Rightarrow> c
      | Some r \<Rightarrow> if rd_disabled r then c else settle_console (handleChange k e c))"

section \<open>Lemmas\<close>

lemmas thunk_defs =
  setRTCDEnabled_def setRecordingsEnabled_def setTranscriptionsEnabled_def setTranscribeAPI_def setLiveCaptionsEnabled_def

text \<open>Each effect writes its own flag of the store and nothing the page reads besides.\<close>

lemma flags_put [simp]:
  "recordingsEnabled (world_app (setRecordingsEnabled b w)) = b"
  "recordingsEnabled (world_app (setRTCDEnabled b w)) = recordingsEnabled (world_app w)"
  "recordingsEnabled (world_app (setTranscriptionsEnabled b w)) = recordingsEnabled (world_app w)"
  "recordingsEnabled (world_app (TranscribeAPI_effect v w)) = recordingsEnabled (world_app w)"
  "recordingsEnabled (world_app (setLiveCaptionsEnabled b w)) = recordingsEnabled (world_app w)"
  "transcriptionsEnabled (world_app (setRecordingsEnabled b w)) = transcriptionsEnabled (world_app w)"
  "transcriptionsEnabled (world_app (setRTCDEnabled b w)) = transcriptionsEnabled (world_app w)"
  "transcriptionsEnabled (world_app (setTranscriptionsEnabled b w)) = b"
  "transcriptionsEnabled (world_app (TranscribeAPI_effect v w)) = transcriptionsEnabled (world_app w)"
  "transcriptionsEnabled (world_app (setLiveCaptionsEnabled b w)) = transcriptionsEnabled (world_app w)"
  "liveCaptionsEnabled (world_app (setRecordingsEnabled b w)) = liveCaptionsEnabled (world_app w)"
  "liveCaptionsEnabled (world_app (setRTCDEnabled b w)) = liveCaptionsEnabled (world_app w)"
  "liveCaptionsEnabled (world_app (setTranscriptionsEnabled b w)) = liveCaptionsEnabled (world_app w)"
  "liveCaptionsEnabled (world_app (TranscribeAPI_effect v w)) = liveCaptionsEnabled (world_app w)"
  "liveCaptionsEnabled (world_app (setLiveCaptionsEnabled b w)) = b"
  by (auto simp: thunk_defs TranscribeAPI_effect_def recordingsEnabled_def transcriptionsEnabled_def liveCaptionsEnabled_def
      sel_callsConfig_def split: setting_value.split)

definition api_after :: "setting_value \<Rightarrow> transcribe_api \<Rightarrow> transcribe_api" where
  "api_after v old = (case v of SvStr s \<Rightarrow> if s = '''' then old else api_of s | _ \<Rightarrow> old)"

lemma api_put [simp]:
  "transcribeAPI (world_app (setRecordingsEnabled b w)) = transcribeAPI (world_app w)"
  "transcribeAPI (world_app (setRTCDEnabled b w)) = transcribeAPI (world_app w)"
  "transcribeAPI (world_app (setTranscriptionsEnabled b w)) = transcribeAPI (world_app w)"
  "transcribeAPI (world_app (setLiveCaptionsEnabled b w)) = transcribeAPI (world_app w)"
  "transcribeAPI (world_app (TranscribeAPI_effect v w)) = api_after v (transcribeAPI (world_app w))"
  "sel_rtcdEnabled (world_app (setRecordingsEnabled b w)) = sel_rtcdEnabled (world_app w)"
  "sel_rtcdEnabled (world_app (setRTCDEnabled b w)) = b"
  "sel_rtcdEnabled (world_app (setTranscriptionsEnabled b w)) = sel_rtcdEnabled (world_app w)"
  "sel_rtcdEnabled (world_app (TranscribeAPI_effect v w)) = sel_rtcdEnabled (world_app w)"
  "sel_rtcdEnabled (world_app (setLiveCaptionsEnabled b w)) = sel_rtcdEnabled (world_app w)"
  by (auto simp: thunk_defs api_after_def TranscribeAPI_effect_def transcribeAPI_def sel_rtcdEnabled_def
      sel_callsConfig_def split: setting_value.split)

lemma host_put [simp]:
  "w_host (setRecordingsEnabled b w) = w_host w"
  "w_host (setRTCDEnabled b w) = w_host w"
  "w_host (setTranscriptionsEnabled b w) = w_host w"
  "w_host (TranscribeAPI_effect v w) = w_host w"
  "w_host (setLiveCaptionsEnabled b w) = w_host w"
  by (auto simp: thunk_defs TranscribeAPI_effect_def split: setting_value.split)

lemma effect_on_mount_simps [simp]:
  "effect_on_mount st st eff w = w"
  "effect_on_mount (Some v) st' eff w = w"
  "effect_on_mount st None eff w = w"
  "effect_on_mount None (Some v) eff w = eff v w"
  by (auto simp: effect_on_mount_def split: option.split)

lemma effect_host: "(\<And>v w. w_host (eff v w) = w_host w) \<Longrightarrow> w_host (effect_on_mount st st' eff w) = w_host w"
  by (auto simp: effect_on_mount_def split: option.split)

lemma mount_effects_host [simp]: "w_host (mount_effects c c' w) = w_host w"
  by (simp add: mount_effects_def effect_host)

lemma licence_app [simp]:
  "isCloud (world_app (w\<lparr>w_host := h\<rparr>)) = (g_licenseCloud h = Some ''true'')"
  by (simp add: isCloud_def)

lemma licence_cong:
  "w_host w = w_host w' \<Longrightarrow> isCloud (world_app w) = isCloud (world_app w')"
  "w_host w = w_host w' \<Longrightarrow> isOnPremNotEnterprise (world_app w) = isOnPremNotEnterprise (world_app w')"
  by (simp_all add: isCloud_def isOnPremNotEnterprise_def)

text \<open>What decides whether a setting is mounted.\<close>

lemma shows_body_simps [simp]:
  "shows_body NoSection = False"
  "shows_body (TrialOffer t) = False"
  "shows_body (box t s u p b) = b"
  by (simp_all add: shows_body_def box_def)

lemma mounted_iff:
  "mounted c k \<longleftrightarrow> \<not> k_hasSections c \<or>
     (let a = console_app c in
      case section_of k of
        RTCDService \<Rightarrow> \<not> isOnPremNotEnterprise a
      | CallRecordings \<Rightarrow> \<not> isCloud a \<and> \<not> isOnPremNotEnterprise a
      | CallTranscriptions \<Rightarrow> \<not> isCloud a \<and> \<not> isOnPremNotEnterprise a \<and> recordingsEnabled a
      | CallLiveCaptions \<Rightarrow>
          \<not> isCloud a \<and> \<not> isOnPremNotEnterprise a \<and> recordingsEnabled a \<and> transcriptionsEnabled a
      | _ \<Rightarrow> True)"
  by (cases "section_of k")
    (simp_all add: mounted_def GeneralSettingsSection_def RTCServerSection_def ICEAndTURNSection_def
      RTCDServiceSection_def CallRecordingsSection_def CallTranscriptionsSection_def CallLiveCaptionsSection_def Let_def)

text \<open>One commit: who is mounted, and what it makes of the flags.\<close>

lemma commit_simps [simp]:
  "k_form (commit c) = k_form c" "k_hasSections (commit c) = k_hasSections c" "k_readonly (commit c) = k_readonly c"
  "k_extra (commit c) = k_extra c"
  "w_host (k_world (commit c)) = w_host (k_world c)"
  "k_rtcd (commit c) = k_rtcd (mount_all c)" "k_recordings (commit c) = k_recordings (mount_all c)"
  "k_transcriptions (commit c) = k_transcriptions (mount_all c)" "k_api (commit c) = k_api (mount_all c)"
  "k_captions (commit c) = k_captions (mount_all c)"
  by (simp_all add: commit_def mount_all_def Let_def)

lemma flag_effect:
  "(\<And>v w. f (world_app (eff v w)) = f (world_app w)) \<Longrightarrow> f (world_app (effect_on_mount st st' eff w)) = f (world_app w)"
  by (auto simp: effect_on_mount_def split: option.split)

lemma commit_flags:
  "recordingsEnabled (console_app (commit c)) =
     recordingsEnabled (world_app (effect_on_mount (k_recordings c) (k_recordings (commit c)) setRecordingsEnabled (k_world c)))"
  "transcriptionsEnabled (console_app (commit c)) =
     transcriptionsEnabled (world_app (effect_on_mount (k_transcriptions c) (k_transcriptions (commit c)) setTranscriptionsEnabled (k_world c)))"
  "liveCaptionsEnabled (console_app (commit c)) =
     liveCaptionsEnabled (world_app (effect_on_mount (k_captions c) (k_captions (commit c)) setLiveCaptionsEnabled (k_world c)))"
  "transcribeAPI (console_app (commit c)) =
     transcribeAPI (world_app (effect_on_mount (k_api c) (k_api (commit c)) TranscribeAPI_effect (k_world c)))"
  "sel_rtcdEnabled (console_app (commit c)) =
     sel_rtcdEnabled (world_app (effect_on_mount (k_rtcd c) (k_rtcd (commit c)) setRTCDEnabled (k_world c)))"
  unfolding commit_def mount_effects_def console_app_def Let_def
  by (auto simp: effect_on_mount_def split: option.split)

lemma licence_commit [simp]:
  "isCloud (console_app (commit c)) = isCloud (console_app c)"
  "isOnPremNotEnterprise (console_app (commit c)) = isOnPremNotEnterprise (console_app c)"
  by (simp_all add: console_app_def isCloud_def isOnPremNotEnterprise_def)

section \<open>The page settles\<close>

text \<open>
  The first commit fixes what depends on the licence only, and with it the flag of the recordings;
  the second what depends on that flag; the third what depends on the flag of the transcriptions.
\<close>

lemma remount_again [simp]: "remount b i (remount b j st) = remount b j st"
  by (simp add: remount_def)

lemma commit_fixed:
  assumes "mount_all c = c"
  shows "commit c = c"
  by (simp add: commit_def assms mount_effects_def Let_def)

lemma mount_all_again:
  assumes "\<And>k. mounted (commit c) k = mounted c k"
  shows "mount_all (commit c) = commit c"
proof -
  have "mount_all (commit c) = (commit c)\<lparr>k_rtcd := k_rtcd (commit c), k_recordings := k_recordings (commit c),
      k_transcriptions := k_transcriptions (commit c), k_api := k_api (commit c), k_captions := k_captions (commit c)\<rparr>"
    unfolding mount_all_def [of "commit c"] assms commit_simps by (simp add: mount_all_def)
  then show ?thesis by simp
qed

lemma recordings_stable: "recordingsEnabled (console_app (commit (commit c))) = recordingsEnabled (console_app (commit c))"
proof -
  have "k_recordings (commit (commit c)) = k_recordings (commit c)"
    by (simp add: mount_all_def mounted_iff [of c] mounted_iff [of "commit c"] Let_def)
  then show ?thesis by (simp add: commit_flags(1) [of "commit c"] del: commit_simps) (simp add: console_app_def)
qed

lemma transcriptions_stable:
  assumes "recordingsEnabled (console_app (commit c)) = recordingsEnabled (console_app c)"
  shows "transcriptionsEnabled (console_app (commit (commit c))) = transcriptionsEnabled (console_app (commit c))"
proof -
  have "k_transcriptions (commit (commit c)) = k_transcriptions (commit c)"
    by (simp add: mount_all_def mounted_iff [of c] mounted_iff [of "commit c"] assms Let_def)
  then show ?thesis by (simp add: commit_flags(2) [of "commit c"] del: commit_simps) (simp add: console_app_def)
qed

lemma mounted_stable:
  assumes "recordingsEnabled (console_app (commit c)) = recordingsEnabled (console_app c)"
    and "transcriptionsEnabled (console_app (commit c)) = transcriptionsEnabled (console_app c)"
  shows "mounted (commit c) k = mounted c k"
  by (simp add: mounted_iff assms Let_def cong: console_section.case_cong)

lemma settle_fixed: "commit (settle_console c) = settle_console c"
proof -
  let ?b = "commit (commit c)"
  have r: "recordingsEnabled (console_app (commit ?b)) = recordingsEnabled (console_app ?b)"
    and r': "recordingsEnabled (console_app ?b) = recordingsEnabled (console_app (commit c))"
    by (rule recordings_stable)+
  have t: "transcriptionsEnabled (console_app (commit ?b)) = transcriptionsEnabled (console_app ?b)"
    by (rule transcriptions_stable [OF r'])
  have "mount_all (commit ?b) = commit ?b"
    by (rule mount_all_again, rule mounted_stable [OF r t])
  then show ?thesis unfolding settle_console_def by (rule commit_fixed)
qed

text \<open>
  C36. Whatever was picked, sent or mounted before, three passes are enough: however many more the page makes,
  they mount, unmount and dispatch nothing, so the chain of effects between the settings ends.
\<close>

theorem console_settles: "(commit ^^ (n + 3)) c = settle_console c"
proof (induction n)
  case 0
  show ?case by (simp add: settle_console_def numeral_3_eq_3)
next
  case (Suc n)
  then have "commit ((commit ^^ (n + 3)) c) = settle_console c" by (simp only: settle_fixed)
  then show ?case by (simp only: add_Suc funpow.simps o_apply)
qed

section \<open>The store follows the form\<close>

text \<open>
  What holds whenever nothing but edits changes the page: a mounted toggle has the value of the form,
  and so has its flag in the store.
\<close>

definition in_step :: "console \<Rightarrow> bool" where
  "in_step c \<longleftrightarrow>
     (case k_recordings c of None \<Rightarrow> True
      | Some b \<Rightarrow> b = toggle_init (k_form c S_EnableRecordings) \<and> recordingsEnabled (console_app c) = b) \<and>
     (case k_transcriptions c of None \<Rightarrow> True
      | Some b \<Rightarrow> b = toggle_init (k_form c S_EnableTranscriptions) \<and> transcriptionsEnabled (console_app c) = b) \<and>
     (case k_captions c of None \<Rightarrow> True
      | Some b \<Rightarrow> b = toggle_init (k_form c S_EnableLiveCaptions) \<and> liveCaptionsEnabled (console_app c) = b) \<and>
     (case k_api c of None \<Rightarrow> True
      | Some v \<Rightarrow> v = k_form c S_TranscribeAPI \<and> transcribeAPI (console_app c) = api_after v (transcribeAPI (console_app c)))"

definition fresh_console :: "console \<Rightarrow> bool" where
  "fresh_console c \<longleftrightarrow> k_rtcd c = None \<and> k_recordings c = None \<and> k_transcriptions c = None \<and> k_api c = None \<and> k_captions c = None"

inductive console_reach :: "(string list \<Rightarrow> string) \<Rightarrow> manifest_setting list \<Rightarrow> console \<Rightarrow> bool"
  for sf :: "string list \<Rightarrow> string" and m :: "manifest_setting list" where
  opened: "fresh_console c \<Longrightarrow> console_reach sf m (settle_console c)"
| edited: "console_reach sf m c \<Longrightarrow> console_reach sf m (edit sf m k e c)"

lemma api_after_again [simp]: "api_after v (api_after v old) = api_after v old"
  by (auto simp: api_after_def split: setting_value.split)

lemma remount_simps [simp]:
  "remount False i st = None"
  "remount True i None = Some i"
  "remount True i (Some v) = Some v"
  by (simp_all add: remount_def)

lemma in_step_commit:
  assumes "in_step c"
  shows "in_step (commit c)"
proof -
  have r: "case remount m1 i (k_recordings c) of None \<Rightarrow> True
      | Some b \<Rightarrow> b = i \<and> recordingsEnabled (console_app (commit c)) = b"
    if "i = toggle_init (k_form c S_EnableRecordings)" "k_recordings (commit c) = remount m1 i (k_recordings c)" for m1 i
    using assms that
    by (cases m1; cases "k_recordings c")
      (auto simp: in_step_def commit_flags(1) console_app_def [symmetric] simp del: commit_simps)
  have t: "case remount m1 i (k_transcriptions c) of None \<Rightarrow> True
      | Some b \<Rightarrow> b = i \<and> transcriptionsEnabled (console_app (commit c)) = b"
    if "i = toggle_init (k_form c S_EnableTranscriptions)" "k_transcriptions (commit c) = remount m1 i (k_transcriptions c)" for m1 i
    using assms that
    by (cases m1; cases "k_transcriptions c")
      (auto simp: in_step_def commit_flags(2) console_app_def [symmetric] simp del: commit_simps)
  have l: "case remount m1 i (k_captions c) of None \<Rightarrow> True
      | Some b \<Rightarrow> b = i \<and> liveCaptionsEnabled (console_app (commit c)) = b"
    if "i = toggle_init (k_form c S_EnableLiveCaptions)" "k_captions (commit c) = remount m1 i (k_captions c)" for m1 i
    using assms that
    by (cases m1; cases "k_captions c")
      (auto simp: in_step_def commit_flags(3) console_app_def [symmetric] simp del: commit_simps)
  have a: "case remount m1 i (k_api c) of None \<Rightarrow> True
      | Some v \<Rightarrow> v = i \<and> transcribeAPI (console_app (commit c)) = api_after v (transcribeAPI (console_app (commit c)))"
    if "i = k_form c S_TranscribeAPI" "k_api (commit c) = remount m1 i (k_api c)" for m1 i
    using assms that
    by (cases m1; cases "k_api c")
      (auto simp: in_step_def commit_flags(4) console_app_def [symmetric] simp del: commit_simps)
  have k: "k_recordings (mount_all c) = remount (mounted c S_EnableRecordings) (toggle_init (k_form c S_EnableRecordings)) (k_recordings c)"
    "k_transcriptions (mount_all c) = remount (mounted c S_EnableTranscriptions) (toggle_init (k_form c S_EnableTranscriptions)) (k_transcriptions c)"
    "k_captions (mount_all c) = remount (mounted c S_EnableLiveCaptions) (toggle_init (k_form c S_EnableLiveCaptions)) (k_captions c)"
    "k_api (mount_all c) = remount (mounted c S_TranscribeAPI) (k_form c S_TranscribeAPI) (k_api c)"
    by (simp_all add: mount_all_def)
  show ?thesis
    unfolding in_step_def commit_simps k
    using r [OF refl] t [OF refl] l [OF refl] a [OF refl] k by simp
qed

lemma toggle_change [simp]:
  "toggle_init (SvBool b) = b"
  by (simp add: toggle_init_def is_set_def)

lemma in_step_change:
  assumes "in_step c"
  shows "in_step (handleChange k e c)"
  using assms
  by (cases k) (auto simp: handleChange_def in_step_def console_app_def set_local_def split: option.splits)

lemma in_step_edit: "in_step c \<Longrightarrow> in_step (edit sf m k e c)"
  by (auto simp: edit_def settle_console_def in_step_commit in_step_change split: option.split)

lemma edit_settled: "commit c = c \<Longrightarrow> commit (edit sf m k e c) = edit sf m k e c"
  by (auto simp: edit_def settle_fixed split: option.split)

lemma console_reach_in_step: "console_reach sf m c \<Longrightarrow> commit c = c \<and> in_step c"
proof (induction rule: console_reach.induct)
  case (opened c)
  then have "in_step c" by (simp add: fresh_console_def in_step_def)
  then show ?case by (simp add: settle_fixed) (simp add: settle_console_def in_step_commit)
next
  case (edited c k e)
  then show ?case by (simp add: edit_settled in_step_edit)
qed

text \<open>On a settled page a component has a local state exactly when it is mounted.\<close>

lemma settled_mounted:
  assumes "commit c = c"
  shows "(k_recordings c \<noteq> None) = mounted c S_EnableRecordings"
    "(k_transcriptions c \<noteq> None) = mounted c S_EnableTranscriptions"
    "(k_api c \<noteq> None) = mounted c S_TranscribeAPI"
    "(k_captions c \<noteq> None) = mounted c S_EnableLiveCaptions"
proof -
  have *: "k_recordings c = k_recordings (mount_all c)" "k_transcriptions c = k_transcriptions (mount_all c)"
    "k_api c = k_api (mount_all c)" "k_captions c = k_captions (mount_all c)"
    using commit_simps(7-10) [of c] by (simp_all add: assms)
  show "(k_recordings c \<noteq> None) = mounted c S_EnableRecordings"
    "(k_transcriptions c \<noteq> None) = mounted c S_EnableTranscriptions"
    "(k_api c \<noteq> None) = mounted c S_TranscribeAPI"
    "(k_captions c \<noteq> None) = mounted c S_EnableLiveCaptions"
    by (subst *, simp add: mount_all_def remount_def)+
qed

text \<open>The flags of the store, on a page that only edits have changed.\<close>

lemma reach_flags:
  assumes "console_reach sf m c"
  shows "mounted c S_EnableRecordings \<Longrightarrow> recordingsEnabled (console_app c) = toggle_init (k_form c S_EnableRecordings)"
    "mounted c S_EnableTranscriptions \<Longrightarrow> transcriptionsEnabled (console_app c) = toggle_init (k_form c S_EnableTranscriptions)"
    "mounted c S_EnableLiveCaptions \<Longrightarrow> liveCaptionsEnabled (console_app c) = toggle_init (k_form c S_EnableLiveCaptions)"
    "mounted c S_TranscribeAPI \<Longrightarrow>
       transcribeAPI (console_app c) = api_after (k_form c S_TranscribeAPI) (transcribeAPI (console_app c))"
  using console_reach_in_step [OF assms] settled_mounted [of c]
  by (auto simp: in_step_def split: option.splits)

text \<open>What the form asks for: the toggles a setting needs, and the transcription interface.\<close>

fun needs_on :: "setting \<Rightarrow> setting list" where
  "needs_on S_JobServiceURL = [S_EnableRecordings]"
| "needs_on S_MaxRecordingDuration = [S_EnableRecordings]"
| "needs_on S_RecordingQuality = [S_EnableRecordings]"
| "needs_on S_EnableTranscriptions = [S_EnableRecordings]"
| "needs_on S_TranscribeAPI = [S_EnableRecordings, S_EnableTranscriptions]"
| "needs_on S_TranscriberModelSize = [S_EnableRecordings, S_EnableTranscriptions]"
| "needs_on S_TranscriberNumThreads = [S_EnableRecordings, S_EnableTranscriptions]"
| "needs_on S_TranscribeAPIAzureSpeechKey = [S_EnableRecordings, S_EnableTranscriptions]"
| "needs_on S_TranscribeAPIAzureSpeechRegion = [S_EnableRecordings, S_EnableTranscriptions]"
| "needs_on S_EnableLiveCaptions = [S_EnableRecordings, S_EnableTranscriptions]"
| "needs_on S_LiveCaptionsModelSize = [S_EnableRecordings, S_EnableTranscriptions, S_EnableLiveCaptions]"
| "needs_on S_LiveCaptionsNumTranscribers = [S_EnableRecordings, S_EnableTranscriptions, S_EnableLiveCaptions]"
| "needs_on S_LiveCaptionsNumThreadsPerTranscriber = [S_EnableRecordings, S_EnableTranscriptions, S_EnableLiveCaptions]"
| "needs_on S_LiveCaptionsLanguage = [S_EnableRecordings, S_EnableTranscriptions, S_EnableLiveCaptions]"
| "needs_on _ = []"

fun needs_api :: "setting \<Rightarrow> string option" where
  "needs_api S_TranscriberModelSize = Some ''whisper.cpp''"
| "needs_api S_TranscriberNumThreads = Some ''whisper.cpp''"
| "needs_api S_TranscribeAPIAzureSpeechKey = Some ''azure''"
| "needs_api S_TranscribeAPIAzureSpeechRegion = Some ''azure''"
| "needs_api _ = None"

definition wanted :: "(setting \<Rightarrow> setting_value) \<Rightarrow> setting \<Rightarrow> bool" where
  "wanted f k =
     (list_all (\<lambda>t. toggle_init (f t)) (needs_on k) \<and>
      (case needs_api k of None \<Rightarrow> True | Some s \<Rightarrow> f S_TranscribeAPI = SvStr s))"

lemma api_of_iff: "api_of s = WhisperCPP \<longleftrightarrow> s = ''whisper.cpp''" "api_of s = AzureAI \<longleftrightarrow> s = ''azure''"
  by (auto simp: api_of_def)

text \<open>
  C32. On a licensed page that edits have brought about, in whatever order, a setting is shown exactly when
  the form has the toggles on that it needs, and the transcription interface it belongs to: the flags
  in the store, through which the components learn of each other, never lag behind the form. Overrides
  by the environment do not enter.
\<close>

theorem settings_follow_form:
  assumes "console_reach sf m c" "\<not> isCloud (console_app c)" "\<not> isOnPremNotEnterprise (console_app c)"
    and "k_form c S_TranscribeAPI = SvStr s" "s \<noteq> ''''"
  shows "console_view sf m c k \<noteq> None \<longleftrightarrow> wanted (k_form c) k"
proof -
  note f = reach_flags [OF assms(1)]
  have r: "recordingsEnabled (console_app c) = toggle_init (k_form c S_EnableRecordings)"
    by (rule f(1)) (simp add: mounted_iff assms Let_def)
  have t: "transcriptionsEnabled (console_app c) = toggle_init (k_form c S_EnableTranscriptions)"
    if "toggle_init (k_form c S_EnableRecordings)"
    by (rule f(2)) (simp add: mounted_iff assms r that Let_def)
  have l: "liveCaptionsEnabled (console_app c) = toggle_init (k_form c S_EnableLiveCaptions)"
    if "toggle_init (k_form c S_EnableRecordings)" "toggle_init (k_form c S_EnableTranscriptions)"
    by (rule f(3)) (simp add: mounted_iff assms r t that Let_def)
  have a: "transcribeAPI (console_app c) = api_of s" if "toggle_init (k_form c S_EnableRecordings)"
  proof -
    have "mounted c S_TranscribeAPI" by (simp add: mounted_iff assms r that Let_def)
    from f(4) [OF this] show ?thesis by (simp add: assms api_after_def)
  qed
  show ?thesis
    by (cases k; cases "toggle_init (k_form c S_EnableRecordings)"; cases "toggle_init (k_form c S_EnableTranscriptions)")
      (simp_all add: console_view_def wanted_def mounted_iff assms r t l a api_of_iff setting_view_defs Let_def)
qed

text \<open>A page on an installation with an Enterprise licence, and the page after three edits.\<close>

definition sample_console :: console where
  "sample_console =
     \<lparr>k_world = sample_start\<lparr>w_host := sample_host\<lparr>g_licenseSku := Some ''enterprise''\<rparr>\<rparr>,
      k_extra = (\<lambda>_. SvUndefined), k_form = (\<lambda>_. SvUndefined)(S_TranscribeAPI := SvStr ''whisper.cpp''),
      k_readonly = False, k_hasSections = True, k_rtcd = None, k_recordings = None, k_transcriptions = None,
      k_api = None, k_captions = None\<rparr>"

definition sample_edited :: console where
  "sample_edited =
     edit concat [] S_TranscribeAPI ''azure''
       (edit concat [] S_EnableTranscriptions ''true''
         (edit concat [] S_EnableRecordings ''true'' (settle_console sample_console)))"

lemma sample_edited_reach: "console_reach concat [] sample_edited"
  unfolding sample_edited_def
  by (intro console_reach.edited console_reach.opened) (simp add: fresh_console_def sample_console_def)

theorem settings_follow_form_witness:
  "console_view concat [] sample_edited S_TranscribeAPIAzureSpeechKey \<noteq> None \<and>
   console_view concat [] sample_edited S_TranscriberModelSize = None \<and>
   console_view concat [] sample_edited S_LiveCaptionsLanguage = None"
proof -
  have h: "\<not> isCloud (console_app sample_edited)" "\<not> isOnPremNotEnterprise (console_app sample_edited)"
    "k_form sample_edited S_TranscribeAPI = SvStr ''azure''" "''azure'' \<noteq> ''''"
    by code_simp+
  have w: "wanted (k_form sample_edited) S_TranscribeAPIAzureSpeechKey" "\<not> wanted (k_form sample_edited) S_TranscriberModelSize"
    "\<not> wanted (k_form sample_edited) S_LiveCaptionsLanguage"
    by code_simp+
  from w show ?thesis
    using settings_follow_form [OF sample_edited_reach h, of S_TranscribeAPIAzureSpeechKey]
      settings_follow_form [OF sample_edited_reach h, of S_TranscriberModelSize]
      settings_follow_form [OF sample_edited_reach h, of S_LiveCaptionsLanguage]
    by simp
qed

section \<open>Overrides by the environment\<close>

text \<open>The settings of the integrated server, which have no effect when RTCD is in use.\<close>

definition rtc_only :: "setting \<Rightarrow> bool" where
  "rtc_only k \<longleftrightarrow> section_of k = RTCServer \<or> k = S_ICEHostOverride \<or> k = S_ICEHostPortOverride \<or> k = S_ServerSideTURN"

definition env_locked :: "console \<Rightarrow> setting \<Rightarrow> bool" where
  "env_locked c k \<longleftrightarrow> overridden (console_app c) k \<and> k \<noteq> S_EnableVideo"


text \<open>The page when the environment enables recordings and simulcast and the form has neither.\<close>

definition sample_env :: console where
  "sample_env = settle_console (sample_console\<lparr>k_world := put_batch
     [RECEIVED_CALLS_CONFIG (CallsConfigDefault\<lparr>EnableRecordings := True, EnableSimulcast := True\<rparr>),
      RECEIVED_CALLS_CONFIG_ENV_OVERRIDES [(''EnableRecordings'', ''true''), (''EnableSimulcast'', ''true'')]]
     (k_world sample_console)\<rparr>)"

lemma sample_env_reach: "console_reach concat [] sample_env"
  unfolding sample_env_def by (rule console_reach.opened) (simp add: fresh_console_def sample_console_def)


text \<open>
  The value the environment sets is shown only until the effect of the component has run: the effect writes
  the value of the form over the one of the configuration, and the locked control then shows the former.
  The same for the flag of RTCD, which is made from the form alone.
\<close>

theorem override_lost_on_mount:
  assumes "console_reach sf m c" "\<not> isCloud (console_app c)" "\<not> isOnPremNotEnterprise (console_app c)"
  shows "\<exists>r. console_view sf m c S_EnableRecordings = Some r \<and>
    rd_control r = true_false (toggle_init (k_form c S_EnableRecordings))"
proof -
  have m: "mounted c S_EnableRecordings" by (simp add: mounted_iff assms Let_def)
  from reach_flags(1) [OF assms(1) this] m show ?thesis
    by (auto simp: console_view_def assms setting_view_defs toggle_init_def recordingsEnabled_def)
qed

text \<open>The environment has recordings on, and the locked control shows that they are off.\<close>

lemma override_lost_example:
  "overridden (console_app sample_env) S_EnableRecordings"
  "\<exists>r. console_view concat [] sample_env S_EnableRecordings = Some r \<and> rd_disabled r \<and> rd_control r = true_false False"
proof -
  have h: "\<not> isCloud (console_app sample_env)" "\<not> isOnPremNotEnterprise (console_app sample_env)"
    "\<not> toggle_init (k_form sample_env S_EnableRecordings)" "env_locked sample_env S_EnableRecordings"
    by code_simp+
  then show "overridden (console_app sample_env) S_EnableRecordings" by (simp add: env_locked_def)
  from override_lost_on_mount [OF sample_env_reach h(1,2)] h(3) obtain r where
    r: "console_view concat [] sample_env S_EnableRecordings = Some r" "rd_control r = true_false False" by auto
  moreover from r(1) have "rd_disabled r"
    using h(4) by (auto simp: console_view_def setting_view_defs env_locked_def split: if_splits)
  ultimately show "\<exists>r. console_view concat [] sample_env S_EnableRecordings = Some r \<and> rd_disabled r \<and> rd_control r = true_false False"
    by blast
qed

text \<open>RTCD set by the environment alone leaves the settings of the integrated server enabled.\<close>

lemma rtcd_override_ignored:
  assumes "fresh_console c" "k_form c S_RTCDServiceURL = SvStr ''''" "\<not> isOnPremNotEnterprise (console_app c)"
  shows "\<not> sel_rtcdEnabled (console_app (settle_console c))"
proof -
  have 1: "k_rtcd (commit c) = Some False" if "k_form c S_RTCDServiceURL = SvStr ''''" "\<not> isOnPremNotEnterprise (console_app c)"
    "k_rtcd c = None \<or> k_rtcd c = Some False" for c
    using that by (auto simp: mount_all_def mounted_iff RTCDServiceURL_init_def)
  have 2: "\<not> sel_rtcdEnabled (console_app (commit c))" if "k_rtcd c = None" "k_rtcd (commit c) = Some False" for c
    using that by (simp add: commit_flags(5) del: commit_simps)
  have 3: "sel_rtcdEnabled (console_app (commit c)) = sel_rtcdEnabled (console_app c)" if "k_rtcd c = Some False" for c
    using that by (simp add: commit_flags(5) console_app_def [symmetric] del: commit_simps)
  from assms(1) have "k_rtcd c = None" by (simp add: fresh_console_def)
  with 1 [of c] assms have a: "k_rtcd (commit c) = Some False" by blast
  with 1 [of "commit c"] assms have b: "k_rtcd (commit (commit c)) = Some False" by auto
  show ?thesis
    unfolding settle_console_def using 2 [OF \<open>k_rtcd c = None\<close> a] 3 [OF a] 3 [OF b] by simp
qed

end
