(* ===== verification/Plugin_Lifecycle.thy ===== *)
theory Plugin_Lifecycle
  imports Call_Switching Shortcuts
begin

text \<open>
  The plugin's entry point, \<open>class Plugin\<close> of \<open>index.tsx\<close>: what \<open>initialize\<close> registers with the
  application and the window, the closures it keeps (the button and the menu of the channel header, the
  current channel, the \<open>join_call\<close> parameter of the address), the two listeners of the store, the
  handlers of the desktop application, of the widget's channel and of the keyboard, and what
  \<open>uninitialize\<close> takes back. A component or handler that the application drops by itself when it
  drops the plugin (reducers, post types, routes, websocket events) is not listed.
\<close>

section \<open>What is registered\<close>

datatype (plugins only: code size) hook =
    RootElement
  | WidgetChannel
  | LinkLabel
  | CallButton nat
  | HeaderMenu nat
  | DesktopHandler string
  | MessageListener
  | ActivateListener
  | StoreListener
  | KeyListener
  | ReconnectHandler

datatype (plugins only: code size) unsubscriber = Drop hook | DropButton | DisconnectAndReset

record life_env =
  le_desktop :: bool
  le_dk :: desktop
  le_url :: string
  le_mac :: bool
  le_joinParam :: bool
  le_productApi :: bool
  le_settingsApi :: bool
  le_slash :: "string \<Rightarrow> command_args \<Rightarrow> world \<Rightarrow> slash_result \<times> world"

record plugin_life =
  pl_world :: world
  pl_hooks :: "hook list"
  pl_unsubscribers :: "unsubscriber list"
  pl_nextID :: nat
  pl_button :: "nat option"
  pl_menu :: "nat option"
  pl_currChannelId :: string
  pl_joinCallParam :: bool
  pl_menuRequests :: "string list"
  pl_configuring :: "bool list"
  pl_fetching :: "(string \<times> bool) list"

definition in_life :: "(world \<Rightarrow> world) \<Rightarrow> plugin_life \<Rightarrow> plugin_life" where
  "in_life f s = s\<lparr>pl_world := f (pl_world s)\<rparr>"

definition hook_up :: "hook \<Rightarrow> plugin_life \<Rightarrow> plugin_life" where
  "hook_up h s = s\<lparr>pl_hooks := pl_hooks s @ [h]\<rparr>"

definition unhook :: "hook \<Rightarrow> plugin_life \<Rightarrow> plugin_life" where
  "unhook h s = s\<lparr>pl_hooks := removeAll h (pl_hooks s)\<rparr>"

definition push_unsubscriber :: "unsubscriber \<Rightarrow> plugin_life \<Rightarrow> plugin_life" where
  "push_unsubscriber u s = s\<lparr>pl_unsubscribers := pl_unsubscribers s @ [u]\<rparr>"

definition hook_with_unsubscriber :: "hook \<Rightarrow> plugin_life \<Rightarrow> plugin_life" where
  "hook_with_unsubscriber h s = push_unsubscriber (Drop h) (hook_up h s)"

section \<open>The channel header\<close>

definition unregisterChannelHeaderMenuButton :: "plugin_life \<Rightarrow> plugin_life" where
  "unregisterChannelHeaderMenuButton s =
     (case pl_button s of None \<Rightarrow> s | Some i \<Rightarrow> (unhook (CallButton i) s)\<lparr>pl_button := None\<rparr>)"

definition registerChannelHeaderMenuButton :: "plugin_life \<Rightarrow> plugin_life" where
  "registerChannelHeaderMenuButton s =
     (if pl_button s \<noteq> None then s
      else (hook_up (CallButton (pl_nextID s)) s)\<lparr>pl_button := Some (pl_nextID s), pl_nextID := Suc (pl_nextID s)\<rparr>)"

definition registerChannelHeaderMenuAction :: "plugin_life \<Rightarrow> plugin_life" where
  "registerChannelHeaderMenuAction s =
     (hook_up (HeaderMenu (pl_nextID s)) s)\<lparr>pl_menu := Some (pl_nextID s), pl_nextID := Suc (pl_nextID s)\<rparr>"

definition unregister_header_menu :: "plugin_life \<Rightarrow> plugin_life" where
  "unregister_header_menu s = (case pl_menu s of None \<Rightarrow> s | Some i \<Rightarrow> unhook (HeaderMenu i) s)"

definition registerHeaderMenuComponentIfNeeded :: "string \<Rightarrow> plugin_life \<Rightarrow> plugin_life" where
  "registerHeaderMenuComponentIfNeeded channelID s0 =
     (let s = unregister_header_menu s0
      in case hasPermissionsToEnableCalls (world_app (pl_world s)) channelID of
           Inl err \<Rightarrow> unregister_header_menu s
         | Inr ok \<Rightarrow> if ok then registerChannelHeaderMenuAction s else s)"

text \<open>
  The action of the header menu: the request names the current channel; when the answer comes, its setting is
  stored for the channel that is current then.
\<close>

definition header_menu_click :: "plugin_life \<Rightarrow> plugin_life" where
  "header_menu_click s =
     (let ch = pl_currChannelId s;
          enabled = callsExplicitlyDisabled (world_app (pl_world s)) ch
      in (in_life (emit (Rest ''post'' (''/'' @ ch) [(''enabled'', if enabled then ''true'' else ''false'')])) s)
         \<lparr>pl_menuRequests := pl_menuRequests s @ [ch]\<rparr>)"

definition header_menu_answer :: "bool option \<Rightarrow> plugin_life \<Rightarrow> plugin_life" where
  "header_menu_answer res s =
     (case res of
        None \<Rightarrow> s
      | Some enabled \<Rightarrow>
          in_life (put_action (RECEIVED_CHANNEL_STATE \<lparr>ch_id = pl_currChannelId s, ch_enabled = Some enabled\<rparr>)) s)"

section \<open>The listeners of the store\<close>

definition run_onActivate :: "bool \<Rightarrow> plugin_life \<Rightarrow> plugin_life" where
  "run_onActivate hasWsClient s0 =
     (if g_currentUserId (w_host (pl_world s0)) = '''' then s0
      else let s = in_life onActivate (unhook ActivateListener s0) in s\<lparr>pl_configuring := pl_configuring s @ [hasWsClient]\<rparr>)"

definition activate_listener :: "plugin_life \<Rightarrow> plugin_life" where
  "activate_listener s =
     (if ActivateListener \<notin> set (pl_hooks s) then s
      else if g_currentUserId (w_host (pl_world s)) \<noteq> '''' then run_onActivate False s else s)"

definition store_listener :: "life_env \<Rightarrow> plugin_life \<Rightarrow> plugin_life" where
  "store_listener env s0 =
     (let currentChannelId = g_currentChannelId (w_host (pl_world s0))
      in if StoreListener \<notin> set (pl_hooks s0) \<or> pl_currChannelId s0 = currentChannelId then s0
         else
           let firstLoad = (pl_currChannelId s0 = '''');
               s = s0\<lparr>pl_currChannelId := currentChannelId\<rparr>;
               s = (if firstLoad then registerHeaderMenuComponentIfNeeded currentChannelId s else s);
               s = (if currentChannelId \<noteq> '''' \<and> pl_joinCallParam s \<and> channelIDForCurrentCall (world_app (pl_world s)) = ''''
                    then in_life (connectCall (le_dk env) (le_url env) currentChannelId '''' '''') s else s)
           in s\<lparr>pl_joinCallParam := False\<rparr>)"

definition notify :: "life_env \<Rightarrow> plugin_life \<Rightarrow> plugin_life" where
  "notify env s = store_listener env (activate_listener s)"

text \<open>
  The rest of \<open>onActivate\<close>: when the configuration has come, the channels are asked for with the channel of
  the current call noted (in a pop-out only its own channel is, and nothing follows); when they have come,
  their calls are stored and the menu of the header is registered.
\<close>

definition activation_configured :: "plugin_life \<Rightarrow> plugin_life" where
  "activation_configured s0 =
     (case pl_configuring s0 of
        [] \<Rightarrow> s0
      | hasWsClient # rest \<Rightarrow>
          let s = s0\<lparr>pl_configuring := rest\<rparr>;
              current = channelIDForCurrentCall (world_app (pl_world s));
              s = in_life activate_start s
          in if isCallsPopOut (w_opener (pl_world s)) then s
             else s\<lparr>pl_fetching := pl_fetching s @ [(current, hasWsClient)]\<rparr>)"

definition activation_fetched :: "channel_entry list option \<Rightarrow> plugin_life \<Rightarrow> plugin_life" where
  "activation_fetched res s0 =
     (case pl_fetching s0 of
        [] \<Rightarrow> s0
      | (current, hasWsClient) # rest \<Rightarrow>
          let s = in_life (activate_channels current hasWsClient res) (s0\<lparr>pl_fetching := rest\<rparr>);
              currChannelId = g_currentChannelId (w_host (pl_world s))
          in if currChannelId \<noteq> '''' then registerHeaderMenuComponentIfNeeded currChannelId s else s)"

text \<open>The sections of the user settings: the second registration adds the cameras when video is enabled.\<close>

definition user_settings_sections :: "bool \<Rightarrow> app \<Rightarrow> string list" where
  "user_settings_sections loaded a =
     [''Audio devices settings'', ''Screen sharing settings''] @
     (if loaded \<and> EnableVideo (sel_callsConfig a) then [''Video devices settings''] else [])"

section \<open>Handlers\<close>

datatype (plugins only: code size) desktop_event =
    DeOpenScreenShareModal
  | DeJoinCallRequest string
  | DeCallsError string "string option" "string option"
  | DeOpenThread string
  | DeOpenStopRecordingModal string
  | DeOpenUserSettings

definition desktop_handler_names :: "string list" where
  "desktop_handler_names =
     [''onOpenScreenShareModal'', ''onJoinCallRequest'', ''onCallsError'', ''onOpenThreadForCalls'',
      ''onOpenStopRecordingModal'', ''onOpenCallsUserSettings'']"

fun desktop_handler :: "life_env \<Rightarrow> desktop_event \<Rightarrow> world \<Rightarrow> world" where
  "desktop_handler env DeOpenScreenShareModal w = showScreenSourceModal w"
| "desktop_handler env (DeJoinCallRequest channelID) w = showSwitchCallModal (Some channelID) w"
| "desktop_handler env (DeCallsError err callID errMsg) w =
     (let w = setClientConnecting False w
      in if err = ''client-error''
         then displayCallErrorModal (ErrorMsg (case errMsg of None \<Rightarrow> '''' | Some m \<Rightarrow> m)) callID w else w)"
| "desktop_handler env (DeOpenThread threadID) w = selectRHSPost threadID (le_productApi env) w"
| "desktop_handler env (DeOpenStopRecordingModal channelID) w = emit (OpenModal (StopRecordingConfirmation channelID)) w"
| "desktop_handler env DeOpenUserSettings w = openCallsUserSettings (le_settingsApi env) w"

fun desktop_event_name :: "desktop_event \<Rightarrow> string" where
  "desktop_event_name DeOpenScreenShareModal = ''onOpenScreenShareModal''"
| "desktop_event_name (DeJoinCallRequest _) = ''onJoinCallRequest''"
| "desktop_event_name (DeCallsError _ _ _) = ''onCallsError''"
| "desktop_event_name (DeOpenThread _) = ''onOpenThreadForCalls''"
| "desktop_event_name (DeOpenStopRecordingModal _) = ''onOpenStopRecordingModal''"
| "desktop_event_name DeOpenUserSettings = ''onOpenCallsUserSettings''"

text \<open>The channel of the widget: whether the message asks for the modal that ends the call.\<close>

definition widget_channel_message :: "bool \<Rightarrow> world \<Rightarrow> world" where
  "widget_channel_message showEndCallModal w =
     (let channelID = channelIDForCurrentCall (world_app w)
      in if showEndCallModal \<and> channelID \<noteq> '''' then emit (OpenModal (EndCallConfirmation channelID)) w else w)"

text \<open>A join that throws leaves an unhandled rejection and the window as it is.\<close>

definition join_or_stay :: "life_env \<Rightarrow> string \<Rightarrow> string \<Rightarrow> world \<Rightarrow> world" where
  "join_or_stay env channelID teamID w =
     (case joinCall (le_dk env) (le_url env) channelID teamID '''' '''' w of Inl _ \<Rightarrow> w | Inr w' \<Rightarrow> w')"

definition plugin_handleKBShortcuts :: "life_env \<Rightarrow> key_event \<Rightarrow> world \<Rightarrow> world" where
  "plugin_handleKBShortcuts env ev w =
     (case keyToAction (le_mac env) ''global'' ev of
        Inr (Val act, _) \<Rightarrow>
          if act = JOIN_CALL \<and> \<not> isCallsPopOut (w_opener w)
          then join_or_stay env (g_currentChannelId (w_host w)) (g_currentTeamId (w_host w)) w else w
      | _ \<Rightarrow> w)"

definition call_button_click :: "life_env \<Rightarrow> channel \<Rightarrow> world \<Rightarrow> world" where
  "call_button_click env ch w = join_or_stay env (c_id ch) (c_team_id ch) w"

section \<open>The beginning and the end\<close>

definition register_desktop_handlers :: "desktop \<Rightarrow> plugin_life \<Rightarrow> plugin_life" where
  "register_desktop_handlers dk s =
     fold (\<lambda>f s. if has_api dk f then hook_with_unsubscriber (DesktopHandler f) s else s) desktop_handler_names s"

text \<open>
  \<open>initialize\<close> in the parts it has: the root element and the channel of the desktop widget, the button of
  the channel header, the handlers of the desktop application and of window messages, and at the end the
  listeners of the store and of the keyboard.
\<close>

definition register_root :: "life_env \<Rightarrow> plugin_life \<Rightarrow> plugin_life" where
  "register_root env s0 =
     (let s = (if RootElement \<in> set (pl_hooks s0) then s0 else hook_up RootElement s0);
          s = push_unsubscriber (Drop RootElement) s;
          s = (if le_desktop env then hook_with_unsubscriber WidgetChannel s else s)
      in hook_with_unsubscriber LinkLabel s)"

definition register_header_button :: "plugin_life \<Rightarrow> plugin_life" where
  "register_header_button s =
     registerChannelHeaderMenuButton (push_unsubscriber DropButton (s\<lparr>pl_button := None\<rparr>))"

definition register_message_listener :: "plugin_life \<Rightarrow> plugin_life" where
  "register_message_listener s = hook_with_unsubscriber MessageListener s"

definition register_listeners :: "life_env \<Rightarrow> plugin_life \<Rightarrow> plugin_life" where
  "register_listeners env s0 =
     (let s = hook_up ActivateListener (s0\<lparr>pl_menu := None\<rparr>);
          s = push_unsubscriber DisconnectAndReset s;
          s = s\<lparr>pl_currChannelId := g_currentChannelId (w_host (pl_world s)), pl_joinCallParam := le_joinParam env\<rparr>;
          s = hook_with_unsubscriber StoreListener s
      in hook_with_unsubscriber KeyListener s)"

definition initialize :: "life_env \<Rightarrow> plugin_life \<Rightarrow> plugin_life" where
  "initialize env s0 =
     (let s = register_root env s0;
          s = register_header_button s;
          s = register_desktop_handlers (le_dk env) s;
          s = register_message_listener s
      in register_listeners env s)"

lemmas initialize_parts =
  initialize_def register_root_def register_header_button_def register_message_listener_def register_listeners_def

definition unsubscribe :: "life_env \<Rightarrow> unsubscriber \<Rightarrow> plugin_life \<Rightarrow> plugin_life" where
  "unsubscribe env u s =
     (case u of
        Drop h \<Rightarrow> unhook h s
      | DropButton \<Rightarrow> unregisterChannelHeaderMenuButton s
      | DisconnectAndReset \<Rightarrow> notify env (in_life deactivate s))"

definition uninitialize :: "life_env \<Rightarrow> plugin_life \<Rightarrow> plugin_life" where
  "uninitialize env s = (fold (unsubscribe env) (pl_unsubscribers s) s)\<lparr>pl_unsubscribers := []\<rparr>"

text \<open>The reconnect handler, and the dummy component that registers it when it is mounted.\<close>

definition mount_dummy :: "plugin_life \<Rightarrow> plugin_life" where
  "mount_dummy s = hook_with_unsubscriber ReconnectHandler s"

definition ws_reconnected :: "plugin_life \<Rightarrow> plugin_life" where
  "ws_reconnected s =
     run_onActivate True (in_life (\<lambda>w. if world_client w = None then put_action UNINIT w else w) s)"

section \<open>The life of the plugin\<close>

text \<open>
  What can happen to it: the store changes by other code in any way, the requests answer, and each
  handler runs if it is registered. The listeners run after every change of the store.
\<close>

datatype (plugins only: code size) life_event =
    LifeStore world
  | LifeConfigured
  | LifeFetched "channel_entry list option"
  | LifeMenuClick nat
  | LifeMenuAnswer "bool option"
  | LifeCallButton nat channel
  | LifeWidget bool
  | LifeDesktop desktop_event
  | LifeWindow bool window_message
  | LifeKey key_event
  | LifeMount
  | LifeReconnect
  | LifeUninitialize

definition guarded :: "hook \<Rightarrow> (plugin_life \<Rightarrow> plugin_life) \<Rightarrow> plugin_life \<Rightarrow> plugin_life" where
  "guarded h f s = (if h \<in> set (pl_hooks s) then f s else s)"

fun life_event_step :: "life_env \<Rightarrow> life_event \<Rightarrow> plugin_life \<Rightarrow> plugin_life" where
  "life_event_step env (LifeStore w) s = s\<lparr>pl_world := w\<rparr>"
| "life_event_step env LifeConfigured s = activation_configured s"
| "life_event_step env (LifeFetched res) s = activation_fetched res s"
| "life_event_step env (LifeMenuClick i) s = guarded (HeaderMenu i) header_menu_click s"
| "life_event_step env (LifeMenuAnswer res) s =
     (case pl_menuRequests s of
        [] \<Rightarrow> s | _ # rest \<Rightarrow> header_menu_answer res (s\<lparr>pl_menuRequests := rest\<rparr>))"
| "life_event_step env (LifeCallButton i ch) s = guarded (CallButton i) (in_life (call_button_click env ch)) s"
| "life_event_step env (LifeWidget b) s = guarded WidgetChannel (in_life (widget_channel_message b)) s"
| "life_event_step env (LifeDesktop e) s =
     guarded (DesktopHandler (desktop_event_name e)) (in_life (desktop_handler env e)) s"
| "life_event_step env (LifeWindow sameOrigin m) s =
     guarded MessageListener (in_life (windowEventHandler (le_dk env) (le_url env) (le_slash env) sameOrigin m)) s"
| "life_event_step env (LifeKey ev) s = guarded KeyListener (in_life (plugin_handleKBShortcuts env ev)) s"
| "life_event_step env LifeMount s = mount_dummy s"
| "life_event_step env LifeReconnect s = guarded ReconnectHandler ws_reconnected s"
| "life_event_step env LifeUninitialize s = uninitialize env s"

definition not_loaded :: "plugin_life \<Rightarrow> bool" where
  "not_loaded s \<longleftrightarrow> pl_hooks s = [] \<and> pl_unsubscribers s = [] \<and> pl_button s = None \<and> pl_menu s = None"

inductive life_reach :: "life_env \<Rightarrow> plugin_life \<Rightarrow> bool" for env :: life_env where
  loaded: "not_loaded s \<Longrightarrow> life_reach env (initialize env s)"
| event: "life_reach env s \<Longrightarrow> life_reach env (notify env (life_event_step env e s))"

section \<open>Lemmas\<close>

fun is_menu :: "hook \<Rightarrow> bool" where
  "is_menu (HeaderMenu _) = True"
| "is_menu _ = False"

text \<open>
  Everything registered can be taken back: a hook other than the activation listener and the menu of the
  header has an unsubscriber, and the button and the menu are the ones the closures remember.
\<close>

definition accounted :: "plugin_life \<Rightarrow> hook \<Rightarrow> bool" where
  "accounted s h =
     (case h of
        ActivateListener \<Rightarrow> True
      | HeaderMenu i \<Rightarrow> pl_menu s = Some i
      | CallButton i \<Rightarrow> pl_button s = Some i \<and> DropButton \<in> set (pl_unsubscribers s)
      | _ \<Rightarrow> Drop h \<in> set (pl_unsubscribers s))"

definition hooks_orderly :: "plugin_life \<Rightarrow> bool" where
  "hooks_orderly s \<longleftrightarrow> (\<forall>h \<in> set (pl_hooks s). accounted s h) \<and> length (filter is_menu (pl_hooks s)) \<le> 1"

definition up_to_date :: "plugin_life \<Rightarrow> bool" where
  "up_to_date s \<longleftrightarrow> (StoreListener \<in> set (pl_hooks s) \<longrightarrow> pl_currChannelId s = g_currentChannelId (w_host (pl_world s)))"

lemma accounted_mono:
  assumes "accounted s h" "set (pl_unsubscribers s) \<subseteq> set (pl_unsubscribers s')"
    and "pl_button s' = pl_button s" "pl_menu s' = pl_menu s"
  shows "accounted s' h"
  using assms by (cases h) (auto simp: accounted_def)

lemma is_menu_iff: "is_menu h \<longleftrightarrow> (\<exists>i. h = HeaderMenu i)"
  by (cases h) auto

lemma in_life_simps [simp]:
  "pl_hooks (in_life f s) = pl_hooks s" "pl_unsubscribers (in_life f s) = pl_unsubscribers s"
  "pl_button (in_life f s) = pl_button s" "pl_menu (in_life f s) = pl_menu s"
  "pl_currChannelId (in_life f s) = pl_currChannelId s" "pl_world (in_life f s) = f (pl_world s)"
  "pl_joinCallParam (in_life f s) = pl_joinCallParam s"
  by (simp_all add: in_life_def)

lemma unhook_simps [simp]:
  "set (pl_hooks (unhook h s)) = set (pl_hooks s) - {h}"
  "pl_unsubscribers (unhook h s) = pl_unsubscribers s"
  "pl_button (unhook h s) = pl_button s" "pl_menu (unhook h s) = pl_menu s"
  "pl_world (unhook h s) = pl_world s" "pl_currChannelId (unhook h s) = pl_currChannelId s"
  "pl_joinCallParam (unhook h s) = pl_joinCallParam s"
  by (simp_all add: unhook_def)

text \<open>Orderliness reads only what is registered and how to take it back.\<close>

lemma orderly_cong:
  assumes "pl_hooks s' = pl_hooks s" "pl_unsubscribers s' = pl_unsubscribers s" "pl_button s' = pl_button s" "pl_menu s' = pl_menu s"
  shows "hooks_orderly s' = hooks_orderly s"
proof -
  have "accounted s' h = accounted s h" for h by (cases h) (simp_all add: accounted_def assms)
  then show ?thesis by (simp add: hooks_orderly_def assms)
qed

lemma orderly_in_life [simp]: "hooks_orderly (in_life f s) = hooks_orderly s"
  by (rule orderly_cong) simp_all

lemma filter_removeAll: "length (filter P (removeAll x xs)) \<le> length (filter P xs)"
  by (induction xs) auto

lemma orderly_unhook:
  assumes "hooks_orderly s"
  shows "hooks_orderly (unhook h s)"
proof -
  have "accounted (unhook h s) h'" if "h' \<in> set (pl_hooks s)" for h'
    by (rule accounted_mono [of s]) (use assms that in \<open>simp_all add: hooks_orderly_def\<close>)
  then show ?thesis
    using assms filter_removeAll [of is_menu h "pl_hooks s"] by (simp add: hooks_orderly_def) (simp add: unhook_def)
qed

lemma orderly_push:
  assumes "hooks_orderly s"
  shows "hooks_orderly (push_unsubscriber u s)"
proof -
  have "accounted (push_unsubscriber u s) h" if "h \<in> set (pl_hooks s)" for h
    by (rule accounted_mono [of s]) (use assms that in \<open>auto simp: hooks_orderly_def push_unsubscriber_def\<close>)
  then show ?thesis using assms by (simp add: hooks_orderly_def push_unsubscriber_def)
qed

lemma orderly_hook_up:
  assumes "hooks_orderly s" "accounted s h" "\<not> is_menu h"
  shows "hooks_orderly (hook_up h s)"
proof -
  have "accounted (hook_up h s) h'" if "h' = h \<or> h' \<in> set (pl_hooks s)" for h'
    by (rule accounted_mono [of s]) (use assms that in \<open>auto simp: hooks_orderly_def hook_up_def\<close>)
  then show ?thesis using assms by (simp add: hooks_orderly_def) (simp add: hook_up_def)
qed

lemma orderly_hook:
  assumes "hooks_orderly s" "\<not> is_menu h" "\<And>i. h \<noteq> CallButton i"
  shows "hooks_orderly (hook_with_unsubscriber h s)"
proof -
  have "hook_with_unsubscriber h s = hook_up h (push_unsubscriber (Drop h) s)"
    by (simp add: hook_with_unsubscriber_def hook_up_def push_unsubscriber_def)
  moreover have "accounted (push_unsubscriber (Drop h) s) h"
    using assms(2,3) by (cases h) (auto simp: accounted_def push_unsubscriber_def)
  ultimately show ?thesis using orderly_hook_up [OF orderly_push [OF assms(1)]] assms(2) by simp
qed

lemma orderly_button:
  assumes "hooks_orderly s"
  shows "hooks_orderly (unregisterChannelHeaderMenuButton s)"
proof (cases "pl_button s")
  case (Some i)
  let ?u = "unhook (CallButton i) s"
  have o: "hooks_orderly ?u" by (rule orderly_unhook [OF assms])
  have "accounted (?u\<lparr>pl_button := None\<rparr>) h" if "h \<in> set (pl_hooks ?u)" for h
  proof -
    have "accounted ?u h" using o that by (simp add: hooks_orderly_def)
    moreover have "accounted s h" using assms that by (simp add: hooks_orderly_def)
    ultimately show ?thesis using that Some by (cases h) (auto simp: accounted_def)
  qed
  with o show ?thesis by (simp add: unregisterChannelHeaderMenuButton_def Some hooks_orderly_def)
qed (simp add: unregisterChannelHeaderMenuButton_def assms)

lemma orderly_unregister_menu:
  assumes "hooks_orderly s"
  shows "hooks_orderly (unregister_header_menu s)" "filter is_menu (pl_hooks (unregister_header_menu s)) = []"
proof -
  show "hooks_orderly (unregister_header_menu s)"
    by (cases "pl_menu s") (simp_all add: unregister_header_menu_def orderly_unhook assms)
  have a: "pl_menu s = Some i" if "HeaderMenu i \<in> set (pl_hooks s)" for i
    using assms that by (force simp: hooks_orderly_def accounted_def)
  have "HeaderMenu i \<notin> set (pl_hooks (unregister_header_menu s))" for i
    using a by (cases "pl_menu s") (auto simp: unregister_header_menu_def)
  then show "filter is_menu (pl_hooks (unregister_header_menu s)) = []"
    unfolding filter_empty_conv by (auto simp: is_menu_iff)
qed

lemma orderly_register_menu:
  assumes "hooks_orderly s" "filter is_menu (pl_hooks s) = []"
  shows "hooks_orderly (registerChannelHeaderMenuAction s)"
proof -
  let ?r = "registerChannelHeaderMenuAction s"
  have no: "\<not> is_menu h" if "h \<in> set (pl_hooks s)" for h
    using assms(2) that by (simp add: filter_empty_conv)
  have "accounted ?r h" if "h \<in> set (pl_hooks s)" for h
  proof -
    have "accounted s h" using assms(1) that by (simp add: hooks_orderly_def)
    with no [OF that] show ?thesis
      by (cases h) (auto simp: accounted_def registerChannelHeaderMenuAction_def hook_up_def)
  qed
  then show ?thesis
    using assms(2) by (simp add: hooks_orderly_def registerChannelHeaderMenuAction_def hook_up_def) (simp add: accounted_def)
qed

lemma orderly_menu_if_needed: "hooks_orderly s \<Longrightarrow> hooks_orderly (registerHeaderMenuComponentIfNeeded ch s)"
  using orderly_unregister_menu [of s] orderly_unregister_menu(1) [of "unregister_header_menu s"]
    orderly_register_menu [of "unregister_header_menu s"]
  by (simp add: registerHeaderMenuComponentIfNeeded_def Let_def split: sum.split)

lemma menu_if_needed_simps [simp]:
  "pl_world (registerHeaderMenuComponentIfNeeded ch s) = pl_world s"
  "pl_currChannelId (registerHeaderMenuComponentIfNeeded ch s) = pl_currChannelId s"
  "pl_joinCallParam (registerHeaderMenuComponentIfNeeded ch s) = pl_joinCallParam s"
  "pl_unsubscribers (registerHeaderMenuComponentIfNeeded ch s) = pl_unsubscribers s"
  "pl_button (registerHeaderMenuComponentIfNeeded ch s) = pl_button s"
  by (auto simp: registerHeaderMenuComponentIfNeeded_def unregister_header_menu_def registerChannelHeaderMenuAction_def
      hook_up_def Let_def split: sum.split option.split)

lemma menu_if_needed_hooks:
  "set (pl_hooks (registerHeaderMenuComponentIfNeeded ch s)) \<subseteq> set (pl_hooks s) \<union> range HeaderMenu"
  "h \<in> set (pl_hooks s) \<Longrightarrow> \<not> is_menu h \<Longrightarrow> h \<in> set (pl_hooks (registerHeaderMenuComponentIfNeeded ch s))"
  by (auto simp: registerHeaderMenuComponentIfNeeded_def unregister_header_menu_def registerChannelHeaderMenuAction_def
      hook_up_def Let_def split: sum.split option.split)

text \<open>The listeners.\<close>

lemma orderly_fields [simp]:
  "hooks_orderly (s\<lparr>pl_world := w\<rparr>) = hooks_orderly s"
  "hooks_orderly (s\<lparr>pl_configuring := cs\<rparr>) = hooks_orderly s"
  "hooks_orderly (s\<lparr>pl_fetching := fs\<rparr>) = hooks_orderly s"
  "hooks_orderly (s\<lparr>pl_menuRequests := rs\<rparr>) = hooks_orderly s"
  "hooks_orderly (s\<lparr>pl_currChannelId := c\<rparr>) = hooks_orderly s"
  "hooks_orderly (s\<lparr>pl_joinCallParam := b\<rparr>) = hooks_orderly s"
  by (rule orderly_cong; simp)+

lemma orderly_onActivate: "hooks_orderly s \<Longrightarrow> hooks_orderly (run_onActivate b s)"
  by (simp add: run_onActivate_def Let_def orderly_unhook)

lemma orderly_store_listener: "hooks_orderly s \<Longrightarrow> hooks_orderly (store_listener env s)"
  by (simp add: store_listener_def Let_def orderly_menu_if_needed)

lemma orderly_notify: "hooks_orderly s \<Longrightarrow> hooks_orderly (notify env s)"
  by (simp add: notify_def orderly_store_listener activate_listener_def orderly_onActivate)

text \<open>Taking back: a hook that is dropped is gone, and nothing but the menu of the header can come.\<close>

lemma store_listener_hooks: "set (pl_hooks (store_listener env s)) \<subseteq> set (pl_hooks s) \<union> range HeaderMenu"
proof -
  let ?ch = "g_currentChannelId (w_host (pl_world s))"
  have "set (pl_hooks (registerHeaderMenuComponentIfNeeded ?ch (s\<lparr>pl_currChannelId := ?ch\<rparr>))) \<subseteq> set (pl_hooks s) \<union> range HeaderMenu"
    using menu_if_needed_hooks(1) [of ?ch "s\<lparr>pl_currChannelId := ?ch\<rparr>"] by simp
  then show ?thesis by (simp add: store_listener_def Let_def)
qed

lemma activate_listener_hooks: "set (pl_hooks (activate_listener s)) \<subseteq> set (pl_hooks s)"
  by (auto simp: activate_listener_def run_onActivate_def Let_def)

lemma notify_hooks: "set (pl_hooks (notify env s)) \<subseteq> set (pl_hooks s) \<union> range HeaderMenu"
  using store_listener_hooks [of env "activate_listener s"] activate_listener_hooks [of s] by (auto simp: notify_def)

lemma notify_button [simp]:
  "pl_button (notify env s) = pl_button s" "pl_unsubscribers (notify env s) = pl_unsubscribers s"
  by (simp_all add: notify_def store_listener_def activate_listener_def run_onActivate_def Let_def)

lemma unsubscribe_hooks: "set (pl_hooks (unsubscribe env u s)) \<subseteq> set (pl_hooks s) \<union> range HeaderMenu"
  using notify_hooks [of env "in_life deactivate s"]
  by (auto simp: unsubscribe_def unregisterChannelHeaderMenuButton_def split: unsubscriber.split option.split)

lemma unsubscribe_drops: "\<not> is_menu h \<Longrightarrow> h \<notin> set (pl_hooks (unsubscribe env (Drop h) s))"
  by (simp add: unsubscribe_def)

definition only_button :: "plugin_life \<Rightarrow> bool" where
  "only_button s \<longleftrightarrow> (\<forall>i. CallButton i \<in> set (pl_hooks s) \<longrightarrow> pl_button s = Some i)"

lemma unsubscribe_button:
  assumes "only_button s"
  shows "only_button (unsubscribe env u s)" "CallButton i \<notin> set (pl_hooks (unsubscribe env DropButton s))"
proof -
  show "CallButton i \<notin> set (pl_hooks (unsubscribe env DropButton s))"
    using assms by (cases "pl_button s") (auto simp: unsubscribe_def unregisterChannelHeaderMenuButton_def only_button_def)
  have n: "CallButton i \<in> set (pl_hooks s)" if "CallButton i \<in> set (pl_hooks (notify env (in_life deactivate s)))" for i
    using notify_hooks [of env "in_life deactivate s"] that by auto
  show "only_button (unsubscribe env u s)"
    using assms n
    by (cases u; cases "pl_button s") (auto simp: unsubscribe_def unregisterChannelHeaderMenuButton_def only_button_def)
qed

lemma fold_unsubscribe_hooks: "set (pl_hooks (fold (unsubscribe env) us s)) \<subseteq> set (pl_hooks s) \<union> range HeaderMenu"
proof (induction us arbitrary: s)
  case (Cons u us)
  from Cons.IH [of "unsubscribe env u s"] unsubscribe_hooks [of env u s] show ?case by auto
qed simp

lemma fold_unsubscribe_drops:
  "Drop h \<in> set us \<Longrightarrow> \<not> is_menu h \<Longrightarrow> h \<notin> set (pl_hooks (fold (unsubscribe env) us s))"
proof (induction us arbitrary: s)
  case (Cons u us)
  show ?case
  proof (cases "u = Drop h")
    case True
    then show ?thesis
      using fold_unsubscribe_hooks [of env us "unsubscribe env u s"] unsubscribe_drops [OF Cons.prems(2), of env s]
        Cons.prems(2) by (auto simp: is_menu_iff)
  next
    case False
    with Cons.prems show ?thesis using Cons.IH [OF _ Cons.prems(2)] by simp
  qed
qed simp

lemma fold_unsubscribe_button:
  "DropButton \<in> set us \<Longrightarrow> only_button s \<Longrightarrow> CallButton i \<notin> set (pl_hooks (fold (unsubscribe env) us s))"
proof (induction us arbitrary: s)
  case (Cons u us)
  show ?case
  proof (cases "u = DropButton")
    case True
    then show ?thesis
      using fold_unsubscribe_hooks [of env us "unsubscribe env u s"] unsubscribe_button(2) [OF Cons.prems(2), of i env]
      by auto
  next
    case False
    with Cons.prems show ?thesis using Cons.IH [OF _ unsubscribe_button(1)] by simp
  qed
qed simp

lemma orderly_unsubscribe_hooks:
  assumes "hooks_orderly s"
  shows "set (pl_hooks (fold (unsubscribe env) (pl_unsubscribers s) s)) \<subseteq> {ActivateListener} \<union> range HeaderMenu"
proof
  fix h assume h: "h \<in> set (pl_hooks (fold (unsubscribe env) (pl_unsubscribers s) s))"
  have b: "only_button s" using assms by (auto simp: only_button_def hooks_orderly_def accounted_def)
  have "h \<in> range HeaderMenu \<or> h \<in> set (pl_hooks s)"
    using h fold_unsubscribe_hooks [of env "pl_unsubscribers s" s] by auto
  moreover have "accounted s h" if "h \<in> set (pl_hooks s)" using assms that by (simp add: hooks_orderly_def)
  moreover note fold_unsubscribe_drops [of h "pl_unsubscribers s" env s] fold_unsubscribe_button [OF _ b, of "pl_unsubscribers s" _ env] h
  ultimately show "h \<in> {ActivateListener} \<union> range HeaderMenu"
    by (cases h) (auto simp: accounted_def)
qed


lemma orderly_unsubscribe:
  assumes "hooks_orderly s"
  shows "hooks_orderly (unsubscribe env u s)"
  by (cases u) (simp_all add: unsubscribe_def assms orderly_unhook orderly_button orderly_notify)

lemma orderly_fold_unsubscribe: "hooks_orderly s \<Longrightarrow> hooks_orderly (fold (unsubscribe env) us s)"
  by (induction us arbitrary: s) (simp_all add: orderly_unsubscribe)

lemma orderly_uninitialize:
  assumes "hooks_orderly s"
  shows "hooks_orderly (uninitialize env s)"
proof -
  let ?f = "fold (unsubscribe env) (pl_unsubscribers s) s"
  have o: "hooks_orderly ?f" by (rule orderly_fold_unsubscribe [OF assms])
  have "accounted (?f\<lparr>pl_unsubscribers := []\<rparr>) h" if "h \<in> set (pl_hooks ?f)" for h
  proof -
    have "accounted ?f h" using o that by (simp add: hooks_orderly_def)
    then show ?thesis using orderly_unsubscribe_hooks [OF assms, of env] that by (auto simp: accounted_def)
  qed
  with o show ?thesis by (simp add: uninitialize_def hooks_orderly_def)
qed

lemma hook_with_unsubscriber_simps [simp]:
  "set (pl_hooks (hook_with_unsubscriber h s)) = insert h (set (pl_hooks s))"
  "set (pl_unsubscribers (hook_with_unsubscriber h s)) = insert (Drop h) (set (pl_unsubscribers s))"
  "pl_button (hook_with_unsubscriber h s) = pl_button s" "pl_menu (hook_with_unsubscriber h s) = pl_menu s"
  "pl_world (hook_with_unsubscriber h s) = pl_world s"
  "pl_currChannelId (hook_with_unsubscriber h s) = pl_currChannelId s"
  "pl_joinCallParam (hook_with_unsubscriber h s) = pl_joinCallParam s"
  by (auto simp: hook_with_unsubscriber_def push_unsubscriber_def hook_up_def)

lemma push_simps [simp]:
  "set (pl_hooks (push_unsubscriber u s)) = set (pl_hooks s)"
  "set (pl_unsubscribers (push_unsubscriber u s)) = insert u (set (pl_unsubscribers s))"
  "pl_button (push_unsubscriber u s) = pl_button s" "pl_menu (push_unsubscriber u s) = pl_menu s"
  "pl_world (push_unsubscriber u s) = pl_world s"
  by (auto simp: push_unsubscriber_def)

lemma desktop_handlers_kept:
  assumes "hooks_orderly s"
  shows "hooks_orderly (register_desktop_handlers dk s) \<and> pl_button (register_desktop_handlers dk s) = pl_button s \<and>
     pl_menu (register_desktop_handlers dk s) = pl_menu s"
proof -
  have "hooks_orderly (fold (\<lambda>f s. if has_api dk f then hook_with_unsubscriber (DesktopHandler f) s else s) fs s) \<and>
     pl_button (fold (\<lambda>f s. if has_api dk f then hook_with_unsubscriber (DesktopHandler f) s else s) fs s) = pl_button s \<and>
     pl_menu (fold (\<lambda>f s. if has_api dk f then hook_with_unsubscriber (DesktopHandler f) s else s) fs s) = pl_menu s" for fs
    using assms by (induction fs arbitrary: s) (simp_all add: orderly_hook)
  then show ?thesis by (simp add: register_desktop_handlers_def)
qed

lemma orderly_register_button:
  assumes "hooks_orderly s" "DropButton \<in> set (pl_unsubscribers s)"
  shows "hooks_orderly (registerChannelHeaderMenuButton s)"
proof (cases "pl_button s")
  case None
  let ?n = "pl_nextID s"
  let ?s = "s\<lparr>pl_button := Some ?n\<rparr>"
  have "accounted ?s h" if "h \<in> set (pl_hooks s)" for h
  proof -
    have "accounted s h" using assms(1) that by (simp add: hooks_orderly_def)
    with None show ?thesis by (cases h) (auto simp: accounted_def)
  qed
  then have o: "hooks_orderly ?s" using assms(1) by (simp add: hooks_orderly_def)
  have "hooks_orderly (hook_up (CallButton ?n) ?s)"
    by (rule orderly_hook_up [OF o]) (simp_all add: accounted_def assms(2))
  moreover have "hooks_orderly (registerChannelHeaderMenuButton s) = hooks_orderly (hook_up (CallButton ?n) ?s)"
    by (rule orderly_cong) (simp_all add: registerChannelHeaderMenuButton_def None hook_up_def)
  ultimately show ?thesis by simp
qed (simp add: registerChannelHeaderMenuButton_def assms(1))

lemma same_button: "pl_button s = None \<Longrightarrow> s\<lparr>pl_button := None\<rparr> = s"
  by simp

lemma register_button_menu [simp]: "pl_menu (registerChannelHeaderMenuButton s) = pl_menu s"
  by (simp add: registerChannelHeaderMenuButton_def hook_up_def)

lemma orderly_initialize:
  assumes "not_loaded s"
  shows "hooks_orderly (initialize env s)"
proof -
  have o0: "hooks_orderly s" "pl_button s = None" "pl_menu s = None" "RootElement \<notin> set (pl_hooks s)"
    using assms by (simp_all add: not_loaded_def hooks_orderly_def)
  define s1 where "s1 = hook_with_unsubscriber RootElement s"
  have o1: "hooks_orderly s1" "pl_button s1 = None" "pl_menu s1 = None"
    by (simp_all add: s1_def o0 orderly_hook)
  define s2 where "s2 = hook_with_unsubscriber LinkLabel (if le_desktop env then hook_with_unsubscriber WidgetChannel s1 else s1)"
  have o2: "hooks_orderly s2" "pl_button s2 = None" "pl_menu s2 = None"
    by (simp_all add: s2_def o1 orderly_hook)
  define s3 where "s3 = registerChannelHeaderMenuButton (push_unsubscriber DropButton s2)"
  have o3: "hooks_orderly s3" "pl_menu s3 = None"
    by (simp_all add: s3_def o2 orderly_push orderly_register_button)
  define s4 where "s4 = hook_with_unsubscriber MessageListener (register_desktop_handlers (le_dk env) s3)"
  have o4: "hooks_orderly s4" "pl_menu s4 = None"
    using desktop_handlers_kept [OF o3(1), of "le_dk env"] o3(2) by (simp_all add: s4_def orderly_hook)
  define s5 where "s5 = push_unsubscriber DisconnectAndReset (hook_up ActivateListener s4)"
  have o5: "hooks_orderly s5"
    unfolding s5_def by (rule orderly_push, rule orderly_hook_up [OF o4(1)]) (simp_all add: accounted_def)
  have e1: "push_unsubscriber (Drop RootElement) (if RootElement \<in> set (pl_hooks s) then s else hook_up RootElement s) = s1"
    by (simp add: s1_def o0 hook_with_unsubscriber_def)
  have e2: "s2\<lparr>pl_button := None\<rparr> = s2" and e4: "s4\<lparr>pl_menu := None\<rparr> = s4"
    by (simp_all add: o2 o4)
  have "initialize env s = hook_with_unsubscriber KeyListener (hook_with_unsubscriber StoreListener
      (s5\<lparr>pl_currChannelId := g_currentChannelId (w_host (pl_world s5)), pl_joinCallParam := le_joinParam env\<rparr>))"
    unfolding initialize_parts Let_def e1 s2_def [symmetric] e2 s3_def [symmetric] s4_def [symmetric] e4 s5_def [symmetric] ..
  then show ?thesis by (simp add: o5 orderly_hook)
qed

lemma orderly_guarded: "hooks_orderly s \<Longrightarrow> (\<And>s. hooks_orderly s \<Longrightarrow> hooks_orderly (f s)) \<Longrightarrow> hooks_orderly (guarded h f s)"
  by (simp add: guarded_def)

lemma orderly_event: "hooks_orderly s \<Longrightarrow> hooks_orderly (life_event_step env e s)"
  by (cases e)
    (auto simp: activation_configured_def activation_fetched_def header_menu_click_def header_menu_answer_def mount_dummy_def
      ws_reconnected_def Let_def orderly_menu_if_needed orderly_hook orderly_onActivate orderly_uninitialize
      split: list.split option.split intro!: orderly_guarded)

lemma life_reach_orderly: "life_reach env s \<Longrightarrow> hooks_orderly s"
  by (induction rule: life_reach.induct) (simp_all add: orderly_initialize orderly_notify orderly_event)

text \<open>The channel the plugin remembers is the one the store has, whenever the listeners have run.\<close>

lemma connectCall_host [simp]: "w_host (connectCall dk url ch title root w) = w_host w"
  by (simp add: connectCall_def connectCall_client_def sendDesktopEvent_def setClientConnecting_def Let_def world_step_defs)

lemma notify_up_to_date: "up_to_date (notify env s)"
  by (auto simp: notify_def store_listener_def up_to_date_def Let_def)

lemma initialize_up_to_date: "up_to_date (initialize env s)"
  by (simp add: initialize_parts up_to_date_def Let_def)

lemma life_reach_up_to_date: "life_reach env s \<Longrightarrow> up_to_date s"
  by (induction rule: life_reach.induct) (simp_all add: initialize_up_to_date notify_up_to_date)

text \<open>The client is gone and the client state of the desktop widget cleared.\<close>

definition no_client :: "world \<Rightarrow> bool" where
  "no_client w \<longleftrightarrow> w_own w = None \<and> s_clientStateReducer (w_plugin w) = None"

lemma deactivate_no_client: "no_client (deactivate w)"
  by (simp add: no_client_def deactivate_def own_disconnect_client)

lemma deactivate_host [simp]: "w_host (deactivate w) = w_host w"
  by (simp add: deactivate_def)

lemma onActivate_no_client: "no_client (onActivate w) = no_client w" "w_host (onActivate w) = w_host w"
  by (simp_all add: onActivate_def no_client_def Let_def)

lemma notify_no_client:
  assumes "up_to_date s" "no_client (pl_world s)"
  shows "no_client (pl_world (notify env s))"
proof -
  have a: "no_client (pl_world (activate_listener s)) \<and> up_to_date (activate_listener s)"
    using assms by (auto simp: activate_listener_def run_onActivate_def up_to_date_def onActivate_no_client Let_def)
  have "store_listener env t = t" if "up_to_date t" for t
    using that by (auto simp: store_listener_def up_to_date_def Let_def)
  with a show ?thesis by (simp add: notify_def)
qed

lemma unsubscribe_no_client:
  assumes "up_to_date s" "u = DisconnectAndReset \<or> no_client (pl_world s)"
  shows "up_to_date (unsubscribe env u s) \<and> no_client (pl_world (unsubscribe env u s))"
proof (cases u)
  case DisconnectAndReset
  have "up_to_date (in_life deactivate s)" using assms(1) by (simp add: up_to_date_def)
  then show ?thesis
    by (simp add: DisconnectAndReset unsubscribe_def notify_up_to_date notify_no_client deactivate_no_client)
qed (use assms in \<open>auto simp: unsubscribe_def unregisterChannelHeaderMenuButton_def up_to_date_def split: option.split\<close>)

lemma unsubscribe_up_to_date: "up_to_date s \<Longrightarrow> up_to_date (unsubscribe env u s)"
  by (cases u)
    (auto simp: unsubscribe_def unregisterChannelHeaderMenuButton_def up_to_date_def notify_up_to_date [unfolded up_to_date_def]
      split: option.split)

lemma fold_unsubscribe_no_client:
  "up_to_date s \<Longrightarrow> DisconnectAndReset \<in> set us \<or> no_client (pl_world s) \<Longrightarrow> no_client (pl_world (fold (unsubscribe env) us s))"
proof (induction us arbitrary: s)
  case (Cons u us)
  show ?case
  proof (cases "u = DisconnectAndReset \<or> no_client (pl_world s)")
    case True
    from unsubscribe_no_client [OF Cons.prems(1) this, of env] show ?thesis using Cons.IH by simp
  next
    case False
    with Cons.prems show ?thesis using Cons.IH [OF unsubscribe_up_to_date [OF Cons.prems(1), of env u]] by auto
  qed
qed simp

section \<open>Properties\<close>


text \<open>A desktop window whose application has the handler for joins and no other, and its life up to a login.\<close>

definition sample_env_desktop :: life_env where
  "sample_env_desktop =
     \<lparr>le_desktop = True, le_dk = \<lparr>dk_version = Some (5, 8), dk_userAgent = True, dk_api = [''onJoinCallRequest'']\<rparr>,
      le_url = '''', le_mac = False, le_joinParam = True, le_productApi = True, le_settingsApi = True,
      le_slash = (\<lambda>_ _ w. (Handled, w))\<rparr>"

definition sample_unloaded :: plugin_life where
  "sample_unloaded =
     \<lparr>pl_world = sample_joined\<lparr>w_host := sample_host\<lparr>g_currentUserId := '''', g_isAdmin := True\<rparr>\<rparr>, pl_hooks = [], pl_unsubscribers = [],
      pl_nextID = 0, pl_button = None, pl_menu = None, pl_currChannelId = '''', pl_joinCallParam = False,
      pl_menuRequests = [], pl_configuring = [], pl_fetching = []\<rparr>"

definition life_run :: "life_env \<Rightarrow> life_event list \<Rightarrow> plugin_life \<Rightarrow> plugin_life" where
  "life_run env es s = fold (\<lambda>e s. notify env (life_event_step env e s)) es s"

lemma life_run_reach: "life_reach env s \<Longrightarrow> life_reach env (life_run env es s)"
  unfolding life_run_def by (induction es arbitrary: s) (simp_all add: life_reach.event)

definition sample_life :: plugin_life where
  "sample_life = life_run sample_env_desktop
     [LifeStore (sample_joined\<lparr>w_host := sample_host\<lparr>g_isAdmin := True\<rparr>\<rparr>), LifeConfigured, LifeFetched None, LifeMount]
     (initialize sample_env_desktop sample_unloaded)"


text \<open>
  The listener that waits for a login has no unsubscriber: after the plugin is taken down before anybody
  has logged in, the next login activates it all the same.
\<close>

lemma activates_after_uninitialize:
  "let t = uninitialize sample_env_desktop (initialize sample_env_desktop sample_unloaded);
       u = notify sample_env_desktop (life_event_step sample_env_desktop (LifeStore sample_joined) t)
   in pl_hooks t = [ActivateListener] \<and> pl_hooks u = [] \<and> pl_configuring u = [False]"
  by code_simp

text \<open>The messages of older desktop applications, and the calls of newer ones that took their place.\<close>

fun api_event :: "window_message \<Rightarrow> desktop_event option" where
  "api_event WmSourcesModal = Some DeOpenScreenShareModal"
| "api_event (WmJoinRequest callID) = Some (DeJoinCallRequest callID)"
| "api_event (WmClientError msg callID) = Some (DeCallsError ''client-error'' (Some callID) (Some msg))"
| "api_event _ = None"

lemma desktop_hooks:
  "DesktopHandler f \<in> set (pl_hooks (register_desktop_handlers dk s)) \<longleftrightarrow>
     DesktopHandler f \<in> set (pl_hooks s) \<or> f \<in> set desktop_handler_names \<and> has_api dk f"
proof -
  have "DesktopHandler f \<in> set (pl_hooks (fold (\<lambda>f s. if has_api dk f then hook_with_unsubscriber (DesktopHandler f) s else s) fs s)) \<longleftrightarrow>
      DesktopHandler f \<in> set (pl_hooks s) \<or> f \<in> set fs \<and> has_api dk f" for fs
    by (induction fs arbitrary: s) auto
  then show ?thesis by (simp add: register_desktop_handlers_def)
qed

lemma initialize_hooks:
  assumes "not_loaded s"
  shows "MessageListener \<in> set (pl_hooks (initialize env s))"
    "DesktopHandler f \<in> set (pl_hooks (initialize env s)) \<longleftrightarrow> f \<in> set desktop_handler_names \<and> has_api (le_dk env) f"
    "pl_world (initialize env s) = pl_world s"
proof -
  have w: "pl_world (register_desktop_handlers dk t) = pl_world t" for dk t
  proof -
    have "pl_world (fold (\<lambda>f s. if has_api dk f then hook_with_unsubscriber (DesktopHandler f) s else s) fs t) = pl_world t" for fs
      by (induction fs arbitrary: t) auto
    then show ?thesis by (simp add: register_desktop_handlers_def)
  qed
  show "MessageListener \<in> set (pl_hooks (initialize env s))"
    "DesktopHandler f \<in> set (pl_hooks (initialize env s)) \<longleftrightarrow> f \<in> set desktop_handler_names \<and> has_api (le_dk env) f"
    "pl_world (initialize env s) = pl_world s"
    using assms
    by (auto simp: initialize_parts Let_def hook_up_def desktop_hooks registerChannelHeaderMenuButton_def not_loaded_def w)
qed



text \<open>
  An error that is not the client's only ends the connecting state, and only over the call: the older message
  leaves the window connecting.
\<close>

lemma other_error_by_call:
  "err \<noteq> ''client-error'' \<Longrightarrow> desktop_handler env (DeCallsError err callID msg) w = setClientConnecting False w"
  by simp

text \<open>
  The menu of the header asks the server for the opposite setting of the current channel; an answer that comes
  while the channel is still current is stored for it, and for no other.
\<close>

lemma header_menu_toggles:
  fixes s :: plugin_life and b :: bool
  defines "t \<equiv> header_menu_answer (Some b) (header_menu_click s)"
  shows "Rest ''post'' (''/'' @ pl_currChannelId s)
       [(''enabled'', if callsExplicitlyDisabled (world_app (pl_world s)) (pl_currChannelId s) then ''true'' else ''false'')]
       \<in> set (w_effects (pl_world t))"
    "channelState (world_app (pl_world t)) (pl_currChannelId s) = Some \<lparr>ch_id = pl_currChannelId s, ch_enabled = Some b\<rparr>"
    "ch \<noteq> pl_currChannelId s \<Longrightarrow> channelState (world_app (pl_world t)) ch = channelState (world_app (pl_world s)) ch"
  by (auto simp: t_def header_menu_answer_def header_menu_click_def channelState_def Let_def in_life_def)

text \<open>An answer that comes after a change of channel is stored for the new channel, not the one it is about.\<close>

lemma header_menu_race:
  assumes "StoreListener \<in> set (pl_hooks s)" "pl_currChannelId s = a" "g_currentChannelId (w_host w) = c" "a \<noteq> c" "a \<noteq> ''''"
    and "ActivateListener \<notin> set (pl_hooks s)" "\<not> pl_joinCallParam s"
  shows "let t = header_menu_answer (Some b) (notify env (life_event_step env (LifeStore w) (header_menu_click s))) in
     channelState (world_app (pl_world t)) c = Some \<lparr>ch_id = c, ch_enabled = Some b\<rparr> \<and>
     channelState (world_app (pl_world t)) a = channelState (world_app w) a"
  using assms
  by (simp add: header_menu_answer_def header_menu_click_def notify_def activate_listener_def store_listener_def
      channelState_def in_life_def Let_def)

text \<open>
  The parameter of the address is used for the first channel that differs from the one at the start: with no
  channel yet that is the one the link leads to, otherwise the one the user changes to.
\<close>

lemma join_param_until_change:
  assumes "StoreListener \<in> set (pl_hooks s)" "pl_currChannelId s \<noteq> g_currentChannelId (w_host (pl_world s))"
  shows "\<not> pl_joinCallParam (store_listener env s)"
  using assms by (simp add: store_listener_def Let_def)

lemma join_param_other_channel:
  assumes "StoreListener \<in> set (pl_hooks s)" "pl_currChannelId s = a" "a \<noteq> ''''" "pl_joinCallParam s"
    and "g_currentChannelId (w_host (pl_world s)) = c" "c \<noteq> a" "c \<noteq> ''''" "channelIDForCurrentCall (world_app (pl_world s)) = ''''"
  shows "pl_world (store_listener env s) = connectCall (le_dk env) (le_url env) c '''' '''' (pl_world s)"
  using assms by (simp add: store_listener_def Let_def)

end
