(* ===== verification/Ice_Stats.thy ===== *)
theory Ice_Stats
  imports JS_Prelude
begin

text \<open>
  The statistics of the candidate pairs (\<open>collectICEStats\<close> of \<open>webapp/src/client.ts\<close>): from the
  creation of the peer, every two seconds and for at most thirty, the client reads the pairs and reports
  to the server each that has come to succeed. \<open>parseRTCStats\<close> is not part of the repository: what it
  gives, the pairs by state, is an argument of each poll, as are the clock and the connection.
\<close>

section \<open>One poll\<close>

text \<open>A candidate is its type and protocol; either side of a pair may be missing.\<close>

record ice_pair =
  ip_id :: string
  ip_state :: string
  ip_local :: "(string \<times> string) option"
  ip_remote :: "(string \<times> string) option"

type_synonym ice_metric = "string \<times> (string \<times> string) \<times> (string \<times> string)"

text \<open>
  The seen states, what has been sent, and whether a send has thrown because the socket is gone: then the rest
  of the poll is skipped.
\<close>

record ice_collect =
  ic_seen :: "string obj"
  ic_sent :: "(string \<times> ice_metric) list"
  ic_threw :: bool

definition gather_pair :: "bool \<Rightarrow> string \<Rightarrow> ice_pair \<Rightarrow> ice_collect \<Rightarrow> ice_collect" where
  "gather_pair ws state pair s0 =
     (if ic_threw s0 then s0
      else
        let seenState = obj_get (ic_seen s0) (ip_id pair);
            s = s0\<lparr>ic_seen := obj_set (ip_id pair) (ip_state pair) (ic_seen s0)\<rparr>
        in if seenState = Some ''succeeded'' \<or> state \<noteq> ''succeeded'' then s
           else case (ip_local pair, ip_remote pair) of
                  (Some l, Some r) \<Rightarrow>
                    if ws then s\<lparr>ic_sent := ic_sent s @ [(ip_id pair, ip_state pair, l, r)]\<rparr> else s\<lparr>ic_threw := True\<rparr>
                | _ \<Rightarrow> s)"

definition gather_states :: "bool \<Rightarrow> (string \<times> ice_pair list) list \<Rightarrow> ice_collect \<Rightarrow> ice_collect" where
  "gather_states ws stats s = fold (\<lambda>(state, pairs). fold (gather_pair ws state) pairs) stats (s\<lparr>ic_threw := False\<rparr>)"

text \<open>
  A poll: whether socket and peer are there when it starts, what the statistics are (\<open>None\<close> when reading them
  fails), whether the socket is there when they have come, and the time then.
\<close>

record ice_poll =
  pn_open :: bool
  pn_stats :: "(string \<times> ice_pair list) list option"
  pn_ws :: bool
  pn_time :: int

definition gatherStats :: "int \<Rightarrow> ice_poll \<Rightarrow> ice_collect \<Rightarrow> ice_collect \<times> bool" where
  "gatherStats start p s =
     (if \<not> pn_open p then (s, False)
      else
        (case pn_stats p of None \<Rightarrow> s | Some stats \<Rightarrow> gather_states (pn_ws p) stats s,
         pn_time p < start + 30000))"

section \<open>The loop\<close>

text \<open>
  The polls as they come: the result is the collector, how many polls were made, and whether a timer is still
  set. A poll takes any time, and the next starts two seconds after it or later.
\<close>

fun ice_loop :: "int \<Rightarrow> ice_poll list \<Rightarrow> ice_collect \<Rightarrow> ice_collect \<times> nat \<times> bool" where
  "ice_loop start [] s = (s, 0, True)"
| "ice_loop start (p # ps) s =
     (let (s', again) = gatherStats start p s
      in if again then (let (s'', n, waiting) = ice_loop start ps s' in (s'', Suc n, waiting)) else (s', 1, False))"

definition collectICEStats :: "int \<Rightarrow> ice_poll list \<Rightarrow> ice_collect \<times> nat \<times> bool" where
  "collectICEStats start ps = ice_loop start ps \<lparr>ic_seen = [], ic_sent = [], ic_threw = False\<rparr>"

fun clocked :: "int \<Rightarrow> ice_poll list \<Rightarrow> bool" where
  "clocked earliest [] = True"
| "clocked earliest (p # ps) = (earliest \<le> pn_time p \<and> clocked (pn_time p + 2000) ps)"

lemma clocked_earlier: "clocked t ps \<Longrightarrow> u \<le> t \<Longrightarrow> clocked u ps"
  by (cases ps) auto

text \<open>From a time \<open>k\<close> intervals after the start at most \<open>16 - k\<close> polls follow, and as many are enough.\<close>

lemma ice_loop_bound:
  assumes "clocked (start + 2000 * int k) ps" "k \<le> 15"
  shows "fst (snd (ice_loop start ps s)) \<le> 16 - k" "16 - k \<le> length ps \<Longrightarrow> \<not> snd (snd (ice_loop start ps s))"
proof -
  have "fst (snd (ice_loop start ps s)) \<le> 16 - k \<and> (16 - k \<le> length ps \<longrightarrow> \<not> snd (snd (ice_loop start ps s)))"
    using assms
  proof (induction ps arbitrary: k s)
    case (Cons p ps)
    show ?case
    proof (cases "snd (gatherStats start p s)")
      case True
      then have t: "pn_time p < start + 30000" by (auto simp: gatherStats_def split: if_splits)
      with Cons.prems have k: "k < 15" "clocked (start + 2000 * int (Suc k)) ps"
        by (auto intro: clocked_earlier)
      then have "fst (snd (ice_loop start ps s')) \<le> 16 - Suc k \<and>
          (16 - Suc k \<le> length ps \<longrightarrow> \<not> snd (snd (ice_loop start ps s')))" for s'
        using Cons.IH [OF k(2)] by simp
      with k(1) True show ?thesis
        by (simp add: split_beta Let_def) (use Suc_diff_Suc [of k 16] in \<open>auto simp: le_diff_conv2\<close>)
    next
      case False
      with Cons.prems show ?thesis by (simp add: split_beta Let_def)
    qed
  qed simp
  then show "fst (snd (ice_loop start ps s)) \<le> 16 - k" "16 - k \<le> length ps \<Longrightarrow> \<not> snd (snd (ice_loop start ps s))"
    by simp_all
qed

text \<open>
  C37. However long each reading of the statistics takes and whatever it gives, the polling ends: at most
  sixteen polls are made, and after sixteen no timer is left.
\<close>

theorem ice_stats_end:
  assumes "clocked start ps"
  shows "fst (snd (collectICEStats start ps)) \<le> 16 \<and>
    (if 16 \<le> length ps then \<not> snd (snd (collectICEStats start ps)) else True)"
  using ice_loop_bound [of start 0 ps] assms by (simp add: collectICEStats_def)

definition sample_poll :: "int \<Rightarrow> ice_poll" where
  "sample_poll t =
     \<lparr>pn_open = True,
      pn_stats = Some [(''succeeded'', [\<lparr>ip_id = ''p'', ip_state = ''succeeded'', ip_local = Some (''host'', ''udp''),
        ip_remote = Some (''srflx'', ''udp'')\<rparr>])],
      pn_ws = True, pn_time = t\<rparr>"

theorem ice_stats_end_witness:
  "let ps = map (\<lambda>i. sample_poll (2000 * int i)) [0..<20]; r = collectICEStats 0 ps in
     fst (snd r) = 16 \<and> \<not> snd (snd r) \<and> map fst (ic_sent (fst r)) = [''p'']"
proof -
  let ?ps = "map (\<lambda>i. sample_poll (2000 * int i)) [0..<20]"
  have "clocked 0 ?ps" by code_simp
  from ice_stats_end [OF this] have "\<not> snd (snd (collectICEStats 0 ?ps))" by simp
  moreover have "fst (snd (collectICEStats 0 ?ps)) = 16" "map fst (ic_sent (fst (collectICEStats 0 ?ps))) = [''p'']"
    by code_simp+
  ultimately show ?thesis by (simp add: Let_def)
qed

section \<open>What is reported\<close>

text \<open>
  A pair is reported exactly when it succeeds, was not seen to succeed before, and has both candidates. One that
  is first seen to succeed without them is not reported when they are known.
\<close>

lemma reported_iff:
  assumes "\<not> ic_threw s" "ws"
  shows "(\<exists>m. ic_sent (gather_pair ws st p s) = ic_sent s @ [(ip_id p, m)]) \<longleftrightarrow>
    st = ''succeeded'' \<and> obj_get (ic_seen s) (ip_id p) \<noteq> Some ''succeeded'' \<and> ip_local p \<noteq> None \<and> ip_remote p \<noteq> None"
  using assms by (auto simp: gather_pair_def Let_def split: option.splits)

lemma late_candidates_not_reported:
  assumes "\<not> ic_threw s" "ip_local p = None" "ip_state p = ''succeeded''" "ip_id q = ip_id p"
  shows "ic_sent (gather_pair ws ''succeeded'' q (gather_pair ws ''succeeded'' p s)) = ic_sent s"
  using assms by (simp add: gather_pair_def Let_def split: option.splits)

end
