(* ===== verification/Page_Utils.thy ===== *)
theory Page_Utils
  imports Call_Windows
begin

text \<open>
  The helpers of \<open>webapp/src/utils.ts\<close> that read the page, and what the expanded view selects from the
  store (\<open>expanded_view/index.ts\<close>): addresses, the resolution of the screen, the stream of a shared
  screen, profiles that may be missing, sounds, translations, times and the platform. What they read of
  the browser and of the application is an argument.
\<close>

section \<open>Addresses\<close>

definition getPluginStaticPath :: "string \<Rightarrow> string" where
  "getPluginStaticPath basename = basename @ ''/static/plugins/com.mattermost.calls''"

definition getPluginPath :: "string \<Rightarrow> string" where
  "getPluginPath basename = basename @ ''/plugins/com.mattermost.calls''"

text \<open>The protocol and the host are those of the page; the version is the one of the REST client.\<close>

definition getWSConnectionURL :: "string \<Rightarrow> string \<Rightarrow> string \<Rightarrow> string \<Rightarrow> string option \<Rightarrow> string" where
  "getWSConnectionURL protocol hostname basename urlVersion websocketURL =
     (let uri = (if protocol = ''https:'' then ''wss:'' else ''ws:'');
          baseURL = str_or websocketURL (uri @ ''//'' @ hostname @ basename)
      in baseURL @ urlVersion @ ''/websocket'')"

definition getTeamRelativeURL :: "string option \<Rightarrow> string" where
  "getTeamRelativeURL teamName = (case teamName of None \<Rightarrow> '''' | Some n \<Rightarrow> ''/'' @ n)"

text \<open>
  \<open>teamURL\<close> is the relative address of the current team and \<open>redirect\<close> the channel a team opens with, both
  selectors of the application.
\<close>

definition getChannelURL :: "string \<Rightarrow> (string \<Rightarrow> string) \<Rightarrow> app \<Rightarrow> channel option \<Rightarrow> string option \<Rightarrow> string" where
  "getChannelURL teamURL redirect a ch teamId =
     (let team = (\<lambda>t. getTeamRelativeURL (obj_get (g_teams (host a)) t));
          tid = str_or teamId '''';
          url = (case ch of
                   Some c \<Rightarrow>
                     if c_type c = ''D'' \<or> c_type c = ''G'' then teamURL @ ''/channels/'' @ c_name c
                     else if tid \<noteq> '''' then team tid @ ''/channels/'' @ c_name c
                     else teamURL @ ''/channels/'' @ redirect (g_currentTeamId (host a))
                 | None \<Rightarrow>
                     if tid \<noteq> '''' then team tid @ ''/channels/'' @ redirect tid
                     else teamURL @ ''/channels/'' @ redirect (g_currentTeamId (host a)))
      in if starts_with ''//'' url then drop 1 url else url)"

text \<open>\<open>s.indexOf(p)\<close>, and the channel the address of a pop-out names.\<close>

fun indexOf :: "string \<Rightarrow> string \<Rightarrow> nat option" where
  "indexOf p [] = (if p = [] then Some 0 else None)"
| "indexOf p (c # s) = (if starts_with p (c # s) then Some 0 else map_option Suc (indexOf p s))"

definition expanded_pattern :: string where
  "expanded_pattern = ''com.mattermost.calls/expanded/''"

definition getExpandedChannelID :: "string \<Rightarrow> string" where
  "getExpandedChannelID pathname =
     (case indexOf expanded_pattern pathname of
        None \<Rightarrow> '''' | Some i \<Rightarrow> drop (i + length expanded_pattern) pathname)"

text \<open>Incoming calls are not rendered on the desktop in boards, playbooks or the pop-out.\<close>

definition shouldRenderCallsIncoming :: "bool \<Rightarrow> string \<Rightarrow> bool" where
  "shouldRenderCallsIncoming desktop pathname =
     (let nonChannels = starts_with ''/boards'' pathname \<or> starts_with ''/playbooks'' pathname
            \<or> includes_str expanded_pattern pathname
      in \<not> (desktop \<and> nonChannels))"

section \<open>Screen and media\<close>

text \<open>
  \<open>a || b || ... || 1\<close> on the ratios a canvas context may have; without a context the ratio of the device
  counts alone. Ratios are rational numbers here.
\<close>

fun first_truthy :: "rat option list \<Rightarrow> rat" where
  "first_truthy [] = 1"
| "first_truthy (x # xs) = (case x of None \<Rightarrow> first_truthy xs | Some r \<Rightarrow> if r = 0 then first_truthy xs else r)"

definition getPixelRatio :: "rat option \<Rightarrow> rat option list option \<Rightarrow> rat" where
  "getPixelRatio devicePixelRatio ctx =
     (let dpr = first_truthy [devicePixelRatio] in case ctx of None \<Rightarrow> dpr | Some rs \<Rightarrow> dpr / first_truthy rs)"

definition getScreenResolution :: "rat \<Rightarrow> int \<Rightarrow> int \<Rightarrow> int \<times> int" where
  "getScreenResolution pixelRatio screenWidth screenHeight =
     (\<lceil>pixelRatio * of_int screenWidth / 8\<rceil> * 8, \<lceil>pixelRatio * of_int screenHeight / 8\<rceil> * 8)"

text \<open>
  What is asked of the browser for a shared screen: in the desktop application a source, if one was chosen, and
  its audio; otherwise the browser's own dialog. \<open>None\<close> is the answer of a request that is refused.
\<close>

datatype (plugins only: code size) screen_request =
    DesktopMedia "string option" bool
  | DisplayMedia bool

definition getScreenStream ::
  "bool \<Rightarrow> string option \<Rightarrow> bool \<Rightarrow> (screen_request \<Rightarrow> 'a option) \<Rightarrow> screen_request \<times> 'a option" where
  "getScreenStream desktop sourceID withAudio ask =
     (let request = (if desktop
                     then DesktopMedia (if str_or sourceID '''' = '''' then None else sourceID) withAudio
                     else DisplayMedia withAudio)
      in (request, ask request))"

definition getPersistentStorage :: "bool \<Rightarrow> 'a \<Rightarrow> 'a \<Rightarrow> 'a" where
  "getPersistentStorage desktop localStorage sessionStorage = (if desktop then localStorage else sessionStorage)"

text \<open>The source of a sound; an unknown one is not played.\<close>

definition playSound_source :: "string \<Rightarrow> string option" where
  "playSound_source name =
     (if name = ''leave_self'' then Some ''leave_self.mp3''
      else if name = ''join_self'' then Some ''join_self.mp3''
      else if name = ''join_user'' then Some ''join_user.mp3''
      else None)"

section \<open>Profiles, texts and times\<close>

text \<open>The profiles the store has, in the order of the identifiers, and the identifiers it does not have.\<close>

definition known_profiles :: "profile obj \<Rightarrow> string list \<Rightarrow> profile list \<times> string list" where
  "known_profiles profiles ids =
     (List.map_filter (obj_get profiles) ids, filter (\<lambda>i. obj_get profiles i = None) ids)"

definition getProfilesByIds :: "(string list \<Rightarrow> js_error + profile list) \<Rightarrow> app \<Rightarrow> string list \<Rightarrow> js_error + profile list" where
  "getProfilesByIds fetch a ids =
     (let (profiles, missing) = known_profiles (g_profiles (host a)) ids
      in if missing = [] then Inr profiles
         else case fetch missing of Inl e \<Rightarrow> Inl e | Inr fetched \<Rightarrow> Inr (profiles @ fetched))"

text \<open>The file of a locale, and the translations: none when the file is not there.\<close>

definition translations_file :: "string \<Rightarrow> string" where
  "translations_file locale_name =
     (if locale_name = ''zh-CN'' then ''zh_Hans'' else if locale_name = ''zh-TW'' then ''zh_Hant''
      else if locale_name = ''pt-BR'' then ''pt_BR'' else locale_name)"

definition getTranslations :: "(string \<Rightarrow> string obj option) \<Rightarrow> string \<Rightarrow> string obj" where
  "getTranslations bundle locale_name =
     (case bundle (translations_file locale_name) of None \<Rightarrow> [] | Some t \<Rightarrow> t)"

definition aFewSecondsThreshold :: int where "aFewSecondsThreshold = 1000 * 44"

datatype (plugins only: code size) started_text = AFewSecondsAgo | RelativeTo int

definition callStartedTimestampFn :: "int \<Rightarrow> int option \<Rightarrow> started_text" where
  "callStartedTimestampFn now startAt =
     (let startAtMillis = num_or startAt now
      in if now - startAtMillis < aFewSecondsThreshold then AFewSecondsAgo
         else if now - startAtMillis < 60 * 1000 then RelativeTo (now - 60 * 1000)
         else RelativeTo startAtMillis)"

text \<open>
  A duration in words: the units \<open>shift\<close> splits it into (a library does), without the empty ones and those below
  the smallest that is asked for. \<open>None\<close> is \<open>a few seconds\<close>.
\<close>

definition duration_units :: "string list" where
  "duration_units = [''years'', ''months'', ''days'', ''hours'', ''minutes'', ''seconds'', ''milliseconds'']"

definition toHuman :: "(int \<Rightarrow> int list) \<Rightarrow> int \<Rightarrow> string \<Rightarrow> (string \<times> int) list option" where
  "toHuman shift dur0 smallestUnit =
     (if dur0 < aFewSecondsThreshold then None
      else
        let dur = (if dur0 < 60 * 1000 then 60 * 1000 else dur0);
            n = (if smallestUnit \<in> set duration_units then length (takeWhile (\<lambda>u. u \<noteq> smallestUnit) duration_units) + 1 else 0);
            entries = filter (\<lambda>(_, amount). amount > 0) (take n (zip duration_units (shift dur)))
        in Some (if entries = [] then [(smallestUnit, 0)] else entries))"

definition getPlatformInfo :: "string option \<Rightarrow> string \<Rightarrow> string" where
  "getPlatformInfo platform userAgent =
     (let ua = toLowerCase userAgent;
          p = toLowerCase (str_or platform '''');
          byPlatform = (if includes_str ''win'' p then ''Windows'' else if includes_str ''mac'' p then ''MacOS''
                        else if includes_str ''linux'' p then ''Linux'' else ''Unknown'')
      in if byPlatform \<noteq> ''Unknown'' then byPlatform
         else if includes_str ''windows'' ua then ''Windows'' else if includes_str ''mac os x'' ua then ''MacOS''
         else if includes_str ''linux'' ua then ''Linux'' else ''Unknown'')"

section \<open>What the expanded view selects\<close>

definition expanded_map_state ::
  "(string \<Rightarrow> string \<Rightarrow> int) \<Rightarrow> string option \<Rightarrow> bool \<Rightarrow> bool \<Rightarrow> app \<Rightarrow> view_props" where
  "expanded_map_state localeCompare rhsSelected rhsOpen rhsSupported a =
     (let ch = channelForCurrentCall a;
          teamID = str_or (map_option c_team_id ch) '''';
          presenter = screenSharingSessionForCurrentCall a;
          other = (\<lambda>c. getUserIdFromDM (c_name c) (g_currentUserId (host a)))
      in \<lparr>vp_show = s_expandedView (plugin a),
          vp_currentUserID = g_currentUserId (host a),
          vp_currentTeamID = g_currentTeamId (host a),
          vp_sessions = sorted_participants localeCompare (profilesInCurrentCallMap a)
            (str_or (Option.bind presenter session_id) '''') (sessionsInCurrentCall a),
          vp_otherSessions = sessionsForOtherUsersInCall a,
          vp_currentSession = sessionForCurrentCall a,
          vp_screenSharingSession = presenter,
          vp_callHostID = hostIDForCurrentCall a,
          vp_isRecording = isRecordingInCurrentCall a,
          vp_recordingsEnabled = recordingsEnabled a,
          vp_channel = ch,
          vp_channelTeam = map_option (Pair teamID) (obj_get (g_teams (host a)) teamID),
          vp_connectedDMUser = (if isDMChannel ch then Option.bind (Option.bind ch other) (getUser a) else None),
          vp_threadID = threadIDForCallInChannel a (str_or (map_option c_id ch) ''''),
          vp_rhsSelectedThreadID = rhsSelected,
          vp_isRhsOpen = rhsOpen,
          vp_rhsSupported = rhsSupported,
          vp_allowScreenSharing = allowScreenSharing a,
          vp_hostControlsAllowed = areHostControlsAllowed a,
          vp_isAdmin = g_isAdmin (host a),
          vp_enableVideo = (EnableVideo (sel_callsConfig a) \<and> isDMChannel ch)\<rparr>)"

section \<open>Lemmas\<close>

lemma starts_with_append [simp]: "starts_with p (p @ s)"
  by (simp add: starts_with_def)

lemma includes_iff: "includes_str p s \<longleftrightarrow> (\<exists>i \<le> length s. starts_with p (drop i s))"
proof (induction s)
  case Nil
  then show ?case by (auto simp: starts_with_def)
next
  case (Cons c s)
  have "(\<exists>i \<le> length (c # s). starts_with p (drop i (c # s))) \<longleftrightarrow>
      starts_with p (c # s) \<or> (\<exists>i \<le> length s. starts_with p (drop i s))"
    by (auto simp: Suc_le_eq less_Suc_eq_le intro: exI [of _ "0 :: nat"]) (metis Suc_le_mono drop_Suc_Cons drop0 not0_implies_Suc)+
  with Cons.IH show ?case by simp
qed

lemma index_of_first:
  assumes "n \<le> length s" "starts_with p (drop n s)" "\<And>i. i < n \<Longrightarrow> \<not> starts_with p (drop i s)"
  shows "indexOf p s = Some n"
  using assms
proof (induction s arbitrary: n)
  case Nil
  then show ?case by (auto simp: starts_with_def)
next
  case (Cons c s)
  show ?case
  proof (cases n)
    case 0
    with Cons.prems show ?thesis by simp
  next
    case (Suc k)
    have "indexOf p s = Some k"
    proof (rule Cons.IH)
      show "\<not> starts_with p (drop i s)" if "i < k" for i
        using Cons.prems(3) [of "Suc i"] Suc that by simp
    qed (use Cons.prems Suc in simp_all)
    with Suc Cons.prems(3) [of 0] show ?thesis by simp
  qed
qed

text \<open>No proper end of the pattern is a beginning of it, so two occurrences never overlap.\<close>

lemma expanded_pattern_border:
  "\<forall>k \<in> {1..<length expanded_pattern}. drop k expanded_pattern \<noteq> take (length expanded_pattern - k) expanded_pattern"
  by code_simp

lemma index_of_pattern:
  assumes "\<not> includes_str expanded_pattern pre"
  shows "indexOf expanded_pattern (pre @ expanded_pattern @ ch) = Some (length pre)"
proof (rule index_of_first)
  fix i assume i: "i < length pre"
  show "\<not> starts_with expanded_pattern (drop i (pre @ expanded_pattern @ ch))"
  proof
    assume st: "starts_with expanded_pattern (drop i (pre @ expanded_pattern @ ch))"
    let ?p = expanded_pattern
    define k where "k = length pre - i"
    have k: "k \<ge> 1" "k = length (drop i pre)" using i by (simp_all add: k_def)
    from st have e: "take (length ?p) (drop i pre @ ?p @ ch) = ?p"
      using i by (simp add: starts_with_def)
    show False
    proof (cases "length ?p \<le> k")
      case True
      with e k have "starts_with ?p (drop i pre)" by (simp add: starts_with_def)
      with assms i show False by (auto simp: includes_iff)
    next
      case False
      then have "drop k ?p = take (length ?p - k) (?p @ ch)"
        using arg_cong [OF e, of "drop k"] k(2) by (simp add: drop_take)
      with False have "drop k ?p = take (length ?p - k) ?p" by simp
      with expanded_pattern_border False k(1) show False by auto
    qed
  qed
qed simp_all

text \<open>
  The page of a pop-out finds the channel its address was made for, whatever the channel is called, unless the
  base name and the name of the team hold the pattern themselves.
\<close>

theorem popout_address_roundtrip:
  assumes "\<not> includes_str expanded_pattern (basename @ ''/'' @ team @ ''/'')"
  shows "getExpandedChannelID (getPopOutURL basename team ch) = c_id ch"
proof -
  have "getPopOutURL basename team ch = (basename @ ''/'' @ team @ ''/'') @ expanded_pattern @ c_id ch"
    by (simp add: getPopOutURL_def expanded_pattern_def)
  then show ?thesis
    using index_of_pattern [OF assms, of "c_id ch"] by (simp add: getExpandedChannelID_def del: append_assoc)
qed

theorem popout_address_roundtrip_witness:
  "getExpandedChannelID (getPopOutURL ''/sub'' ''myteam'' sample_channel) = ''ch''"
proof -
  have "\<not> includes_str expanded_pattern (''/sub'' @ ''/'' @ ''myteam'' @ ''/'')" by code_simp
  from popout_address_roundtrip [OF this, of sample_channel] show ?thesis by (simp add: sample_channel_def)
qed

text \<open>A resolution is the scaled size rounded up to a multiple of eight.\<close>

lemma screen_resolution_bounds:
  "let (width, height) = getScreenResolution ratio w h in
     8 dvd width \<and> 8 dvd height \<and>
     ratio * of_int w \<le> of_int width \<and> of_int width < ratio * of_int w + 8 \<and>
     ratio * of_int h \<le> of_int height \<and> of_int height < ratio * of_int h + 8"
proof -
  have "x \<le> of_int (\<lceil>x / 8\<rceil> * 8) \<and> of_int (\<lceil>x / 8\<rceil> * 8) < x + 8" for x :: rat
    using ceiling_correct [of "x / 8"] by simp linarith
  then show ?thesis by (simp add: getScreenResolution_def)
qed

text \<open>The profiles that are missing are asked for, and only those.\<close>

lemma known_profiles_split:
  assumes "known_profiles profiles ids = (known, missing)"
  shows "length known + length missing = length ids" "set missing = {i \<in> set ids. obj_get profiles i = None}"
proof -
  have "length (List.map_filter (obj_get profiles) ids) + length (filter (\<lambda>i. obj_get profiles i = None) ids) = length ids"
    by (induction ids) (auto simp: List.map_filter_def)
  with assms show "length known + length missing = length ids" by (auto simp: known_profiles_def)
  from assms show "set missing = {i \<in> set ids. obj_get profiles i = None}" by (auto simp: known_profiles_def)
qed

text \<open>
  The widget and the pop-out select from one store the same participants in the same order, the same presenter,
  host and session of the user, and offer the camera in the same channel.
\<close>

lemma windows_select_alike:
  assumes "client a = Some c" "cv_channelID c \<noteq> ''''"
  shows "let v = expanded_map_state lc rhs isOpen can a; w = mapStateToProps lc url g a in
    vp_sessions v = wp_sessions w \<and> vp_otherSessions v = wp_otherSessions w \<and>
    vp_currentSession v = wp_currentSession w \<and> vp_screenSharingSession v = wp_screenSharingSession w \<and>
    vp_callHostID v = wp_callHostID w \<and> vp_channel v = wp_channel w \<and> vp_enableVideo v = wp_enableVideo w \<and>
    vp_show v = (\<not> wp_show w)"
proof -
  have "channelForCurrentCall a = getChannel a (cv_channelID c)"
    using assms(1,2) by (simp add: channelForCurrentCall_def channelIDForCurrentCall_def getChannel_def getCallsClientChannelID_def)
  then show ?thesis
    using assms(1) by (simp add: expanded_map_state_def mapStateToProps_def Let_def)
qed

end
