(* ===== verification/Site_Stats.thy ===== *)
theory Site_Stats
  imports JS_Prelude Complex_Main
begin

text \<open>
  The panels of the plugin in the site statistics of the system console: \<open>convertStatsToPanels\<close> of
  \<open>webapp/src/stats.tsx\<close> and the handler of \<open>index.tsx\<close> that calls it. The comparison of server versions is
  the application's, and the identifiers of messages are made by the build: both are arguments. Averages
  are rational numbers here. Icons and colours are left out.
\<close>

record calls_stats =
  cst_total_calls :: int
  cst_total_active_calls :: int
  cst_total_active_sessions :: int
  cst_avg_duration :: rat
  cst_avg_participants :: rat
  cst_calls_by_day :: "int obj"
  cst_calls_by_month :: "int obj"
  cst_calls_by_channel_type :: "int obj"
  cst_recording_jobs_by_day :: "int obj"
  cst_recording_jobs_by_month :: "int obj"

datatype panel_value =
    CountPanel rat
  | LineChart "string list" "int list"
  | DoughnutChart "string list" "int list"

record stats_panel =
  sp_name :: string
  sp_id :: string
  sp_content :: panel_value

definition panel :: "string \<Rightarrow> string \<Rightarrow> panel_value \<Rightarrow> stats_panel" where
  "panel name i v = \<lparr>sp_name = name, sp_id = i, sp_content = v\<rparr>"

text \<open>\<open>Math.round\<close>: a half is rounded up.\<close>

definition math_round :: "rat \<Rightarrow> int" where
  "math_round x = \<lfloor>x + 1 / 2\<rfloor>"

definition line_chart :: "int obj \<Rightarrow> panel_value" where
  "line_chart d = LineChart (obj_keys d) (obj_values d)"

text \<open>The label of a channel type: its translation or its letter; a type without a message is a \<open>TypeError\<close>.\<close>

definition channelLabelsMap :: "string obj" where
  "channelLabelsMap = [(''D'', ''Direct''), (''G'', ''Group''), (''O'', ''Public''), (''P'', ''Private'')]"

primrec channel_type_labels :: "(string \<Rightarrow> string) \<Rightarrow> string obj \<Rightarrow> string list \<Rightarrow> js_error + string list" where
  "channel_type_labels messageID translations [] = Inr []"
| "channel_type_labels messageID translations (t # ts) =
     (case obj_get channelLabelsMap t of
        None \<Rightarrow> Inl TypeError
      | Some msg \<Rightarrow>
          (case channel_type_labels messageID translations ts of
             Inl e \<Rightarrow> Inl e
           | Inr ls \<Rightarrow> Inr ((case obj_get translations (messageID msg) of None \<Rightarrow> t | Some l \<Rightarrow> l) # ls)))"

definition count_panels :: "calls_stats \<Rightarrow> (string \<times> stats_panel) list" where
  "count_panels d =
     [(''total_calls'', panel ''Total Calls'' ''total_calls'' (CountPanel (of_int (cst_total_calls d)))),
      (''total_active_calls'', panel ''Total Active Calls'' ''total_active_calls'' (CountPanel (of_int (cst_total_active_calls d)))),
      (''total_active_sessions'',
         panel ''Total Active Call Sessions'' ''total_active_sessions'' (CountPanel (of_int (cst_total_active_sessions d)))),
      (''avg_call_duration'',
         panel ''Avg Call Duration (minutes)'' ''avg_call_duration''
           (CountPanel (of_int (math_round (cst_avg_duration d / 60 * 100)) / 100))),
      (''avg_call_participants'',
         panel ''Avg Call Participants'' ''avg_call_participants'' (CountPanel (of_int (math_round (cst_avg_participants d)))))]"

definition recording_panels :: "calls_stats \<Rightarrow> (string \<times> stats_panel) list" where
  "recording_panels d =
     (if list_ex (\<lambda>v. v > 0) (obj_values (cst_recording_jobs_by_day d))
      then [(''recording_jobs_by_day'',
               panel ''Daily Call Recordings'' ''calls_recording_jobs_by_day'' (line_chart (cst_recording_jobs_by_day d))),
            (''recording_jobs_by_month'',
               panel ''Monthly Call Recordings'' ''calls_recording_jobs_by_month'' (line_chart (cst_recording_jobs_by_month d)))]
      else [])"

definition convertStatsToPanels ::
  "(string \<Rightarrow> string) \<Rightarrow> calls_stats \<Rightarrow> bool \<Rightarrow> string obj \<Rightarrow> js_error + (string \<times> stats_panel) list" where
  "convertStatsToPanels messageID d isMinimumServerVersion translations =
     (if \<not> isMinimumServerVersion then Inr (count_panels d)
      else
        case channel_type_labels messageID translations (obj_keys (cst_calls_by_channel_type d)) of
          Inl e \<Rightarrow> Inl e
        | Inr labels \<Rightarrow> Inr (count_panels d @
            [(''calls_by_day'', panel ''Daily Calls'' ''calls_by_day'' (line_chart (cst_calls_by_day d))),
             (''calls_by_month'', panel ''Monthly Calls'' ''calls_by_month'' (line_chart (cst_calls_by_month d))),
             (''calls_by_channel_type'',
                panel ''Calls by Channel Type'' ''calls_by_channel_type''
                  (DoughnutChart labels (obj_values (cst_calls_by_channel_type d))))] @
            recording_panels d))"

text \<open>The handler: statistics that cannot be had or converted give no panels at all.\<close>

definition site_statistics ::
  "(string \<Rightarrow> string) \<Rightarrow> calls_stats option \<Rightarrow> bool \<Rightarrow> string obj \<Rightarrow> (string \<times> stats_panel) list" where
  "site_statistics messageID res isMinimumServerVersion translations =
     (case res of
        None \<Rightarrow> []
      | Some d \<Rightarrow>
          (case convertStatsToPanels messageID d isMinimumServerVersion translations of Inl _ \<Rightarrow> [] | Inr ps \<Rightarrow> ps))"

section \<open>Lemmas\<close>

text \<open>The conversion throws exactly on a server with charts and a channel type without a message.\<close>

lemma labels_ok_iff:
  "(\<exists>ls. channel_type_labels messageID tr ts = Inr ls) \<longleftrightarrow> set ts \<subseteq> set (obj_keys channelLabelsMap)"
proof (induction ts)
  case (Cons t ts)
  then show ?case
    using obj_get_None_keys [of channelLabelsMap t]
    by (cases "obj_get channelLabelsMap t"; cases "channel_type_labels messageID tr ts") auto
qed simp

lemma math_round_half: "\<bar>of_int (math_round x) - x\<bar> \<le> 1 / 2"
  unfolding math_round_def using floor_correct [of "x + 1 / 2"] by linarith

text \<open>
  The panels of the recordings are decided by the days alone: recordings of the months before, with none in the days
  listed, are not shown either.
\<close>

lemma monthly_recordings_hidden:
  "list_all (\<lambda>v. v = 0) (obj_values (cst_recording_jobs_by_day d)) \<Longrightarrow> recording_panels d = []"
  by (auto simp: recording_panels_def list_all_iff list_ex_iff)

end
