(* ===== verification/Participant_Views.thy ===== *)
theory Participant_Views
  imports Call_Views Participants_Grid
begin

text \<open>
  The three displays of a participant: the list of the widget (\<open>call_widget/participants_list.tsx\<close> and
  \<open>participant.tsx\<close>), the list of the expanded view (\<open>expanded_view/call_participant_rhs.tsx\<close>) and the tile of
  the grid (\<open>expanded_view/call_participant.tsx\<close>). Each is what it shows of a session: the name, the marks
  and icons, and the menu of the host, for the state of the pointer over it. Sizes and colours are left
  out, but for the width of a tile.
\<close>

section \<open>A line of a list\<close>

record participant_row =
  pr_name :: string
  pr_glow :: bool
  pr_you :: bool
  pr_hostBadge :: bool
  pr_emoji :: "string option"
  pr_hand :: bool
  pr_screen :: bool
  pr_controls :: "host_item list option"
  pr_video :: bool
  pr_muted :: bool

definition shown_emoji :: "reaction nullable \<Rightarrow> string option" where
  "shown_emoji r = (case r of Val x \<Rightarrow> Some (r_emoji x) | _ \<Rightarrow> None)"

definition Participant ::
  "app \<Rightarrow> host_controls \<Rightarrow> user_session \<Rightarrow> profile option \<Rightarrow> bool \<Rightarrow> bool \<Rightarrow> bool \<Rightarrow> bool \<Rightarrow> string option \<Rightarrow> participant_row option" where
  "Participant a hc s prof isYou isHost iAmHost isSharingScreen callID =
     (let isMuted = (unmuted s \<noteq> Some True);
          isSpeaking = (voice s = Some True);
          isHandRaised = js_gt (raised_hand s) (Some 0)
      in case prof of
           None \<Rightarrow> None
         | Some p \<Rightarrow> Some
             \<lparr>pr_name = getUserDisplayName (Some p) False, pr_glow = isSpeaking, pr_you = isYou, pr_hostBadge = isHost,
              pr_emoji = shown_emoji (us_reaction s), pr_hand = isHandRaised, pr_screen = isSharingScreen,
              pr_controls = (if showHostControls a isYou isHost iAmHost hc
                             then Some (HostControlsMenu callID isMuted isSharingScreen isHandRaised isHost) else None),
              pr_video = (video s = Some True), pr_muted = isMuted\<rparr>)"

definition CallParticipantRHS ::
  "app \<Rightarrow> host_controls \<Rightarrow> user_session \<Rightarrow> profile option \<Rightarrow> bool \<Rightarrow> bool \<Rightarrow> bool \<Rightarrow> bool \<Rightarrow> string option \<Rightarrow> participant_row option" where
  "CallParticipantRHS a hc s prof isYou isHost iAmHost isSharingScreen callID =
     (let isMuted = (unmuted s \<noteq> Some True);
          isSpeaking = (voice s = Some True);
          isHandRaised = js_gt (raised_hand s) (Some 0)
      in case prof of
           None \<Rightarrow> None
         | Some p \<Rightarrow> Some
             \<lparr>pr_name = getUserDisplayName (Some p) False, pr_glow = isSpeaking, pr_you = isYou, pr_hostBadge = isHost,
              pr_emoji = shown_emoji (us_reaction s), pr_hand = isHandRaised, pr_screen = isSharingScreen,
              pr_controls = (if showHostControls a isYou isHost iAmHost hc
                             then Some (HostControlsMenu callID isMuted isSharingScreen isHandRaised isHost) else None),
              pr_video = (video s = Some True), pr_muted = isMuted\<rparr>)"

text \<open>
  The lists. A session without a user has no profile; the state of the pointer is that of each line.
\<close>

definition profile_of :: "profile obj \<Rightarrow> user_session \<Rightarrow> profile option" where
  "profile_of profiles s = Option.bind (user_id s) (obj_get profiles)"

record participants_list =
  pl_muteOthers :: bool
  pl_rows :: "participant_row option list"

definition ParticipantsList ::
  "app \<Rightarrow> (user_session \<Rightarrow> host_controls) \<Rightarrow> user_session list \<Rightarrow> profile obj \<Rightarrow> string \<Rightarrow> user_session option \<Rightarrow>
   user_session option \<Rightarrow> string option \<Rightarrow> participants_list" where
  "ParticipantsList a hc ss profiles callHostID currentSession screenSharingSession callID =
     (let isHost = (Option.bind currentSession user_id = Some callHostID)
      in \<lparr>pl_muteOthers = list_showMuteOthers a currentSession callHostID ss,
          pl_rows = map (\<lambda>s. Participant a (hc s) s (profile_of profiles s)
            (session_id s = Option.bind currentSession session_id) (Some callHostID = user_id s) isHost
            (Option.bind screenSharingSession session_id = session_id s) callID) ss\<rparr>)"

definition renderParticipantsRHSList ::
  "app \<Rightarrow> (user_session \<Rightarrow> host_controls) \<Rightarrow> user_session list \<Rightarrow> profile obj \<Rightarrow> string \<Rightarrow> user_session option \<Rightarrow>
   user_session option \<Rightarrow> string option \<Rightarrow> participant_row option list" where
  "renderParticipantsRHSList a hc ss profiles callHostID currentSession screenSharingSession callID =
     map (\<lambda>s. CallParticipantRHS a (hc s) s (profile_of profiles s)
       (Option.bind currentSession session_id = session_id s) (Some callHostID = user_id s)
       (Option.bind currentSession user_id = Some callHostID)
       (Option.bind screenSharingSession session_id = session_id s) callID) ss"

section \<open>A tile of the grid\<close>

text \<open>\<open>tileSizePropsMap\<close>.\<close>

fun avatarSize :: "tile_size \<Rightarrow> int" where
  "avatarSize Small = 72" | "avatarSize Medium = 96" | "avatarSize Large = 120" | "avatarSize ExtraLarge = 156"

fun tile_padding :: "tile_size \<Rightarrow> int" where
  "tile_padding Small = 12" | "tile_padding Medium = 16" | "tile_padding Large = 20" | "tile_padding ExtraLarge = 26"

datatype tile_mark = NoMark | HandMark | EmojiMark string

record participant_tile =
  pt_name :: string
  pt_glow :: bool
  pt_muted :: bool
  pt_mark :: tile_mark
  pt_hostBadge :: bool
  pt_controls :: "host_item list option"
  pt_width :: int

definition CallParticipant ::
  "app \<Rightarrow> host_controls \<Rightarrow> grid_tile \<Rightarrow> tile_size \<Rightarrow> reaction nullable \<Rightarrow> string option \<Rightarrow> bool \<Rightarrow> participant_tile option" where
  "CallParticipant a hc t sz reaction callID isSharingScreen =
     (if str_or (gt_picture t) '''' = '''' then None
      else Some
        \<lparr>pt_name = gt_name t, pt_glow = gt_isSpeaking t, pt_muted = gt_isMuted t,
         pt_mark = (if gt_isHandRaised t then HandMark
                    else case shown_emoji reaction of None \<Rightarrow> NoMark | Some e \<Rightarrow> EmojiMark e),
         pt_hostBadge = gt_isHost t,
         pt_controls = (if hostControlsAvailable a (gt_iAmHost t) \<and> showHostControls a (gt_isYou t) (gt_isHost t) (gt_iAmHost t) hc
                        then Some (HostControlsMenu callID (gt_isMuted t) isSharingScreen (gt_isHandRaised t) (gt_isHost t))
                        else None),
         pt_width = avatarSize sz + tile_padding sz * 2\<rparr>)"

text \<open>The tile the grid of the pop-out shows for a session: the grid passes no shared screen.\<close>

definition grid_participant ::
  "app \<Rightarrow> (profile \<Rightarrow> string) \<Rightarrow> (user_session \<Rightarrow> host_controls) \<Rightarrow> tile_size \<Rightarrow> string option \<Rightarrow> string option \<Rightarrow> string \<Rightarrow>
   profile obj \<Rightarrow> string option \<Rightarrow> user_session \<Rightarrow> participant_tile option" where
  "grid_participant a picture hc sz currentSessionID currentUserID hostID profiles callID s =
     (case profile_of profiles s of
        None \<Rightarrow> None
      | Some p \<Rightarrow> CallParticipant a (hc s) (grid_tile_of picture None currentSessionID currentUserID hostID p s) sz
          (us_reaction s) callID False)"

section \<open>Lemmas\<close>

text \<open>The layout of the grid counts with the width the tiles have.\<close>

lemma tile_width_rendered:
  "CallParticipant a hc t sz r callID sharing = Some v \<Longrightarrow> pt_width v = tile_width sz"
  by (cases sz) (auto simp: CallParticipant_def split: if_splits)

lemma Participant_RHS: "CallParticipantRHS = Participant"
  by (intro ext) (simp add: CallParticipantRHS_def Participant_def)

text \<open>The lists of the two windows show the same lines.\<close>

lemma lists_agree:
  "renderParticipantsRHSList a hc ss profiles hostID me screen callID =
     pl_rows (ParticipantsList a hc ss profiles hostID me screen callID)"
  by (simp add: renderParticipantsRHSList_def ParticipantsList_def Participant_RHS Let_def eq_commute)

lemma hand_gt: "js_gt (raised_hand s) (Some 0) = (num_or (raised_hand s) 0 > 0)"
  by (cases "raised_hand s") (simp_all add: js_gt_def num_or_def)

lemma controls_need_availability:
  "\<not> hc_sticky hc \<Longrightarrow> showHostControls a you h me hc \<Longrightarrow> hostControlsAvailable a me"
  by (simp add: showHostControls_def)


definition sample_admin :: app where
  "sample_admin = world_app (put_action (RECEIVED_CALLS_CONFIG (CallsConfigDefault\<lparr>HostControlsAllowed := True\<rparr>))
     (sample_joined\<lparr>w_host := sample_host\<lparr>g_isAdmin := True\<rparr>\<rparr>))"

definition sample_session :: "string \<Rightarrow> string \<Rightarrow> user_session" where
  "sample_session sid uid =
     \<lparr>session_id = Some sid, user_id = Some uid, unmuted = Some True, voice = Some False, video = None,
      raised_hand = Some 7, us_reaction = Undefined\<rparr>"


end
