(* ===== verification/Call_Dialogs.thy ===== *)
theory Call_Dialogs
  imports Call_Switching Call_Views Call_Windows Calls_Client
begin

text \<open>
  Dialogs, banners and overlays: the banner of the widget (\<open>widget_banner.tsx\<close>), which acts when its animation
  ends, the prompt of the pop-out (\<open>in_call_prompt.tsx\<close>) and the confirmation of a removal in both, the
  notification and overlays of a join, the dialog of the application's style (\<open>generic_modal.tsx\<close>) with those
  built on it, the dot menu, the incoming call, and the button of the channel header's drop-down menu.
  Texts that depend on values are what the values are; styles, and the
  ellipsis that ends a text, are left out.
\<close>

section \<open>The banner of the widget\<close>

text \<open>Which texts and handlers a banner is given, and which of its buttons were clicked.\<close>

record banner_props =
  bp_leftText :: string
  bp_rightText :: string
  bp_onLeft :: bool
  bp_onRight :: bool
  bp_onClose :: bool

datatype banner_button = BannerLeft | BannerRight | BannerClose

record banner_state =
  bs_left :: bool
  bs_right :: bool
  bs_close :: bool

definition banner_initial :: banner_state where
  "banner_initial = \<lparr>bs_left = False, bs_right = False, bs_close = False\<rparr>"

fun banner_has :: "banner_props \<Rightarrow> banner_button \<Rightarrow> bool" where
  "banner_has p BannerLeft = (bp_leftText p \<noteq> '''' \<and> bp_onLeft p)"
| "banner_has p BannerRight = (bp_rightText p \<noteq> '''' \<and> bp_onRight p)"
| "banner_has p BannerClose = bp_onClose p"

definition banner_fadeIn :: "banner_state \<Rightarrow> bool" where
  "banner_fadeIn s = (\<not> bs_left s \<and> \<not> bs_right s \<and> \<not> bs_close s)"

fun banner_click :: "banner_props \<Rightarrow> banner_button \<Rightarrow> banner_state \<Rightarrow> banner_state" where
  "banner_click p BannerLeft s = (if banner_has p BannerLeft then s\<lparr>bs_left := True\<rparr> else s)"
| "banner_click p BannerRight s = (if banner_has p BannerRight then s\<lparr>bs_right := True\<rparr> else s)"
| "banner_click p BannerClose s = (if banner_has p BannerClose then s\<lparr>bs_close := True\<rparr> else s)"

definition banner_onAnimationEnd :: "banner_props \<Rightarrow> banner_state \<Rightarrow> banner_button list" where
  "banner_onAnimationEnd p s =
     (if bs_left s \<and> bp_onLeft p then [BannerLeft] else []) @ (if bs_right s \<and> bp_onRight p then [BannerRight] else []) @
     (if bs_close s \<and> bp_onClose p then [BannerClose] else [])"

section \<open>The prompt of the pop-out\<close>

text \<open>The close button is there when there is a handler of the left one, whatever the handler of its own.\<close>

fun prompt_has :: "banner_props \<Rightarrow> banner_button \<Rightarrow> bool" where
  "prompt_has p BannerLeft = (bp_leftText p \<noteq> '''' \<and> bp_onLeft p)"
| "prompt_has p BannerRight = (bp_rightText p \<noteq> '''' \<and> bp_onRight p)"
| "prompt_has p BannerClose = bp_onLeft p"

fun prompt_click :: "banner_props \<Rightarrow> banner_button \<Rightarrow> banner_button list" where
  "prompt_click p BannerLeft = (if prompt_has p BannerLeft then [BannerLeft] else [])"
| "prompt_click p BannerRight = (if prompt_has p BannerRight then [BannerRight] else [])"
| "prompt_click p BannerClose = (if prompt_has p BannerClose \<and> bp_onClose p then [BannerClose] else [])"

section \<open>Confirming a removal\<close>

text \<open>\<open>RemoveConfirmation\<close> gives both the same texts and handlers.\<close>

definition RemoveConfirmation_props :: banner_props where
  "RemoveConfirmation_props =
     \<lparr>bp_leftText = ''Yes, remove'', bp_rightText = ''Cancel'', bp_onLeft = True, bp_onRight = True, bp_onClose = True\<rparr>"

definition RemoveConfirmation_body :: "profile \<Rightarrow> string" where
  "RemoveConfirmation_body p =
     ''Are you sure you want to remove '' @ getUserDisplayName (Some p) False @ '' from the call?''"

text \<open>In the widget it is shown while the session is in the call.\<close>

definition widget_remove_shown :: "widget \<Rightarrow> user_session obj \<Rightarrow> bool" where
  "widget_remove_shown w sessionsMap =
     (case st_removeConfirmation (this_state w) of
        None \<Rightarrow> False | Some (sid, _) \<Rightarrow> obj_get sessionsMap sid \<noteq> None)"

fun widget_remove_answer :: "banner_button \<Rightarrow> widget \<Rightarrow> widget" where
  "widget_remove_answer BannerLeft w = onRemoveConfirm w"
| "widget_remove_answer BannerRight w = onRemoveCancel w"
| "widget_remove_answer BannerClose w = onRemoveCancel w"

definition widget_remove_ends :: "banner_state \<Rightarrow> widget \<Rightarrow> widget" where
  "widget_remove_ends s w = by_react (fold widget_remove_answer (banner_onAnimationEnd RemoveConfirmation_props s)) w"

section \<open>Joining\<close>

text \<open>The notification shown on joining goes when its animation has ended, for good.\<close>

definition JoinNotification :: "bool \<Rightarrow> bool \<Rightarrow> bool \<Rightarrow> string option" where
  "JoinNotification visible muted animationEnded =
     (if \<not> visible \<or> animationEnded then None
      else Some (if muted then ''You are muted. Select to unmute.'' else ''You are unmuted. Select to mute.''))"

text \<open>
  The overlay says what was true when it was first rendered; it is there until the transition that hides
  it has ended. The result is whether it is visible, and its text.
\<close>

definition JoinLoadingOverlay :: "bool \<Rightarrow> bool \<Rightarrow> bool \<Rightarrow> (bool \<times> string) option" where
  "JoinLoadingOverlay wasJoining transitionEnded visible =
     (if \<not> visible \<and> transitionEnded then None
      else Some (visible, if wasJoining then ''Joining call'' else ''Starting call''))"

definition VideoLoadingOverlay :: "bool \<Rightarrow> bool \<Rightarrow> bool option" where
  "VideoLoadingOverlay transitionEnded visible = (if \<not> visible \<and> transitionEnded then None else Some visible)"

section \<open>The dialog of the application's style\<close>

record modal_props =
  mp_show :: "bool option"
  mp_onCancel :: bool
  mp_onConfirm :: bool
  mp_showCancel :: bool
  mp_autoCancel :: bool
  mp_autoConfirm :: bool
  mp_disabled :: bool

datatype modal_button = ModalCancel | ModalConfirm

datatype modal_call = McOnHide | McCancel | McConfirm | McExited

text \<open>The state, the times at which \<open>onHide\<close> is due, and what was called.\<close>

record generic_modal =
  md_show :: bool
  md_hides :: "int list"
  md_calls :: "modal_call list"

definition modal_initial :: generic_modal where
  "modal_initial = \<lparr>md_show = True, md_hides = [], md_calls = []\<rparr>"

definition modal_shown :: "modal_props \<Rightarrow> generic_modal \<Rightarrow> bool" where
  "modal_shown p s = (case mp_show p of None \<Rightarrow> md_show s | Some b \<Rightarrow> b)"

definition modal_buttons :: "modal_props \<Rightarrow> modal_button list" where
  "modal_buttons p = (if mp_onCancel p \<or> mp_showCancel p then [ModalCancel] else []) @ (if mp_onConfirm p then [ModalConfirm] else [])"

definition modal_onHide :: "int \<Rightarrow> generic_modal \<Rightarrow> generic_modal" where
  "modal_onHide now s = s\<lparr>md_show := False, md_hides := md_hides s @ [now + 150]\<rparr>"

definition modal_call :: "modal_call \<Rightarrow> generic_modal \<Rightarrow> generic_modal" where
  "modal_call c s = s\<lparr>md_calls := md_calls s @ [c]\<rparr>"

definition modal_handleCancel :: "modal_props \<Rightarrow> int \<Rightarrow> generic_modal \<Rightarrow> generic_modal" where
  "modal_handleCancel p now s0 =
     (let s = (if mp_autoCancel p then modal_onHide now s0 else s0) in if mp_onCancel p then modal_call McCancel s else s)"

definition modal_handleConfirm :: "modal_props \<Rightarrow> int \<Rightarrow> generic_modal \<Rightarrow> generic_modal" where
  "modal_handleConfirm p now s0 =
     (let s = (if mp_autoConfirm p then modal_onHide now s0 else s0) in if mp_onConfirm p then modal_call McConfirm s else s)"

fun modal_click :: "modal_props \<Rightarrow> int \<Rightarrow> modal_button \<Rightarrow> generic_modal \<Rightarrow> generic_modal" where
  "modal_click p now ModalCancel s = (if ModalCancel \<in> set (modal_buttons p) then modal_handleCancel p now s else s)"
| "modal_click p now ModalConfirm s =
     (if ModalConfirm \<in> set (modal_buttons p) \<and> \<not> mp_disabled p then modal_handleConfirm p now s else s)"

text \<open>The dialog has left the page; without a handler for that it is \<open>onHide\<close> once more.\<close>

definition modal_onExited :: "bool \<Rightarrow> int \<Rightarrow> generic_modal \<Rightarrow> generic_modal" where
  "modal_onExited hasOnExited now s = (if hasOnExited then modal_call McExited s else modal_onHide now s)"

text \<open>A timer of \<open>onHide\<close> fires.\<close>

definition modal_timer :: "int \<Rightarrow> generic_modal \<Rightarrow> generic_modal" where
  "modal_timer now s =
     (case md_hides s of
        [] \<Rightarrow> s
      | t # ts \<Rightarrow> if t \<le> now then modal_call McOnHide (s\<lparr>md_hides := ts\<rparr>) else s)"

text \<open>
  The dialogs built on it: the confirmations of ending a call and of stopping a recording, which ask the
  server when confirmed, and the generic error, which has one button.
\<close>

definition confirmation_props :: modal_props where
  "confirmation_props =
     \<lparr>mp_show = None, mp_onCancel = False, mp_onConfirm = True, mp_showCancel = True, mp_autoCancel = True,
      mp_autoConfirm = True, mp_disabled = False\<rparr>"

definition EndCallConfirmation_confirm :: "string \<Rightarrow> world \<Rightarrow> world" where
  "EndCallConfirmation_confirm channelID w = endCall channelID w"

definition StopRecordingConfirmation_confirm :: "string \<Rightarrow> world \<Rightarrow> world" where
  "StopRecordingConfirmation_confirm channelID w = stopCallRecording channelID w"

text \<open>The header, the body and the text of the button that confirms.\<close>

definition EndCallConfirmation_texts :: "string \<times> string \<times> string" where
  "EndCallConfirmation_texts =
     (''End call for everyone'',
      ''The call will end and all its participants will be disconnected. Are you sure you want to end the call?'', ''End call'')"

definition StopRecordingConfirmation_texts :: "app \<Rightarrow> string \<times> string \<times> string" where
  "StopRecordingConfirmation_texts a =
     (if transcriptionsEnabled a
      then (''Stop recording and transcription'',
            ''The call recording and transcription files will be processed and posted in the call thread. Are you sure you want to stop the recording and transcription?'',
            ''Stop recording'')
      else (''Stop recording'',
            ''The call recording will be processed and posted in the call thread. Are you sure you want to stop the recording?'',
            ''Stop recording''))"

definition GenericErrorModal_props :: modal_props where
  "GenericErrorModal_props =
     \<lparr>mp_show = None, mp_onCancel = False, mp_onConfirm = True, mp_showCancel = False, mp_autoCancel = True,
      mp_autoConfirm = True, mp_disabled = False\<rparr>"

section \<open>The error of a call\<close>

text \<open>Header and text, whether the text links to joining again and to the troubleshooting, and the buttons.\<close>

record error_dialog =
  em_header :: string
  em_text :: string
  em_rejoin :: bool
  em_troubleshooting :: bool
  em_confirm :: string
  em_cancel :: "string option"

definition CallErrorModal_view :: "js_error option \<Rightarrow> error_dialog option" where
  "CallErrorModal_view err =
     (case err of
        None \<Rightarrow> None
      | Some e \<Rightarrow> Some
          (if e = rtcPeerTimeoutErr then
             \<lparr>em_header = ''Call connection failed'',
              em_text = ''We couldn'' @ CHR 0x27 # ''t join the call because the connection timed out. Please check your network connection and try again.'',
              em_rejoin = False, em_troubleshooting = True, em_confirm = ''Okay'', em_cancel = None\<rparr>
           else if e = rtcPeerErr \<or> e = rtcPeerCloseErr then
             \<lparr>em_header = ''Call connection failed'',
              em_text = ''There was an error with the connection to the call. Try to re-join the call.'',
              em_rejoin = True, em_troubleshooting = True, em_confirm = ''Okay'', em_cancel = None\<rparr>
           else if e = insecureContextErr then
             \<lparr>em_header = ''Calls can'' @ CHR 0x27 # ''t be initiated in an insecure context'',
              em_text = ''You need to be using an HTTPS connection to make calls. Visit the documentation for more information.'',
              em_rejoin = False, em_troubleshooting = False, em_confirm = ''Learn more'', em_cancel = Some ''Cancel''\<rparr>
           else if e = userRemovedFromChannelErr then
             \<lparr>em_header = ''You were removed from the channel'',
              em_text = ''You have been removed from the channel, and have been disconnected from the call.'',
              em_rejoin = False, em_troubleshooting = False, em_confirm = ''Okay'', em_cancel = None\<rparr>
           else if e = userLeftChannelErr then
             \<lparr>em_header = ''You left the channel'',
              em_text = ''You have left the channel, and have been disconnected from the call.'',
              em_rejoin = False, em_troubleshooting = False, em_confirm = ''Okay'', em_cancel = None\<rparr>
           else if e = hostRemovedMsg then
             \<lparr>em_header = ''You were removed from the call'', em_text = ''The host removed you from the call.'',
              em_rejoin = False, em_troubleshooting = False, em_confirm = ''Dismiss'', em_cancel = None\<rparr>
           else
             \<lparr>em_header = ''Something went wrong with calls'',
              em_text = ''Looks like something went wrong with calls. You can restart the app and try again.'',
              em_rejoin = False, em_troubleshooting = True, em_confirm = ''Okay'', em_cancel = None\<rparr>))"

text \<open>
  The link posts a message to the window; the message of a dialog without a channel names none, and is left out.
  Confirming opens the documentation.
\<close>

definition onRejoinClick :: "string option \<Rightarrow> window_message option" where
  "onRejoinClick channelID = map_option WmConnectCall channelID"

definition CallErrorModal_onConfirm :: "js_error \<Rightarrow> string option" where
  "CallErrorModal_onConfirm e =
     (if e = insecureContextErr
      then Some ''https://mattermost.com/pl/calls-deployment?utm_source=mattermost&utm_medium=in-product&utm_content=calls_error_modal''
      else None)"

section \<open>The dot menu\<close>

record dot_menu =
  dm_isOpen :: bool
  dm_isHover :: bool

text \<open>
  The menu tells its parent, a state of any type, through \<open>onOpenChange\<close>. It is toggled by its button,
  closed by a click on its content when it is open, and changed by the library that dismisses it.
\<close>

definition setOpenWrapper :: "(bool \<Rightarrow> 'p \<Rightarrow> 'p) \<Rightarrow> bool \<Rightarrow> dot_menu \<times> 'p \<Rightarrow> dot_menu \<times> 'p" where
  "setOpenWrapper onChange opened s = ((fst s)\<lparr>dm_isOpen := opened\<rparr>, onChange opened (snd s))"

datatype dot_menu_event = DmToggle | DmContentClick | DmDismiss bool | DmEnter | DmLeave

fun dot_menu_step :: "bool \<Rightarrow> (bool \<Rightarrow> 'p \<Rightarrow> 'p) \<Rightarrow> dot_menu_event \<Rightarrow> dot_menu \<times> 'p \<Rightarrow> dot_menu \<times> 'p" where
  "dot_menu_step closeOnClick onChange DmToggle s = setOpenWrapper onChange (\<not> dm_isOpen (fst s)) s"
| "dot_menu_step closeOnClick onChange DmContentClick s =
     (if dm_isOpen (fst s) \<and> closeOnClick then setOpenWrapper onChange False s else s)"
| "dot_menu_step closeOnClick onChange (DmDismiss opened) s = setOpenWrapper onChange opened s"
| "dot_menu_step closeOnClick onChange DmEnter s = ((fst s)\<lparr>dm_isHover := True\<rparr>, snd s)"
| "dot_menu_step closeOnClick onChange DmLeave s = ((fst s)\<lparr>dm_isHover := False\<rparr>, snd s)"

definition dot_menu_tooltip :: "string option \<Rightarrow> dot_menu \<Rightarrow> bool" where
  "dot_menu_tooltip tooltipText s = (str_or tooltipText '''' \<noteq> '''' \<and> dm_isHover s \<and> \<not> dm_isOpen s)"

section \<open>An incoming call\<close>

text \<open>
  What it says, and who else is named. A type that is neither leaves the large one without a text; the
  condensed one treats it as direct.
\<close>

datatype incoming_text = InvitesYou string | InvitesYouWith string string | CallFrom string | CallFromWith string string

definition CallIncoming :: "channel_type \<Rightarrow> string \<Rightarrow> string \<Rightarrow> incoming_text" where
  "CallIncoming ty callerName others = (if ty = DM then InvitesYou callerName else InvitesYouWith callerName others)"

definition CallIncomingCondensed :: "channel_type \<Rightarrow> string \<Rightarrow> string \<Rightarrow> incoming_text" where
  "CallIncomingCondensed ty callerName others = (if ty = GM then CallFromWith callerName others else CallFrom callerName)"

section \<open>The button of the drop-down menu\<close>

record dropdown_button =
  db_text :: string
  db_looksDisabled :: bool
  db_upsell :: bool
  db_tooltip :: "header_tooltip option"

definition ChannelHeaderDropdownButton :: "app \<Rightarrow> channel option \<Rightarrow> bool \<Rightarrow> dropdown_button option" where
  "ChannelHeaderDropdownButton a ch archived =
     (let channelID = map_option c_id ch;
          inCall = (channelIDForCurrentCall a \<noteq> '''' \<and> Some (channelIDForCurrentCall a) = channelID);
          limited = isLimitRestricted a;
          restricted = (limited \<or> archived);
          withUpsellIcon = (limited \<and> isCloudStarter a \<and> \<not> inCall)
      in if \<not> callsShowButton a channelID then None
         else Some
           \<lparr>db_text = (if currentChannelHasCall a then ''Join call'' else ''Start call''),
            db_looksDisabled = (inCall \<or> restricted), db_upsell = withUpsellIcon,
            db_tooltip = (if archived then Some ArchivedTip else if withUpsellIcon then Some UpsellTip
                          else if limited \<and> \<not> inCall then Some (LimitTip (maxParticipants a)) else None)\<rparr>)"

section \<open>A key sequence\<close>

definition split_at :: "char \<Rightarrow> string \<Rightarrow> string list" where
  "split_at c s = foldr (\<lambda>x acc. if x = c then [] # acc else (x # hd acc) # tl acc) s [[]]"

text \<open>Each key is shown by itself, on a Mac two of them by their sign, here in words.\<close>

definition Shortcut_keys :: "bool \<Rightarrow> string \<Rightarrow> string list" where
  "Shortcut_keys mac shortcut =
     map (\<lambda>key. if mac \<and> key = ''meta'' then ''command sign'' else if mac \<and> key = ''alt'' then ''option sign'' else key)
       (split_at (CHR ''+'') shortcut)"

section \<open>Lemmas\<close>

text \<open>
  A click acts when the animation has ended; a second one before that acts too, whatever the first was: a
  removal that was cancelled and then confirmed is asked for.
\<close>

lemma banner_acts:
  "banner_onAnimationEnd p (banner_click p b banner_initial) = (if banner_has p b then [b] else [])"
  by (cases b) (simp_all add: banner_onAnimationEnd_def banner_initial_def)

lemma banner_both_act:
  "banner_onAnimationEnd RemoveConfirmation_props
     (banner_click RemoveConfirmation_props BannerLeft (banner_click RemoveConfirmation_props BannerRight banner_initial)) =
     [BannerLeft, BannerRight]"
  by (simp add: banner_onAnimationEnd_def banner_initial_def RemoveConfirmation_props_def)

lemma prompt_close_needs_left: "prompt_has p BannerClose = bp_onLeft p"
  "bp_onClose p \<Longrightarrow> \<not> bp_onLeft p \<Longrightarrow> banner_has p BannerClose \<and> \<not> prompt_has p BannerClose"
  by simp_all

lemma modal_handlers_hide:
  assumes "mp_show p = None" "mp_autoCancel p" "mp_autoConfirm p" "b \<in> set (modal_buttons p)" "\<not> mp_disabled p"
  shows "\<not> modal_shown p (modal_click p now b s) \<and> md_hides (modal_click p now b s) = md_hides s @ [now + 150]"
  using assms by (cases b) (auto simp: modal_shown_def modal_handleCancel_def modal_handleConfirm_def modal_onHide_def modal_call_def Let_def)

text \<open>
  The menu of the host and the display it is in tell each other whether it is open, in any order of events of
  the menu and of the pointer: an open menu keeps its button, and with it itself, on the page.
\<close>

datatype control_event = InMenu dot_menu_event | PointerOn | PointerOff

fun control_step :: "control_event \<Rightarrow> dot_menu \<times> host_controls \<Rightarrow> dot_menu \<times> host_controls" where
  "control_step (InMenu e) s = dot_menu_step True onOpenChange e s"
| "control_step PointerOn s = (fst s, hoverOn (snd s))"
| "control_step PointerOff s = (fst s, hoverOff (snd s))"

lemma dot_menu_sync:
  "hc_sticky (snd s) = dm_isOpen (fst s) \<Longrightarrow>
   hc_sticky (snd (dot_menu_step b onOpenChange e s)) = dm_isOpen (fst (dot_menu_step b onOpenChange e s))"
  by (cases e) (simp_all add: onOpenChange_def setOpenWrapper_def)

lemma control_step_sync:
  "hc_sticky (snd s) = dm_isOpen (fst s) \<Longrightarrow> hc_sticky (snd (control_step e s)) = dm_isOpen (fst (control_step e s))"
  by (cases e) (simp_all add: hoverOn_def hoverOff_def dot_menu_sync)

lemma open_menu_stays:
  assumes "hc_sticky (snd s) = dm_isOpen (fst s)"
  shows "hc_sticky (snd (fold control_step es s)) = dm_isOpen (fst (fold control_step es s))"
    and "dm_isOpen (fst (fold control_step es s)) \<Longrightarrow> showHostControls a you h me (snd (fold control_step es s))"
proof -
  show sync: "hc_sticky (snd (fold control_step es s)) = dm_isOpen (fst (fold control_step es s))"
    using assms by (induction es arbitrary: s) (simp_all add: control_step_sync)
  then show "showHostControls a you h me (snd (fold control_step es s))" if "dm_isOpen (fst (fold control_step es s))"
    using that by (simp add: showHostControls_def)
qed

text \<open>The drop-down menu offers what the header offers, to a channel the header does not refuse.\<close>

lemma dropdown_agrees:
  assumes "ChannelHeaderButton a (Some c) archived deactivated joining = Some b" "\<not> hb_disabled b" "c_id c \<noteq> ''''"
  shows "map_option (\<lambda>d. (db_looksDisabled d, db_tooltip d)) (ChannelHeaderDropdownButton a (Some c) archived) =
    Some (hb_looksDisabled b, hb_tooltip b)"
proof -
  define dead where "dead = (isDMChannel (Some c) \<and>
    (case getUserIdFromDM (c_name c) (g_currentUserId (host a)) of None \<Rightarrow> False | Some u \<Rightarrow> deactivated u))"
  note b = assms(1) [unfolded ChannelHeaderButton_def option.case Let_def dead_def [symmetric]]
  have shown: "callsShowButton a (Some (c_id c))" using b by (simp split: if_split_asm)
  have "\<not> archived" "\<not> dead" using b assms(2) by (auto split: if_split_asm)
  then show ?thesis
    using b shown assms(3) by (auto simp: ChannelHeaderDropdownButton_def Let_def split: if_split_asm)
qed

lemmas call_errors = rtcPeerErr_def rtcPeerCloseErr_def rtcPeerTimeoutErr_def insecureContextErr_def
  userRemovedFromChannelErr_def userLeftChannelErr_def hostRemovedMsg_def

lemma rejoin_shown:
  "(\<exists>v. CallErrorModal_view (Some e) = Some v \<and> em_rejoin v) \<longleftrightarrow> e = rtcPeerErr \<or> e = rtcPeerCloseErr"
  by (simp add: CallErrorModal_view_def call_errors)




end
