(* ===== verification/Widget_View.thy ===== *)
theory Widget_View
  imports Widget_Properties Recording_Banner Call_Dialogs
begin

text \<open>
  What the call widget shows (the render methods of \<open>call_widget/component.tsx\<close>): each as the data it shows, in
  the order of the page. Styles are left out, texts with values in them are what the values are. What a
  click does is a step of \<open>Widget_Loop\<close>.
\<close>

section \<open>Properties that are only shown\<close>

record widget_extras =
  wx_channelDisplayName :: string
  wx_sessionsMap :: "user_session obj"
  wx_callStartAt :: int
  wx_callHostChangeAt :: int
  wx_isRecording :: bool
  wx_startingCall :: bool
  wx_recentlyJoinedUsers :: "string list"
  wx_hostNotices :: "host_control_notice list"
  wx_wider :: bool
  wx_callsIncoming :: "incoming_call list"
  wx_transcriptionsEnabled :: bool
  wx_clientConnecting :: bool
  wx_recordingsEnabled :: bool
  wx_connectedDMUser :: "profile option"
  wx_openUserSettings :: bool
  wx_mirrorVideo :: bool

text \<open>
  Those of \<open>mapStateToProps\<close>. The name of the channel and the number of teams come from the application,
  \<open>startingCall\<close> from the page the widget is on; the last two are the application's function for opening
  the settings and the stored choice to mirror the own camera, which the render methods look up.
\<close>

definition mapExtraProps :: "string \<Rightarrow> nat \<Rightarrow> bool \<Rightarrow> bool \<Rightarrow> bool \<Rightarrow> app \<Rightarrow> widget_extras" where
  "mapExtraProps displayName myTeams startingCall openUserSettings mirror a =
     (let ch = getChannel a (case client a of None \<Rightarrow> ''undefined'' | Some c \<Rightarrow> cv_channelID c)
      in \<lparr>wx_channelDisplayName = displayName,
          wx_sessionsMap = (case sessionsInCurrentCallMap a of None \<Rightarrow> [] | Some m \<Rightarrow> m),
          wx_callStartAt = callStartAtForCurrentCall a,
          wx_callHostChangeAt = hostChangeAtForCurrentCall a,
          wx_isRecording = isRecordingInCurrentCall a,
          wx_startingCall = startingCall,
          wx_recentlyJoinedUsers = recentlyJoinedUsersInCurrentCall a,
          wx_hostNotices = hostControlNoticesForCurrentCall a,
          wx_wider = (myTeams > 1),
          wx_callsIncoming = sortedIncomingCalls a,
          wx_transcriptionsEnabled = transcriptionsEnabled a,
          wx_clientConnecting = s_clientConnecting (plugin a),
          wx_recordingsEnabled = recordingsEnabled a,
          wx_connectedDMUser =
            (case ch of
               None \<Rightarrow> None
             | Some c \<Rightarrow> if isDMChannel ch then Option.bind (getUserIdFromDM (c_name c) (g_currentUserId (host a))) (getUser a)
                         else None),
          wx_openUserSettings = openUserSettings,
          wx_mirrorVideo = mirror\<rparr>)"

definition is_widget_host :: "widget \<Rightarrow> bool" where
  "is_widget_host w = (wp_callHostID (wg_props w) = wp_currentUserID (wg_props w))"

section \<open>The lists of devices\<close>

fun current_device :: "device_type \<Rightarrow> widget_state \<Rightarrow> device nullable" where
  "current_device AudioInputType s = st_audioInput s"
| "current_device AudioOutputType s = st_audioOutput s"
| "current_device VideoInputType s = st_videoInput s"

fun shows_list :: "device_type \<Rightarrow> widget_state \<Rightarrow> bool" where
  "shows_list AudioInputType s = st_showInputMenu s"
| "shows_list AudioOutputType s = st_showOutputMenu s"
| "shows_list VideoInputType s = st_showVideoMenu s"

text \<open>The current device is highlighted by its identifier or its label, and ticked by its identifier.\<close>

record device_line =
  dl_label :: string
  dl_highlighted :: bool
  dl_ticked :: bool

definition renderDevicesList :: "device_type \<Rightarrow> device list \<Rightarrow> widget \<Rightarrow> device_line list option" where
  "renderDevicesList t devices w =
     (let s = this_state w;
          is_current = (\<lambda>f d. case current_device t s of Val c \<Rightarrow> f d = f c | _ \<Rightarrow> False)
      in if \<not> shows_list t s then None
         else Some (map (\<lambda>d.
           \<lparr>dl_label = Call_Widget.makeDeviceLabel d,
            dl_highlighted = (is_current dev_id d \<or> is_current dev_label d),
            dl_ticked = is_current dev_id d\<rparr>) devices))"

fun device_title :: "device_type \<Rightarrow> string" where
  "device_title AudioInputType = ''Microphone''"
| "device_title AudioOutputType = ''Audio output''"
| "device_title VideoInputType = ''Camera''"

record device_row =
  dr_title :: string
  dr_label :: string
  dr_disabled :: bool
  dr_expanded :: bool
  dr_more :: bool
  dr_list :: "device_line list option"

definition renderDevices_row :: "device_type \<Rightarrow> widget \<Rightarrow> device_row option" where
  "renderDevices_row t w =
     map_option (\<lambda>(devices, label, isDisabled).
       \<lparr>dr_title = device_title t, dr_label = label, dr_disabled = isDisabled,
        dr_expanded = (shows_list t (this_state w) \<and> devices \<noteq> []), dr_more = (devices \<noteq> []),
        dr_list = (if devices \<noteq> [] then renderDevicesList t devices w else None)\<rparr>) (renderDevices t w)"

section \<open>The settings menu\<close>

datatype menu_item = DevicesItem device_row | MenuDivider | ScreenItem button_view | RecordItem string | ChatItem | SettingsItem

definition renderAdditionalSettingsMenuItem :: "widget_extras \<Rightarrow> widget \<Rightarrow> menu_item list" where
  "renderAdditionalSettingsMenuItem v w =
     (if wp_global (wg_props w) \<and> \<not> Call_Widget.has_api ''openCallsUserSettings'' w then []
      else if \<not> wp_global (wg_props w) \<and> \<not> wx_openUserSettings v then []
      else [SettingsItem])"

definition renderChatThreadMenuItem :: "widget \<Rightarrow> menu_item list" where
  "renderChatThreadMenuItem w =
     (if wp_global (wg_props w) \<and> \<not> Call_Widget.has_api ''openThreadForCalls'' w then [] else [ChatItem])"

definition recordingActionLabel :: "widget_extras \<Rightarrow> string" where
  "recordingActionLabel v = (if wx_isRecording v then ''Stop recording'' else ''Record call'')"

definition renderRecordingMenuItem :: "widget_extras \<Rightarrow> menu_item list" where
  "renderRecordingMenuItem v = [RecordItem (recordingActionLabel v)]"

text \<open>The label of the entry does not change with the permissions; what is missing is a second line of it.\<close>

definition renderScreenSharingMenuItem :: "widget \<Rightarrow> button_view" where
  "renderScreenSharingMenuItem w =
     (let sharingID = str_or (sharing_session w) '''';
          isSharing = (sharingID \<noteq> '''' \<and> Some sharingID = own_session w);
          isDisabled = (sharingID \<noteq> '''' \<and> \<not> isSharing);
          noPermissions = al_active (st_alerts (this_state w) MissingScreenPermissions)
      in \<lparr>bv_tooltip = (if isSharing then ''Stop presenting'' else ''Start presenting''),
          bv_subtext = (if noPermissions then tooltip_of MissingScreenPermissions else ''''),
          bv_shortcut = None, bv_enabled = (\<not> isDisabled), bv_unavailable = noPermissions\<rparr>)"

definition devices_items :: "device_type \<Rightarrow> widget \<Rightarrow> menu_item list" where
  "devices_items t w = (case renderDevices_row t w of None \<Rightarrow> [] | Some r \<Rightarrow> [DevicesItem r])"

definition renderMenu :: "widget_extras \<Rightarrow> widget \<Rightarrow> menu_item list option" where
  "renderMenu v w =
     (let showScreenShareItem = (wp_allowScreenSharing (wg_props w) \<and> \<not> wx_wider v)
      in if \<not> st_showMenu (this_state w) then None
         else Some
           (devices_items AudioOutputType w @ devices_items AudioInputType w @
            (if wp_enableVideo (wg_props w) then devices_items VideoInputType w else []) @ [MenuDivider] @
            (if showScreenShareItem then [ScreenItem (renderScreenSharingMenuItem w), MenuDivider] else []) @
            (if wx_recordingsEnabled v \<and> is_widget_host w then renderRecordingMenuItem v else []) @
            renderChatThreadMenuItem w @ renderAdditionalSettingsMenuItem v w))"

section \<open>Above the bar: screen, notifications, calls\<close>

text \<open>Whether it is the own screen, which can be stopped, and whose it is else, which can be popped out.\<close>

datatype screen_panel = OwnScreen | ScreenOf string

definition renderScreenSharingPanel :: "widget \<Rightarrow> screen_panel option" where
  "renderScreenSharingPanel w =
     (case wp_screenSharingSession (wg_props w) of
        None \<Rightarrow> None
      | Some s \<Rightarrow>
          if session_id s = own_session w then Some OwnScreen
          else map_option (\<lambda>p. ScreenOf (getUserDisplayName (Some p) False))
                 (Option.bind (user_id s) (obj_get (wp_profiles (wg_props w)))))"

record notification_bar =
  nb_joinVisible :: bool
  nb_joinMuted :: bool
  nb_hostNotices :: bool
  nb_joined :: "string list"

definition renderNotificationBar :: "widget_extras \<Rightarrow> widget \<Rightarrow> notification_bar option" where
  "renderNotificationBar v w =
     (let me = wp_currentUserID (wg_props w);
          joined = List.map_filter (\<lambda>u. if u = me then None
            else map_option (\<lambda>p. getUserDisplayName (Some p) False) (obj_get (wp_profiles (wg_props w)) u))
            (wx_recentlyJoinedUsers v)
      in if me = '''' then None
         else Some \<lparr>nb_joinVisible = (\<not> wx_clientConnecting v), nb_joinMuted = isMuted w,
                     nb_hostNotices = (wx_hostNotices v \<noteq> []), nb_joined = joined\<rparr>)"

definition renderIncomingCalls :: "widget_extras \<Rightarrow> incoming_call list option" where
  "renderIncomingCalls v = (if wx_callsIncoming v = [] then None else Some (wx_callsIncoming v))"

section \<open>The bars\<close>

text \<open>The link to the channel: its icons and its name.\<close>

definition channel_icons :: "channel option \<Rightarrow> string list" where
  "channel_icons ch =
     (if isPublicChannel ch then [''globe''] else []) @ (if isPrivateChannel ch then [''lock''] else []) @
     (if isDMChannel ch then [''account-outline''] else []) @ (if isGMChannel ch then [''account-multiple-outline''] else [])"

definition renderChannelName :: "widget_extras \<Rightarrow> widget \<Rightarrow> string list \<times> string" where
  "renderChannelName v w = (channel_icons (wp_channel (wg_props w)), wx_channelDisplayName v)"

text \<open>Whose picture is shown: that of the first session, in their order, that speaks and has a profile.\<close>

fun renderSpeakingProfile :: "profile obj \<Rightarrow> user_session list \<Rightarrow> profile option" where
  "renderSpeakingProfile profiles [] = None"
| "renderSpeakingProfile profiles (s # ss) =
     (case Option.bind (user_id s) (obj_get profiles) of
        Some p \<Rightarrow> if voice s = Some True then Some p else renderSpeakingProfile profiles ss
      | None \<Rightarrow> renderSpeakingProfile profiles ss)"

text \<open>The bar of a call without video and that of one with it; both have the time and the link, and can be dragged on a page.\<close>

datatype top_bar =
    SpeakerBar "profile option" "string option" "bool option" int "string list \<times> string" bool
  | ChannelBar "string list \<times> string" int bool

definition renderTopBar :: "widget_extras \<Rightarrow> widget \<Rightarrow> top_bar" where
  "renderTopBar v w = ChannelBar (renderChannelName v w) (wx_callStartAt v) (\<not> wp_global (wg_props w))"

definition speaker_bar :: "widget_extras \<Rightarrow> widget \<Rightarrow> top_bar" where
  "speaker_bar v w =
     SpeakerBar (renderSpeakingProfile (wp_profiles (wg_props w)) (wp_sessions (wg_props w)))
       (map_option (\<lambda>p. getUserDisplayName (Some p) False) (renderSpeaking w))
       (renderRecordingBadge (is_widget_host w) (wp_callRecording (wg_props w)))
       (wx_callStartAt v) (renderChannelName v w) (\<not> wp_global (wg_props w))"

text \<open>
  The two sides of a direct call: the picture, with a glow for speech, or the camera, and a mark when muted.
\<close>

record side_view =
  sv_user :: string
  sv_picture :: bool
  sv_glow :: bool
  sv_stream :: "nat option"
  sv_mirrored :: bool
  sv_muteMark :: bool
  sv_videoView :: bool
  sv_singleSession :: bool

definition CallsWidgetProfile :: "profile \<Rightarrow> nat option \<Rightarrow> user_session \<Rightarrow> bool \<Rightarrow> bool \<Rightarrow> bool \<Rightarrow> side_view" where
  "CallsWidgetProfile p stream s videoView mirror single =
     (let hasVideo = (video s = Some True)
      in \<lparr>sv_user = p_id p, sv_picture = (\<not> hasVideo), sv_glow = (\<not> hasVideo \<and> voice s = Some True),
          sv_stream = (if hasVideo then stream else None), sv_mirrored = (hasVideo \<and> mirror),
          sv_muteMark = (unmuted s \<noteq> Some True), sv_videoView = videoView, sv_singleSession = single\<rparr>)"

definition renderProfiles :: "widget_extras \<Rightarrow> widget \<Rightarrow> side_view list" where
  "renderProfiles v w =
     (let p = wg_props w;
          selfProfile = obj_get (wp_profiles p) (wp_currentUserID p);
          others = wp_otherSessions p;
          otherSession = (case others of [] \<Rightarrow> None | s # _ \<Rightarrow> Some s);
          has_video = (\<lambda>s. case s of None \<Rightarrow> False | Some x \<Rightarrow> video x = Some True);
          videoView = (has_video otherSession \<or> has_video (wp_currentSession p))
      in (case (wx_connectedDMUser v, otherSession) of
            (Some op, Some os) \<Rightarrow> [CallsWidgetProfile op (st_otherVideoStream (this_state w)) os videoView False False]
          | _ \<Rightarrow> []) @
         (case (selfProfile, wp_currentSession p) of
            (Some sp, Some ss) \<Rightarrow>
              [CallsWidgetProfile sp (st_selfVideoStream (this_state w)) ss videoView (wx_mirrorVideo v) (others = [])]
          | _ \<Rightarrow> []))"

section \<open>The buttons\<close>

text \<open>
  What can be clicked in the bar at the bottom and in the menu, with its label, and the event a click makes
  when it is enabled. The button to leave opens a menu of its own.
\<close>

datatype widget_control =
    ParticipantsControl | MuteControl | VideoControl | HandControl | ShareControl | MenuControl | LeaveControl
  | ShareItem | RecordingItem | ChatThreadItem | AdditionalSettingsItem

definition plain_button :: "string \<Rightarrow> string option \<Rightarrow> button_view" where
  "plain_button label shortcut =
     \<lparr>bv_tooltip = label, bv_subtext = '''', bv_shortcut = shortcut, bv_enabled = True, bv_unavailable = False\<rparr>"

fun control_button :: "widget_extras \<Rightarrow> widget \<Rightarrow> widget_control \<Rightarrow> button_view" where
  "control_button v w ParticipantsControl =
     plain_button (if st_showParticipantsList (this_state w) then ''Hide participants'' else ''Show participants'')
       (widget_shortcut PARTICIPANTS_LIST_TOGGLE w)"
| "control_button v w MuteControl = mute_button w"
| "control_button v w VideoControl = (case video_button w of Some b \<Rightarrow> b | None \<Rightarrow> plain_button '''' None)"
| "control_button v w HandControl =
     plain_button (if isHandRaised w then ''Lower hand'' else ''Raise hand'') (widget_shortcut RAISE_LOWER_HAND w)"
| "control_button v w ShareControl = renderScreenShareButton w"
| "control_button v w MenuControl = plain_button ''More options'' None"
| "control_button v w LeaveControl = plain_button ''Leave call'' (widget_shortcut LEAVE_CALL w)"
| "control_button v w ShareItem = renderScreenSharingMenuItem w"
| "control_button v w RecordingItem = plain_button (recordingActionLabel v) None"
| "control_button v w ChatThreadItem = plain_button ''Show chat thread'' None"
| "control_button v w AdditionalSettingsItem = plain_button ''Additional settings'' None"

definition bottom_bar :: "widget_extras \<Rightarrow> widget \<Rightarrow> widget_control list" where
  "bottom_bar v w =
     (let p = wg_props w; dm = isDMChannel (wp_channel p)
      in [ParticipantsControl, MuteControl] @ (if wp_enableVideo p then [VideoControl] else []) @
         (if dm then [] else [HandControl]) @
         (if wp_allowScreenSharing p \<and> (wx_wider v \<or> dm) then [ShareControl] else []) @ [MenuControl, LeaveControl])"

fun item_control :: "menu_item \<Rightarrow> widget_control list" where
  "item_control (ScreenItem b) = [ShareItem]"
| "item_control (RecordItem l) = [RecordingItem]"
| "item_control ChatItem = [ChatThreadItem]"
| "item_control SettingsItem = [AdditionalSettingsItem]"
| "item_control _ = []"

definition menu_controls :: "widget_extras \<Rightarrow> widget \<Rightarrow> widget_control list" where
  "menu_controls v w = (case renderMenu v w of None \<Rightarrow> [] | Some items \<Rightarrow> concat (map item_control items))"

fun click_event :: "widget_control \<Rightarrow> widget_event option" where
  "click_event ParticipantsControl = Some ClickParticipants"
| "click_event MuteControl = Some ClickMute"
| "click_event VideoControl = Some ClickVideo"
| "click_event HandControl = Some ClickHand"
| "click_event ShareControl = Some ClickShare"
| "click_event MenuControl = Some ClickMenu"
| "click_event LeaveControl = None"
| "click_event ShareItem = Some ClickShare"
| "click_event RecordingItem = Some ClickRecord"
| "click_event ChatThreadItem = Some ClickThread"
| "click_event AdditionalSettingsItem = Some ClickSettings"

definition click_control :: "(string \<Rightarrow> string \<Rightarrow> int) \<Rightarrow> int \<Rightarrow> widget_extras \<Rightarrow> widget_control \<Rightarrow> widget \<Rightarrow> widget" where
  "click_control cmp thr v c w =
     (if \<not> bv_enabled (control_button v w c) then w
      else case click_event c of None \<Rightarrow> w | Some e \<Rightarrow> widget_step cmp thr e w)"

section \<open>The widget\<close>

record widget_view =
  wv_loading :: "bool \<times> bool"
  wv_leaveShim :: bool
  wv_incoming :: "incoming_call list option"
  wv_notifications :: "notification_bar option"
  wv_alerts :: "(alert_id \<times> alert_state) list"
  wv_recording :: "Recording_Banner.widget_banner option"
  wv_removal :: bool
  wv_screen :: "screen_panel option"
  wv_participants :: bool
  wv_menu :: "menu_item list option"
  wv_top :: top_bar
  wv_sides :: "side_view list"
  wv_count :: nat
  wv_buttons :: "widget_control list"

definition render_widget :: "widget_extras \<Rightarrow> widget \<Rightarrow> widget_view option" where
  "render_widget v w =
     (let p = wg_props w
      in if wp_channel p = None \<or> wg_client w = None \<or> \<not> wp_show p then None
         else Some
           \<lparr>wv_loading = (wx_clientConnecting v,
              if wp_global p then \<not> wx_startingCall v else wp_sessions p \<noteq> []),
            wv_leaveShim = show_leave_shim w,
            wv_incoming = renderIncomingCalls v,
            wv_notifications = renderNotificationBar v w,
            wv_alerts = renderAlertBanners w,
            wv_recording = renderRecordingDisclaimer (is_widget_host w) (wx_callHostChangeAt v)
              (wp_callRecording p) (wx_transcriptionsEnabled v),
            wv_removal = widget_remove_shown w (wx_sessionsMap v),
            wv_screen = (if wp_allowScreenSharing p then renderScreenSharingPanel w else None),
            wv_participants = st_showParticipantsList (this_state w),
            wv_menu = renderMenu v w,
            wv_top = (if wp_enableVideo p then renderTopBar v w else speaker_bar v w),
            wv_sides = (if wp_enableVideo p then renderProfiles v w else []),
            wv_count = length (wp_sessions p),
            wv_buttons = bottom_bar v w\<rparr>)"

section \<open>Lemmas\<close>

text \<open>The picture and the name of the speaker are of one session.\<close>

lemma speaker_agrees:
  "renderSpeakingProfile (wp_profiles (wg_props w)) (wp_sessions (wg_props w)) = renderSpeaking w"
proof -
  have "renderSpeakingProfile ps ss =
      (case List.find (\<lambda>s. voice s = Some True \<and> Option.bind (user_id s) (obj_get ps) \<noteq> None) ss of
         None \<Rightarrow> None | Some s \<Rightarrow> Option.bind (user_id s) (obj_get ps))" for ps ss
    by (induction ss) (auto split: option.split)
  then show ?thesis by (simp add: renderSpeaking_def)
qed

lemma rendered_parts:
  assumes "render_widget v w = Some vw"
  shows "wg_client w \<noteq> None" "wp_channel (wg_props w) \<noteq> None" "wv_buttons vw = bottom_bar v w"
    "wv_participants vw = st_showParticipantsList (this_state w)" "wv_menu vw = renderMenu v w"
proof -
  have "wp_channel (wg_props w) \<noteq> None \<and> wg_client w \<noteq> None \<and> wp_show (wg_props w)"
    using assms by (rule contrapos_pp) (auto simp: render_widget_def Let_def)
  with assms show "wg_client w \<noteq> None" "wp_channel (wg_props w) \<noteq> None" "wv_buttons vw = bottom_bar v w"
    "wv_participants vw = st_showParticipantsList (this_state w)" "wv_menu vw = renderMenu v w"
    by (auto simp: render_widget_def Let_def split del: if_split)
qed

text \<open>In a state with exclusive menus, one thing at most is open above the bar, and at most one list of devices.\<close>

lemma view_menus:
  assumes "menus_exclusive (this_state w)"
  shows "render_widget v w = Some vw \<Longrightarrow> wv_participants vw \<Longrightarrow> wv_menu vw = None"
    and "t \<noteq> t' \<Longrightarrow> renderDevicesList t ds w = Some l \<Longrightarrow> renderDevicesList t' ds' w = None"
proof -
  show "wv_menu vw = None" if "render_widget v w = Some vw" "wv_participants vw"
    using assms that(2) rendered_parts(4,5) [OF that(1)] by (simp add: menus_exclusive_def renderMenu_def)
  have "t \<noteq> t' \<Longrightarrow> shows_list t (this_state w) \<Longrightarrow> \<not> shows_list t' (this_state w)"
    using assms by (cases t; cases t') (simp_all add: menus_exclusive_def)
  then show "t \<noteq> t' \<Longrightarrow> renderDevicesList t ds w = Some l \<Longrightarrow> renderDevicesList t' ds' w = None"
    by (simp add: renderDevicesList_def Let_def split: if_split_asm)
qed

lemma no_device_controls: "concat (map item_control (devices_items t w)) = []"
  by (cases "renderDevices_row t w") (simp_all add: devices_items_def)

lemma menu_controls_set:
  "set (menu_controls v w) =
     (if st_showMenu (this_state w) then
        (if wp_allowScreenSharing (wg_props w) \<and> \<not> wx_wider v then {ShareItem} else {}) \<union>
        (if wx_recordingsEnabled v \<and> is_widget_host w then {RecordingItem} else {}) \<union>
        (if renderChatThreadMenuItem w = [] then {} else {ChatThreadItem}) \<union>
        (if renderAdditionalSettingsMenuItem v w = [] then {} else {AdditionalSettingsItem})
      else {})"
proof -
  have "set (concat (map item_control (renderChatThreadMenuItem w))) =
      (if renderChatThreadMenuItem w = [] then {} else {ChatThreadItem})"
    by (simp add: renderChatThreadMenuItem_def)
  moreover have "set (concat (map item_control (renderAdditionalSettingsMenuItem v w))) =
      (if renderAdditionalSettingsMenuItem v w = [] then {} else {AdditionalSettingsItem})"
    by (simp add: renderAdditionalSettingsMenuItem_def)
  ultimately show ?thesis
    by (auto simp: menu_controls_def renderMenu_def no_device_controls renderRecordingMenuItem_def Let_def
        simp del: set_concat set_map)
qed

lemma bottom_bar_set:
  "set (bottom_bar v w) =
     {ParticipantsControl, MuteControl, MenuControl, LeaveControl} \<union>
     (if wp_enableVideo (wg_props w) then {VideoControl} else {}) \<union>
     (if isDMChannel (wp_channel (wg_props w)) then {} else {HandControl}) \<union>
     (if wp_allowScreenSharing (wg_props w) \<and> (wx_wider v \<or> isDMChannel (wp_channel (wg_props w))) then {ShareControl} else {})"
  by (auto simp: bottom_bar_def Let_def)

text \<open>The bar and the menu do not both offer to share the screen, but for the narrow widget of a direct call.\<close>

lemma share_offered_once:
  assumes "ShareControl \<in> set (bottom_bar v w)" "ShareItem \<in> set (menu_controls v w)"
  shows "isDMChannel (wp_channel (wg_props w)) \<and> \<not> wx_wider v"
  using assms by (simp add: bottom_bar_set menu_controls_set split: if_split_asm)

section \<open>Labels and what they do\<close>

text \<open>What a label says that a click asks for, of the client, the server or the application.\<close>

definition promised :: "string \<Rightarrow> widget_call \<Rightarrow> bool" where
  "promised l k =
     (if l = ''Mute'' then k = WMute else if l = ''Unmute'' then k = WUnmute
      else if l = ''Raise hand'' then k = WRaiseHand else if l = ''Lower hand'' then k = WUnraiseHand
      else if l = ''Turn camera on'' then k = WStartVideo else if l = ''Turn camera off'' then k = WStopVideo
      else if l = ''Stop presenting'' then k = WUnshareScreen
      else if l = ''Start presenting'' then
        (case k of WShareScreen i b \<Rightarrow> True | WShowScreenSourceModal \<Rightarrow> True | WDesktop f xs \<Rightarrow> f = ''openScreenShareModal''
         | WLegacy m xs \<Rightarrow> m = ''desktop-sources-modal-request'' | _ \<Rightarrow> False)
      else if l = ''Record call'' then (case k of WStartRecording ch \<Rightarrow> True | _ \<Rightarrow> False)
      else l = ''Stop recording'' \<and>
        (case k of WStopRecordingModal ch \<Rightarrow> True | WStopRecording ch \<Rightarrow> True
         | WDesktop f xs \<Rightarrow> f = ''openStopRecordingModal'' | _ \<Rightarrow> False))"

definition promises :: "string list" where
  "promises = [''Mute'', ''Unmute'', ''Raise hand'', ''Lower hand'', ''Turn camera on'', ''Turn camera off'', ''Stop presenting'',
     ''Start presenting'', ''Record call'', ''Stop recording'']"

text \<open>The times of a recording as the server sets them, and the time until its recorder has started.\<close>

definition job_times_ok :: "job_state \<Rightarrow> bool" where
  "job_times_ok j =
     (let i = num_or (init_at j) 0; s = num_or (start_at j) 0; e = num_or (end_at j) 0
      in (init_at j = None) = (end_at j = None) \<and> 0 \<le> i \<and> 0 \<le> s \<and> 0 \<le> e \<and> (0 < s \<longrightarrow> 0 < i) \<and>
         (0 < e \<longrightarrow> i \<le> e \<and> s \<le> e))"

definition recording_starting :: "job_state \<Rightarrow> bool" where
  "recording_starting j = (num_or (init_at j) 0 > 0 \<and> num_or (start_at j) 0 = 0 \<and> num_or (end_at j) 0 = 0)"

lemma job_num: "(case x of None \<Rightarrow> 0 | Some n \<Rightarrow> n) = num_or x (0 :: int)"
  by (cases x) (simp_all add: num_or_def)

lemma job_label:
  assumes "job_times_ok j" "\<not> recording_starting j"
  shows "js_gt (init_at j) (end_at j) \<longleftrightarrow> recording_runs (Some j)"
  using assms
  by (cases "init_at j"; cases "end_at j")
    (auto simp: job_times_ok_def recording_starting_def recording_runs_def js_gt_def job_num num_or_def Let_def)

lemma job_of_store:
  "isRecordingInCurrentCall a = js_gt (init_at (recordingForCurrentCall a)) (end_at (recordingForCurrentCall a))"
  by (simp add: isRecordingInCurrentCall_def recordingForCurrentCall_def empty_job_def js_gt_def split: option.split)

lemma react_out: "wg_out (by_react h w) = wg_out (h (w\<lparr>wg_batched := True\<rparr>))"
  by (simp add: by_react_def Let_def)

lemma batched_reads [simp]:
  "isMuted (w\<lparr>wg_batched := True\<rparr>) = isMuted w" "isHandRaised (w\<lparr>wg_batched := True\<rparr>) = isHandRaised w"
  "isVideoOn (w\<lparr>wg_batched := True\<rparr>) = isVideoOn w" "sharing_session (w\<lparr>wg_batched := True\<rparr>) = sharing_session w"
  "own_session (w\<lparr>wg_batched := True\<rparr>) = own_session w"
  by (simp_all add: isMuted_def isHandRaised_def isVideoOn_def sharing_session_def own_session_def)

lemma mute_click:
  "wg_client w \<noteq> None \<Longrightarrow>
   wg_out (by_react onMuteToggle w) = wg_out w @ [WBlurActive, if isMuted w then WUnmute else WMute]"
  by (simp add: react_out onMuteToggle_def)

lemma hand_click:
  "wg_client w \<noteq> None \<Longrightarrow>
   wg_out (by_react onRaiseHandToggle w) = wg_out w @ [WBlurActive, if isHandRaised w then WUnraiseHand else WRaiseHand]"
  by (simp add: react_out onRaiseHandToggle_def)

lemma video_click:
  "wg_client w \<noteq> None \<Longrightarrow>
   wg_out (by_react onVideoToggle w) = wg_out w @ [if isVideoOn w then WStopVideo else WStartVideo]"
  by (simp add: react_out onVideoToggle_def)

lemma share_click:
  assumes "wg_client w \<noteq> None" "wp_allowScreenSharing (wg_props w)" "own_session w = Some sid"
  shows "sharing_session w = Some sid \<Longrightarrow> wg_out (by_react (onShareScreenToggle cmp) w) = wg_out w @ [WUnshareScreen]"
    and "wp_screenSharingSession (wg_props w) = None \<Longrightarrow>
      \<exists>k. wg_out (by_react (onShareScreenToggle cmp) w) = wg_out w @ [k] \<and> promised ''Start presenting'' k"
  using assms
  by (auto simp: react_out onShareScreenToggle_def shareScreen_start_def promised_def sharing_session_def Let_def
      split: option.split)

lemma record_click:
  assumes "wp_channel (wg_props w) = Some ch"
  shows "\<exists>k. wg_out (by_react onRecordToggle w) = wg_out w @ [k] \<and>
    promised (if recording_runs (wp_callRecording (wg_props w)) then ''Stop recording'' else ''Record call'') k"
  using assms by (auto simp: react_out onRecordToggle_def promised_def Let_def)

lemma alerts_promise_nothing:
  "tooltip_of MissingAudioInput \<notin> set promises" "tooltip_of MissingAudioInputPermissions \<notin> set promises"
  "tooltip_of MissingVideoInput \<notin> set promises" "tooltip_of MissingVideoInputPermissions \<notin> set promises"
  "tooltip_of MissingScreenPermissions \<notin> set promises"
  by (simp_all add: tooltip_of_def promises_def)

lemma label_cases:
  "bv_tooltip (mute_button w) \<in> set promises \<Longrightarrow> bv_tooltip (mute_button w) = (if isMuted w then ''Unmute'' else ''Mute'')"
  "video_button w = Some b \<Longrightarrow> bv_tooltip b \<in> set promises \<Longrightarrow>
   bv_tooltip b = (if isVideoOn w then ''Turn camera off'' else ''Turn camera on'')"
  using alerts_promise_nothing
  by (auto simp: mute_button_def video_button_def Let_def split: if_split_asm)

lemma share_labels:
  assumes "b = renderScreenShareButton w \<or> b = renderScreenSharingMenuItem w" "bv_enabled b" "bv_tooltip b \<in> set promises"
    and "own_session w = Some sid" "sid \<noteq> ''''"
    and "\<And>s. wp_screenSharingSession (wg_props w) = Some s \<Longrightarrow> str_or (session_id s) '''' \<noteq> ''''"
  shows "bv_tooltip b = ''Stop presenting'' \<and> sharing_session w = Some sid \<or>
    bv_tooltip b = ''Start presenting'' \<and> wp_screenSharingSession (wg_props w) = None"
proof (cases "wp_screenSharingSession (wg_props w)")
  case None
  then have "sharing_session w = None" by (simp add: sharing_session_def)
  then show ?thesis using assms(1,3) None alerts_promise_nothing(5)
    by (auto simp: renderScreenShareButton_def renderScreenSharingMenuItem_def str_or_def Let_def split: if_split_asm)
next
  case (Some s)
  then obtain i where i: "sharing_session w = Some i" "i \<noteq> ''''"
    using assms(6) by (auto simp: sharing_session_def str_or_def split: option.split_asm if_split_asm)
  then have "i = sid" using assms(1,2,4)
    by (auto simp: renderScreenShareButton_def renderScreenSharingMenuItem_def str_or_def Let_def)
  then show ?thesis using assms(1,3,4) i alerts_promise_nothing(5)
    by (auto simp: renderScreenShareButton_def renderScreenSharingMenuItem_def str_or_def Let_def split: if_split_asm)
qed


text \<open>While the recorder is being started the entry says to stop, and a click starts a recording.\<close>

lemma record_label_while_starting:
  assumes "wg_props w = mapStateToProps lc url gl a" "v = mapExtraProps dn teams starting ous mirror a"
    and "wp_channel (wg_props w) = Some ch" "recording_starting (recordingForCurrentCall a)" "end_at (recordingForCurrentCall a) \<noteq> None"
  shows "bv_tooltip (control_button v w RecordingItem) = ''Stop recording'' \<and>
    wg_out (click_control cmp thr v RecordingItem w) = wg_out w @ [WStartRecording (c_id ch)]"
proof -
  have "wx_isRecording v" "\<not> recording_runs (wp_callRecording (wg_props w))"
    using assms(4,5)
    by (auto simp: assms(1,2) mapStateToProps_def mapExtraProps_def job_of_store recording_starting_def recording_runs_def
        js_gt_def job_num num_or_def Let_def split: option.splits if_splits)
  then show ?thesis
    using assms(3) by (simp add: click_control_def plain_button_def recordingActionLabel_def react_out onRecordToggle_def)
qed

definition sample_speaking :: app where
  "sample_speaking = world_app (put_action (USER_JOINED ''ch'' ''u1'' ''s1'') sample_joined)"

definition sample_shown :: widget where
  "sample_shown = sample_widget\<lparr>wg_props := mapStateToProps (\<lambda>a b. 0) ''/t'' False sample_speaking\<rparr>"

definition sample_extras :: widget_extras where
  "sample_extras = mapExtraProps ''bob'' 1 False True False sample_speaking"



end
