(* ===== verification/Spec2Isabelle.thy ===== *)
theory Spec2Isabelle
  imports Client_Loop Call_Windows Standalone_Properties Recorder_Images Call_Settings Call_Switching
    Participants_Grid Screen_Source Call_Views Admin_Console Plugin_Lifecycle Ice_Stats Page_Utils Site_Stats
    Participant_Views Call_Dialogs Widget_View
begin

text \<open>
  Verification of the Mattermost Calls web application, the TypeScript of \<open>webapp/src\<close>
  and of \<open>standalone/src\<close>.

  The program. A window of the application holds one store (\<open>reducers.ts\<close>), read through selectors
  (\<open>selectors.ts\<close>) and written by the thunks of \<open>actions.ts\<close>. The handlers of
  \<open>websocket_handlers.ts\<close> turn the server's events into actions, timers and calls. A window that is
  in a call also holds a client (\<open>client.ts\<close>), which owns the microphone, camera and screen, a peer
  connection, and a websocket of its own (\<open>websocket.ts\<close>). \<open>index.tsx\<close> joins calls, wires client
  and store together and loads the calls of the channels; \<open>slash_commands.tsx\<close> and the incoming
  call hooks are further ways in. Two React components show the call and take the user's input: the
  widget (\<open>components/call_widget\<close>) and the expanded view (\<open>components/expanded_view\<close>), the
  latter also in a pop-out window that uses the client of its opener. Two pages of \<open>standalone\<close> run
  the same store and client on their own: the widget of the desktop application and the recorder.

  The theories, in the order they build on each other.

  \<^item> \<open>JS_Prelude\<close>: JavaScript values (objects in insertion order, \<open>undefined\<close> and \<open>null\<close>, \<open>||\<close>),
    stable sort comparators. \<open>JS_Sort\<close>: the sort.
  \<^item> \<open>Call_Types\<close>: the types, constants and actions of \<open>types.ts\<close>, \<open>constants.ts\<close>, \<open>action_types.ts\<close>.
  \<^item> \<open>Session_Reducers\<close>, \<open>Stream_Reducers\<close>, \<open>Call_Reducers\<close>, \<open>Store\<close>: \<open>reducers.ts\<close>. One definition per
    branch of the sessions slice, one \<open>fun\<close> per other slice, and their combination, where a branch
    that throws is an \<open>Inl\<close> and leaves the store as it was.
  \<^item> \<open>Host_State\<close>: what the code reads of the application around it, an argument of every definition
    that reads it. \<open>Utils\<close>, \<open>Selectors\<close>: \<open>utils.ts\<close> and \<open>selectors.ts\<close>.
  \<^item> \<open>World\<close>, \<open>Action_Creators\<close>, \<open>Ws_Handlers\<close>: the window (store, client, clock, pending timers and
    promises, log of effects), \<open>actions.ts\<close> and \<open>websocket_handlers.ts\<close> as functions on it, and the
    routing table of \<open>registerWebSocketEvents\<close>.
  \<^item> \<open>Event_Loop\<close>: any order of events, due timers, settled promises and other code. Every operation
    is shown to be a \<^emph>\<open>good\<close> move, and the locale \<open>expiring\<close> turns that into an invariant of each
    short-lived slice. \<open>Samples\<close>: states for the witnesses.
  \<^item> \<open>Ws_Client\<close>: \<open>websocket.ts\<close> as a state machine over the events of the browser's socket.
  \<^item> \<open>Media_Store\<close>, \<open>Calls_Client\<close>, \<open>Client_Loop\<close>: \<open>client.ts\<close>. Tracks and streams are an explicit
    store, because they are shared and changed in place. An asynchronous method is cut at its awaits;
    its continuations are data on the stack of a thread, and the step relation answers the requests
    of the threads in any order, between any calls and events.
  \<^item> \<open>Join_Flow\<close>, \<open>Slash_Commands\<close>: \<open>index.tsx\<close>, \<open>desktop.ts\<close>, \<open>desktop_notifications.ts\<close>,
    \<open>components/incoming_calls/hooks.ts\<close> and \<open>slash_commands.tsx\<close>, shown to be good moves, so that
    the invariants of the loop hold with them too.
  \<^item> \<open>Shortcuts\<close>: \<open>shortcuts.ts\<close>. \<open>Call_Alerts\<close>: the alerts of the call windows, the state of
    a React component, and the locale \<open>quality_banner\<close>, the contract of the call quality banner.
    \<open>Recording_Banner\<close>: the recording banner, which the two windows decide in code of their own, and
    the hooks of the pop-out's.
  \<^item> \<open>Call_Widget\<close>, \<open>Widget_Loop\<close>, \<open>Widget_Properties\<close>: \<open>call_widget/component.tsx\<close>, its
    handlers one definition each, its events as a step function, and what holds in every state.
    \<open>Expanded_View\<close>, \<open>Call_Windows\<close>: the same of \<open>expanded_view/component.tsx\<close>, and the two
    windows side by side; both are interpretations of \<open>quality_banner\<close>.
  \<^item> \<open>Standalone\<close>, \<open>Standalone_Properties\<close>: \<open>standalone/src/init.ts\<close> and the hooks of the two pages
    as steps on a page that holds a window; every step of a page is a run of its window.
    \<open>Recorder_Images\<close>: the images of the recorder, on an explicit store of objects, and its view.
  \<^item> \<open>Device_Settings\<close>: the device sections of the user settings (\<open>user_settings\<close>), on the same
    storage as the client. \<open>Call_Settings\<close>: the settings menu of the pop-out.
  \<^item> \<open>Call_Switching\<close>: the dialog that asks before changing calls, and the handler of the messages
    to a window. \<open>Screen_Source\<close>: the dialog that asks what to share. \<open>Participants_Grid\<close>: the layout
    of the grid. \<open>Call_Views\<close>: the host's controls, the stream of reactions, and the places a call can
    be joined from. \<open>Participant_Views\<close>: the three displays of a participant. \<open>Call_Dialogs\<close>: banners, prompts,
    dialogs, the dot menu and the incoming call. \<open>Widget_View\<close>: what the render methods of the widget show.
  \<^item> \<open>Admin_Settings\<close>, \<open>Admin_Console\<close>: the settings of the system console
    (\<open>admin_console_settings\<close>), one definition per component, and the page they form, whose components
    tell each other through the store what was picked. \<open>Site_Stats\<close>: \<open>stats.tsx\<close>.
  \<^item> \<open>Plugin_Lifecycle\<close>: \<open>class Plugin\<close> of \<open>index.tsx\<close>, from \<open>initialize\<close> to \<open>uninitialize\<close>, its
    registrations as data. \<open>Ice_Stats\<close>: the polling of \<open>collectICEStats\<close> (\<open>client.ts\<close>).
    \<open>Page_Utils\<close>: the helpers of \<open>utils.ts\<close> that read the page.
  \<^item> This theory: the properties that span the store and its handlers.

  What the lemmas show. Of the slices: what each action changes and what it leaves, the bound of the
  reaction stream, the race between a timeout and a newer item. Of the window: no timer throws,
  everything short-lived expires, a call rings at most once, the end of a call clears what it
  should, announcements are guarded, host controls reach only their session, joining is allowed
  where it happens, and loading over HTTP leaves the current call alone. Of the websocket: it is
  never stuck, gives up after a bounded number of attempts, and a closed one is silent. Of the call
  client: the end stops all capture and is final, and unmuting sends the right track. Of the call
  windows: menus exclude each other, push-to-talk ends muted, a drag stays on the page, the mute
  button, the client and the store agree, the two recording banners are one specification. Of the
  standalone pages: their stores are those of a window, so the invariants carry over, the desktop
  widget leaves when its client closes, the recorder keeps the images it has. Of the settings: what
  is saved is what the client uses, the settings and the client read the stored device alike, the
  preview holds one camera. Of the dialogs: a change of calls leaves before it joins, only a listed
  source is shared. The places to join a call agree, the grid fits,
  a participant looks the same in each display, and a call lost to an error can be joined again from its dialog.
  The buttons of the widget do what their labels say. Of the system console: the effects
  between the settings end, what is shown follows the form, overrides by the environment lock. Of the
  plugin: what it registers it takes back, and the two interfaces of the desktop application agree.

  Some theorems state what the code does where it does not do what it means to: the late update of a
  session that has left, the duplicate announcement, the dismissal looked up under the wrong
  identifier, the microphone that is granted too late, the unmute that overlaps a change of device,
  the background blur that is lost with a change of camera, the double join, push-to-talk that is
  stuck on a modifier key, the device alerts that are lost when the expanded view mounts, the
  warning before the end of a recording that time never raises, the standalone pages that are never
  told that they start a call, the stored device lost by saving too early, the camera left on by
  closing its settings, the override by the environment that mounting a toggle overwrites, the setting of
  a channel stored for another, the activation after the plugin was taken down,
  the entry that says to stop a recording and starts one.

  Bounds. The reaction stream holds 50 reactions; timers are due within 30 seconds, the longest
  constant; an outage of the websocket lasts ten attempts, since the eleventh would start later than
  30 seconds after the loss however fast the others fail. No definition takes fuel: every loop is
  structural recursion, and what may go on for ever (the event loop, reconnection, awaits) is a step
  relation.

  Conventions. Numbers are unbounded integers; the code's are doubles holding counts and
  milliseconds, far below the range where they differ. A dispatch runs to its end before anything
  else does; a continuation of a promise that has already settled runs at once, so other
  continuations do not come between the end of a method and the rest of the one that awaits it.

  React is not part of the repository. What the call windows rely on is its documented contract:
  calls of \<open>setState\<close> are merged in order, and batched inside event handlers and life-cycle
  methods, so that \<open>this.state\<close> is the old one until these return; a handler says whether it is
  called so. In \<open>quality_banner\<close> the scores come from the client, outside the batching, and the
  closing from React.

  Not modelled. The markup and styles of the components, the help texts of the system console, the texts of
  times, the components that only render (\<open>icons\<close>, \<open>avatar\<close>), and the self-measuring of the screen
  player. Of \<open>client.ts\<close> the payloads of messages on the wire beyond their kind. Of \<open>utils.ts\<close> the setting
  of CSS variables, the closing of a popover, the blank audio track, and the rewriting of session
  descriptions; of \<open>index.tsx\<close> the registrations that the application drops by itself.
  Logging. \<open>RTCPeer\<close>, \<open>RTCMonitor\<close>, the browser's media and the
  application's own selectors are not part of the repository: they are arguments, requests with their
  answers, or entries of a log. The server (\<open>server\<close>, in Go), the load tests (\<open>lt\<close>) and the
  end-to-end tests (\<open>e2e\<close>) are other programs.
\<close>

section \<open>Runs of a window\<close>

text \<open>
  C1. In every state a window can reach, a timer that may fire never throws: the one branch of
  the reducers that throws, the timeout of a host control notice of a call without a notice
  list, is never run, because every such timeout is preceded by its notice.
\<close>

theorem timers_never_throw:
  assumes "world_reach w" and "can_fire i w"
  shows "\<exists>st. root_reducer (w_plugin w) (task_action (snd (w_timers w ! i))) = Inr st"
proof -
  let ?a = "task_action (snd (w_timers w ! i))"
  have "root_reducer (w_plugin w) ?a \<noteq> Inl e" for e
  proof
    assume "root_reducer (w_plugin w) ?a = Inl e"
    then obtain c n where a: "?a = HOST_CONTROL_NOTICE_TIMEOUT_EVENT c n"
      and none: "obj_get (s_hostControlNotices (w_plugin w)) c = None"
      by (auto simp: root_reducer_throws_iff hostControlNotices_throws_iff)
    from a have t: "(fst (w_timers w ! i), Dispatch (HOST_CONTROL_NOTICE_TIMEOUT_EVENT c n)) \<in> set (w_timers w)"
      using can_fire_in [OF assms(2)] by (cases "w_timers w ! i") (auto simp: task_action_def split: task.splits)
    then show False
      using world_notices_ready [OF assms(1)] none assms(2)
      by (fastforce simp: notices_ready_def can_fire_def list_all_iff)
  qed
  then show ?thesis by (cases "root_reducer (w_plugin w) ?a") auto
qed

theorem timers_never_throw_witness:
  "\<exists>st. root_reducer (w_plugin sample_notice) (task_action (snd (w_timers sample_notice ! 0))) = Inr st"
proof -
  have "can_fire 0 sample_notice" by code_simp
  then show ?thesis by (rule timers_never_throw [OF sample_notice_reach])
qed

text \<open>
  C2. Nothing short-lived stays in the store for ever: every caption, every reaction of the
  stream, every recently joined user and every host control notice a reachable window shows has
  a pending timer, due within thirty seconds, whose action removes it.
\<close>

theorem displayed_items_expire:
  assumes "world_reach w"
    and "caption_live (w_plugin w) x \<or> reaction_live (w_plugin w) x \<or>
         join_live (w_plugin w) x \<or> notice_live (w_plugin w) x"
  shows "(\<exists>d. (d, Dispatch x) \<in> set (w_timers w) \<and> d \<le> w_now w + RING_LENGTH) \<and>
     \<not> caption_live (dispatch x (w_plugin w)) x \<and> \<not> reaction_live (dispatch x (w_plugin w)) x \<and>
     \<not> join_live (dispatch x (w_plugin w)) x \<and> \<not> notice_live (dispatch x (w_plugin w)) x"
proof -
  have "Dispatch x \<in> snd ` set (w_timers w)"
    using assms captions.always_expires reaction_stream.always_expires joins.always_expires
      notices.always_expires by blast
  then obtain d where d: "(d, Dispatch x) \<in> set (w_timers w)" by force
  moreover have "d \<le> w_now w + RING_LENGTH"
    using world_timers_ok [OF assms(1)] d by (fastforce simp: timers_ok_def)
  ultimately show ?thesis
    using captions.live_expires reaction_stream.live_expires joins.live_expires notices.live_expires
    by blast
qed

theorem displayed_items_expire_witness:
  "\<exists>d. (d, Dispatch (LIVE_CAPTION_TIMEOUT_EVENT ''ch'' ''s2'' ''id'')) \<in> set (w_timers sample_busy)"
proof -
  have "caption_of (s_liveCaptions (w_plugin sample_busy)) ''ch'' ''s2'' =
      Some \<lparr>lc_channel_id = ''ch'', lc_session_id = ''s2'', lc_user_id = ''u2'', lc_text = ''hello'',
        lc_display_name = ''bob'', lc_caption_id = ''id''\<rparr>"
    by code_simp
  then have "caption_live (w_plugin sample_busy) (LIVE_CAPTION_TIMEOUT_EVENT ''ch'' ''s2'' ''id'')"
    unfolding caption_live_def by force
  then show ?thesis using displayed_items_expire [OF sample_busy_reach] by blast
qed

text \<open>
  C14. Whatever the order of events, no channel and no session has two entries in the store, and
  the reactions shown for a call never exceed the size of the stream.
\<close>

theorem store_stays_well_formed:
  assumes "world_reach w"
  shows "store_wf (w_plugin w) \<and>
    length (reactionsInCurrentCall (world_app w)) \<le> MAX_NUM_REACTIONS_IN_REACTION_STREAM"
proof -
  have r: "reachable (w_plugin w)" by (rule world_store_reachable [OF assms])
  have "store_wf (w_plugin w)"
    by (rule reachable_inv [OF r]) (auto intro: wf_machine.step_inv)
  moreover have "reactions_ok (w_plugin w)"
    by (rule reachable_inv [OF r]) (auto intro: reactions_machine.step_inv)
  ultimately show ?thesis
    by (simp add: reactionsInCurrentCall_def reactions_ok_def channel_reactions_bound)
qed

theorem store_stays_well_formed_witness:
  "store_wf (w_plugin sample_busy) \<and> length (reactionsInCurrentCall (world_app sample_busy)) = 1"
proof -
  have "length (reactionsInCurrentCall (world_app sample_busy)) = 1" by code_simp
  then show ?thesis using store_stays_well_formed [OF sample_busy_reach] by blast
qed

lemma did_ring_dispatch_all: "didRingForCall st c \<Longrightarrow> didRingForCall (dispatch_all as st) c"
  by (induction as arbitrary: st) (auto simp: didRingForCall_def flags_grow)

text \<open>
  C15. A call rings at most once: a call that is ringing is recorded as having rung, and nothing
  that happens to a window ever clears that record.
\<close>

theorem rings_at_most_once:
  assumes "world_reach w"
  shows "(ringingForCall (w_plugin w) c \<longrightarrow> didRingForCall (w_plugin w) c) \<and>
    (world_step w w' \<longrightarrow> didRingForCall (w_plugin w) c \<longrightarrow> didRingForCall (w_plugin w') c)"
proof -
  have "ringing_recorded (w_plugin w)"
    by (rule reachable_inv [OF world_store_reachable [OF assms]]) (auto intro: ringing_machine.step_inv)
  then have "ringingForCall (w_plugin w) c \<longrightarrow> didRingForCall (w_plugin w) c"
    by (simp add: ringing_recorded_iff ringingForCall_def didRingForCall_def)
  moreover have "didRingForCall (w_plugin w') c" if "world_step w w'" "didRingForCall (w_plugin w) c"
    using that(1)
  proof (cases rule: world_step_cases)
    case 1
    then show ?thesis using that(2) by (auto simp: good_def runs_def did_ring_dispatch_all)
  next
    case (2 i)
    then show ?thesis using that(2) by (simp add: didRingForCall_def flags_grow)
  next
    case (3 t)
    then show ?thesis using that(2) by simp
  qed
  ultimately show ?thesis by blast
qed

theorem rings_at_most_once_witness:
  "didRingForCall (w_plugin (ringForCall True ''c1'' ''Calm'' sample_start)) ''c1''"
proof -
  have "world_reach (ringForCall True ''c1'' ''Calm'' sample_start)"
    by (rule world_reach.step [OF sample_start_reach world_step.user_ring])
  moreover have "ringingForCall (w_plugin (ringForCall True ''c1'' ''Calm'' sample_start)) ''c1''"
    by code_simp
  ultimately show ?thesis using rings_at_most_once by blast
qed

section \<open>Timeouts and newer items\<close>

text \<open>
  The timeout of a reaction never removes a newer one: the session keeps a reaction whose
  time is later, and the stream loses exactly that user's reactions that are not later.
\<close>

theorem reaction_timeout_keeps_newer:
  "stored_reaction (s_sessions (dispatch (USER_REACTED_TIMEOUT ch uid sid (Some old)) st)) ch sid =
     (case stored_reaction (s_sessions st) ch sid of
        None \<Rightarrow> None
      | Some r \<Rightarrow> if r_timestamp r > r_timestamp old then Some r else None) \<and>
   channel_reactions (s_reactions (dispatch (USER_REACTED_TIMEOUT ch uid sid (Some old)) st)) ch =
     filter (\<lambda>x. \<not> (r_user_id x = uid \<and> r_timestamp x \<le> r_timestamp old)) (channel_reactions (s_reactions st) ch)"
proof -
  have f: "(\<lambda>x. \<not> (r_user_id x = uid \<and> r_timestamp x \<le> r_timestamp old)) =
      (\<lambda>x. r_user_id x \<noteq> uid \<or> r_timestamp x > r_timestamp old)" by (auto simp: fun_eq_iff)
  have "stored_reaction (s_sessions (dispatch (USER_REACTED_TIMEOUT ch uid sid (Some old)) st)) ch sid =
     (case stored_reaction (s_sessions st) ch sid of
        None \<Rightarrow> None | Some r \<Rightarrow> if r_timestamp r > r_timestamp old then Some r else None)"
    by (auto simp: stored_reaction_session slice_simps split: option.splits nullable.splits)
  then show ?thesis by (simp add: f reactions_timeout_stream del: reactions.simps de_Morgan_conj not_le)
qed

text \<open>
  The timeout of a caption removes that caption and nothing else: a newer caption of the
  same session, captions of other sessions and of other channels stay.
\<close>

theorem caption_timeout_exact:
  "caption_of (s_liveCaptions (dispatch (LIVE_CAPTION_TIMEOUT_EVENT c s cid) st)) ch sid =
     (case caption_of (s_liveCaptions st) ch sid of
        None \<Rightarrow> None
      | Some d \<Rightarrow> if ch = c \<and> sid = s \<and> lc_caption_id d = cid then None else Some d)"
  by (simp add: caption_timed_out del: liveCaptions.simps split: option.split)

section \<open>Calls that end\<close>

text \<open>
  C5. When a user leaves, the call of the channel ends exactly when no other session is left.
  Then its entry, all its sessions, its notification and its ringing are gone, and the client
  is closed if it was in that call; otherwise only the session that left is gone.
\<close>

theorem user_left_ends_call:
  "(if \<exists>s. s \<noteq> sid \<and> session_of (s_sessions (w_plugin w)) ch s \<noteq> None then
      s_calls (w_plugin (userLeft ch uid sid w)) = s_calls (w_plugin w) \<and>
      w_own (userLeft ch uid sid w) = w_own w \<and>
      session_of (s_sessions (w_plugin (userLeft ch uid sid w))) ch s' =
        (if s' = sid then None else session_of (s_sessions (w_plugin w)) ch s')
    else
      \<not> channelHasCall (world_app (userLeft ch uid sid w)) ch \<and>
      session_of (s_sessions (w_plugin (userLeft ch uid sid w))) ch s' = None \<and>
      \<not> ringingForCall (w_plugin (userLeft ch uid sid w)) (call_id_in (w_plugin w) ch) \<and>
      (\<forall>ic\<in>set (s_incomingCalls (w_plugin (userLeft ch uid sid w))). ic_callID ic \<noteq> call_id_in (w_plugin w) ch) \<and>
      (channelIDForCurrentCall (world_app (put_action (USER_LEFT ch uid sid) w)) = ch \<longrightarrow>
         w_own (userLeft ch uid sid w) = None))"
proof -
  have i: "call_id_in (dispatch (USER_LEFT ch uid sid) st) ch = call_id_in st ch" for st
    by (simp add: call_id_in_def)
  have n: "session_of (obj_del ch ss) ch s' = None" for ss by (simp add: session_of_def)
  show ?thesis
    using i n by (auto simp: user_left_cases left_session channelHasCall_def sel_calls_def ringingForCall_def
        flagged_def call_end_client)
qed

theorem user_left_ends_call_witness:
  "\<not> channelHasCall (world_app (userLeft ''ch'' ''u2'' ''s2''
      (handle (EvUserJoined ev_ch ''u2'' ''s2'') sample_joined))) ''ch'' \<and>
   w_own (userLeft ''ch'' ''u2'' ''s2'' (handle (EvUserJoined ev_ch ''u2'' ''s2'') sample_joined)) = None"
proof -
  let ?w = "handle (EvUserJoined ev_ch ''u2'' ''s2'') sample_joined"
  have "s_sessions (w_plugin ?w) = [(''ch'', [(''s2'', fresh_session ''s2'' ''u2'')])]" by code_simp
  then have none: "\<not> (\<exists>s. s \<noteq> ''s2'' \<and> session_of (s_sessions (w_plugin ?w)) ''ch'' s \<noteq> None)"
    by (simp add: session_of_def)
  moreover have "channelIDForCurrentCall (world_app (put_action (USER_LEFT ''ch'' ''u2'' ''s2'') ?w)) = ''ch''"
    by code_simp
  ultimately show ?thesis
    using user_left_ends_call [of "''s2''" ?w "''ch''" "''u2''", unfolded if_not_P [OF none]] by blast
qed

text \<open>
  The end of a call concerns its channel only: its entry, sessions and recent joins go, and
  the calls, sessions, hosts and recordings of every other channel are as before.
\<close>

theorem call_end_scope:
  "obj_get (s_calls (w_plugin (callEnd ch w))) c = (if c = ch then None else obj_get (s_calls (w_plugin w)) c) \<and>
   obj_get (s_sessions (w_plugin (callEnd ch w))) c = (if c = ch then None else obj_get (s_sessions (w_plugin w)) c) \<and>
   recently_joined (s_recentlyJoinedUsers (dispatch (CALL_END ch callID) st)) c =
     (if c = ch then [] else recently_joined (s_recentlyJoinedUsers st) c) \<and>
   s_hosts (dispatch (CALL_END ch callID) st) = s_hosts st \<and>
   s_recordings (dispatch (CALL_END ch callID) st) = s_recordings st"
  by (simp add: recently_joined_steps del: recentlyJoinedUsers.simps(4))

section \<open>Events of a call\<close>

text \<open>
  When the current user joins a call from anywhere while ringing is enabled, the
  notification of that call disappears, it does not ring any more, the ringing sound is stopped,
  and the new session starts muted, without voice, video, raised hand or reaction.
\<close>

theorem own_join_clears_notification:
  assumes "ringingEnabled (world_app w)" and "uid = g_currentUserId (w_host w)"
  shows "(\<forall>ic\<in>set (s_incomingCalls (w_plugin (handleUserJoined e uid sid w))).
       ic_callID ic \<noteq> call_id_in (w_plugin w) (ev_channel e)) \<and>
    \<not> ringingForCall (w_plugin (handleUserJoined e uid sid w)) (call_id_in (w_plugin w) (ev_channel e)) \<and>
    StopRing \<in> set (w_effects (handleUserJoined e uid sid w)) \<and>
    session_of (s_sessions (w_plugin (handleUserJoined e uid sid w))) (ev_channel e) sid = Some (fresh_session sid uid)"
proof -
  define w1 where "w1 = (if map_option cv_channelID (w_own w) = Some (ev_channel e) then
      (if sid = getCallsClientSessionID (world_client w) then emit (PlaySound ''join_self'') w
       else if uid \<noteq> g_currentUserId (w_host w) \<and> shouldPlayJoinUserSound (world_app w)
       then emit (PlaySound ''join_user'') w else w) else w)"
  have w1: "w_plugin w1 = w_plugin w" "ringingEnabled (world_app w1)"
    using assms(1) by (auto simp: w1_def ringingEnabled_def sel_callsConfig_def)
  define w2 where "w2 = loadProfilesByIdsIfMissing [uid]
      (emit StopRing (removeIncomingCallNotification (call_id_in (w_plugin w1) (ev_channel e)) w1))"
  have h: "handleUserJoined e uid sid w = set_timeout JOINED_USER_NOTIFICATION_TIMEOUT
      (Dispatch (USER_JOINED_TIMEOUT (ev_channel e) uid)) (put_action (USER_JOINED (ev_channel e) uid sid) w2)"
    using w1(2) assms(2) unfolding handleUserJoined_def Let_def w1_def [symmetric] w2_def by simp
  have "StopRing \<in> set (w_effects w2)" by (simp add: w2_def loadProfilesByIdsIfMissing_def Let_def)
  moreover have "session_of (sessions_user_joined ss (ev_channel e) uid sid) (ev_channel e) sid =
      Some (fresh_session sid uid)" for ss
    by (simp add: joined_session)
  ultimately show ?thesis
    using w1(1) by (simp add: h) (simp add: w2_def ringingForCall_def flagged_def)
qed

theorem own_join_clears_notification_witness:
  "StopRing \<in> set (w_effects (handleUserJoined ev_ch ''u1'' ''s9'' sample_joined))"
proof -
  have "ringingEnabled (world_app sample_joined)" "''u1'' = g_currentUserId (w_host sample_joined)"
    by code_simp+
  from own_join_clears_notification [OF this] show ?thesis by blast
qed

text \<open>
  A call is announced to the user only if its channel is a direct or group message, it is
  not announced already, the user did not start it and is not in it; and then exactly one entry
  for it is added.
\<close>

theorem incoming_call_guards:
  assumes "s_incomingCalls (w_plugin (incoming_checked ch channelID callID callerID startAt w))
      \<noteq> s_incomingCalls (w_plugin w)"
  shows "isDmGmChannel ch \<and> callerID \<noteq> g_currentUserId (w_host w) \<and>
    idForCurrentCall (world_app w) \<noteq> Some callID \<and>
    (\<forall>ic\<in>set (s_incomingCalls (w_plugin w)). ic_callID ic \<noteq> callID) \<and>
    s_incomingCalls (w_plugin (incoming_checked ch channelID callID callerID startAt w)) =
      s_incomingCalls (w_plugin w) @
        [\<lparr>ic_callID = callID, ic_channelID = channelID, ic_callerID = callerID, ic_startAt = startAt,
          ic_type = (if isDMChannel ch then DM else GM)\<rparr>]"
  using assms
  by (auto simp: incoming_checked_def isDmGmChannel_def incoming_add_def sel_incomingCalls_def list_ex_iff Let_def
      split: if_splits)

theorem incoming_call_guards_witness:
  "s_incomingCalls (w_plugin (incoming_checked (Some sample_channel) ''ch'' ''c1'' ''u2'' 3 sample_start)) =
     [\<lparr>ic_callID = ''c1'', ic_channelID = ''ch'', ic_callerID = ''u2'', ic_startAt = 3, ic_type = DM\<rparr>]"
proof -
  have e: "s_incomingCalls (w_plugin sample_start) = []" by code_simp
  have "s_incomingCalls (w_plugin (incoming_checked (Some sample_channel) ''ch'' ''c1'' ''u2'' 3 sample_start))
      \<noteq> s_incomingCalls (w_plugin sample_start)"
    by code_simp
  from incoming_call_guards [OF this] show ?thesis by (simp add: e isDMChannel_def sample_channel_def)
qed

text \<open>
  The checks are made before the last pause only: two announcements of the same call whose
  caller is not loaded both pass them, and the call is then listed twice.
\<close>

theorem incoming_call_race:
  "map ic_callID (s_incomingCalls (w_plugin
     (resume (AwaitCaller ic) None (resume (AwaitCaller ic) None w)))) =
     map ic_callID (s_incomingCalls (w_plugin w)) @ [ic_callID ic, ic_callID ic] \<and>
   w_pending (incomingCallOnChannel ''ch'' ''c1'' ''u3'' 3 (incomingCallOnChannel ''ch'' ''c1'' ''u3'' 3 sample_start)) =
     [AwaitCaller \<lparr>ic_callID = ''c1'', ic_channelID = ''ch'', ic_callerID = ''u3'', ic_startAt = 3, ic_type = DM\<rparr>,
      AwaitCaller \<lparr>ic_callID = ''c1'', ic_channelID = ''ch'', ic_callerID = ''u3'', ic_startAt = 3, ic_type = DM\<rparr>]"
proof
  show "map ic_callID (s_incomingCalls (w_plugin
     (resume (AwaitCaller ic) None (resume (AwaitCaller ic) None w)))) =
     map ic_callID (s_incomingCalls (w_plugin w)) @ [ic_callID ic, ic_callID ic]"
    by (simp add: incoming_add_def)
qed code_simp

text \<open>
  Dismissing a call records the call's identifier, but the check that should keep a
  dismissed call from being announced again looks the channel's identifier up: a call the user
  has dismissed is announced once more.
\<close>

theorem dismissed_call_announced_again:
  assumes "channelID \<noteq> callID" and "\<not> callDismissedNotification (world_app w) channelID"
  shows "flagged (s_dismissedCalls (w_plugin (dismissIncomingCallNotification channelID callID w))) callID \<and>
    \<not> callDismissedNotification (world_app (dismissIncomingCallNotification channelID callID w)) channelID"
  using assms
  by (simp add: dismissIncomingCallNotification_def callDismissedNotification_def flagged_def Let_def)

theorem dismissed_call_announced_again_witness:
  "\<not> callDismissedNotification (world_app (dismissIncomingCallNotification ''ch'' ''c1'' sample_start)) ''ch'' \<and>
   map ic_callID (s_incomingCalls (w_plugin (incomingCallOnChannel ''ch'' ''c1'' ''u2'' 3
     (dismissIncomingCallNotification ''ch'' ''c1'' sample_start)))) = [''c1'']"
proof -
  have "\<not> callDismissedNotification (world_app sample_start) ''ch''" by code_simp
  then have "\<not> callDismissedNotification (world_app (dismissIncomingCallNotification ''ch'' ''c1'' sample_start)) ''ch''"
    using dismissed_call_announced_again [of "''ch''" "''c1''" sample_start] by simp
  moreover have "map ic_callID (s_incomingCalls (w_plugin (incomingCallOnChannel ''ch'' ''c1'' ''u2'' 3
     (dismissIncomingCallNotification ''ch'' ''c1'' sample_start)))) = [''c1'']"
    by code_simp
  ultimately show ?thesis by blast
qed

text \<open>
  The three controls a host has over another session act on this client only when it is in
  the call of that channel under exactly that session; otherwise the message changes nothing.
\<close>

theorem host_controls_own_session:
  "(if map_option cv_channelID (world_client w) = Some ch \<and> Option.bind (world_client w) cv_sessionID = Some sid
    then handle (EvHostMute ch sid) w = emit (ClientCall CallMute) w \<and>
      handle (EvHostScreenOff ch sid) w = emit (ClientCall CallUnshareScreen) w \<and>
      w_effects (handle (EvHostLowerHand ch sid h c) w) = w_effects w @ [ClientCall CallUnraiseHand]
    else handle (EvHostMute ch sid) w = w \<and> handle (EvHostScreenOff ch sid) w = w \<and>
      handle (EvHostLowerHand ch sid h c) w = w)"
  by (auto simp: handleHostMute_def handleHostScreenOff_def handleHostLowerHand_def for_own_session_def
      generateId_def Let_def split: option.splits)

text \<open>
  Being removed closes the client: a user removed from the channel of the current call, and
  a session a host removes, is disconnected in whichever window has the client; the removal of
  anybody else leaves the client where it is.
\<close>

theorem removal_disconnects:
  assumes "w_own w = None \<or> getCallsWindow (w_opener w) = ThisWindow" and "world_client w = Some c"
  shows "world_client (handle (EvHostRemoved (cv_channelID c) sid uid callID) w) =
      (if cv_sessionID c = Some sid then None else Some c) \<and>
    (str_or data_user (e_broadcast_user e) = g_currentUserId (w_host w) \<and>
     str_or data_channel (e_broadcast_channel e) = channelIDForCurrentCall (world_app w) \<longrightarrow>
       world_client (handle (EvUserRemoved e data_channel data_user remover) w) = None) \<and>
    (str_or data_user (e_broadcast_user e) \<noteq> g_currentUserId (w_host w) \<longrightarrow>
       handle (EvUserRemoved e data_channel data_user remover) w = w)"
proof -
  have d: "world_client (shared_disconnect err w) = None" for err
    using assms by (intro shared_disconnect_client) auto
  have n: "world_client (put_notice n (snd (generateId w))) = world_client w" for n
    by (simp add: put_notice_def generateId_def) (simp add: world_client_def)
  show ?thesis
    using assms(2) d n
    by (auto simp: handleHostRemoved_def handleUserRemovedFromChannel_def case_prod_beta Let_def split: option.split)
qed

theorem removal_disconnects_witness:
  "world_client (handle (EvHostRemoved ''ch'' ''s1'' ''u1'' ''c1'') sample_joined) = None"
proof -
  have "w_own sample_joined = None \<or> getCallsWindow (w_opener sample_joined) = ThisWindow"
    "world_client sample_joined = Some sample_client"
    by (simp_all add: sample_joined_def world_client_def getCallsClient_def)
  from removal_disconnects [OF this, where sid = "''s1''"] show ?thesis by (simp add: sample_client_def)
qed

text \<open>
  A full call state puts the call, its host, its presenter and exactly the sent sessions in
  the store for its channel and leaves the calls and sessions of every other channel alone; it
  records a dismissal exactly when the current user is listed as having dismissed the call.
\<close>

theorem call_state_loaded:
  "obj_get (s_calls (w_plugin (loadCallState ch call w))) c =
     (if c = ch then Some \<lparr>cs_ID = rc_id call, cs_startAt = rc_start_at call, cs_channelID = ch,
        cs_threadID = rc_thread_id call, cs_ownerID = rc_owner_id call, cs_hostID = None\<rparr>
      else obj_get (s_calls (w_plugin w)) c) \<and>
   obj_get (s_sessions (w_plugin (loadCallState ch call w))) c =
     (if c = ch then Some (getSessionsMapFromSessions (rc_sessions call)) else obj_get (s_sessions (w_plugin w)) c) \<and>
   map_option he_hostID (obj_get (s_hosts (w_plugin (loadCallState ch call w))) ch) = Some (rc_host_id call) \<and>
   obj_get (s_screenSharingIDs (w_plugin (loadCallState ch call w))) ch = Some (rc_screen_sharing_session_id call) \<and>
   flagged (s_dismissedCalls (w_plugin (loadCallState ch call w))) d =
     (flagged (s_dismissedCalls (w_plugin w)) d \<or>
      d = rc_id call \<and> dismissed_by call (g_currentUserId (w_host w)))"
  by (simp add: load_call_state_plugin loadCallState_actions_def sessions_users_states_def flagged_def)

text \<open>
  A call that starts is stored with its owner, thread and host. The comment of the handler
  says that the old recording state is cleared, but the state of a recording that was stored for
  the channel is still there afterwards.
\<close>

theorem call_start_keeps_recording:
  assumes "obj_get (s_recordings (w_plugin w)) (ev_channel e) = Some j"
    and "map_option cv_channelID (world_client w) \<noteq> Some (ev_channel e)"
    and "\<not> ringingEnabled (world_app w)"
  shows "obj_get (s_recordings (w_plugin (handleCallStart e d w))) (ev_channel e) = Some j \<and>
    map_option cs_ID (obj_get (s_calls (w_plugin (handleCallStart e d w))) (ev_channel e)) = Some (d_id d) \<and>
    map_option he_hostID (obj_get (s_hosts (w_plugin (handleCallStart e d w))) (ev_channel e)) = Some (d_host_id d)"
proof -
  let ?w = "put_action (CALL_HOST (ev_channel e) (d_host_id d) (d_start_at d))
    (put_action (CALL_STATE \<lparr>cs_ID = d_id d, cs_startAt = d_start_at d, cs_channelID = ev_channel e,
       cs_threadID = d_thread_id d, cs_ownerID = d_owner_id d, cs_hostID = Some (d_host_id d)\<rparr>)
    (put_action (CALL_LIVE_CAPTIONS_STATE (ev_channel e) None) (put_action (CALL_RECORDING_STATE (ev_channel e) None) w)))"
  have "\<not> ringingEnabled (world_app ?w)"
    using assms(3) by (simp add: ringingEnabled_def sel_callsConfig_def)
  then have "handleCallStart e d w = ?w" using assms(2) by (auto simp: handleCallStart_def Let_def)
  then show ?thesis using assms(1) by simp
qed

theorem call_start_keeps_recording_witness:
  "obj_get (s_recordings (w_plugin (handleCallStart ev_ch
     \<lparr>d_id = ''c2'', d_start_at = 9, d_owner_id = ''u2'', d_host_id = ''u2'', d_thread_id = ''t''\<rparr>
     (sample_start\<lparr>w_plugin := init_state\<lparr>s_recordings := [(''ch'', empty_job\<lparr>init_at := Some 5\<rparr>)],
        s_callsConfig := CallsConfigDefault\<lparr>EnableRinging := False\<rparr>\<rparr>\<rparr>)))) ''ch'' = Some (empty_job\<lparr>init_at := Some 5\<rparr>)"
proof -
  let ?w = "sample_start\<lparr>w_plugin := init_state\<lparr>s_recordings := [(''ch'', empty_job\<lparr>init_at := Some 5\<rparr>)],
        s_callsConfig := CallsConfigDefault\<lparr>EnableRinging := False\<rparr>\<rparr>\<rparr>"
  have ch: "ev_channel ev_ch = ''ch''" by code_simp
  have "obj_get (s_recordings (w_plugin ?w)) (ev_channel ev_ch) = Some (empty_job\<lparr>init_at := Some 5\<rparr>)"
    by (simp add: ch)
  moreover have "map_option cv_channelID (world_client ?w) \<noteq> Some (ev_channel ev_ch)"
    by (simp add: world_client_def getCallsClient_def sample_start_def)
  moreover have "\<not> ringingEnabled (world_app ?w)" by (simp add: ringingEnabled_def sel_callsConfig_def)
  ultimately show ?thesis using call_start_keeps_recording ch by metis
qed

end
